(* ===== verification/Prelude.thy ===== *)
theory Prelude
  imports Complex_Main "HOL-Library.Multiset" "HOL-Library.AList" "HOL-Library.Char_ord" "HOL-Library.List_Lexorder"
begin

text \<open>
  Shared vocabulary of the development: identifiers, computations that may raise, tables
  as lists of rows, ordered dictionaries as association lists, the string operations of
  Python the code uses, and the dynamic (JSON) values it reads from documents.

  Strings are \<^typ>\<open>string\<close>: the UTF-8 bytes of the text, so that equality, substring
  search and ordering agree with Python's on code points.  Case mapping and stripping are
  modelled for ASCII (case folding also for the accented Latin-1 letters).
\<close>

section \<open>Collections of facts\<close>

named_theorems res_simps \<open>unfolding of computations that may raise\<close>
named_theorems table_simps \<open>selection and update of table rows\<close>
named_theorems py_simps \<open>evaluation of Python operations on dynamic values\<close>

type_synonym ident = string

section \<open>Computations that may raise\<close>

text \<open>\<open>Inl e\<close> is a raised exception; the transaction around it is rolled back by its owner.\<close>

definition res_bind :: "'e + 'a \<Rightarrow> ('a \<Rightarrow> 'e + 'b) \<Rightarrow> 'e + 'b" where
  "res_bind m f = (case m of Inl e \<Rightarrow> Inl e | Inr x \<Rightarrow> f x)"

lemma res_bind_Inl [simp]: "res_bind (Inl e) f = Inl e"
  by (simp add: res_bind_def)

lemma res_bind_Inr [simp]: "res_bind (Inr x) f = f x"
  by (simp add: res_bind_def)

lemma res_bind_eq_Inr [res_simps]:
  "res_bind m f = Inr y \<longleftrightarrow> (\<exists>x. m = Inr x \<and> f x = Inr y)"
  by (cases m) auto

lemma res_bind_eq_Inl [res_simps]:
  "res_bind m f = Inl e \<longleftrightarrow> m = Inl e \<or> (\<exists>x. m = Inr x \<and> f x = Inl e)"
  by (cases m) auto

lemma res_bind_cong [fundef_cong]:
  "m = m' \<Longrightarrow> (\<And>x. m' = Inr x \<Longrightarrow> f x = g x) \<Longrightarrow> res_bind m f = res_bind m' g"
  by (cases m') auto

definition ensure :: "bool \<Rightarrow> 'e \<Rightarrow> 'e + unit" where
  "ensure b e = (if b then Inr () else Inl e)"

lemma ensure_eq_Inr [res_simps]: "ensure b e = Inr u \<longleftrightarrow> b"
  by (cases b) (auto simp: ensure_def)

lemma ensure_eq_Inl [res_simps]: "ensure b e = Inl e' \<longleftrightarrow> \<not> b \<and> e' = e"
  by (cases b) (auto simp: ensure_def)

lemma ensure_True [simp]: "ensure True e = Inr ()"
  by (simp add: ensure_def)

lemma ensure_False [simp]: "ensure False e = Inl e"
  by (simp add: ensure_def)

text \<open>A \<open>for\<close> loop whose body may raise: the first exception ends it.\<close>

fun fold_res :: "('a \<Rightarrow> 's \<Rightarrow> 'e + 's) \<Rightarrow> 'a list \<Rightarrow> 's \<Rightarrow> 'e + 's" where
  "fold_res f [] s = Inr s"
| "fold_res f (x # xs) s = res_bind (f x s) (fold_res f xs)"

lemma fold_res_append:
  "fold_res f (xs @ ys) s = res_bind (fold_res f xs s) (fold_res f ys)"
proof (induction xs arbitrary: s)
  case (Cons x xs)
  then show ?case by (cases "f x s") auto
qed simp

lemma fold_res_invariant:
  assumes "fold_res f xs s = Inr t" and "P s"
    and "\<And>x a b. x \<in> set xs \<Longrightarrow> P a \<Longrightarrow> f x a = Inr b \<Longrightarrow> P b"
  shows "P t"
  using assms
proof (induction xs arbitrary: s)
  case (Cons x xs)
  from Cons.prems(1) obtain s' where s': "f x s = Inr s'" "fold_res f xs s' = Inr t"
    by (auto simp: res_simps)
  have "P s'" using Cons.prems(2,3) s'(1) by auto
  then show ?case using Cons.IH[OF s'(2)] Cons.prems(3) by auto
qed simp

section \<open>Tables\<close>

text \<open>
  A table is the list of its rows.  \<open>UPDATE t SET f WHERE p\<close> is \<open>update_where p f t\<close>
  and its \<open>rowcount\<close> is \<open>count_where p t\<close>; \<open>SELECT ... LIMIT 1\<close> is \<open>find p t\<close>.
\<close>

definition update_where :: "('a \<Rightarrow> bool) \<Rightarrow> ('a \<Rightarrow> 'a) \<Rightarrow> 'a list \<Rightarrow> 'a list" where
  "update_where p f t = map (\<lambda>r. if p r then f r else r) t"

definition count_where :: "('a \<Rightarrow> bool) \<Rightarrow> 'a list \<Rightarrow> nat" where
  "count_where p t = length (filter p t)"

lemma update_where_Nil [simp]: "update_where p f [] = []"
  by (simp add: update_where_def)

lemma update_where_Cons [simp]:
  "update_where p f (r # t) = (if p r then f r else r) # update_where p f t"
  by (simp add: update_where_def)

lemma update_where_append [simp]:
  "update_where p f (t @ u) = update_where p f t @ update_where p f u"
  by (simp add: update_where_def)

lemma length_update_where [simp]: "length (update_where p f t) = length t"
  by (simp add: update_where_def)

lemma set_update_where [table_simps]:
  "set (update_where p f t) = (\<lambda>r. if p r then f r else r) ` set t"
  by (simp add: update_where_def)

lemma map_update_where:
  "(\<And>r. p r \<Longrightarrow> g (f r) = g r) \<Longrightarrow> map g (update_where p f t) = map g t"
  by (simp add: update_where_def)

lemma update_where_none:
  "(\<And>r. r \<in> set t \<Longrightarrow> \<not> p r) \<Longrightarrow> update_where p f t = t"
  by (induction t) auto

lemma filter_update_where:
  "(\<And>r. p r \<Longrightarrow> q (f r) = q r) \<Longrightarrow>
   filter q (update_where p f t) = update_where p f (filter q t)"
  by (induction t) auto

lemma count_where_eq_0: "count_where p t = 0 \<longleftrightarrow> (\<forall>r \<in> set t. \<not> p r)"
  by (auto simp: count_where_def filter_empty_conv)

lemma find_Some_iff_mem:
  "List.find p t = Some r \<Longrightarrow> r \<in> set t \<and> p r"
  by (auto simp: find_Some_iff in_set_conv_nth)

lemma find_eq_None: "List.find p t = None \<longleftrightarrow> (\<forall>r \<in> set t. \<not> p r)"
  by (auto simp: find_None_iff)

lemma find_exists: "r \<in> set t \<Longrightarrow> p r \<Longrightarrow> \<exists>r'. List.find p t = Some r'"
  by (cases "List.find p t") (auto simp: find_None_iff)

lemma find_map: "List.find p (map f t) = map_option f (List.find (\<lambda>x. p (f x)) t)"
  by (induction t) auto

lemma find_append:
  "List.find p (xs @ ys) = (case List.find p xs of None \<Rightarrow> List.find p ys | Some y \<Rightarrow> Some y)"
  by (induction xs) auto

lemma find_cong: "(\<And>x. x \<in> set t \<Longrightarrow> p x = q x) \<Longrightarrow> List.find p t = List.find q t"
  by (induction t) auto

text \<open>The first match in a table ordered by \<open>k\<close> is the least match.\<close>

lemma find_sorted_least:
  "sorted (map k t) \<Longrightarrow> List.find p t = Some r \<Longrightarrow> s \<in> set t \<Longrightarrow> p s \<Longrightarrow> k r \<le> k s"
  by (induction t) (auto split: if_splits)

text \<open>With a key, the row found is the row with that key.\<close>

lemma find_unique_key:
  assumes "distinct (map k t)" and "r \<in> set t"
  shows "List.find (\<lambda>x. k x = k r) t = Some r"
proof -
  obtain r' where r': "List.find (\<lambda>x. k x = k r) t = Some r'"
    using find_exists[of r t "\<lambda>x. k x = k r"] assms(2) by auto
  then have "r' \<in> set t" and "k r' = k r" by (auto dest: find_Some_iff_mem)
  then have "r' = r" using assms by (auto simp: distinct_map inj_on_def)
  with r' show ?thesis by simp
qed

lemma find_update_where_key:
  assumes "\<And>r. k (f r) = k r"
  shows "List.find (\<lambda>x. k x = a) (update_where p f t)
    = map_option (\<lambda>r. if p r then f r else r) (List.find (\<lambda>x. k x = a) t)"
  by (induction t) (auto simp: assms)

lemma distinct_map_update_where:
  "(\<And>r. k (f r) = k r) \<Longrightarrow> distinct (map k (update_where p f t)) = distinct (map k t)"
  by (simp add: map_update_where)

text \<open>Updating the one row with a given key moves one row between any two selections.\<close>

lemma update_where_cong:
  "(\<And>x. x \<in> set t \<Longrightarrow> p x = q x) \<Longrightarrow> update_where p f t = update_where q f t"
  by (simp add: update_where_def)

lemma update_where_absent_key:
  "k r \<notin> k ` set t \<Longrightarrow> update_where (\<lambda>x. k x = k r \<and> p x) f t = t"
  by (rule update_where_none) (metis image_eqI)

lemma count_where_Cons [simp]:
  "count_where q (x # t) = (if q x then 1 else 0) + count_where q t"
  by (simp add: count_where_def)

lemma count_where_Nil [simp]: "count_where q [] = 0"
  by (simp add: count_where_def)

lemma count_where_append [simp]: "count_where q (t @ u) = count_where q t + count_where q u"
  by (simp add: count_where_def)

lemma count_where_update_key:
  assumes "distinct (map k t)" and "r \<in> set t" and "p r"
  shows "int (count_where q (update_where (\<lambda>x. k x = k r \<and> p x) f t))
    = int (count_where q t) - (if q r then 1 else 0) + (if q (f r) then 1 else 0)"
  using assms
proof (induction t)
  case (Cons x t)
  show ?case
  proof (cases "x = r")
    case True
    then show ?thesis using Cons.prems by (simp add: update_where_absent_key)
  next
    case False
    then have "r \<in> set t" "k x \<noteq> k r" using Cons.prems by (auto simp: image_iff)
    then show ?thesis using Cons.IH Cons.prems by simp
  qed
qed simp

section \<open>Ordered dictionaries\<close>

text \<open>
  A Python dict is an association list in insertion order: \<open>d[k] = v\<close> is
  \<^const>\<open>AList.update\<close> (the position of an existing key is kept), \<open>d.get(k)\<close> is
  \<^const>\<open>map_of\<close>, and \<open>d.setdefault(k, v)\<close> keeps an existing value.
\<close>

definition dict_setdefault :: "'k \<Rightarrow> 'v \<Rightarrow> ('k \<times> 'v) list \<Rightarrow> ('k \<times> 'v) list" where
  "dict_setdefault k v d = (case map_of d k of Some _ \<Rightarrow> d | None \<Rightarrow> d @ [(k, v)])"

lemma map_of_dict_setdefault:
  "map_of (dict_setdefault k v d) =
     (map_of d)(k := Some (case map_of d k of Some w \<Rightarrow> w | None \<Rightarrow> v))"
  by (auto simp: dict_setdefault_def map_add_def fun_eq_iff split: option.splits)

lemma fst_dict_setdefault:
  "fst ` set (dict_setdefault k v d) = insert k (fst ` set d)"
  by (force simp: dict_setdefault_def split: option.splits dest: map_of_SomeD)

text \<open>A dict built by \<open>setdefault\<close> over rows keeps the first row of every key.\<close>

lemma map_of_fold_setdefault:
  "map_of (fold (\<lambda>r. dict_setdefault (k r) r) rs d) a =
     (case map_of d a of Some w \<Rightarrow> Some w | None \<Rightarrow> List.find (\<lambda>r. k r = a) rs)"
  by (induction rs arbitrary: d) (auto simp: map_of_dict_setdefault split: option.splits)

end
