(* ===== verification/Lot_Policy.thy ===== *)
theory Lot_Policy
  imports Prelude
begin

text \<open>
  \<open>src/backend/lot_selection_lifecycle.py\<close>: the business policy that every entry point asks
  before a processing batch claims lots of a procurement package or publishes an official
  result.  The module is pure; the model follows it definition by definition.
\<close>

section \<open>Enumerations\<close>

datatype procedure_kind = ONE_STAGE_ONE_ENVELOPE | ONE_STAGE_TWO_ENVELOPE

datatype approval_mode = CONSOLIDATED | STAGED

datatype lot_stage =
  NOT_STARTED | EVALUATION_DRAFT | EVALUATION_FINALIZED | TECHNICAL_DRAFT
| TECHNICAL_EVALUATED | TECHNICAL_APPRAISED | TECHNICAL_APPROVED | FINANCIAL_OPENED
| FINANCIAL_EVALUATED | RESULT_APPRAISED | RESULT_APPROVED

datatype lot_outcome =
  AWARDED | NO_BID | NO_TECHNICAL_QUALIFIER | NO_FINANCIAL_QUALIFIER
| NO_RESPONSIVE_BID | CANCELLED_LOT | REPROCUREMENT_REQUIRED | OTHER_APPROVED_OUTCOME

datatype package_status =
  PS_NOT_STARTED | PS_IN_PROGRESS | PS_PARTIALLY_COMPLETED | PS_COMPLETED | PS_PACKAGE_CANCELLED

datatype dependency_kind =
  HSMT_GROUP_EVALUATION | CROSS_LOT_DISCOUNT | AGGREGATE_CAPACITY
| AWARD_OPTIMIZATION | FINANCIAL_DISCLOSURE

datatype blocker_code =
  EMPTY_SCOPE | UNKNOWN_LOT | LOT_ALREADY_ACTIVE | LOT_ALREADY_COMPLETED
| DEPENDENCY_GROUP_SPLIT | FINANCIAL_DISCLOSURE_RISK | STAGED_APPROVAL_NOT_AUTHORIZED
| CONSOLIDATED_MODE_CANNOT_PUBLISH_PARTIAL_RESULT | INVALID_ARTIFACT_SCOPE
| INVALID_FINAL_OUTCOME

text \<open>
  The enumerations are stored by their string values; \<open>LotOutcome(v)\<close> and its siblings raise
  \<open>ValueError\<close> on any other string, here \<^term>\<open>None\<close>.
\<close>

fun approval_mode_value :: "approval_mode \<Rightarrow> string" where
  "approval_mode_value CONSOLIDATED = ''CONSOLIDATED_APPROVAL''"
| "approval_mode_value STAGED = ''STAGED_APPROVAL''"

definition approval_modes :: "approval_mode list" where
  "approval_modes = [CONSOLIDATED, STAGED]"

definition approval_mode_of :: "string \<Rightarrow> approval_mode option" where
  "approval_mode_of v = List.find (\<lambda>m. approval_mode_value m = v) approval_modes"

fun lot_outcome_value :: "lot_outcome \<Rightarrow> string" where
  "lot_outcome_value AWARDED = ''AWARDED''"
| "lot_outcome_value NO_BID = ''NO_BID''"
| "lot_outcome_value NO_TECHNICAL_QUALIFIER = ''NO_TECHNICAL_QUALIFIER''"
| "lot_outcome_value NO_FINANCIAL_QUALIFIER = ''NO_FINANCIAL_QUALIFIER''"
| "lot_outcome_value NO_RESPONSIVE_BID = ''NO_RESPONSIVE_BID''"
| "lot_outcome_value CANCELLED_LOT = ''CANCELLED_LOT''"
| "lot_outcome_value REPROCUREMENT_REQUIRED = ''REPROCUREMENT_REQUIRED''"
| "lot_outcome_value OTHER_APPROVED_OUTCOME = ''OTHER_APPROVED_OUTCOME''"

definition lot_outcomes :: "lot_outcome list" where
  "lot_outcomes = [AWARDED, NO_BID, NO_TECHNICAL_QUALIFIER, NO_FINANCIAL_QUALIFIER,
     NO_RESPONSIVE_BID, CANCELLED_LOT, REPROCUREMENT_REQUIRED, OTHER_APPROVED_OUTCOME]"

definition lot_outcome_of :: "string \<Rightarrow> lot_outcome option" where
  "lot_outcome_of v = List.find (\<lambda>o'. lot_outcome_value o' = v) lot_outcomes"

lemma approval_mode_of_value [simp]: "approval_mode_of (approval_mode_value m) = Some m"
  by (cases m) (simp_all add: approval_mode_of_def approval_modes_def)

lemma lot_outcome_of_value [simp]: "lot_outcome_of (lot_outcome_value x) = Some x"
  by (cases x) (simp_all add: lot_outcome_of_def lot_outcomes_def)

lemma lot_outcome_of_SomeD: "lot_outcome_of v = Some x \<Longrightarrow> v = lot_outcome_value x"
  by (auto simp: lot_outcome_of_def dest: find_Some_iff_mem)

section \<open>Progress, dependency groups and decisions\<close>

record lot_progress =
  lot_id :: ident
  stage :: lot_stage
  outcome :: "lot_outcome option"
  active_batch_id :: "ident option"

definition is_completed :: "lot_progress \<Rightarrow> bool" where
  "is_completed p \<longleftrightarrow> stage p = RESULT_APPROVED"

record dependency_group =
  group_id :: ident
  kind :: dependency_kind
  lot_ids :: "ident set"
  reason :: string
  must_move_together :: bool

record package_context =
  package_id :: ident
  procedure_kind :: procedure_kind
  approval_mode :: approval_mode
  lots :: "(ident \<times> lot_progress) list"
  dependency_groups :: "dependency_group list"

record policy_blocker =
  code :: blocker_code
  message :: string
  blocked_lots :: "ident set"
  dependency_group_id :: "ident option"

record eligibility_decision =
  selected_lot_ids :: "ident set"
  blockers :: "policy_blocker list"

definition allowed :: "eligibility_decision \<Rightarrow> bool" where
  "allowed d \<longleftrightarrow> blockers d = []"

fun join_messages :: "string list \<Rightarrow> string" where
  "join_messages [] = ''''"
| "join_messages [m] = m"
| "join_messages (m # ms) = m @ ''; '' @ join_messages ms"

datatype policy_error = LotLifecyclePolicyError string "policy_blocker list"

definition require_allowed :: "eligibility_decision \<Rightarrow> policy_error + unit" where
  "require_allowed d =
     (if blockers d \<noteq> []
      then Inl (LotLifecyclePolicyError (join_messages (map message (blockers d))) (blockers d))
      else Inr ())"

lemma require_allowed_iff [res_simps]: "require_allowed d = Inr u \<longleftrightarrow> allowed d"
  by (simp add: require_allowed_def allowed_def)

section \<open>Scope assessment\<close>

text \<open>The group check of the loop: the blocker a dependency group contributes, if any.\<close>

definition pending_group_lots :: "package_context \<Rightarrow> dependency_group \<Rightarrow> ident set" where
  "pending_group_lots c g =
     Set.filter (\<lambda>l. case map_of (lots c) l of None \<Rightarrow> False | Some p \<Rightarrow> \<not> is_completed p)
       (lot_ids g)"

definition group_blocker ::
    "package_context \<Rightarrow> ident set \<Rightarrow> dependency_group \<Rightarrow> policy_blocker list" where
  "group_blocker c sel g =
     (if \<not> must_move_together g \<or> sel \<inter> lot_ids g = {} then []
      else let missing = pending_group_lots c g - sel in
        if missing = {} then []
        else [\<lparr>code = (if kind g = FINANCIAL_DISCLOSURE then FINANCIAL_DISCLOSURE_RISK
                       else DEPENDENCY_GROUP_SPLIT),
               message = reason g,
               blocked_lots = (sel \<inter> lot_ids g) \<union> missing,
               dependency_group_id = Some (group_id g)\<rparr>])"

definition claimed_elsewhere :: "package_context \<Rightarrow> ident option \<Rightarrow> ident \<Rightarrow> bool" where
  "claimed_elsewhere c current l =
     (case map_of (lots c) l of None \<Rightarrow> False
      | Some p \<Rightarrow> active_batch_id p \<noteq> None \<and> active_batch_id p \<noteq> current)"

definition already_completed :: "package_context \<Rightarrow> ident \<Rightarrow> bool" where
  "already_completed c l =
     (case map_of (lots c) l of None \<Rightarrow> False | Some p \<Rightarrow> is_completed p)"

definition assess_scope ::
    "package_context \<Rightarrow> ident list \<Rightarrow> ident option \<Rightarrow> eligibility_decision" where
  "assess_scope c requested current =
     (let sel = set requested;
          known = fst ` set (lots c);
          unknown = sel - known;
          known_selected = sel \<inter> known;
          active = Set.filter (claimed_elsewhere c current) known_selected;
          completed = Set.filter (already_completed c) known_selected
      in \<lparr>selected_lot_ids = sel,
          blockers =
            (if sel = {}
             then [\<lparr>code = EMPTY_SCOPE,
                    message = ''A batch must contain at least one lot.'',
                    blocked_lots = {}, dependency_group_id = None\<rparr>] else [])
          @ (if unknown \<noteq> {}
             then [\<lparr>code = UNKNOWN_LOT,
                    message = ''The batch contains lots that do not belong to the package.'',
                    blocked_lots = unknown, dependency_group_id = None\<rparr>] else [])
          @ (if active \<noteq> {}
             then [\<lparr>code = LOT_ALREADY_ACTIVE,
                    message = ''A selected lot is already claimed by another active batch.'',
                    blocked_lots = active, dependency_group_id = None\<rparr>] else [])
          @ (if completed \<noteq> {}
             then [\<lparr>code = LOT_ALREADY_COMPLETED,
                    message = ''A selected lot already has an approved result.'',
                    blocked_lots = completed, dependency_group_id = None\<rparr>] else [])
          @ concat (map (group_blocker c sel) (dependency_groups c))\<rparr>)"

definition assess_batch_start :: "package_context \<Rightarrow> ident list \<Rightarrow> eligibility_decision" where
  "assess_batch_start c requested = assess_scope c requested None"

definition assess_partial_result_publication ::
    "package_context \<Rightarrow> ident list \<Rightarrow> ident option \<Rightarrow> eligibility_decision" where
  "assess_partial_result_publication c requested current = assess_scope c requested current"

section \<open>Projection of the package status\<close>

definition project_package_status :: "lot_progress list \<Rightarrow> bool \<Rightarrow> package_status" where
  "project_package_status ls cancelled =
     (if cancelled then PS_PACKAGE_CANCELLED
      else if ls = [] \<or> list_all (\<lambda>p. stage p = NOT_STARTED) ls then PS_NOT_STARTED
      else let completed_count = length (filter is_completed ls) in
        if completed_count = length ls then PS_COMPLETED
        else if completed_count \<noteq> 0 then PS_PARTIALLY_COMPLETED
        else PS_IN_PROGRESS)"

section \<open>The contract of the policy\<close>

text \<open>
  What a batch may claim, stated without the checks: known lots, none of them claimed by
  another batch, none of them approved, and every dependency group it touches complete.
\<close>

definition claimable_scope :: "package_context \<Rightarrow> ident option \<Rightarrow> ident set \<Rightarrow> bool" where
  "claimable_scope c current sel \<longleftrightarrow>
     sel \<noteq> {} \<and>
     (\<forall>l \<in> sel. \<exists>p. map_of (lots c) l = Some p \<and> \<not> is_completed p \<and>
        (active_batch_id p = None \<or> active_batch_id p = current)) \<and>
     (\<forall>g \<in> set (dependency_groups c). must_move_together g \<longrightarrow> sel \<inter> lot_ids g \<noteq> {} \<longrightarrow>
        (\<forall>l \<in> lot_ids g. \<forall>p. map_of (lots c) l = Some p \<longrightarrow> \<not> is_completed p \<longrightarrow> l \<in> sel))"

lemma group_blocker_Nil_iff:
  "group_blocker c sel g = [] \<longleftrightarrow>
   (must_move_together g \<longrightarrow> sel \<inter> lot_ids g \<noteq> {} \<longrightarrow>
      (\<forall>l \<in> lot_ids g. \<forall>p. map_of (lots c) l = Some p \<longrightarrow> \<not> is_completed p \<longrightarrow> l \<in> sel))"
  unfolding group_blocker_def pending_group_lots_def Let_def
  by (auto split: option.splits)

lemma known_lot_iff: "l \<in> fst ` set (lots c) \<longleftrightarrow> (\<exists>p. map_of (lots c) l = Some p)"
  by (metis domD domI dom_map_of_conv_image_fst)

lemma assess_scope_selected [simp]: "selected_lot_ids (assess_scope c req cur) = set req"
  by (simp add: assess_scope_def Let_def)

lemma assess_scope_allowed_iff:
  "allowed (assess_scope c req cur) \<longleftrightarrow> claimable_scope c cur (set req)"
proof -
  have lots_ok:
    "(set req - fst ` set (lots c) = {} \<and>
      Set.filter (claimed_elsewhere c cur) (set req \<inter> fst ` set (lots c)) = {} \<and>
      Set.filter (already_completed c) (set req \<inter> fst ` set (lots c)) = {}) \<longleftrightarrow>
     (\<forall>l \<in> set req. \<exists>p. map_of (lots c) l = Some p \<and> \<not> is_completed p \<and>
        (active_batch_id p = None \<or> active_batch_id p = cur))" (is "?L \<longleftrightarrow> ?R")
  proof
    assume L: ?L
    show ?R
    proof
      fix l assume l: "l \<in> set req"
      with L obtain p where p: "map_of (lots c) l = Some p" using known_lot_iff by blast
      with L l have "\<not> claimed_elsewhere c cur l" "\<not> already_completed c l"
        using known_lot_iff[of l c] by auto
      with p show "\<exists>p. map_of (lots c) l = Some p \<and> \<not> is_completed p \<and>
          (active_batch_id p = None \<or> active_batch_id p = cur)"
        by (auto simp: claimed_elsewhere_def already_completed_def)
    qed
  next
    assume R: ?R
    then have "\<forall>l \<in> set req. l \<in> fst ` set (lots c)" by (auto simp: known_lot_iff)
    moreover have "\<forall>l \<in> set req. \<not> claimed_elsewhere c cur l \<and> \<not> already_completed c l"
      using R by (fastforce simp: claimed_elsewhere_def already_completed_def)
    ultimately show ?L by auto
  qed
  have "allowed (assess_scope c req cur) \<longleftrightarrow>
      set req \<noteq> {} \<and>
      (set req - fst ` set (lots c) = {} \<and>
       Set.filter (claimed_elsewhere c cur) (set req \<inter> fst ` set (lots c)) = {} \<and>
       Set.filter (already_completed c) (set req \<inter> fst ` set (lots c)) = {}) \<and>
      (\<forall>g \<in> set (dependency_groups c). group_blocker c (set req) g = [])"
    unfolding allowed_def assess_scope_def Let_def by auto
  then show ?thesis
    unfolding claimable_scope_def lots_ok group_blocker_Nil_iff by blast
qed


text \<open>
  C5: The policy allows a new batch exactly when its scope is claimable: non-empty, every lot
  known to the package, unclaimed and not yet approved, and every must-move-together group it
  touches taken with all its pending lots.
\<close>

theorem batch_start_allowed_iff:
  "allowed (assess_batch_start c requested) \<longleftrightarrow> claimable_scope c None (set requested)"
  by (simp add: assess_batch_start_def assess_scope_allowed_iff)

lemma publication_allowed_iff:
  "allowed (assess_partial_result_publication c requested current) \<longleftrightarrow>
     claimable_scope c current (set requested)"
  by (simp add: assess_partial_result_publication_def assess_scope_allowed_iff)

lemma claimable_scope_known:
  "claimable_scope c current sel \<Longrightarrow> l \<in> sel \<Longrightarrow>
     \<exists>p. map_of (lots c) l = Some p \<and> \<not> is_completed p"
  by (auto simp: claimable_scope_def)

text \<open>A blocker that names lots names only lots that are selected or that the group is missing.\<close>

lemma group_blocker_lots:
  "b \<in> set (group_blocker c sel g) \<Longrightarrow> blocked_lots b \<subseteq> lot_ids g"
  by (auto simp: group_blocker_def pending_group_lots_def Let_def split: if_splits)

section \<open>The interface the command service relies on\<close>

text \<open>
  What the service needs of a policy: a permitted scope holds known lots only, none of them
  approved, and none claimed by a batch other than the current one.
\<close>

locale scope_policy =
  fixes permits :: "package_context \<Rightarrow> ident option \<Rightarrow> ident list \<Rightarrow> bool"
  assumes permits_nonempty: "permits c current req \<Longrightarrow> req \<noteq> []"
    and permits_known: "permits c current req \<Longrightarrow> l \<in> set req \<Longrightarrow> \<exists>p. map_of (lots c) l = Some p"
    and permits_open:
      "permits c current req \<Longrightarrow> l \<in> set req \<Longrightarrow> map_of (lots c) l = Some p \<Longrightarrow> \<not> is_completed p"
    and permits_unclaimed:
      "permits c current req \<Longrightarrow> l \<in> set req \<Longrightarrow> map_of (lots c) l = Some p \<Longrightarrow>
         active_batch_id p = None \<or> active_batch_id p = current"

interpretation selection: scope_policy "\<lambda>c current req. allowed (assess_scope c req current)"
proof (unfold_locales, goal_cases)
  case (1 c current req)
  then show ?case by (auto simp: assess_scope_allowed_iff claimable_scope_def)
next
  case (2 c current req l)
  then show ?case by (auto simp: assess_scope_allowed_iff claimable_scope_def)
next
  case (3 c current req l p)
  then show ?case by (force simp: assess_scope_allowed_iff claimable_scope_def)
next
  case (4 c current req l p)
  then show ?case by (force simp: assess_scope_allowed_iff claimable_scope_def)
qed

section \<open>The status projection is monotone\<close>

fun status_rank :: "package_status \<Rightarrow> nat" where
  "status_rank PS_NOT_STARTED = 0"
| "status_rank PS_IN_PROGRESS = 1"
| "status_rank PS_PARTIALLY_COMPLETED = 2"
| "status_rank PS_COMPLETED = 3"
| "status_rank PS_PACKAGE_CANCELLED = 4"

text \<open>Progress of one lot: an approved lot stays approved, a started lot stays started.\<close>

definition lot_advances :: "lot_progress \<Rightarrow> lot_progress \<Rightarrow> bool" where
  "lot_advances p q \<longleftrightarrow>
     (is_completed p \<longrightarrow> is_completed q) \<and> (stage q = NOT_STARTED \<longrightarrow> stage p = NOT_STARTED)"

lemma completed_count_mono:
  "list_all2 lot_advances ps qs \<Longrightarrow>
     length (filter is_completed ps) \<le> length (filter is_completed qs)"
  by (induction rule: list_all2_induct) (auto simp: lot_advances_def)

lemma not_started_antimono:
  "list_all2 lot_advances ps qs \<Longrightarrow> list_all (\<lambda>p. stage p = NOT_STARTED) qs \<Longrightarrow>
     list_all (\<lambda>p. stage p = NOT_STARTED) ps"
  by (induction rule: list_all2_induct) (auto simp: lot_advances_def)

lemma not_started_none_completed:
  "list_all (\<lambda>p. stage p = NOT_STARTED) ps \<Longrightarrow> filter is_completed ps = []"
  by (auto simp: list_all_iff filter_empty_conv is_completed_def)

text \<open>
  When lots only advance, the projected package status never moves backwards on the scale
  not started, in progress, partially completed, completed.
\<close>

lemma package_status_monotone:
  assumes "list_all2 lot_advances ps qs"
  shows "status_rank (project_package_status ps cancelled)
       \<le> status_rank (project_package_status qs cancelled)"
proof -
  have len: "length ps = length qs" using assms by (rule list_all2_lengthD)
  have cnt: "length (filter is_completed ps) \<le> length (filter is_completed qs)"
    using assms by (rule completed_count_mono)
  show ?thesis
    using len cnt not_started_antimono[OF assms] not_started_none_completed[of qs]
    by (auto simp: project_package_status_def Let_def dest: le_antisym[OF length_filter_le])
qed

definition example_lot :: "string \<Rightarrow> lot_stage \<Rightarrow> lot_progress" where
  "example_lot l s = \<lparr>lot_id = l, stage = s,
     outcome = (if s = RESULT_APPROVED then Some AWARDED else None), active_batch_id = None\<rparr>"

lemma package_status_monotone_witness:
  "status_rank (project_package_status
      [example_lot ''a'' EVALUATION_DRAFT, example_lot ''b'' NOT_STARTED] False)
    \<le> status_rank (project_package_status
      [example_lot ''a'' RESULT_APPROVED, example_lot ''b'' NOT_STARTED] False)"
  by (rule package_status_monotone) (simp add: lot_advances_def is_completed_def example_lot_def)

end
