(* ===== verification/Py_Values.thy ===== *)
theory Py_Values
  imports Prelude "HOL-Library.Product_Lexorder"
begin

text \<open>
  The dynamic values of the program: what \<open>json.loads\<close> returns and a JSON column or request
  body holds, with Python's truth test, \<open>or\<close>, \<open>dict.get\<close>, \<open>int\<close>, \<open>str\<close> and the
  canonical \<open>json.dumps\<close> (sorted keys, no blanks) that digests are computed over.
\<close>

section \<open>Strings\<close>

definition py_space :: "char \<Rightarrow> bool" where
  "py_space c = (let n = (of_char c :: int) in (9 \<le> n \<and> n \<le> 13) \<or> (28 \<le> n \<and> n \<le> 32))"

definition py_strip :: "string \<Rightarrow> string" where
  "py_strip s = rev (dropWhile py_space (rev (dropWhile py_space s)))"

definition ascii_upper_char :: "char \<Rightarrow> char" where
  "ascii_upper_char c = (let n = (of_char c :: int) in
     if 97 \<le> n \<and> n \<le> 122 then char_of (n - 32) else c)"

definition ascii_lower_char :: "char \<Rightarrow> char" where
  "ascii_lower_char c = (let n = (of_char c :: int) in
     if 65 \<le> n \<and> n \<le> 90 then char_of (n + 32) else c)"

definition py_upper :: "string \<Rightarrow> string" where
  "py_upper s = map ascii_upper_char s"

definition py_lower :: "string \<Rightarrow> string" where
  "py_lower s = map ascii_lower_char s"

text \<open>
  Strings are UTF-8; \<open>len\<close> and slices count code points, so continuation bytes do not count.
\<close>

definition utf8_continuation :: "char \<Rightarrow> bool" where
  "utf8_continuation c = (let n = (of_char c :: int) in 128 \<le> n \<and> n < 192)"

fun py_len :: "string \<Rightarrow> int" where
  "py_len [] = 0"
| "py_len (c # cs) = (if utf8_continuation c then 0 else 1) + py_len cs"

fun py_prefix :: "int \<Rightarrow> string \<Rightarrow> string" where
  "py_prefix n [] = []"
| "py_prefix n (c # cs) =
     (if utf8_continuation c then c # py_prefix n cs
      else if n \<le> 0 then [] else c # py_prefix (n - 1) cs)"

lemma py_len_nonneg [simp]: "0 \<le> py_len s"
  by (induction s) auto

lemma py_len_prefix: "0 \<le> n \<Longrightarrow> py_len (py_prefix n s) \<le> n"
  by (induction n s rule: py_prefix.induct) auto

text \<open>\<open>casefold\<close>: ASCII letters, and the Latin-1 capitals (\<open>C3 80\<close> to \<open>C3 9E\<close> in UTF-8).\<close>

fun py_casefold :: "string \<Rightarrow> string" where
  "py_casefold [] = []"
| "py_casefold [c] = [ascii_lower_char c]"
| "py_casefold (c # d # cs) =
     (let n = (of_char d :: int) in
      if of_char c = (195 :: int) \<and> 128 \<le> n \<and> n \<le> 158 \<and> n \<noteq> 151
      then c # char_of (n + 32) # py_casefold cs
      else ascii_lower_char c # py_casefold (d # cs))"

text \<open>\<open>s.split()\<close>: the maximal blank-free pieces.\<close>

fun py_words_from :: "string \<Rightarrow> string \<Rightarrow> string list" where
  "py_words_from [] acc = (if acc = [] then [] else [rev acc])"
| "py_words_from (c # cs) acc =
     (if py_space c
      then (if acc = [] then py_words_from cs [] else rev acc # py_words_from cs [])
      else py_words_from cs (c # acc))"

definition py_words :: "string \<Rightarrow> string list" where
  "py_words s = py_words_from s []"

fun py_join :: "string \<Rightarrow> string list \<Rightarrow> string" where
  "py_join sep [] = []"
| "py_join sep [x] = x"
| "py_join sep (x # xs) = x @ sep @ py_join sep xs"

text \<open>\<open>needle in hay\<close>\<close>

fun py_in :: "string \<Rightarrow> string \<Rightarrow> bool" where
  "py_in needle hay \<longleftrightarrow>
     take (length needle) hay = needle \<or> (case hay of [] \<Rightarrow> False | _ # t \<Rightarrow> py_in needle t)"

declare py_in.simps [simp del]

lemma py_strip_Nil [simp]: "py_strip [] = []"
  by (simp add: py_strip_def)

lemma dropWhile_idem: "dropWhile P (dropWhile P xs) = dropWhile P xs"
  by (induction xs) auto

lemma py_in_iff: "py_in needle hay \<longleftrightarrow> (\<exists>l r. hay = l @ needle @ r)"
proof (induction hay)
  case Nil
  show ?case by (subst py_in.simps) auto
next
  case (Cons c hay)
  have "py_in needle (c # hay) \<longleftrightarrow>
      (\<exists>r. c # hay = needle @ r) \<or> (\<exists>l r. hay = l @ needle @ r)"
    unfolding py_in.simps[of needle "c # hay"] list.case Cons.IH
    by (metis append_eq_conv_conj append_take_drop_id)
  also have "\<dots> \<longleftrightarrow> (\<exists>l r. c # hay = l @ needle @ r)"
    by (auto simp: Cons_eq_append_conv)
  finally show ?case .
qed

section \<open>Decimal numerals\<close>

definition digit_char :: "nat \<Rightarrow> char" where
  "digit_char d = char_of (48 + int d)"

fun nat_decimal :: "nat \<Rightarrow> string" where
  "nat_decimal n =
     (if n < 10 then [digit_char n] else nat_decimal (n div 10) @ [digit_char (n mod 10)])"

declare nat_decimal.simps [simp del]

definition int_decimal :: "int \<Rightarrow> string" where
  "int_decimal i = (if i < 0 then ''-'' @ nat_decimal (nat (- i)) else nat_decimal (nat i))"

definition is_digit :: "char \<Rightarrow> bool" where
  "is_digit c = (let n = (of_char c :: int) in 48 \<le> n \<and> n \<le> 57)"

definition digit_value :: "char \<Rightarrow> nat" where
  "digit_value c = nat ((of_char c :: int) - 48)"

definition decimal_value :: "string \<Rightarrow> nat" where
  "decimal_value s = foldl (\<lambda>n c. 10 * n + digit_value c) 0 s"

text \<open>
  \<open>int(text)\<close>: blanks around, an optional sign, digits with single underscores between them;
  \<^term>\<open>None\<close> where Python raises \<open>ValueError\<close>.
\<close>

fun underscored_digits :: "string \<Rightarrow> string option" where
  "underscored_digits [] = None"
| "underscored_digits [c] = (if is_digit c then Some [c] else None)"
| "underscored_digits (c # d # cs) =
     (if \<not> is_digit c then None
      else if d = CHR ''_'' then map_option ((#) c) (underscored_digits cs)
      else map_option ((#) c) (underscored_digits (d # cs)))"

definition parse_int :: "string \<Rightarrow> int option" where
  "parse_int text =
     (case py_strip text of
        [] \<Rightarrow> None
      | c # cs \<Rightarrow>
          if c = CHR ''-'' then map_option (\<lambda>s. - int (decimal_value s)) (underscored_digits cs)
          else if c = CHR ''+'' then map_option (\<lambda>s. int (decimal_value s)) (underscored_digits cs)
          else map_option (\<lambda>s. int (decimal_value s)) (underscored_digits (c # cs)))"

lemma is_digit_digit_char [simp]: "d < 10 \<Longrightarrow> is_digit (digit_char d)"
  by (simp add: is_digit_def digit_char_def Let_def)

lemma digit_value_digit_char [simp]: "d < 10 \<Longrightarrow> digit_value (digit_char d) = d"
  by (simp add: digit_value_def digit_char_def)

lemma nat_decimal_digits: "c \<in> set (nat_decimal n) \<Longrightarrow> is_digit c"
proof (induction n rule: nat_decimal.induct)
  case (1 n)
  then show ?case
    by (subst (asm) (2) nat_decimal.simps) (auto split: if_splits)
qed

lemma nat_decimal_ne [simp]: "nat_decimal n \<noteq> []"
  by (subst nat_decimal.simps) simp

lemma decimal_value_snoc: "decimal_value (s @ [c]) = 10 * decimal_value s + digit_value c"
  by (simp add: decimal_value_def)

lemma decimal_value_nat_decimal [simp]: "decimal_value (nat_decimal n) = n"
proof (induction n rule: nat_decimal.induct)
  case (1 n)
  show ?case
  proof (cases "n < 10")
    case True
    then show ?thesis by (subst nat_decimal.simps) (simp add: decimal_value_def)
  next
    case False
    with 1 show ?thesis
      by (subst nat_decimal.simps) (simp add: decimal_value_snoc)
  qed
qed

lemma nat_decimal_inject [simp]: "nat_decimal m = nat_decimal n \<longleftrightarrow> m = n"
  by (metis decimal_value_nat_decimal)

section \<open>Dynamic values\<close>

text \<open>
  A float carries its exact value, a rational or one of the three special values, and its
  \<open>repr\<close> text; the code under study only compares, truncates and prints floats.
\<close>

datatype pyfloat = FNaN | FPosInf | FNegInf | FFin rat

datatype pval =
  PNone
| PBool bool
| PInt int
| PFloat pyfloat string
| PStr string
| PList "pval list"
| PDict "(string \<times> pval) list"

datatype py_exn = ValueError | TypeError | KeyError | AttributeError | OverflowError

fun truthy :: "pval \<Rightarrow> bool" where
  "truthy PNone = False"
| "truthy (PBool b) = b"
| "truthy (PInt i) = (i \<noteq> 0)"
| "truthy (PFloat f _) = (f \<noteq> FFin 0)"
| "truthy (PStr s) = (s \<noteq> [])"
| "truthy (PList xs) = (xs \<noteq> [])"
| "truthy (PDict d) = (d \<noteq> [])"

definition py_or :: "pval \<Rightarrow> pval \<Rightarrow> pval" where
  "py_or a b = (if truthy a then a else b)"

fun is_dict :: "pval \<Rightarrow> bool" where
  "is_dict (PDict _) = True"
| "is_dict _ = False"

fun is_list :: "pval \<Rightarrow> bool" where
  "is_list (PList _) = True"
| "is_list _ = False"

fun is_str :: "pval \<Rightarrow> bool" where
  "is_str (PStr _) = True"
| "is_str _ = False"

text \<open>\<open>d.get(k)\<close> and \<open>d.get(k, default)\<close> on a dictionary; other values hold no key.\<close>

fun entries :: "pval \<Rightarrow> (string \<times> pval) list" where
  "entries (PDict d) = d"
| "entries _ = []"

definition dget_default :: "pval \<Rightarrow> string \<Rightarrow> pval \<Rightarrow> pval" where
  "dget_default v k def = (case map_of (entries v) k of Some w \<Rightarrow> w | None \<Rightarrow> def)"

definition dget :: "pval \<Rightarrow> string \<Rightarrow> pval" where
  "dget v k = dget_default v k PNone"

definition dhas :: "pval \<Rightarrow> string \<Rightarrow> bool" where
  "dhas v k \<longleftrightarrow> map_of (entries v) k \<noteq> None"

text \<open>\<open>x or {}\<close>, used before a nested \<open>get\<close>.\<close>

definition or_empty :: "pval \<Rightarrow> pval" where
  "or_empty v = py_or v (PDict [])"

definition trunc_rat :: "rat \<Rightarrow> int" where
  "trunc_rat r = (if 0 \<le> r then \<lfloor>r\<rfloor> else \<lceil>r\<rceil>)"

fun py_int :: "pval \<Rightarrow> py_exn + int" where
  "py_int PNone = Inl TypeError"
| "py_int (PBool b) = Inr (if b then 1 else 0)"
| "py_int (PInt i) = Inr i"
| "py_int (PFloat FNaN _) = Inl ValueError"
| "py_int (PFloat FPosInf _) = Inl OverflowError"
| "py_int (PFloat FNegInf _) = Inl OverflowError"
| "py_int (PFloat (FFin r) _) = Inr (trunc_rat r)"
| "py_int (PStr s) = (case parse_int s of None \<Rightarrow> Inl ValueError | Some i \<Rightarrow> Inr i)"
| "py_int (PList _) = Inl TypeError"
| "py_int (PDict _) = Inl TypeError"

text \<open>\<open>int(v or 0)\<close>\<close>

definition int_or_zero :: "pval \<Rightarrow> py_exn + int" where
  "int_or_zero v = py_int (py_or v (PInt 0))"

section \<open>\<open>str\<close> and canonical JSON\<close>

definition hex_digit :: "int \<Rightarrow> char" where
  "hex_digit d = (if d < 10 then char_of (48 + d) else char_of (87 + d))"

definition py_escape_char :: "char \<Rightarrow> char \<Rightarrow> string" where
  "py_escape_char quote c =
     (let n = (of_char c :: int) in
      if c = quote then [CHR 0x5C, c]
      else if n = 92 then [CHR 0x5C, CHR 0x5C]
      else if n = 10 then [CHR 0x5C, CHR ''n'']
      else if n = 13 then [CHR 0x5C, CHR ''r'']
      else if n = 9 then [CHR 0x5C, CHR ''t'']
      else if n < 32 \<or> n = 127 then [CHR 0x5C, CHR ''x'', hex_digit (n div 16), hex_digit (n mod 16)]
      else [c])"

definition py_repr_str :: "string \<Rightarrow> string" where
  "py_repr_str s =
     (let quote = (if CHR 0x27 \<in> set s \<and> CHR 0x22 \<notin> set s then CHR 0x22 else CHR 0x27)
      in quote # concat (map (py_escape_char quote) s) @ [quote])"

lemma size_PList_member: "x \<in> set xs \<Longrightarrow> size x < size (PList xs)"
  by (induction xs) auto

lemma size_PDict_member: "(k, v) \<in> set d \<Longrightarrow> size v < size (PDict d)"
  by (induction d) auto

lemmas size_pval_members = size_PList_member size_PDict_member

function py_repr :: "pval \<Rightarrow> string" where
  "py_repr PNone = ''None''"
| "py_repr (PBool b) = (if b then ''True'' else ''False'')"
| "py_repr (PInt i) = int_decimal i"
| "py_repr (PFloat _ text) = text"
| "py_repr (PStr s) = py_repr_str s"
| "py_repr (PList xs) = ''['' @ py_join '', '' (map py_repr xs) @ '']''"
| "py_repr (PDict d) =
     ''{'' @ py_join '', '' (map (\<lambda>e. py_repr_str (fst e) @ '': '' @ py_repr (snd e)) d) @ ''}''"
  by pat_completeness auto
termination
  by (relation "measure size") (auto dest: size_pval_members)

definition py_str :: "pval \<Rightarrow> string" where
  "py_str v = (case v of PStr s \<Rightarrow> s | _ \<Rightarrow> py_repr v)"

text \<open>\<open>str(v or "")\<close>\<close>

definition str_or_empty :: "pval \<Rightarrow> string" where
  "str_or_empty v = py_str (py_or v (PStr []))"

lemma py_str_simps [simp]:
  "py_str (PStr s) = s"
  "py_str (PInt i) = int_decimal i"
  by (simp_all add: py_str_def)

lemma str_or_empty_PStr [simp]: "str_or_empty (PStr s) = s"
  by (simp add: str_or_empty_def py_or_def)

text \<open>
  \<open>json.dumps(v, ensure_ascii=False, separators=(",", ":"), sort_keys=True)\<close>: the form every
  digest of the program is computed over.
\<close>

definition json_escape_char :: "char \<Rightarrow> string" where
  "json_escape_char c =
     (let n = (of_char c :: int) in
      if n = 34 then [CHR 0x5C, CHR 0x22]
      else if n = 92 then [CHR 0x5C, CHR 0x5C]
      else if n = 10 then [CHR 0x5C, CHR ''n'']
      else if n = 13 then [CHR 0x5C, CHR ''r'']
      else if n = 9 then [CHR 0x5C, CHR ''t'']
      else if n = 8 then [CHR 0x5C, CHR ''b'']
      else if n = 12 then [CHR 0x5C, CHR ''f'']
      else if n < 32 then [CHR 0x5C, CHR ''u'', CHR ''0'', CHR ''0'', hex_digit (n div 16), hex_digit (n mod 16)]
      else [c])"

definition json_string :: "string \<Rightarrow> string" where
  "json_string s = CHR 0x22 # concat (map json_escape_char s) @ [CHR 0x22]"

function json_dumps :: "pval \<Rightarrow> string" where
  "json_dumps PNone = ''null''"
| "json_dumps (PBool b) = (if b then ''true'' else ''false'')"
| "json_dumps (PInt i) = int_decimal i"
| "json_dumps (PFloat f text) =
     (case f of FNaN \<Rightarrow> ''NaN'' | FPosInf \<Rightarrow> ''Infinity'' | FNegInf \<Rightarrow> ''-Infinity''
      | FFin _ \<Rightarrow> text)"
| "json_dumps (PStr s) = json_string s"
| "json_dumps (PList xs) = ''['' @ py_join '','' (map json_dumps xs) @ '']''"
| "json_dumps (PDict d) =
     ''{'' @ py_join '','' (map (\<lambda>e. json_string (fst e) @ '':'' @ json_dumps (snd e)) (sort_key fst d)) @ ''}''"
  by pat_completeness auto
termination
  by (relation "measure size") (auto dest: size_pval_members)

lemma sort_key_fst_perm:
  assumes "set d = set d'" and "distinct (map fst d)" and "distinct (map fst d')"
  shows "sort_key fst d = sort_key fst d'"
proof -
  have inj: "inj_on fst (set d)" using assms(2) by (simp add: distinct_map)
  have dd: "distinct d" "distinct d'" using assms(2,3) by (simp_all add: distinct_map)
  then have "mset d = mset d'" using assms(1) by (simp add: set_eq_iff_mset_eq_distinct)
  then have "mset d = mset (sort_key fst d')" by simp
  then show ?thesis using inj by (rule sort_key_inj_key_eq) simp
qed


text \<open>The canonical text of an object does not depend on the order its keys were written in.\<close>

lemma json_dumps_key_order:
  "set d = set d' \<Longrightarrow> distinct (map fst d) \<Longrightarrow> distinct (map fst d') \<Longrightarrow>
   json_dumps (PDict d) = json_dumps (PDict d')"
  using sort_key_fst_perm[of d d'] by simp

text \<open>\<open>allow_nan=False\<close>: a value with a special float has no canonical text.\<close>

fun json_finite :: "pval \<Rightarrow> bool" where
  "json_finite (PFloat f _) = (case f of FFin _ \<Rightarrow> True | _ \<Rightarrow> False)"
| "json_finite (PList xs) = list_all json_finite xs"
| "json_finite (PDict d) = list_all (\<lambda>(_, v). json_finite v) d"
| "json_finite _ = True"

text \<open>\<open>canonical_json\<close> of \<open>src/backend/commercial_policy/document.py\<close>.\<close>

definition canonical_json :: "pval \<Rightarrow> py_exn + string" where
  "canonical_json v = (if json_finite v then Inr (json_dumps v) else Inl ValueError)"

end
