(* ===== verification/Lot_Service.thy ===== *)
theory Lot_Service
  imports Lot_Policy Py_Values
begin

text \<open>
  \<open>src/backend/lot_lifecycle_service.py\<close>: the transactional command service over the tables of
  lot batches.  The state is a record of the tables the service reads and writes; a command
  returns the raised exception or the response together with the new state.  The HTTP routes
  roll the transaction back on every exception, so \<^term>\<open>Inl e\<close> leaves the state as it was.
\<close>

section \<open>Tables\<close>

datatype batch_status = BS_DRAFT | BS_ACTIVE | BS_CLOSED | BS_VOID

record package_row =
  pk_org :: ident
  pk_id :: ident
  pk_owner_type :: string
  pk_phan_lo :: "string option"
  pk_method :: "string option"
  pk_row_version :: "int option"
  pk_archived :: bool
  pk_status :: string
  pk_winner :: "ident option"
  pk_award_price :: int
  pk_decision_number :: string
  pk_decision_date :: string
  pk_sync_version :: int

record lot_row =
  l_org :: ident
  l_package :: ident
  l_id :: ident
  l_code :: "string option"
  l_name :: "string option"
  l_sort_order :: int
  l_archived :: bool
  l_winner :: "ident option"
  l_award_price :: "int option"
  l_package_duration :: string
  l_contract_duration :: string
  l_sync_version :: int
  l_row_version :: int

record batch_row =
  b_org :: ident
  b_package :: ident
  b_id :: ident
  b_owner_type :: string
  b_sequence_no :: int
  b_procedure :: procedure_kind
  b_mode :: approval_mode
  b_status :: batch_status
  b_policy_version :: int
  b_staged_authorized :: bool
  b_basis :: "string option"
  b_created_by :: "ident option"
  b_closed_at :: "int option"
  b_sync_version :: int

record detail_row =
  d_org :: ident
  d_owner_type :: string
  d_id :: ident
  d_batch :: ident
  d_lot :: ident
  d_stage :: lot_stage
  d_outcome :: "lot_outcome option"
  d_revision :: int
  d_active :: bool
  d_created_at :: int
  d_sync_version :: int

record group_row =
  g_org :: ident
  g_package :: ident
  g_id :: ident
  g_kind :: dependency_kind
  g_reason :: string
  g_move_together :: bool
  g_active :: bool

record member_row =
  m_org :: ident
  m_group :: ident
  m_lot :: ident

record contractor_row =
  c_org :: ident
  c_id :: ident
  c_archived :: bool

record artifact_row =
  a_org :: ident
  a_owner_type :: string
  a_id :: ident
  a_batch :: ident
  a_type :: string
  a_status :: string
  a_number :: string
  a_date :: string
  a_revision :: int
  a_snapshot :: string
  a_scope_hash :: string
  a_digest :: string
  a_finalized_by :: "ident option"
  a_sync_version :: int

record artifact_lot_row =
  al_org :: ident
  al_id :: ident
  al_artifact :: ident
  al_lot :: ident

text \<open>
  \<open>evaluation\<close> stands for the evaluation-round tables that \<open>save_child_payloads\<close> of
  \<open>backend.sync.mapper\<close> writes; the service neither reads them nor writes them itself.
\<close>

record 'r lot_db =
  packages :: "package_row list"
  lot_rows :: "lot_row list"
  batches :: "batch_row list"
  details :: "detail_row list"
  groups :: "group_row list"
  members :: "member_row list"
  contractors :: "contractor_row list"
  artifacts :: "artifact_row list"
  artifact_lots :: "artifact_lot_row list"
  sync_metadata :: "(ident \<times> int) list"
  id_counter :: nat
  evaluation :: 'r

text \<open>
  What the service takes from its environment: the random part of generated record ids, the
  clock of the transaction, \<open>hashlib.sha256\<close>, and the writer of the evaluation rounds.
\<close>

record 'r lot_env =
  random_hex :: "nat \<Rightarrow> string"
  clock_now :: int
  sha256_hex :: "string \<Rightarrow> string"
  save_evaluation :: "pval \<Rightarrow> 'r \<Rightarrow> 'r option"

datatype input_reason =
  PackageWithoutLots | InvalidApprovalMode | AuthorizationBasisMissing | BatchNotActive
| BatchHasNoActiveLot | OutcomeScopeMismatch | InvalidLotOutcome ident | MissingAward
| InvalidExpectedVersion | DecisionMissing | InvalidMetadata | InvalidLotResults
| PackageVersionConflict | InvalidLotResult | DuplicateLotResult | InvalidAwardPrice
| AwardScopeMismatch | AwardedWithoutWinner | WinnerWithoutAward | UnknownWinner
| LotOutsidePackage ident | ArtifactConflict

datatype lot_error =
  LotLifecycleNotFoundError
| LotLifecycleInputError input_reason
| LotPolicyError policy_error
| IntegrityError
| EvaluationError

text \<open>Errors of the policy module pass through the service unchanged.\<close>

definition lift_policy :: "policy_error + 'a \<Rightarrow> lot_error + 'a" where
  "lift_policy m = (case m of Inl e \<Rightarrow> Inl (LotPolicyError e) | Inr x \<Rightarrow> Inr x)"

lemma lift_policy_eq_Inr [res_simps]: "lift_policy m = Inr x \<longleftrightarrow> m = Inr x"
  by (cases m) (auto simp: lift_policy_def)

definition policy_version :: int where
  "policy_version = 1"

definition generate_record_id :: "'r lot_env \<Rightarrow> string \<Rightarrow> 'r lot_db \<Rightarrow> ident \<times> 'r lot_db" where
  "generate_record_id env prefix db =
     (prefix @ random_hex env (id_counter db), db\<lparr>id_counter := Suc (id_counter db)\<rparr>)"

section \<open>Reading the package context\<close>

text \<open>``hai t\'ui'' and ``2 t\'ui'' in UTF-8.\<close>

definition tui_utf8 :: string where
  "tui_utf8 = [CHR ''t'', CHR 0xC3, CHR 0xBA, CHR ''i'']"

definition co_utf8 :: string where
  "co_utf8 = [CHR ''C'', CHR 0xC3, CHR 0xB3]"

definition procedure_of :: "string option \<Rightarrow> procedure_kind" where
  "procedure_of value =
     (let text = (case value of None \<Rightarrow> [] | Some s \<Rightarrow> s);
          normalized = py_join '' '' (py_words (py_casefold (py_strip text)))
      in if py_in (''hai '' @ tui_utf8) normalized \<or> py_in (''2 '' @ tui_utf8) normalized
            \<or> py_in ''1g2t'' normalized
         then ONE_STAGE_TWO_ENVELOPE else ONE_STAGE_ONE_ENVELOPE)"

definition find_package :: "'r lot_db \<Rightarrow> ident \<Rightarrow> ident \<Rightarrow> lot_error + package_row" where
  "find_package db org pkg =
     (case List.find (\<lambda>p. pk_org p = org \<and> pk_id p = pkg \<and> \<not> pk_archived p) (packages db) of
        None \<Rightarrow> Inl LotLifecycleNotFoundError
      | Some p \<Rightarrow>
          if py_strip (case pk_phan_lo p of None \<Rightarrow> [] | Some s \<Rightarrow> s) \<noteq> co_utf8
          then Inl (LotLifecycleInputError PackageWithoutLots) else Inr p)"

definition live_lots :: "'r lot_db \<Rightarrow> ident \<Rightarrow> ident \<Rightarrow> lot_row list" where
  "live_lots db org pkg =
     sort_key (\<lambda>l. (l_sort_order l, l_id l))
       (filter (\<lambda>l. l_org l = org \<and> l_package l = pkg \<and> \<not> l_archived l) (lot_rows db))"

text \<open>The join of details and batches of the package, newest batch of every lot first.\<close>

definition package_details :: "'r lot_db \<Rightarrow> ident \<Rightarrow> ident \<Rightarrow> (detail_row \<times> batch_row) list" where
  "package_details db org pkg =
     sort_key (\<lambda>(d, b). (d_lot d, - b_sequence_no b))
       (concat (map (\<lambda>d. map (Pair d) (filter (\<lambda>b. b_org b = d_org d \<and> b_id b = d_batch d
            \<and> b_package b = pkg) (batches db)))
          (filter (\<lambda>d. d_org d = org) (details db))))"

definition latest_details :: "'r lot_db \<Rightarrow> ident \<Rightarrow> ident \<Rightarrow> (ident \<times> detail_row) list" where
  "latest_details db org pkg =
     fold (\<lambda>d. dict_setdefault (d_lot d) d) (map fst (package_details db org pkg)) []"

definition lot_progress_of :: "detail_row option \<Rightarrow> ident \<Rightarrow> lot_progress" where
  "lot_progress_of detail lot =
     (case detail of
        None \<Rightarrow> \<lparr>lot_id = lot, stage = NOT_STARTED, outcome = None, active_batch_id = None\<rparr>
      | Some d \<Rightarrow> \<lparr>lot_id = lot, stage = d_stage d, outcome = d_outcome d,
                   active_batch_id = (if d_active d then Some (d_batch d) else None)\<rparr>)"

definition package_progress :: "'r lot_db \<Rightarrow> ident \<Rightarrow> ident \<Rightarrow> (ident \<times> lot_progress) list" where
  "package_progress db org pkg =
     (let latest = latest_details db org pkg
      in map (\<lambda>l. (l_id l, lot_progress_of (map_of latest (l_id l)) (l_id l)))
           (live_lots db org pkg))"

definition lot_revision :: "'r lot_db \<Rightarrow> ident \<Rightarrow> ident \<Rightarrow> ident \<Rightarrow> int" where
  "lot_revision db org pkg lot =
     (case map_of (latest_details db org pkg) lot of None \<Rightarrow> 0 | Some d \<Rightarrow> d_revision d)"

definition package_groups :: "'r lot_db \<Rightarrow> ident \<Rightarrow> ident \<Rightarrow> dependency_group list" where
  "package_groups db org pkg =
     (let group_lots = (\<lambda>g. map m_lot
            (filter (\<lambda>m. m_org m = g_org g \<and> m_group m = g_id g) (members db)))
      in map (\<lambda>g. \<lparr>group_id = g_id g, kind = g_kind g, lot_ids = set (group_lots g),
                  reason = g_reason g, must_move_together = g_move_together g\<rparr>)
           (filter (\<lambda>g. group_lots g \<noteq> [])
             (sort_key g_id
               (filter (\<lambda>g. g_org g = org \<and> g_package g = pkg \<and> g_active g) (groups db)))))"

definition package_context_of ::
    "'r lot_db \<Rightarrow> ident \<Rightarrow> ident \<Rightarrow> approval_mode option \<Rightarrow> lot_error + package_context" where
  "package_context_of db org pkg mode =
     res_bind (find_package db org pkg) (\<lambda>p.
       Inr \<lparr>package_id = pkg,
            procedure_kind = procedure_of (pk_method p),
            approval_mode = (case mode of None \<Rightarrow> CONSOLIDATED | Some m \<Rightarrow> m),
            lots = package_progress db org pkg,
            dependency_groups = package_groups db org pkg\<rparr>)"

section \<open>The lifecycle query\<close>

record lot_item =
  it_id :: ident
  it_code :: string
  it_name :: string
  it_sort_order :: int
  it_stage :: lot_stage
  it_outcome :: "lot_outcome option"
  it_active_batch :: "ident option"
  it_revision :: int

record lifecycle_view =
  lv_package :: ident
  lv_procedure :: procedure_kind
  lv_status :: package_status
  lv_total :: nat
  lv_completed :: nat
  lv_pending :: int
  lv_lots :: "lot_item list"
  lv_batches :: "(batch_row \<times> detail_row list) list"
  lv_policy_version :: int
  lv_finalized_batch :: "ident option"
  lv_finalized_by :: "ident option"

definition batch_details :: "'r lot_db \<Rightarrow> ident \<Rightarrow> ident \<Rightarrow> detail_row list" where
  "batch_details db org batch =
     sort_key (\<lambda>d. (d_created_at d, d_id d))
       (filter (\<lambda>d. d_org d = org \<and> d_batch d = batch) (details db))"

definition lot_items :: "'r lot_db \<Rightarrow> ident \<Rightarrow> ident \<Rightarrow> lot_item list" where
  "lot_items db org pkg =
     map (\<lambda>l. let p = lot_progress_of (map_of (latest_details db org pkg) (l_id l)) (l_id l)
        in \<lparr>it_id = l_id l,
            it_code = (case l_code l of None \<Rightarrow> [] | Some s \<Rightarrow> s),
            it_name = (case l_name l of None \<Rightarrow> [] | Some s \<Rightarrow> s),
            it_sort_order = l_sort_order l,
            it_stage = stage p, it_outcome = outcome p,
            it_active_batch = active_batch_id p,
            it_revision = lot_revision db org pkg (l_id l)\<rparr>)
       (live_lots db org pkg)"

definition query_lifecycle :: "'r lot_db \<Rightarrow> ident \<Rightarrow> ident \<Rightarrow> lot_error + lifecycle_view" where
  "query_lifecycle db org pkg =
     res_bind (package_context_of db org pkg None) (\<lambda>c.
       let progress = map snd (lots c);
           completed = length (filter is_completed progress)
       in Inr \<lparr>lv_package = pkg,
               lv_procedure = procedure_kind c,
               lv_status = project_package_status progress False,
               lv_total = length progress,
               lv_completed = completed,
               lv_pending = int (length progress) - int completed,
               lv_lots = lot_items db org pkg,
               lv_batches =
                 map (\<lambda>b. (b, batch_details db org (b_id b)))
                   (sort_key (\<lambda>b. (b_sequence_no b, b_id b))
                     (filter (\<lambda>b. b_org b = org \<and> b_package b = pkg) (batches db))),
               lv_policy_version = policy_version,
               lv_finalized_batch = None,
               lv_finalized_by = None\<rparr>)"

section \<open>Creating a batch\<close>

definition next_sync_version :: "'r lot_db \<Rightarrow> ident \<Rightarrow> int \<times> 'r lot_db" where
  "next_sync_version db org =
     (let meta = dict_setdefault org 0 (sync_metadata db);
          version = (case map_of meta org of None \<Rightarrow> 0 | Some v \<Rightarrow> v) + 1
      in (version, db\<lparr>sync_metadata := AList.update org version meta\<rparr>))"

text \<open>
  The unique keys of the tables: \<open>PRIMARY KEY(id)\<close> and
  \<open>UNIQUE(organization_id, goi_thau_id, sequence_no)\<close> of the batches;
  \<open>PRIMARY KEY(id)\<close>, \<open>UNIQUE(organization_id, batch_id, lot_id)\<close> and the partial unique index
  \<open>(organization_id, lot_id) WHERE is_active = 1\<close> of the details.
\<close>

definition insert_batch :: "batch_row \<Rightarrow> 'r lot_db \<Rightarrow> lot_error + 'r lot_db" where
  "insert_batch b db =
     (if \<exists>b' \<in> set (batches db). b_id b' = b_id b
           \<or> (b_org b' = b_org b \<and> b_package b' = b_package b \<and> b_sequence_no b' = b_sequence_no b)
      then Inl IntegrityError
      else Inr (db\<lparr>batches := batches db @ [b]\<rparr>))"

definition insert_detail :: "detail_row \<Rightarrow> 'r lot_db \<Rightarrow> lot_error + 'r lot_db" where
  "insert_detail d db =
     (if \<exists>d' \<in> set (details db). d_id d' = d_id d
           \<or> (d_org d' = d_org d \<and> d_batch d' = d_batch d \<and> d_lot d' = d_lot d)
           \<or> (d_active d \<and> d_active d' \<and> d_org d' = d_org d \<and> d_lot d' = d_lot d)
      then Inl IntegrityError
      else Inr (db\<lparr>details := details db @ [d]\<rparr>))"

definition next_sequence_no :: "'r lot_db \<Rightarrow> ident \<Rightarrow> ident \<Rightarrow> int" where
  "next_sequence_no db org pkg =
     (let numbers = map b_sequence_no
            (filter (\<lambda>b. b_org b = org \<and> b_package b = pkg) (batches db))
      in (if numbers = [] then 0 else Max (set numbers)) + 1)"

definition initial_stage :: "procedure_kind \<Rightarrow> lot_stage" where
  "initial_stage p = (if p = ONE_STAGE_TWO_ENVELOPE then TECHNICAL_DRAFT else EVALUATION_DRAFT)"

record batch_response =
  br_id :: ident
  br_sequence_no :: int
  br_procedure :: procedure_kind
  br_mode :: approval_mode
  br_initial_stage :: lot_stage
  br_lots :: "ident list"
  br_policy_version :: int
  br_sync_version :: int

text \<open>The detail rows of a new batch, one per selected lot in the order of the lot ids.\<close>

fun insert_batch_lots ::
    "'r lot_env \<Rightarrow> (ident \<Rightarrow> ident \<Rightarrow> detail_row) \<Rightarrow> ident list \<Rightarrow> 'r lot_db \<Rightarrow> lot_error + 'r lot_db" where
  "insert_batch_lots env row [] db = Inr db"
| "insert_batch_lots env row (l # ls) db =
     (let (did, db') = generate_record_id env ''dxlct-'' db
      in res_bind (insert_detail (row did l) db') (insert_batch_lots env row ls))"

text \<open>The row the batch \<open>INSERT\<close> writes, and the row of one lot in it.\<close>

definition new_batch_row ::
    "ident \<Rightarrow> ident \<Rightarrow> package_row \<Rightarrow> ident \<Rightarrow> int \<Rightarrow> approval_mode \<Rightarrow> bool \<Rightarrow> string
      \<Rightarrow> ident option \<Rightarrow> int \<Rightarrow> batch_row" where
  "new_batch_row org pkg p batch sequence mode staged basis actor version =
     \<lparr>b_org = org, b_package = pkg, b_id = batch, b_owner_type = pk_owner_type p,
      b_sequence_no = sequence, b_procedure = procedure_of (pk_method p), b_mode = mode,
      b_status = BS_ACTIVE, b_policy_version = policy_version, b_staged_authorized = staged,
      b_basis = (if py_strip basis = [] then None else Some (py_strip basis)),
      b_created_by = actor, b_closed_at = None, b_sync_version = version\<rparr>"

definition new_detail_row ::
    "'r lot_env \<Rightarrow> ident \<Rightarrow> package_row \<Rightarrow> ident \<Rightarrow> int \<Rightarrow> ident \<Rightarrow> ident \<Rightarrow> detail_row" where
  "new_detail_row env org p batch version did lot =
     \<lparr>d_org = org, d_owner_type = pk_owner_type p, d_id = did, d_batch = batch, d_lot = lot,
      d_stage = initial_stage (procedure_of (pk_method p)), d_outcome = None, d_revision = 1,
      d_active = True, d_created_at = clock_now env, d_sync_version = version\<rparr>"

definition create_batch ::
    "'r lot_env \<Rightarrow> 'r lot_db \<Rightarrow> ident \<Rightarrow> ident \<Rightarrow> ident list \<Rightarrow> string \<Rightarrow> bool \<Rightarrow> string
      \<Rightarrow> ident option \<Rightarrow> lot_error + (batch_response \<times> 'r lot_db)" where
  "create_batch env db org pkg requested mode_text staged basis actor =
     res_bind (find_package db org pkg) (\<lambda>p.
     case approval_mode_of mode_text of
       None \<Rightarrow> Inl (LotLifecycleInputError InvalidApprovalMode)
     | Some mode \<Rightarrow>
         if staged \<and> py_strip basis = [] then Inl (LotLifecycleInputError AuthorizationBasisMissing)
         else
         res_bind (package_context_of db org pkg (Some mode)) (\<lambda>c.
         let decision = assess_batch_start c requested in
         res_bind (lift_policy (require_allowed decision)) (\<lambda>_.
         let (version, db1) = next_sync_version db org;
             sequence = next_sequence_no db1 org pkg;
             (batch, db2) = generate_record_id env ''dxl-'' db1;
             selected = sorted_list_of_set (selected_lot_ids decision)
         in
         res_bind (insert_batch
             (new_batch_row org pkg p batch sequence mode staged basis actor version) db2) (\<lambda>db3.
         res_bind (insert_batch_lots env (new_detail_row env org p batch version) selected db3) (\<lambda>db4.
         Inr (\<lparr>br_id = batch, br_sequence_no = sequence,
               br_procedure = procedure_of (pk_method p), br_mode = mode,
               br_initial_stage = initial_stage (procedure_of (pk_method p)), br_lots = selected,
               br_policy_version = policy_version, br_sync_version = version\<rparr>, db4))))))"

section \<open>Finalizing a batch\<close>

definition outcome_of_value :: "pval \<Rightarrow> lot_outcome option" where
  "outcome_of_value v = (case v of PStr s \<Rightarrow> lot_outcome_of s | _ \<Rightarrow> None)"

fun normalize_outcomes ::
    "(ident \<times> pval) list \<Rightarrow> ident list \<Rightarrow> lot_error + (ident \<times> lot_outcome) list" where
  "normalize_outcomes outcomes [] = Inr []"
| "normalize_outcomes outcomes (l # ls) =
     (case Option.bind (map_of outcomes l) outcome_of_value of
        None \<Rightarrow> Inl (LotLifecycleInputError (InvalidLotOutcome l))
      | Some x \<Rightarrow> res_bind (normalize_outcomes outcomes ls) (\<lambda>rest. Inr ((l, x) # rest)))"

definition approve_detail ::
    "ident \<Rightarrow> ident \<Rightarrow> ident \<times> lot_outcome \<Rightarrow> detail_row list \<Rightarrow> detail_row list" where
  "approve_detail org batch lo =
     update_where (\<lambda>d. d_org d = org \<and> d_batch d = batch \<and> d_lot d = fst lo \<and> d_active d)
       (\<lambda>d. d\<lparr>d_stage := RESULT_APPROVED, d_outcome := Some (snd lo), d_active := False,
              d_revision := d_revision d + 1\<rparr>)"

definition active_batch_lots :: "'r lot_db \<Rightarrow> ident \<Rightarrow> ident \<Rightarrow> ident list" where
  "active_batch_lots db org batch =
     sort (map d_lot (filter (\<lambda>d. d_org d = org \<and> d_batch d = batch \<and> d_active d) (details db)))"

definition finalize_batch ::
    "'r lot_env \<Rightarrow> 'r lot_db \<Rightarrow> ident \<Rightarrow> ident \<Rightarrow> ident \<Rightarrow> (ident \<times> pval) list
      \<Rightarrow> ident option \<Rightarrow> lot_error + (lifecycle_view \<times> 'r lot_db)" where
  "finalize_batch env db org pkg batch outcomes actor =
     res_bind (find_package db org pkg) (\<lambda>_.
     case List.find (\<lambda>b. b_org b = org \<and> b_package b = pkg \<and> b_id b = batch) (batches db) of
       None \<Rightarrow> Inl LotLifecycleNotFoundError
     | Some b \<Rightarrow>
         if b_status b = BS_CLOSED
         then res_bind (query_lifecycle db org pkg) (\<lambda>v. Inr (v, db))
         else if b_status b \<noteq> BS_ACTIVE then Inl (LotLifecycleInputError BatchNotActive)
         else
         let batch_lots = active_batch_lots db org batch in
         if batch_lots = [] then Inl (LotLifecycleInputError BatchHasNoActiveLot)
         else if fst ` set outcomes \<noteq> set batch_lots
         then Inl (LotLifecycleInputError OutcomeScopeMismatch)
         else
         res_bind (package_context_of db org pkg (Some (b_mode b))) (\<lambda>c.
         res_bind (lift_policy (require_allowed
             (assess_partial_result_publication c batch_lots (Some batch)))) (\<lambda>_.
         res_bind (normalize_outcomes outcomes batch_lots) (\<lambda>normalized.
         let db' = db\<lparr>details := fold (approve_detail org batch) normalized (details db),
                      batches := update_where
                        (\<lambda>r. b_org r = org \<and> b_package r = pkg \<and> b_id r = batch)
                        (\<lambda>r. r\<lparr>b_status := BS_CLOSED, b_closed_at := Some (clock_now env)\<rparr>)
                        (batches db)\<rparr>
         in res_bind (query_lifecycle db' org pkg) (\<lambda>v.
            Inr (v\<lparr>lv_finalized_batch := Some batch, lv_finalized_by := actor\<rparr>, db'))))))"

end
