(* ===== verification/Lot_Award.thy ===== *)
theory Lot_Award
  imports Lot_Service
begin

text \<open>
  \<open>finalize_batch_award\<close> of \<open>src/backend/lot_lifecycle_service.py\<close>: the official result of a
  batch together with the award data of its lots and of the package, and the immutable
  artifact that records it.  The request body is a dynamic value, checked key by key.
\<close>

section \<open>Validation of the request\<close>

record lot_award =
  aw_winner :: "ident option"
  aw_price :: int
  aw_package_duration :: string
  aw_contract_duration :: string

record award_request =
  rq_expected_version :: int
  rq_number :: string
  rq_date :: string
  rq_metadata :: pval
  rq_lot_results :: "pval list"

definition input_error :: "input_reason \<Rightarrow> lot_error + 'a" where
  "input_error r = Inl (LotLifecycleInputError r)"

lemma input_error_ne_Inr [simp]: "input_error r \<noteq> Inr x" "Inr x \<noteq> input_error r"
  by (simp_all add: input_error_def)

definition check_award_request :: "pval \<Rightarrow> lot_error + award_request" where
  "check_award_request award =
     (if \<not> is_dict award then input_error MissingAward
      else case dget award ''expectedVersion'' of
        PInt expected \<Rightarrow>
          if expected < 1 then input_error InvalidExpectedVersion
          else
            let number = py_strip (str_or_empty (dget award ''decisionNumber''));
                date = py_strip (str_or_empty (dget award ''decisionDate''))
            in if number = [] \<or> date = [] then input_error DecisionMissing
               else if \<not> is_dict (dget award ''metadata'') then input_error InvalidMetadata
               else (case dget award ''lotResults'' of
                   PList results \<Rightarrow>
                     Inr \<lparr>rq_expected_version = expected, rq_number = number, rq_date = date,
                          rq_metadata = dget award ''metadata'', rq_lot_results = results\<rparr>
                 | _ \<Rightarrow> input_error InvalidLotResults)
      | _ \<Rightarrow> input_error InvalidExpectedVersion)"

definition parse_lot_result ::
    "pval \<Rightarrow> (ident \<times> lot_award) list \<Rightarrow> lot_error + (ident \<times> lot_award) list" where
  "parse_lot_result raw acc =
     (if \<not> is_dict raw then input_error InvalidLotResult
      else
        let lot = py_strip (str_or_empty (dget raw ''lotId''));
            winner = py_strip (str_or_empty (dget raw ''winnerId''))
        in if lot = [] \<or> map_of acc lot \<noteq> None then input_error DuplicateLotResult
           else case dget_default raw ''awardPrice'' (PInt 0) of
             PInt price \<Rightarrow>
               if price < 0 then input_error InvalidAwardPrice
               else Inr (acc @ [(lot,
                  \<lparr>aw_winner = (if winner = [] then None else Some winner),
                   aw_price = price,
                   aw_package_duration = py_strip (str_or_empty (dget raw ''packageDuration'')),
                   aw_contract_duration = py_strip (str_or_empty (dget raw ''contractDuration''))\<rparr>)])
           | _ \<Rightarrow> input_error InvalidAwardPrice)"

definition parse_lot_results :: "pval list \<Rightarrow> lot_error + (ident \<times> lot_award) list" where
  "parse_lot_results raws = fold_res parse_lot_result raws []"

text \<open>An awarded lot names its winner, any other outcome names none.\<close>

fun check_outcome_winners ::
    "(ident \<times> lot_award) list \<Rightarrow> (ident \<times> pval) list \<Rightarrow> lot_error + unit" where
  "check_outcome_winners results [] = Inr ()"
| "check_outcome_winners results ((lot, v) # rest) =
     (case outcome_of_value v of
        None \<Rightarrow> input_error (InvalidLotOutcome lot)
      | Some x \<Rightarrow>
          let winner = Option.bind (map_of results lot) aw_winner
          in if x = AWARDED \<and> winner = None then input_error AwardedWithoutWinner
             else if x \<noteq> AWARDED \<and> winner \<noteq> None then input_error WinnerWithoutAward
             else check_outcome_winners results rest)"

definition winner_ids :: "(ident \<times> lot_award) list \<Rightarrow> ident set" where
  "winner_ids results = set (List.map_filter (\<lambda>(_, r). aw_winner r) results)"

definition check_winners_exist ::
    "'r lot_db \<Rightarrow> ident \<Rightarrow> (ident \<times> lot_award) list \<Rightarrow> lot_error + unit" where
  "check_winners_exist db org results =
     (let winners = winner_ids results;
          existing = set (map c_id
            (filter (\<lambda>c. c_org c = org \<and> \<not> c_archived c \<and> c_id c \<in> winners) (contractors db)))
      in ensure (winners = {} \<or> existing = winners) (LotLifecycleInputError UnknownWinner))"

section \<open>Writing the award\<close>

definition award_lot ::
    "ident \<Rightarrow> ident \<Rightarrow> int \<Rightarrow> ident \<times> lot_award \<Rightarrow> 'r lot_db \<Rightarrow> lot_error + 'r lot_db" where
  "award_lot org pkg version la db =
     (let here = (\<lambda>l. l_org l = org \<and> l_package l = pkg \<and> l_id l = fst la)
      in if count_where here (lot_rows db) \<noteq> 1 then input_error (LotOutsidePackage (fst la))
         else Inr (db\<lparr>lot_rows := update_where here
           (\<lambda>l. l\<lparr>l_winner := aw_winner (snd la), l_award_price := Some (aw_price (snd la)),
                  l_package_duration := aw_package_duration (snd la),
                  l_contract_duration := aw_contract_duration (snd la),
                  l_sync_version := version, l_row_version := l_row_version l + 1\<rparr>)
           (lot_rows db)\<rparr>))"

text \<open>The package result is read back from all its live lots.\<close>

definition awarded_lots :: "'r lot_db \<Rightarrow> ident \<Rightarrow> ident \<Rightarrow> lot_row list" where
  "awarded_lots db org pkg =
     filter (\<lambda>l. l_org l = org \<and> l_package l = pkg \<and> \<not> l_archived l) (lot_rows db)"

definition package_winners :: "'r lot_db \<Rightarrow> ident \<Rightarrow> ident \<Rightarrow> ident set" where
  "package_winners db org pkg =
     set (filter (\<lambda>w. w \<noteq> [])
       (map (\<lambda>l. case l_winner l of None \<Rightarrow> [] | Some w \<Rightarrow> py_strip w) (awarded_lots db org pkg)))"

definition package_winner :: "'r lot_db \<Rightarrow> ident \<Rightarrow> ident \<Rightarrow> ident option" where
  "package_winner db org pkg =
     (case sorted_list_of_set (package_winners db org pkg) of [w] \<Rightarrow> Some w | _ \<Rightarrow> None)"

definition total_award_price :: "'r lot_db \<Rightarrow> ident \<Rightarrow> ident \<Rightarrow> int" where
  "total_award_price db org pkg =
     sum_list (map (\<lambda>l. case l_award_price l of None \<Rightarrow> 0 | Some p \<Rightarrow> p) (awarded_lots db org pkg))"

definition package_award_status :: "package_status \<Rightarrow> string" where
  "package_award_status s = (if s = PS_COMPLETED then ''AWARDED'' else ''PARTIALLY_AWARDED'')"

definition award_package ::
    "ident \<Rightarrow> ident \<Rightarrow> string \<Rightarrow> award_request \<Rightarrow> int \<Rightarrow> 'r lot_db \<Rightarrow> lot_error + 'r lot_db" where
  "award_package org pkg status rq version db =
     (let here = (\<lambda>p. pk_org p = org \<and> pk_id p = pkg
            \<and> pk_row_version p = Some (rq_expected_version rq))
      in if count_where here (packages db) = 0 then input_error PackageVersionConflict
         else Inr (db\<lparr>packages := update_where here
           (\<lambda>p. p\<lparr>pk_status := status, pk_winner := package_winner db org pkg,
                  pk_award_price := total_award_price db org pkg,
                  pk_decision_number := rq_number rq, pk_decision_date := rq_date rq,
                  pk_sync_version := version,
                  pk_row_version := Some (rq_expected_version rq + 1)\<rparr>)
           (packages db)\<rparr>))"

section \<open>The artifact\<close>

definition result_decision :: string where
  "result_decision = ''RESULT_APPROVAL_DECISION''"

definition award_snapshot ::
    "ident \<Rightarrow> ident \<Rightarrow> (ident \<times> pval) list \<Rightarrow> award_request \<Rightarrow> string \<Rightarrow> pval" where
  "award_snapshot pkg batch outcomes rq status =
     PDict [(''packageId'', PStr pkg), (''batchId'', PStr batch), (''outcomes'', PDict outcomes),
            (''lotResults'', PList (rq_lot_results rq)), (''packageStatus'', PStr status),
            (''decisionNumber'', PStr (rq_number rq)), (''decisionDate'', PStr (rq_date rq)),
            (''metadata'', rq_metadata rq)]"

text \<open>
  \<open>INSERT ... ON CONFLICT (organization_id, batch_id, artifact_type, revision) DO NOTHING\<close>; on a
  conflict the stored digest must be the digest of the repeated request.
\<close>

definition insert_artifact :: "artifact_row \<Rightarrow> 'r lot_db \<Rightarrow> lot_error + (ident \<times> 'r lot_db)" where
  "insert_artifact a db =
     (case List.find (\<lambda>r. a_org r = a_org a \<and> a_batch r = a_batch a \<and> a_type r = a_type a
           \<and> a_revision r = a_revision a) (artifacts db) of
        Some r \<Rightarrow> if a_digest r = a_digest a then Inr (a_id r, db) else input_error ArtifactConflict
      | None \<Rightarrow>
          if a_id a \<in> set (map a_id (artifacts db)) then Inl IntegrityError
          else Inr (a_id a, db\<lparr>artifacts := artifacts db @ [a]\<rparr>))"

definition insert_artifact_lot ::
    "'r lot_env \<Rightarrow> ident \<Rightarrow> ident \<Rightarrow> ident \<Rightarrow> 'r lot_db \<Rightarrow> lot_error + 'r lot_db" where
  "insert_artifact_lot env org artifact lot db =
     (let (rid, db') = generate_record_id env ''hslcntpl-'' db
      in if \<exists>r \<in> set (artifact_lots db'). al_org r = org \<and> al_artifact r = artifact \<and> al_lot r = lot
         then Inr db'
         else if rid \<in> set (map al_id (artifact_lots db')) then Inl IntegrityError
         else Inr (db'\<lparr>artifact_lots := artifact_lots db' @
           [\<lparr>al_org = org, al_id = rid, al_artifact = artifact, al_lot = lot\<rparr>]\<rparr>))"

section \<open>The command\<close>

record award_response =
  ar_view :: lifecycle_view
  ar_row_version :: int
  ar_sync_version :: int
  ar_status :: string
  ar_winner :: string
  ar_price :: int
  ar_number :: string
  ar_date :: string

definition store_evaluation :: "'r lot_env \<Rightarrow> pval \<Rightarrow> 'r lot_db \<Rightarrow> lot_error + 'r lot_db" where
  "store_evaluation env metadata db =
     (case save_evaluation env metadata (evaluation db) of
        None \<Rightarrow> Inl EvaluationError | Some r \<Rightarrow> Inr (db\<lparr>evaluation := r\<rparr>))"

text \<open>The part of the command after validation: finalize, award the lots and the package, record.\<close>

definition write_award ::
    "'r lot_env \<Rightarrow> 'r lot_db \<Rightarrow> ident \<Rightarrow> package_row \<Rightarrow> ident \<Rightarrow> (ident \<times> pval) list
      \<Rightarrow> award_request \<Rightarrow> (ident \<times> lot_award) list \<Rightarrow> ident option
      \<Rightarrow> lot_error + (award_response \<times> 'r lot_db)" where
  "write_award env db org p batch outcomes rq results actor =
     (let pkg = pk_id p in
      res_bind (finalize_batch env db org pkg batch outcomes actor) (\<lambda>(view, db1).
      let (version, db2) = next_sync_version db1 org;
          status = package_award_status (lv_status view)
      in
      res_bind (fold_res (award_lot org pkg version) results db2) (\<lambda>db3.
      res_bind (award_package org pkg status rq version db3) (\<lambda>db4.
      res_bind (store_evaluation env (rq_metadata rq) db4) (\<lambda>db5.
      let snapshot_json = json_dumps (award_snapshot pkg batch outcomes rq status);
          (rid, db6) = generate_record_id env ''hslcnt-'' db5
      in
      res_bind (insert_artifact
          \<lparr>a_org = org, a_owner_type = pk_owner_type p, a_id = rid, a_batch = batch,
           a_type = result_decision, a_status = ''FINAL'', a_number = rq_number rq,
           a_date = rq_date rq, a_revision = 1, a_snapshot = snapshot_json,
           a_scope_hash = sha256_hex env (py_join ''|'' (sort (map fst results))),
           a_digest = sha256_hex env snapshot_json, a_finalized_by = actor,
           a_sync_version = version\<rparr> db6) (\<lambda>(artifact, db7).
      res_bind (fold_res (insert_artifact_lot env org artifact) (sort (map fst results)) db7) (\<lambda>db8.
      Inr (\<lparr>ar_view = view, ar_row_version = rq_expected_version rq + 1,
            ar_sync_version = version, ar_status = status,
            ar_winner = (case package_winner db3 org pkg of None \<Rightarrow> [] | Some w \<Rightarrow> w),
            ar_price = total_award_price db3 org pkg,
            ar_number = rq_number rq, ar_date = rq_date rq\<rparr>, db8))))))))"

definition finalize_batch_award ::
    "'r lot_env \<Rightarrow> 'r lot_db \<Rightarrow> ident \<Rightarrow> ident \<Rightarrow> ident \<Rightarrow> (ident \<times> pval) list \<Rightarrow> pval
      \<Rightarrow> ident option \<Rightarrow> lot_error + (award_response \<times> 'r lot_db)" where
  "finalize_batch_award env db org pkg batch outcomes award actor =
     res_bind (check_award_request award) (\<lambda>rq.
     res_bind (find_package db org pkg) (\<lambda>p.
     let current = (case pk_row_version p of None \<Rightarrow> 1 | Some v \<Rightarrow> if v = 0 then 1 else v) in
     if current \<noteq> rq_expected_version rq then input_error PackageVersionConflict
     else
     res_bind (parse_lot_results (rq_lot_results rq)) (\<lambda>results.
     if fst ` set results \<noteq> fst ` set outcomes then input_error AwardScopeMismatch
     else
     res_bind (check_outcome_winners results outcomes) (\<lambda>_.
     res_bind (check_winners_exist db org results) (\<lambda>_.
     write_award env db org p batch outcomes rq results actor)))))"

end
