(* ===== verification/Transactions.thy ===== *)
theory Transactions
  imports Prelude
begin

text \<open>
  The contract the services share: an operation runs in one transaction, which is committed when
  it returns and rolled back when it raises.  What every operation keeps, every history keeps.
\<close>

definition commit :: "('c \<Rightarrow> 'd \<Rightarrow> 'e + ('r \<times> 'd)) \<Rightarrow> 'c \<Rightarrow> 'd \<Rightarrow> 'd" where
  "commit run c d = (case run c d of Inl _ \<Rightarrow> d | Inr (_, d') \<Rightarrow> d')"

definition commit_all :: "('c \<Rightarrow> 'd \<Rightarrow> 'e + ('r \<times> 'd)) \<Rightarrow> 'c list \<Rightarrow> 'd \<Rightarrow> 'd" where
  "commit_all run cs d = fold (commit run) cs d"

lemma commit_cases:
  obtains "commit run c d = d" | r d' where "run c d = Inr (r, d')" "commit run c d = d'"
  by (cases "run c d") (auto simp: commit_def)

text \<open>Steps that keep an invariant.\<close>

locale stepping =
  fixes step :: "'s \<Rightarrow> 's \<Rightarrow> bool" and ok :: "'s \<Rightarrow> bool"
  assumes keeps: "step a b \<Longrightarrow> ok a \<Longrightarrow> ok b"
begin

lemma steps_ok: "step\<^sup>*\<^sup>* a b \<Longrightarrow> ok a \<Longrightarrow> ok b"
  by (induction rule: rtranclp_induct) (auto intro: keeps)

end

text \<open>Operations that keep an invariant whenever they return.\<close>

locale transactional =
  fixes run :: "'c \<Rightarrow> 'd \<Rightarrow> 'e + ('r \<times> 'd)" and ok :: "'d \<Rightarrow> bool"
  assumes keeps: "run c d = Inr (r, d') \<Longrightarrow> ok d \<Longrightarrow> ok d'"
begin

lemma commit_ok: "ok d \<Longrightarrow> ok (commit run c d)"
  by (rule commit_cases[of run c d]) (auto intro: keeps)

lemma commit_all_ok: "ok d \<Longrightarrow> ok (commit_all run cs d)"
  unfolding commit_all_def by (induction cs arbitrary: d) (auto intro: commit_ok)

end

sublocale transactional < commits: stepping "\<lambda>a b. \<exists>c. b = commit run c a" ok
  by unfold_locales (auto intro: commit_ok)

text \<open>Operations that only move the state up in a preorder.\<close>

locale growing =
  fixes run :: "'c \<Rightarrow> 'd \<Rightarrow> 'e + ('r \<times> 'd)" and le :: "'d \<Rightarrow> 'd \<Rightarrow> bool"
  assumes le_refl: "le d d"
    and le_trans: "le x y \<Longrightarrow> le y z \<Longrightarrow> le x z"
    and grows: "run c d = Inr (r, d') \<Longrightarrow> le d d'"
begin

lemma commit_grows: "le d (commit run c d)"
  by (rule commit_cases[of run c d]) (auto intro: le_refl grows)

lemma commit_all_grows: "le d (commit_all run cs d)"
  unfolding commit_all_def
proof (induction cs arbitrary: d)
  case (Cons c cs)
  have "le (commit run c d) (fold (commit run) cs (commit run c d))" by (rule Cons.IH)
  with commit_grows[of d c] show ?case by (auto intro: le_trans)
qed (simp add: le_refl)

end

end
