(* ===== verification/Lot_Invariants.thy ===== *)
theory Lot_Invariants
  imports Lot_Award Transactions
begin

text \<open>
  The invariant of the lot tables, that every command of the service keeps it, and what
  follows: a lot is claimed by one batch at a time and approved at most once.
\<close>

section \<open>The invariant\<close>

definition approved :: "detail_row \<Rightarrow> bool" where
  "approved d \<longleftrightarrow> d_stage d = RESULT_APPROVED"

definition batch_of :: "'r lot_db \<Rightarrow> detail_row \<Rightarrow> batch_row \<Rightarrow> bool" where
  "batch_of db d b \<longleftrightarrow> b \<in> set (batches db) \<and> b_org b = d_org d \<and> b_id b = d_batch d"

definition same_lot :: "detail_row \<Rightarrow> detail_row \<Rightarrow> bool" where
  "same_lot d e \<longleftrightarrow> d_org d = d_org e \<and> d_lot d = d_lot e"

definition keys_ok :: "'r lot_db \<Rightarrow> bool" where
  "keys_ok db \<longleftrightarrow> distinct (map b_id (batches db)) \<and> distinct (map d_id (details db))
     \<and> distinct (map l_id (lot_rows db))"

definition sequences_ok :: "'r lot_db \<Rightarrow> bool" where
  "sequences_ok db \<longleftrightarrow> (\<forall>b \<in> set (batches db). \<forall>b' \<in> set (batches db).
     b_org b = b_org b' \<longrightarrow> b_package b = b_package b' \<longrightarrow> b_sequence_no b = b_sequence_no b' \<longrightarrow> b = b')"

definition scopes_ok :: "'r lot_db \<Rightarrow> bool" where
  "scopes_ok db \<longleftrightarrow> (\<forall>d \<in> set (details db). \<forall>e \<in> set (details db).
     d_org d = d_org e \<longrightarrow> d_batch d = d_batch e \<longrightarrow> d_lot d = d_lot e \<longrightarrow> d = e)"

text \<open>Every detail has its batch, and the batch belongs to the package of the lot.\<close>

definition owners_ok :: "'r lot_db \<Rightarrow> bool" where
  "owners_ok db \<longleftrightarrow> (\<forall>d \<in> set (details db). \<exists>b. batch_of db d b \<and>
     (\<exists>l \<in> set (lot_rows db). l_id l = d_lot d \<and> l_org l = d_org d \<and> l_package l = b_package b))"

definition stages_ok :: "'r lot_db \<Rightarrow> bool" where
  "stages_ok db \<longleftrightarrow> (\<forall>d \<in> set (details db).
     (approved d \<longleftrightarrow> d_outcome d \<noteq> None) \<and> (approved d \<longrightarrow> \<not> d_active d))"

text \<open>An open or approved detail belongs to the newest batch of its lot.\<close>

definition newest_ok :: "'r lot_db \<Rightarrow> bool" where
  "newest_ok db \<longleftrightarrow> (\<forall>d \<in> set (details db). \<forall>e \<in> set (details db). \<forall>b b'.
     same_lot d e \<longrightarrow> d_active d \<or> approved d \<longrightarrow> batch_of db d b \<longrightarrow> batch_of db e b' \<longrightarrow>
     b_sequence_no b' \<le> b_sequence_no b)"

text \<open>An open detail belongs to a batch that is still being processed.\<close>

definition open_ok :: "'r lot_db \<Rightarrow> bool" where
  "open_ok db \<longleftrightarrow> (\<forall>d \<in> set (details db). \<forall>b. d_active d \<longrightarrow> batch_of db d b \<longrightarrow> b_status b = BS_ACTIVE)"

definition lots_ok :: "'r lot_db \<Rightarrow> bool" where
  "lots_ok db \<longleftrightarrow> keys_ok db \<and> sequences_ok db \<and> scopes_ok db \<and> owners_ok db \<and> stages_ok db
     \<and> newest_ok db \<and> open_ok db"

named_theorems lots_ok_defs \<open>the parts of the invariant\<close>

lemmas lots_ok_parts [lots_ok_defs] = lots_ok_def keys_ok_def sequences_ok_def scopes_ok_def
  owners_ok_def stages_ok_def newest_ok_def open_ok_def

section \<open>The context shows the newest detail of every lot\<close>

lemma set_package_details:
  "set (package_details db org pkg) =
     {(d, b). d \<in> set (details db) \<and> d_org d = org \<and> batch_of db d b \<and> b_package b = pkg}"
  by (auto simp: package_details_def batch_of_def)

lemma map_of_latest_details:
  "map_of (latest_details db org pkg) l =
     map_option fst (List.find (\<lambda>(d, b). d_lot d = l) (package_details db org pkg))"
  by (simp add: latest_details_def map_of_fold_setdefault find_map case_prod_unfold)

lemma latest_details_newest:
  assumes ok: "lots_ok db" and d: "d \<in> set (details db)" "d_org d = org" "d_lot d = l"
    and b: "batch_of db d b" "b_package b = pkg" and live: "d_active d \<or> approved d"
  shows "map_of (latest_details db org pkg) l = Some d"
proof -
  let ?P = "\<lambda>(d, b). d_lot d = l"
  have mem: "(d, b) \<in> set (package_details db org pkg)"
    using d b by (simp add: set_package_details)
  obtain e b' where find: "List.find ?P (package_details db org pkg) = Some (e, b')"
    using find_exists[OF mem, of ?P] d(3) by (cases "List.find ?P (package_details db org pkg)") auto
  then have e: "e \<in> set (details db)" "d_org e = org" "batch_of db e b'" "b_package b' = pkg" "d_lot e = l"
    using find_Some_iff_mem[OF find] by (auto simp: set_package_details)
  have "sorted (map (\<lambda>(d, b). (d_lot d, - b_sequence_no b)) (package_details db org pkg))"
    by (simp add: package_details_def)
  from find_sorted_least[OF this find mem] d(3) e(5)
  have "b_sequence_no b \<le> b_sequence_no b'" by simp
  moreover have "b_sequence_no b' \<le> b_sequence_no b"
    using ok d e b live unfolding lots_ok_def newest_ok_def same_lot_def by metis
  ultimately have "b = b'"
    using ok b e d(2) unfolding lots_ok_def sequences_ok_def batch_of_def by (metis order_antisym)
  then have "e = d"
    using ok b e d unfolding lots_ok_def scopes_ok_def batch_of_def by metis
  with find show ?thesis by (simp add: map_of_latest_details)
qed

lemma map_of_package_progress:
  assumes "map_of (package_progress db org pkg) l = Some p"
  shows "p = lot_progress_of (map_of (latest_details db org pkg) l) l
    \<and> (\<exists>r \<in> set (lot_rows db). l_id r = l \<and> l_org r = org \<and> l_package r = pkg \<and> \<not> l_archived r)"
proof -
  from assms have "(l, p) \<in> set (package_progress db org pkg)" by (rule map_of_SomeD)
  then show ?thesis by (auto simp: package_progress_def live_lots_def Let_def)
qed

lemma lots_of_context:
  "package_context_of db org pkg mode = Inr c \<Longrightarrow> lots c = package_progress db org pkg"
  by (auto simp: package_context_of_def res_simps)

text \<open>The package of a lot is the package of the batches of its details.\<close>

lemma detail_package:
  assumes ok: "lots_ok db" and d: "d \<in> set (details db)" "d_org d = org" "d_lot d = l"
    and r: "r \<in> set (lot_rows db)" "l_id r = l" "l_org r = org"
  shows "\<exists>b. batch_of db d b \<and> b_package b = l_package r"
proof -
  obtain b r' where b: "batch_of db d b" and r': "r' \<in> set (lot_rows db)" "l_id r' = l"
      "l_package r' = b_package b"
    using ok d unfolding lots_ok_def owners_ok_def by metis
  have "r' = r"
    using ok r r' unfolding lots_ok_def keys_ok_def by (auto simp: distinct_map inj_on_def)
  with b r'(3) show ?thesis by auto
qed

section \<open>What a permitted scope means for the tables\<close>

context scope_policy
begin

lemma permitted_details_closed:
  assumes ok: "lots_ok db" and c: "package_context_of db org pkg mode = Inr c"
    and permit: "permits c current req" and l: "l \<in> set req"
    and d: "d \<in> set (details db)" "d_org d = org" "d_lot d = l"
  shows "\<not> approved d \<and> (d_active d \<longrightarrow> current = Some (d_batch d))"
proof -
  obtain p where p: "map_of (lots c) l = Some p" using permits_known[OF permit l] by auto
  have prog: "p = lot_progress_of (map_of (latest_details db org pkg) l) l"
    and row: "\<exists>r \<in> set (lot_rows db). l_id r = l \<and> l_org r = org \<and> l_package r = pkg"
    using map_of_package_progress p by (fastforce simp: lots_of_context[OF c])+
  obtain b where b: "batch_of db d b" "b_package b = pkg"
    using row detail_package[OF ok d] by auto
  have newest: "map_of (latest_details db org pkg) l = Some d" if "d_active d \<or> approved d"
    using latest_details_newest[OF ok d b that] .
  show ?thesis
  proof (intro conjI impI notI)
    assume "approved d"
    then have "is_completed p"
      using newest by (simp add: prog lot_progress_of_def is_completed_def approved_def)
    then show False using permits_open[OF permit l p] by simp
  next
    assume "d_active d"
    then have "active_batch_id p = Some (d_batch d)"
      using newest by (simp add: prog lot_progress_of_def)
    then show "current = Some (d_batch d)" using permits_unclaimed[OF permit l p] by auto
  qed
qed

lemma permitted_lot_row:
  assumes c: "package_context_of db org pkg mode = Inr c"
    and permit: "permits c current req" and l: "l \<in> set req"
  shows "\<exists>r \<in> set (lot_rows db). l_id r = l \<and> l_org r = org \<and> l_package r = pkg"
proof -
  obtain p where "map_of (lots c) l = Some p" using permits_known[OF permit l] by auto
  then show ?thesis using map_of_package_progress by (fastforce simp: lots_of_context[OF c])
qed

end

section \<open>Creating a batch keeps the invariant\<close>

lemma lots_ok_cong:
  "batches db = batches db' \<Longrightarrow> details db = details db' \<Longrightarrow> lot_rows db = lot_rows db' \<Longrightarrow>
     lots_ok db = lots_ok db'"
  by (simp add: lots_ok_defs batch_of_def)

lemma generate_record_id_frame:
  "generate_record_id env p db = (i, db') \<Longrightarrow>
     batches db' = batches db \<and> details db' = details db \<and> lot_rows db' = lot_rows db"
  by (auto simp: generate_record_id_def)

lemma next_sync_version_frame:
  "next_sync_version db org = (v, db') \<Longrightarrow>
     batches db' = batches db \<and> details db' = details db \<and> lot_rows db' = lot_rows db"
  by (auto simp: next_sync_version_def Let_def)

lemma batch_of_details [simp]: "batch_of (db\<lparr>details := ds\<rparr>) = batch_of db"
  by (intro ext) (simp add: batch_of_def)

lemma batch_of_unique:
  "lots_ok db \<Longrightarrow> batch_of db d b \<Longrightarrow> batch_of db d b' \<Longrightarrow> b = b'"
  unfolding lots_ok_def keys_ok_def batch_of_def by (auto simp: distinct_map inj_on_def)

lemma insert_batch_Inr:
  assumes "insert_batch b db = Inr db'"
  shows "db' = db\<lparr>batches := batches db @ [b]\<rparr>"
    and "\<forall>b' \<in> set (batches db). b_id b' \<noteq> b_id b"
    and "\<forall>b' \<in> set (batches db). b_org b' = b_org b \<longrightarrow> b_package b' = b_package b \<longrightarrow>
           b_sequence_no b' \<noteq> b_sequence_no b"
  using assms by (auto simp: insert_batch_def split: if_splits)

lemma insert_batch_ok:
  assumes ins: "insert_batch b db = Inr db'" and ok: "lots_ok db"
  shows "lots_ok db'"
proof -
  note new = insert_batch_Inr[OF ins]
  have batch_of': "batch_of db' d b' \<longleftrightarrow> batch_of db d b'" if "d \<in> set (details db)" for d b'
  proof -
    obtain b0 where "batch_of db d b0" using ok \<open>d \<in> _\<close> unfolding lots_ok_def owners_ok_def by blast
    then have "d_batch d \<noteq> b_id b" using new(2) by (auto simp: batch_of_def)
    then show ?thesis by (auto simp: batch_of_def new(1))
  qed
  have keys: "keys_ok db'"
    using ok new(2) by (auto simp: lots_ok_def keys_ok_def new(1))
  have seqs: "sequences_ok db'"
    using ok new(3) by (fastforce simp: lots_ok_def sequences_ok_def new(1))
  have rest: "scopes_ok db' \<and> stages_ok db'"
    using ok by (simp add: lots_ok_def scopes_ok_def stages_ok_def new(1))
  have owners: "owners_ok db'" and open_: "open_ok db'" and newest: "newest_ok db'"
    using ok batch_of' unfolding lots_ok_def owners_ok_def open_ok_def newest_ok_def
    by (simp_all add: new(1))
  show ?thesis unfolding lots_ok_def using keys seqs rest owners newest open_ by simp
qed

lemma insert_detail_Inr:
  assumes "insert_detail d db = Inr db'"
  shows "db' = db\<lparr>details := details db @ [d]\<rparr>"
    and "\<forall>e \<in> set (details db). d_id e \<noteq> d_id d"
    and "\<forall>e \<in> set (details db). \<not> (d_org e = d_org d \<and> d_batch e = d_batch d \<and> d_lot e = d_lot d)"
    and "\<forall>e \<in> set (details db). d_active d \<longrightarrow> d_active e \<longrightarrow> \<not> same_lot e d"
  using assms by (auto simp: insert_detail_def same_lot_def split: if_splits)

text \<open>A fresh detail of a batch with the highest sequence number, of a lot never approved.\<close>

lemma insert_detail_ok:
  assumes ins: "insert_detail d db = Inr db'" and ok: "lots_ok db"
    and d: "d_active d" "\<not> approved d" "d_outcome d = None"
    and b: "batch_of db d b" "b_status b = BS_ACTIVE"
      "\<forall>b' \<in> set (batches db). b_org b' = b_org b \<longrightarrow> b_package b' = b_package b \<longrightarrow>
         b_sequence_no b' \<le> b_sequence_no b"
    and r: "r \<in> set (lot_rows db)" "l_id r = d_lot d" "l_org r = d_org d" "l_package r = b_package b"
    and never: "\<forall>e \<in> set (details db). same_lot e d \<longrightarrow> \<not> approved e"
  shows "lots_ok db'"
proof -
  note new = insert_detail_Inr[OF ins]
  have keys: "keys_ok db'" and seqs: "sequences_ok db'"
    using ok new(2) by (auto simp: lots_ok_def keys_ok_def sequences_ok_def new(1))
  have scopes: "scopes_ok db'"
    using ok new(3) by (fastforce simp: lots_ok_def scopes_ok_def new(1))
  have owners: "owners_ok db'"
    using ok b(1) r by (auto simp: lots_ok_def owners_ok_def new(1))
  have stages: "stages_ok db'"
    using ok d by (auto simp: lots_ok_def stages_ok_def new(1))
  have open_: "open_ok db'"
    unfolding open_ok_def new(1)
  proof (intro ballI allI impI)
    fix e be
    assume e: "e \<in> set (details (db\<lparr>details := details db @ [d]\<rparr>))" "d_active e"
      and be: "batch_of (db\<lparr>details := details db @ [d]\<rparr>) e be"
    show "b_status be = BS_ACTIVE"
    proof (cases "e = d")
      case True
      then have "be = b" using batch_of_unique[OF ok b(1)] be by simp
      then show ?thesis using b(2) by simp
    next
      case False
      then show ?thesis using e be ok unfolding lots_ok_def open_ok_def by simp
    qed
  qed
  have new_top: "b_sequence_no b' \<le> b_sequence_no b"
    if e: "e \<in> set (details db)" "same_lot d e" "batch_of db e b'" for e b'
  proof -
    obtain b0 where "batch_of db e b0" "b_package b0 = b_package b"
      using detail_package[OF ok e(1) refl refl, of r] r e(2) by (auto simp: same_lot_def)
    then have "b_package b' = b_package b" using batch_of_unique[OF ok e(3)] by simp
    then show ?thesis using b e(2,3) by (auto simp: batch_of_def same_lot_def)
  qed
  have newest: "newest_ok db'"
    unfolding newest_ok_def new(1) batch_of_details
  proof (intro ballI allI impI)
    fix e f be bf
    assume e: "e \<in> set (details (db\<lparr>details := details db @ [d]\<rparr>))"
      and f: "f \<in> set (details (db\<lparr>details := details db @ [d]\<rparr>))" and same: "same_lot e f"
      and live: "d_active e \<or> approved e" and be: "batch_of db e be" and bf: "batch_of db f bf"
    consider (old) "e \<in> set (details db)" "f \<in> set (details db)" | (new_new) "e = d" "f = d"
      | (new_old) "e = d" "f \<in> set (details db)" | (old_new) "e \<in> set (details db)" "f = d"
      using e f by auto
    then show "b_sequence_no bf \<le> b_sequence_no be"
    proof cases
      case old
      then show ?thesis using ok same live be bf unfolding lots_ok_def newest_ok_def by metis
    next
      case new_new
      then show ?thesis using batch_of_unique[OF ok, of d be bf] be bf by simp
    next
      case new_old
      then show ?thesis
        using new_top[of f bf] same bf batch_of_unique[OF ok b(1), of be] be by simp
    next
      case old_new
      then show ?thesis using live same never new(4) d(1) by blast
    qed
  qed
  show ?thesis unfolding lots_ok_def using keys seqs scopes owners stages newest open_ by simp
qed


text \<open>The rows a batch adds: one per selected lot, in order, and nothing else.\<close>

lemma insert_batch_lots_frame:
  "insert_batch_lots env row ls db = Inr db' \<Longrightarrow>
     batches db' = batches db \<and> lot_rows db' = lot_rows db \<and>
     (\<exists>new. details db' = details db @ new \<and> list_all2 (\<lambda>d l. \<exists>did. d = row did l) new ls)"
proof (induction ls arbitrary: db)
  case Nil
  then show ?case by simp
next
  case (Cons l ls)
  obtain did db1 where gen: "generate_record_id env ''dxlct-'' db = (did, db1)" by fastforce
  with Cons.prems obtain db2 where ins: "insert_detail (row did l) db1 = Inr db2"
    and rec: "insert_batch_lots env row ls db2 = Inr db'"
    by (auto simp: res_simps)
  obtain new where new: "details db' = details db2 @ new"
      "list_all2 (\<lambda>d l. \<exists>did. d = row did l) new ls"
    using Cons.IH[OF rec] by auto
  have "details db' = details db @ (row did l # new)"
    using new(1) insert_detail_Inr(1)[OF ins] generate_record_id_frame[OF gen] by simp
  moreover have "list_all2 (\<lambda>d l. \<exists>did. d = row did l) (row did l # new) (l # ls)"
    using new(2) by auto
  moreover have "batches db' = batches db \<and> lot_rows db' = lot_rows db"
    using Cons.IH[OF rec] insert_detail_Inr(1)[OF ins] generate_record_id_frame[OF gen] by simp
  ultimately show ?case by blast
qed

lemma insert_batch_lots_ok:
  assumes "insert_batch_lots env row ls db = Inr db'" and "lots_ok db"
    and row: "\<And>did l. d_org (row did l) = b_org b \<and> d_batch (row did l) = b_id b
      \<and> d_lot (row did l) = l \<and> d_active (row did l) \<and> \<not> approved (row did l)
      \<and> d_outcome (row did l) = None"
    and "b \<in> set (batches db)" and active: "b_status b = BS_ACTIVE"
    and "\<forall>b' \<in> set (batches db). b_org b' = b_org b \<longrightarrow> b_package b' = b_package b \<longrightarrow>
       b_sequence_no b' \<le> b_sequence_no b"
    and "\<forall>l \<in> set ls. \<exists>r \<in> set (lot_rows db). l_id r = l \<and> l_org r = b_org b \<and> l_package r = b_package b"
    and "\<forall>l \<in> set ls. \<forall>e \<in> set (details db). d_org e = b_org b \<longrightarrow> d_lot e = l \<longrightarrow> \<not> approved e"
  shows "lots_ok db'"
  using assms(1,2,4,6-8)
proof (induction ls arbitrary: db)
  case Nil
  then show ?case by simp
next
  case (Cons l ls)
  obtain did db1 where gen: "generate_record_id env ''dxlct-'' db = (did, db1)" by fastforce
  note frame = generate_record_id_frame[OF gen]
  with Cons.prems(1) gen obtain db2 where ins: "insert_detail (row did l) db1 = Inr db2"
    and rec: "insert_batch_lots env row ls db2 = Inr db'"
    by (auto simp: res_simps)
  note new = insert_detail_Inr(1)[OF ins]
  have ok1: "lots_ok db1" using Cons.prems(2) lots_ok_cong[of db1 db] frame by simp
  obtain r where r: "r \<in> set (lot_rows db)" "l_id r = l" "l_org r = b_org b" "l_package r = b_package b"
    using Cons.prems(5) by auto
  have ok2: "lots_ok db2"
    by (rule insert_detail_ok[OF ins ok1, of b r])
      (use row Cons.prems(3,4,6) active r frame in \<open>auto simp: batch_of_def same_lot_def\<close>)
  show ?case
    by (rule Cons.IH[OF rec ok2])
      (use Cons.prems(3-6) row frame in \<open>auto simp: new\<close>)
qed

lemma next_sequence_no_greater:
  assumes "b \<in> set (batches db)" and "b_org b = org" and "b_package b = pkg"
  shows "b_sequence_no b < next_sequence_no db org pkg"
proof -
  let ?n = "map b_sequence_no (filter (\<lambda>b. b_org b = org \<and> b_package b = pkg) (batches db))"
  have mem: "b_sequence_no b \<in> set ?n" using assms by auto
  then have "b_sequence_no b \<le> Max (set ?n)" by (intro Max_ge) auto
  moreover have "?n \<noteq> []" using mem by (metis empty_iff empty_set)
  ultimately show ?thesis unfolding next_sequence_no_def Let_def by simp
qed

text \<open>What a successful \<open>create_batch\<close> has established on the way.\<close>

lemma create_batch_Inr:
  assumes "create_batch env db org pkg req mode staged basis actor = Inr (resp, db')"
    and sv: "next_sync_version db org = (v, db1)"
    and gen: "generate_record_id env ''dxl-'' db1 = (bid, db2)"
  shows "\<exists>p m c db3. find_package db org pkg = Inr p \<and> approval_mode_of mode = Some m
    \<and> (staged \<longrightarrow> py_strip basis \<noteq> [])
    \<and> package_context_of db org pkg (Some m) = Inr c \<and> allowed (assess_scope c req None)
    \<and> insert_batch (new_batch_row org pkg p bid (next_sequence_no db1 org pkg) m staged basis actor v)
        db2 = Inr db3
    \<and> insert_batch_lots env (new_detail_row env org p bid v) (sorted_list_of_set (set req)) db3 = Inr db'
    \<and> br_id resp = bid \<and> br_lots resp = sorted_list_of_set (set req)
    \<and> br_initial_stage resp = initial_stage (procedure_of (pk_method p))
    \<and> br_sequence_no resp = next_sequence_no db1 org pkg"
proof -
  obtain p where p: "find_package db org pkg = Inr p"
    using assms(1) by (auto simp: create_batch_def res_simps)
  obtain m where m: "approval_mode_of mode = Some m"
    using assms(1) p by (auto simp: create_batch_def split: option.splits)
  have st: "\<not> (staged \<and> py_strip basis = [])"
    using assms(1) p m by (auto simp: create_batch_def split: if_splits)
  obtain c where c: "package_context_of db org pkg (Some m) = Inr c"
    using assms(1) p m st by (auto simp: create_batch_def res_simps)
  have al: "allowed (assess_batch_start c req)"
    using assms(1) p m st c by (auto simp: create_batch_def res_simps Let_def)
  show ?thesis
    using assms(1) p m st c al sv gen
    by (auto simp: create_batch_def res_simps assess_batch_start_def Let_def)
qed

lemma create_batch_preserves_lots_ok_aux:
  assumes cb: "create_batch env db org pkg req mode staged basis actor = Inr (resp, db')"
    and ok: "lots_ok db"
  shows "lots_ok db'"
proof -
  obtain v db1 where sv: "next_sync_version db org = (v, db1)" by fastforce
  obtain bid db2 where gen: "generate_record_id env ''dxl-'' db1 = (bid, db2)" by fastforce
  note frame = next_sync_version_frame[OF sv] generate_record_id_frame[OF gen]
  obtain p m c db3 where c: "package_context_of db org pkg (Some m) = Inr c"
    and al: "allowed (assess_scope c req None)"
    and ib: "insert_batch (new_batch_row org pkg p bid (next_sequence_no db1 org pkg) m staged basis actor v)
        db2 = Inr db3"
    and il: "insert_batch_lots env (new_detail_row env org p bid v) (sorted_list_of_set (set req)) db3
        = Inr db'"
    using create_batch_Inr[OF cb sv gen] by auto
  let ?b = "new_batch_row org pkg p bid (next_sequence_no db1 org pkg) m staged basis actor v"
  note new = insert_batch_Inr(1)[OF ib]
  have ok3: "lots_ok db3"
    using insert_batch_ok[OF ib] ok frame lots_ok_cong[of db2 db] by simp
  have top: "b_sequence_no b' \<le> b_sequence_no ?b"
    if "b' \<in> set (batches db3)" "b_org b' = org" "b_package b' = pkg" for b'
  proof (cases "b' = ?b")
    case False
    then have "b' \<in> set (batches db1)" using that(1) frame by (simp add: new)
    then show ?thesis
      using next_sequence_no_greater[of b' db1 org pkg] that(2,3) by (simp add: new_batch_row_def)
  qed simp
  have never: "\<not> approved e" if "l \<in> set req" "e \<in> set (details db3)" "d_org e = org" "d_lot e = l" for l e
    using selection.permitted_details_closed[OF ok c al that(1), of e] that frame by (simp add: new)
  show ?thesis
    by (rule insert_batch_lots_ok[OF il ok3, of ?b])
      (use top never selection.permitted_lot_row[OF c al] frame in
        \<open>auto simp: new new_batch_row_def new_detail_row_def approved_def initial_stage_def\<close>)
qed



section \<open>Finalizing a batch keeps the invariant\<close>

text \<open>The updates of the loop over the outcomes, seen from one row.\<close>

definition approve_row :: "ident \<Rightarrow> ident \<Rightarrow> (ident \<times> lot_outcome) list \<Rightarrow> detail_row \<Rightarrow> detail_row" where
  "approve_row org batch results d =
     (if d_org d = org \<and> d_batch d = batch \<and> d_active d
      then (case map_of results (d_lot d) of None \<Rightarrow> d
            | Some x \<Rightarrow> d\<lparr>d_stage := RESULT_APPROVED, d_outcome := Some x, d_active := False,
                          d_revision := d_revision d + 1\<rparr>)
      else d)"

lemma fold_approve_detail:
  "fold (approve_detail org batch) results ds = map (approve_row org batch results) ds"
proof (induction results arbitrary: ds)
  case Nil
  show ?case by (simp add: approve_row_def map_idI)
next
  case (Cons lo results)
  have "fold (approve_detail org batch) (lo # results) ds
      = map (approve_row org batch results) (approve_detail org batch lo ds)"
    using Cons.IH by simp
  also have "\<dots> = map (approve_row org batch (lo # results)) ds"
    by (cases lo) (auto simp: approve_detail_def update_where_def approve_row_def)
  finally show ?case .
qed

lemma approve_row_frame [simp]:
  "d_org (approve_row org batch results d) = d_org d"
  "d_lot (approve_row org batch results d) = d_lot d"
  "d_batch (approve_row org batch results d) = d_batch d"
  "d_id (approve_row org batch results d) = d_id d"
  by (simp_all add: approve_row_def split: option.split)

lemma approve_row_live:
  "d_active (approve_row org batch results d) \<or> approved (approve_row org batch results d) \<Longrightarrow>
     d_active d \<or> approved d"
  by (auto simp: approve_row_def approved_def split: option.splits if_splits)

lemma approve_row_approved: "approved d \<Longrightarrow> \<not> d_active d \<Longrightarrow> approve_row org batch results d = d"
  by (simp add: approve_row_def)

lemma normalize_outcomes_Inr:
  "normalize_outcomes outcomes ls = Inr results \<Longrightarrow> map fst results = ls \<and>
     (\<forall>l x. map_of results l = Some x \<longrightarrow> Option.bind (map_of outcomes l) outcome_of_value = Some x)"
proof (induction ls arbitrary: results)
  case (Cons l ls)
  from Cons.prems obtain x rest where x: "Option.bind (map_of outcomes l) outcome_of_value = Some x"
    and rest: "normalize_outcomes outcomes ls = Inr rest" and results: "results = (l, x) # rest"
    by (auto simp: res_simps split: option.splits)
  show ?case using Cons.IH[OF rest] x by (auto simp: results)
qed simp

definition close_row :: "ident \<Rightarrow> ident \<Rightarrow> ident \<Rightarrow> int \<Rightarrow> batch_row \<Rightarrow> batch_row" where
  "close_row org pkg batch now b =
     (if b_org b = org \<and> b_package b = pkg \<and> b_id b = batch
      then b\<lparr>b_status := BS_CLOSED, b_closed_at := Some now\<rparr> else b)"

lemma close_row_frame [simp]:
  "b_org (close_row org pkg batch now b) = b_org b"
  "b_package (close_row org pkg batch now b) = b_package b"
  "b_id (close_row org pkg batch now b) = b_id b"
  "b_sequence_no (close_row org pkg batch now b) = b_sequence_no b"
  by (simp_all add: close_row_def)

text \<open>The state a successful finalization leaves, when the batch was still open.\<close>

definition finalized_db ::
    "'r lot_env \<Rightarrow> ident \<Rightarrow> ident \<Rightarrow> ident \<Rightarrow> (ident \<times> lot_outcome) list \<Rightarrow> 'r lot_db \<Rightarrow> 'r lot_db" where
  "finalized_db env org pkg batch results db =
     db\<lparr>details := map (approve_row org batch results) (details db),
        batches := map (close_row org pkg batch (clock_now env)) (batches db)\<rparr>"

lemma finalize_batch_Inr:
  assumes "finalize_batch env db org pkg batch outcomes actor = Inr (view, db')"
  shows "\<exists>b \<in> set (batches db). b_org b = org \<and> b_package b = pkg \<and> b_id b = batch \<and>
    ((b_status b = BS_CLOSED \<and> query_lifecycle db org pkg = Inr view \<and> db' = db) \<or>
     (b_status b = BS_ACTIVE \<and> active_batch_lots db org batch \<noteq> []
      \<and> fst ` set outcomes = set (active_batch_lots db org batch)
      \<and> (\<exists>results. normalize_outcomes outcomes (active_batch_lots db org batch) = Inr results
           \<and> db' = finalized_db env org pkg batch results db)
      \<and> (\<exists>v. query_lifecycle db' org pkg = Inr v \<and>
           view = v\<lparr>lv_finalized_batch := Some batch, lv_finalized_by := actor\<rparr>)))"
proof -
  obtain p where p: "find_package db org pkg = Inr p"
    using assms by (auto simp: finalize_batch_def res_simps)
  obtain b where find: "List.find (\<lambda>b. b_org b = org \<and> b_package b = pkg \<and> b_id b = batch) (batches db) = Some b"
    using assms p by (auto simp: finalize_batch_def split: option.splits)
  note b = find_Some_iff_mem[OF find]
  have close: "update_where (\<lambda>r. b_org r = org \<and> b_package r = pkg \<and> b_id r = batch)
      (\<lambda>r. r\<lparr>b_status := BS_CLOSED, b_closed_at := Some (clock_now env)\<rparr>) (batches db)
    = map (close_row org pkg batch (clock_now env)) (batches db)"
    by (simp add: update_where_def close_row_def)
  show ?thesis
  proof (cases "b_status b = BS_CLOSED")
    case True
    then show ?thesis
      using assms p find b by (intro bexI[of _ b]) (auto simp: finalize_batch_def res_simps)
  next
    case False
    then have st: "b_status b = BS_ACTIVE" "active_batch_lots db org batch \<noteq> []"
        "fst ` set outcomes = set (active_batch_lots db org batch)"
      using assms p find by (auto simp: finalize_batch_def Let_def split: if_splits)
    then show ?thesis
      using assms p find b
      by (intro bexI[of _ b])
        (auto simp: finalize_batch_def res_simps Let_def finalized_db_def fold_approve_detail close)
  qed
qed

lemma finalized_db_ok:
  assumes ok: "lots_ok db" and results: "fst ` set results = set (active_batch_lots db org batch)"
  shows "lots_ok (finalized_db env org pkg batch results db)"
proof -
  let ?db = "finalized_db env org pkg batch results db"
  let ?a = "approve_row org batch results" and ?c = "close_row org pkg batch (clock_now env)"
  have dets: "details ?db = map ?a (details db)" and bats: "batches ?db = map ?c (batches db)"
    and rows: "lot_rows ?db = lot_rows db"
    by (simp_all add: finalized_db_def)
  have batch_of': "batch_of ?db (?a d) b' \<longleftrightarrow> (\<exists>b. batch_of db d b \<and> b' = ?c b)" for d b'
    by (auto simp: batch_of_def bats)
  have keys: "keys_ok ?db"
    using ok by (simp add: lots_ok_def keys_ok_def dets bats rows comp_def)
  have seqs: "sequences_ok ?db"
    using ok unfolding lots_ok_def sequences_ok_def by (auto simp: bats)
  have scopes: "scopes_ok ?db"
    using ok unfolding lots_ok_def scopes_ok_def by (auto simp: dets)
  have owners: "owners_ok ?db"
    using ok unfolding lots_ok_def owners_ok_def dets rows by (fastforce simp: batch_of')
  have stages: "stages_ok ?db"
    using ok unfolding lots_ok_def stages_ok_def
    by (auto simp: dets approve_row_def approved_def split: option.splits)
  have newest: "newest_ok ?db"
    unfolding newest_ok_def dets
  proof (intro ballI allI impI)
    fix d' e' b b'
    assume "d' \<in> set (map ?a (details db))" and "e' \<in> set (map ?a (details db))"
      and same: "same_lot d' e'" and live: "d_active d' \<or> approved d'"
      and b: "batch_of ?db d' b" and b': "batch_of ?db e' b'"
    then obtain d e where d: "d \<in> set (details db)" "d' = ?a d" and e: "e \<in> set (details db)" "e' = ?a e"
      by auto
    obtain c c' where c: "batch_of db d c" "b = ?c c" and c': "batch_of db e c'" "b' = ?c c'"
      using b b' unfolding d e batch_of' by auto
    have "d_active d \<or> approved d" using live unfolding d by (rule approve_row_live)
    moreover have "same_lot d e" using same by (simp add: same_lot_def d e)
    ultimately have "b_sequence_no c' \<le> b_sequence_no c"
      using ok d(1) e(1) c(1) c'(1) unfolding lots_ok_def newest_ok_def by metis
    then show "b_sequence_no b' \<le> b_sequence_no b" by (simp add: c c')
  qed
  have open_: "open_ok ?db"
    unfolding open_ok_def dets
  proof (intro ballI allI impI)
    fix d' b assume "d' \<in> set (map ?a (details db))" and act: "d_active d'" and b: "batch_of ?db d' b"
    then obtain d where d: "d \<in> set (details db)" "d' = ?a d" by auto
    obtain c where c: "batch_of db d c" "b = ?c c" using b unfolding d batch_of' by auto
    have other: "\<not> (d_org d = org \<and> d_batch d = batch)"
    proof
      assume here: "d_org d = org \<and> d_batch d = batch"
      have "d_active d" using act d(2) by (auto simp: approve_row_def split: if_splits option.splits)
      then have "d_lot d \<in> fst ` set results" using d(1) here results by (auto simp: active_batch_lots_def)
      then obtain x where "map_of results (d_lot d) = Some x"
        by (metis domD dom_map_of_conv_image_fst)
      then show False using act here \<open>d_active d\<close> by (simp add: d approve_row_def)
    qed
    then have "b = c" using c by (auto simp: close_row_def batch_of_def)
    moreover have "d_active d" using act d(2) by (auto simp: approve_row_def split: if_splits option.splits)
    ultimately show "b_status b = BS_ACTIVE" using ok d(1) c(1) unfolding lots_ok_def open_ok_def by simp
  qed
  show ?thesis unfolding lots_ok_def using keys seqs scopes owners stages newest open_ by simp
qed

lemma normalized_keys:
  "normalize_outcomes outcomes ls = Inr results \<Longrightarrow> fst ` set results = set ls"
  using normalize_outcomes_Inr[of outcomes ls results] by (metis list.set_map)

lemma finalize_batch_preserves_lots_ok_aux:
  assumes "finalize_batch env db org pkg batch outcomes actor = Inr (view, db')" and "lots_ok db"
  shows "lots_ok db'"
  using finalize_batch_Inr[OF assms(1)] assms(2) finalized_db_ok[OF assms(2)] normalized_keys
  by metis



section \<open>Awarding keeps the invariant\<close>

lemma lots_ok_rows_cong:
  fixes db db' :: "'r lot_db"
  assumes "batches db = batches db'" and "details db = details db'"
    and rows: "map (\<lambda>l. (l_id l, l_org l, l_package l)) (lot_rows db)
      = map (\<lambda>l. (l_id l, l_org l, l_package l)) (lot_rows db')"
  shows "lots_ok db = lots_ok db'"
proof -
  let ?k = "\<lambda>l. (l_id l, l_org l, l_package l)"
  have ids: "map l_id (lot_rows db) = map l_id (lot_rows db')"
    using arg_cong[OF rows, of "map fst"] by (simp add: comp_def)
  have mem: "(\<exists>l \<in> set (lot_rows x). l_id l = i \<and> l_org l = g \<and> l_package l = k)
      \<longleftrightarrow> (i, g, k) \<in> set (map ?k (lot_rows x))" for x :: "'r lot_db" and i g k
    by force
  have same: "(\<exists>l \<in> set (lot_rows db). l_id l = i \<and> l_org l = g \<and> l_package l = k)
      \<longleftrightarrow> (\<exists>l \<in> set (lot_rows db'). l_id l = i \<and> l_org l = g \<and> l_package l = k)" for i g k
    by (simp only: mem rows)
  have batch: "batch_of db = batch_of db'" by (intro ext) (simp add: batch_of_def assms(1))
  have "owners_ok db = owners_ok db'"
    unfolding owners_ok_def by (simp only: same batch assms(2))
  moreover have "keys_ok db = keys_ok db'" by (simp add: keys_ok_def assms ids)
  moreover have "sequences_ok db = sequences_ok db'" by (simp add: sequences_ok_def assms)
  moreover have "scopes_ok db = scopes_ok db'" by (simp add: scopes_ok_def assms)
  moreover have "stages_ok db = stages_ok db'" by (simp add: stages_ok_def assms)
  moreover have "newest_ok db = newest_ok db'" by (simp add: newest_ok_def assms batch)
  moreover have "open_ok db = open_ok db'" by (simp add: open_ok_def assms batch)
  ultimately show ?thesis by (simp add: lots_ok_def)
qed

text \<open>The keys of the lot rows, which no award changes.\<close>

definition lot_keys :: "'r lot_db \<Rightarrow> (ident \<times> ident \<times> ident) list" where
  "lot_keys db = map (\<lambda>l. (l_id l, l_org l, l_package l)) (lot_rows db)"

definition same_claims :: "'r lot_db \<Rightarrow> 'r lot_db \<Rightarrow> bool" where
  "same_claims db db' \<longleftrightarrow> batches db' = batches db \<and> details db' = details db \<and> lot_keys db' = lot_keys db"

lemma same_claims_refl [simp]: "same_claims db db"
  by (simp add: same_claims_def)

lemma same_claims_trans [trans]: "same_claims a b \<Longrightarrow> same_claims b c \<Longrightarrow> same_claims a c"
  by (simp add: same_claims_def)

lemma same_claims_ok: "same_claims db db' \<Longrightarrow> lots_ok db \<Longrightarrow> lots_ok db'"
  using lots_ok_rows_cong[of db db'] by (simp add: same_claims_def lot_keys_def)

text \<open>Every write of an award leaves the claims on lots alone.\<close>

lemma next_sync_version_claims:
  "next_sync_version db org = (v, db') \<Longrightarrow> same_claims db db'"
  by (auto simp: next_sync_version_def same_claims_def lot_keys_def Let_def)

lemma generate_record_id_claims:
  "generate_record_id env p db = (i, db') \<Longrightarrow> same_claims db db'"
  by (auto simp: generate_record_id_def same_claims_def lot_keys_def)

lemma award_lot_claims:
  "award_lot org pkg v la db = Inr db' \<Longrightarrow> same_claims db db'"
  by (auto simp: award_lot_def same_claims_def lot_keys_def Let_def map_update_where split: if_splits)

lemma award_lots_claims:
  "fold_res (award_lot org pkg v) las db = Inr db' \<Longrightarrow> same_claims db db'"
  by (erule fold_res_invariant) (auto intro: same_claims_trans award_lot_claims)

lemma award_package_claims:
  "award_package org pkg st rq v db = Inr db' \<Longrightarrow> same_claims db db'"
  by (auto simp: award_package_def same_claims_def lot_keys_def Let_def split: if_splits)

lemma store_evaluation_claims:
  "store_evaluation env m db = Inr db' \<Longrightarrow> same_claims db db'"
  by (auto simp: store_evaluation_def same_claims_def lot_keys_def split: option.splits)

lemma insert_artifact_claims:
  "insert_artifact a db = Inr (i, db') \<Longrightarrow> same_claims db db'"
  by (auto simp: insert_artifact_def same_claims_def lot_keys_def split: option.splits if_splits)

lemma insert_artifact_lot_claims:
  "insert_artifact_lot env org a l db = Inr db' \<Longrightarrow> same_claims db db'"
  by (auto simp: insert_artifact_lot_def generate_record_id_def same_claims_def lot_keys_def Let_def
      split: if_splits)

lemma insert_artifact_lots_claims:
  "fold_res (insert_artifact_lot env org a) ls db = Inr db' \<Longrightarrow> same_claims db db'"
  by (erule fold_res_invariant) (auto intro: same_claims_trans insert_artifact_lot_claims)

text \<open>The stages of a successful award.\<close>

lemma write_award_Inr:
  assumes "write_award env db org p batch outcomes rq results actor = Inr (resp, db')"
  obtains view db1 v db2 db3 db4 db5 rid db6 a art db7 where
    "finalize_batch env db org (pk_id p) batch outcomes actor = Inr (view, db1)"
    and "next_sync_version db1 org = (v, db2)"
    and "fold_res (award_lot org (pk_id p) v) results db2 = Inr db3"
    and "award_package org (pk_id p) (package_award_status (lv_status view)) rq v db3 = Inr db4"
    and "store_evaluation env (rq_metadata rq) db4 = Inr db5"
    and "generate_record_id env ''hslcnt-'' db5 = (rid, db6)"
    and "insert_artifact a db6 = Inr (art, db7)"
    and "fold_res (insert_artifact_lot env org art) (sort (map fst results)) db7 = Inr db'"
    and "ar_view resp = view" and "ar_status resp = package_award_status (lv_status view)"
    and "ar_price resp = total_award_price db3 org (pk_id p)"
    and "ar_row_version resp = rq_expected_version rq + 1"
proof -
  obtain view db1 where 1: "finalize_batch env db org (pk_id p) batch outcomes actor = Inr (view, db1)"
    using assms by (auto simp: write_award_def Let_def res_simps)
  obtain v db2 where 2: "next_sync_version db1 org = (v, db2)" by fastforce
  obtain db3 where 3: "fold_res (award_lot org (pk_id p) v) results db2 = Inr db3"
    using assms 1 2 by (auto simp: write_award_def Let_def res_simps)
  obtain db4 where 4: "award_package org (pk_id p) (package_award_status (lv_status view)) rq v db3 = Inr db4"
    using assms 1 2 3 by (auto simp: write_award_def Let_def res_simps)
  obtain db5 where 5: "store_evaluation env (rq_metadata rq) db4 = Inr db5"
    using assms 1 2 3 4 by (auto simp: write_award_def Let_def res_simps)
  obtain rid db6 where 6: "generate_record_id env ''hslcnt-'' db5 = (rid, db6)" by fastforce
  let ?status = "package_award_status (lv_status view)"
  let ?snapshot = "json_dumps (award_snapshot (pk_id p) batch outcomes rq ?status)"
  let ?row = "\<lparr>a_org = org, a_owner_type = pk_owner_type p, a_id = rid, a_batch = batch,
           a_type = result_decision, a_status = ''FINAL'', a_number = rq_number rq,
           a_date = rq_date rq, a_revision = 1, a_snapshot = ?snapshot,
           a_scope_hash = sha256_hex env (py_join ''|'' (sort (map fst results))),
           a_digest = sha256_hex env ?snapshot, a_finalized_by = actor, a_sync_version = v\<rparr>"
  have w: "write_award env db org p batch outcomes rq results actor =
      res_bind (insert_artifact ?row db6) (\<lambda>(artifact, db7).
      res_bind (fold_res (insert_artifact_lot env org artifact) (sort (map fst results)) db7) (\<lambda>db8.
      Inr (\<lparr>ar_view = view, ar_row_version = rq_expected_version rq + 1,
            ar_sync_version = v, ar_status = ?status,
            ar_winner = (case package_winner db3 org (pk_id p) of None \<Rightarrow> [] | Some w \<Rightarrow> w),
            ar_price = total_award_price db3 org (pk_id p),
            ar_number = rq_number rq, ar_date = rq_date rq\<rparr>, db8)))"
    unfolding write_award_def Let_def by (simp add: 1 2 3 4 5 6 res_simps)
  obtain art db7 where 7: "insert_artifact ?row db6 = Inr (art, db7)"
    using assms unfolding w by (cases "insert_artifact ?row db6") (auto simp: res_simps)
  have 8: "fold_res (insert_artifact_lot env org art) (sort (map fst results)) db7 = Inr db'
      \<and> ar_view resp = view \<and> ar_status resp = ?status
      \<and> ar_price resp = total_award_price db3 org (pk_id p)
      \<and> ar_row_version resp = rq_expected_version rq + 1"
    using assms unfolding w 7
    by (cases "fold_res (insert_artifact_lot env org art) (sort (map fst results)) db7")
      (auto simp: res_simps)
  show thesis by (rule that[OF 1 2 3 4 5 6 7]) (use 8 in simp_all)
qed

lemma write_award_claims:
  assumes "write_award env db org p batch outcomes rq results actor = Inr (resp, db')"
  shows "\<exists>view db1. finalize_batch env db org (pk_id p) batch outcomes actor = Inr (view, db1)
    \<and> same_claims db1 db'"
proof -
  obtain view db1 v db2 db3 db4 db5 rid db6 a art db7 where
    1: "finalize_batch env db org (pk_id p) batch outcomes actor = Inr (view, db1)"
    and 2: "next_sync_version db1 org = (v, db2)"
    and 3: "fold_res (award_lot org (pk_id p) v) results db2 = Inr db3"
    and 4: "award_package org (pk_id p) (package_award_status (lv_status view)) rq v db3 = Inr db4"
    and 5: "store_evaluation env (rq_metadata rq) db4 = Inr db5"
    and 6: "generate_record_id env ''hslcnt-'' db5 = (rid, db6)"
    and 7: "insert_artifact a db6 = Inr (art, db7)"
    and 8: "fold_res (insert_artifact_lot env org art) (sort (map fst results)) db7 = Inr db'"
    using assms by (rule write_award_Inr)
  note next_sync_version_claims[OF 2]
  also note award_lots_claims[OF 3]
  also note award_package_claims[OF 4]
  also note store_evaluation_claims[OF 5]
  also note generate_record_id_claims[OF 6]
  also note insert_artifact_claims[OF 7]
  also note insert_artifact_lots_claims[OF 8]
  finally show ?thesis using 1 by blast
qed

lemma finalize_batch_award_Inr:
  assumes "finalize_batch_award env db org pkg batch outcomes award actor = Inr (resp, db')"
  shows "\<exists>rq p results. check_award_request award = Inr rq \<and> find_package db org pkg = Inr p
    \<and> (pk_row_version p = None \<and> rq_expected_version rq = 1 \<or> pk_row_version p = Some 0 \<and> rq_expected_version rq = 1
       \<or> pk_row_version p = Some (rq_expected_version rq))
    \<and> parse_lot_results (rq_lot_results rq) = Inr results
    \<and> fst ` set results = fst ` set outcomes
    \<and> check_outcome_winners results outcomes = Inr ()
    \<and> check_winners_exist db org results = Inr ()
    \<and> write_award env db org p batch outcomes rq results actor = Inr (resp, db')"
proof -
  obtain rq where 1: "check_award_request award = Inr rq"
    using assms by (auto simp: finalize_batch_award_def res_simps)
  obtain p where 2: "find_package db org pkg = Inr p"
    using assms 1 by (auto simp: finalize_batch_award_def res_simps)
  have 3: "pk_row_version p = None \<and> rq_expected_version rq = 1 \<or> pk_row_version p = Some 0 \<and> rq_expected_version rq = 1
       \<or> pk_row_version p = Some (rq_expected_version rq)"
    using assms 1 2
    by (auto simp: finalize_batch_award_def Let_def split: if_splits option.splits)
  show ?thesis
    using assms 1 2 3
    by (auto simp: finalize_batch_award_def res_simps Let_def split: if_splits)
qed

lemma find_package_Inr:
  "find_package db org pkg = Inr p \<Longrightarrow>
     p \<in> set (packages db) \<and> pk_org p = org \<and> pk_id p = pkg \<and> \<not> pk_archived p"
  by (auto simp: find_package_def split: option.splits if_splits dest: find_Some_iff_mem)

lemma award_claims:
  assumes "finalize_batch_award env db org pkg batch outcomes award actor = Inr (resp, db')"
  shows "\<exists>view db1. finalize_batch env db org pkg batch outcomes actor = Inr (view, db1)
    \<and> same_claims db1 db'"
proof -
  obtain rq p results where p: "find_package db org pkg = Inr p"
    and w: "write_award env db org p batch outcomes rq results actor = Inr (resp, db')"
    using finalize_batch_award_Inr[OF assms] by auto
  then have "pk_id p = pkg" by (auto dest: find_package_Inr)
  with write_award_claims[OF w] show ?thesis by simp
qed

lemma award_preserves_lots_ok:
  assumes "finalize_batch_award env db org pkg batch outcomes award actor = Inr (resp, db')"
    and "lots_ok db"
  shows "lots_ok db'"
  using award_claims[OF assms(1)] assms(2)
  by (auto intro: same_claims_ok finalize_batch_preserves_lots_ok_aux)

section \<open>Runs of commands\<close>

text \<open>A step is one committed command; a command that raises is rolled back and is no step.\<close>

inductive lot_step :: "'r lot_env \<Rightarrow> 'r lot_db \<Rightarrow> 'r lot_db \<Rightarrow> bool" for env where
  create: "create_batch env db org pkg req mode staged basis actor = Inr (resp, db') \<Longrightarrow>
             lot_step env db db'"
| finalize: "finalize_batch env db org pkg batch outcomes actor = Inr (view, db') \<Longrightarrow>
             lot_step env db db'"
| award: "finalize_batch_award env db org pkg batch outcomes award actor = Inr (answer, db') \<Longrightarrow>
             lot_step env db db'"

inductive lot_run :: "'r lot_env \<Rightarrow> 'r lot_db \<Rightarrow> 'r lot_db \<Rightarrow> bool" for env where
  start: "lot_run env db db"
| step: "lot_run env db db' \<Longrightarrow> lot_step env db' db'' \<Longrightarrow> lot_run env db db''"

inductive_cases lot_stepE: "lot_step env db db'"

lemma lot_step_ok: "lot_step env db db' \<Longrightarrow> lots_ok db \<Longrightarrow> lots_ok db'"
  by (elim lot_stepE)
    (auto intro: create_batch_preserves_lots_ok_aux finalize_batch_preserves_lots_ok_aux
      award_preserves_lots_ok)

interpretation lot_commands: stepping "lot_step env" lots_ok for env
  by unfold_locales (rule lot_step_ok)


lemma lot_run_steps: "lot_run env db db' \<Longrightarrow> (lot_step env)\<^sup>*\<^sup>* db db'"
  by (induction rule: lot_run.induct) auto

lemma lot_run_ok: "lot_run env db db' \<Longrightarrow> lots_ok db \<Longrightarrow> lots_ok db'"
  using lot_commands.steps_ok lot_run_steps by blast

text \<open>A lot has at most one detail that is open or approved.\<close>

lemma live_detail_unique:
  assumes ok: "lots_ok db" and d: "d \<in> set (details db)" "d_active d \<or> approved d"
    and e: "e \<in> set (details db)" "d_active e \<or> approved e" and same: "same_lot d e"
  shows "d = e"
proof -
  have lot: "d_org e = d_org d" "d_lot e = d_lot d" using same by (auto simp: same_lot_def)
  obtain b r where b: "batch_of db d b" and r: "r \<in> set (lot_rows db)" "l_id r = d_lot d"
      "l_org r = d_org d" "l_package r = b_package b"
    using ok d(1) unfolding lots_ok_def owners_ok_def by metis
  obtain c where c: "batch_of db e c" "b_package c = b_package b"
    using detail_package[OF ok e(1) lot r(1-3)] r(4) by auto
  have "b_sequence_no c \<le> b_sequence_no b" "b_sequence_no b \<le> b_sequence_no c"
    using ok d e lot b c(1) unfolding lots_ok_def newest_ok_def same_lot_def by metis+
  then have "b = c"
    using ok b c lot unfolding lots_ok_def sequences_ok_def batch_of_def by (metis order_antisym)
  then show ?thesis
    using ok d(1) e(1) lot b c(1) unfolding lots_ok_def scopes_ok_def batch_of_def by metis
qed

lemma create_batch_details:
  assumes cb: "create_batch env db org pkg req mode staged basis actor = Inr (resp, db')"
  shows "\<exists>new p v. details db' = details db @ new \<and>
    list_all2 (\<lambda>d l. \<exists>did. d = new_detail_row env org p (br_id resp) v did l) new (br_lots resp)"
proof -
  obtain v db1 where sv: "next_sync_version db org = (v, db1)" by fastforce
  obtain bid db2 where gen: "generate_record_id env ''dxl-'' db1 = (bid, db2)" by fastforce
  obtain p m db3 where
    "insert_batch (new_batch_row org pkg p bid (next_sequence_no db1 org pkg) m staged basis actor v)
        db2 = Inr db3"
    and "insert_batch_lots env (new_detail_row env org p bid v) (sorted_list_of_set (set req)) db3 = Inr db'"
    and "br_id resp = bid" "br_lots resp = sorted_list_of_set (set req)"
    using create_batch_Inr[OF cb sv gen] by auto
  then show ?thesis
    using insert_batch_lots_frame[of env _ _ db3 db'] insert_batch_Inr(1)[of _ db2 db3]
      next_sync_version_frame[OF sv] generate_record_id_frame[OF gen]
    by fastforce
qed

lemma finalize_approved_kept:
  assumes fin: "finalize_batch env db org pkg batch outcomes actor = Inr (view, db')"
    and ok: "lots_ok db" and d: "d \<in> set (details db)" "approved d"
  shows "d \<in> set (details db')"
  using finalize_batch_Inr[OF fin]
proof (elim bexE conjE disjE exE)
  fix b results v assume "db' = finalized_db env org pkg batch results db"
  moreover have "\<not> d_active d" using ok d unfolding lots_ok_def stages_ok_def by simp
  then have "approve_row org batch results d = d" using d(2) by (rule approve_row_approved[rotated])
  ultimately show ?thesis using d(1) by (force simp: finalized_db_def)
qed (use d in simp)

lemma approved_kept:
  assumes step: "lot_step env db db'" and ok: "lots_ok db" and d: "d \<in> set (details db)" "approved d"
  shows "d \<in> set (details db')"
  using step
proof (cases rule: lot_step.cases)
  case (create org pkg req mode staged basis actor resp)
  then show ?thesis using create_batch_details[OF create] d(1) by auto
next
  case (finalize org pkg batch outcomes actor view)
  then show ?thesis using ok d by (rule finalize_approved_kept)
next
  case (award org pkg batch outcomes award actor answer)
  then obtain view db1 where "finalize_batch env db org pkg batch outcomes actor = Inr (view, db1)"
    and "same_claims db1 db'"
    using award_claims by blast
  then show ?thesis using finalize_approved_kept[OF _ ok d] by (auto simp: same_claims_def)
qed

lemma approved_kept_run:
  "lot_run env db db' \<Longrightarrow> lots_ok db \<Longrightarrow> d \<in> set (details db) \<Longrightarrow> approved d \<Longrightarrow> d \<in> set (details db')"
  by (induction rule: lot_run.induct) (auto intro: approved_kept lot_run_ok)


text \<open>
  Two batches never process the same lot at the same time: the open details of a lot are
  one detail, and its batch is still active.
\<close>

lemma one_open_batch_per_lot:
  assumes run: "lot_run env db db'" and ok: "lots_ok db"
    and d: "d \<in> set (details db')" "d_active d" and e: "e \<in> set (details db')" "d_active e"
    and same: "same_lot d e" and b: "batch_of db' d b"
  shows "d = e \<and> b_status b = BS_ACTIVE"
proof -
  have ok': "lots_ok db'" using run ok by (rule lot_run_ok)
  have "d = e" using live_detail_unique[OF ok' d(1) _ e(1) _ same] d(2) e(2) by simp
  moreover have "b_status b = BS_ACTIVE" using ok' d b unfolding lots_ok_def open_ok_def by metis
  ultimately show ?thesis by simp
qed

text \<open>
  A batch claims no lot whose result is already approved: the command raises and the
  transaction is rolled back.
\<close>

lemma approved_lot_not_reclaimed:
  assumes "lots_ok db" and "d \<in> set (details db)" and "approved d"
    and "d_org d = org" and "d_lot d \<in> set req"
  shows "\<exists>e. create_batch env db org pkg req mode staged basis actor = Inl e"
proof (rule ccontr)
  assume "\<not> ?thesis"
  then obtain resp db' where cb: "create_batch env db org pkg req mode staged basis actor = Inr (resp, db')"
    by (metis sum.exhaust surj_pair)
  obtain v db1 where sv: "next_sync_version db org = (v, db1)" by fastforce
  obtain bid db2 where gen: "generate_record_id env ''dxl-'' db1 = (bid, db2)" by fastforce
  obtain m c where "package_context_of db org pkg (Some m) = Inr c" "allowed (assess_scope c req None)"
    using create_batch_Inr[OF cb sv gen] by auto
  then show False
    using selection.permitted_details_closed[OF assms(1) _ _ assms(5,2,4) refl] assms(3) by blast
qed


section \<open>Effect of a finalization\<close>

text \<open>
  Publishing the result of an open batch approves exactly its open lots, each with the
  outcome the caller gave for it, closes the batch and touches no other detail and no other
  batch.
\<close>

lemma finalize_batch_effect:
  assumes fin: "finalize_batch env db org pkg batch outcomes actor = Inr (view, db')"
    and b: "b \<in> set (batches db)" "b_org b = org" "b_package b = pkg" "b_id b = batch"
    and st: "b_status b = BS_ACTIVE" and ok: "lots_ok db"
  shows "\<exists>results. map fst results = active_batch_lots db org batch
    \<and> (\<forall>l x. map_of results l = Some x \<longrightarrow>
          Option.bind (map_of outcomes l) outcome_of_value = Some x)
    \<and> details db' = map (approve_row org batch results) (details db)
    \<and> batches db' = map (close_row org pkg batch (clock_now env)) (batches db)
    \<and> active_batch_lots db' org batch = []"
proof -
  obtain b0 where b0: "b0 \<in> set (batches db)" "b_id b0 = batch"
    and cases: "(b_status b0 = BS_CLOSED) \<or> (\<exists>results. normalize_outcomes outcomes
        (active_batch_lots db org batch) = Inr results \<and> db' = finalized_db env org pkg batch results db)"
    using finalize_batch_Inr[OF fin] by auto
  have "b0 = b" using ok b0 b unfolding lots_ok_def keys_ok_def by (auto simp: distinct_map inj_on_def)
  then obtain results where res: "normalize_outcomes outcomes (active_batch_lots db org batch) = Inr results"
    and db': "db' = finalized_db env org pkg batch results db"
    using cases st by auto
  note results = normalize_outcomes_Inr[OF res]
  have none_open: "active_batch_lots db' org batch = []"
  proof -
    have "\<not> d_active (approve_row org batch results d)"
      if "d \<in> set (details db)" "d_org d = org" "d_batch d = batch" for d
    proof (cases "d_active d")
      case True
      then have "d_lot d \<in> fst ` set results"
        using that normalized_keys[OF res] by (auto simp: active_batch_lots_def)
      then obtain x where "map_of results (d_lot d) = Some x"
        by (metis domD dom_map_of_conv_image_fst)
      then show ?thesis using that True by (simp add: approve_row_def)
    qed (simp add: approve_row_def)
    then show ?thesis by (auto simp: active_batch_lots_def db' finalized_db_def filter_empty_conv)
  qed
  show ?thesis using results none_open by (auto simp: db' finalized_db_def)
qed

text \<open>
  Repeating a finalization is a read: once the batch is closed the command returns the
  current lifecycle and changes nothing, whatever outcomes the repeated call carries.
\<close>

lemma finalize_batch_idempotent:
  assumes "finalize_batch env db org pkg batch outcomes actor = Inr (view, db')"
    and "lots_ok db"
  shows "\<exists>v. query_lifecycle db' org pkg = Inr v \<and>
    finalize_batch env2 db' org pkg batch outcomes2 actor2 = Inr (v, db')"
proof -
  let ?is = "\<lambda>b. b_org b = org \<and> b_package b = pkg \<and> b_id b = batch"
  have ok': "lots_ok db'" using assms by (rule finalize_batch_preserves_lots_ok_aux)
  obtain v where v: "query_lifecycle db' org pkg = Inr v"
    using finalize_batch_Inr[OF assms(1)] by auto
  obtain b where b: "b \<in> set (batches db')" "?is b" "b_status b = BS_CLOSED"
  proof -
    obtain b0 where b0: "b0 \<in> set (batches db)" "?is b0" and
      cases: "(b_status b0 = BS_CLOSED \<and> db' = db) \<or> (\<exists>results. db' = finalized_db env org pkg batch results db)"
      using finalize_batch_Inr[OF assms(1)] by auto
    let ?b = "close_row org pkg batch (clock_now env) b0"
    have "?b \<in> set (batches db') \<and> ?is ?b \<and> b_status ?b = BS_CLOSED" if "db' = finalized_db env org pkg batch results db" for results
      using b0 that by (simp add: finalized_db_def) (simp add: close_row_def)
    then show thesis using cases b0 that by blast
  qed
  have "List.find ?is (batches db') = Some b"
  proof -
    obtain b' where find: "List.find ?is (batches db') = Some b'" using find_exists[OF b(1), of ?is] b(2) by auto
    moreover have "b' = b"
      using find_Some_iff_mem[OF find] b ok' unfolding lots_ok_def keys_ok_def
      by (auto simp: distinct_map inj_on_def)
    ultimately show ?thesis by simp
  qed
  moreover obtain p where "find_package db' org pkg = Inr p"
    using v by (auto simp: query_lifecycle_def package_context_of_def res_simps)
  ultimately show ?thesis using v b(3) by (auto simp: finalize_batch_def)
qed

end
