(* ===== verification/Award_Effect.thy ===== *)
theory Award_Effect
  imports Lot_Invariants
begin

text \<open>
  What a successful \<open>finalize_batch_award\<close> leaves in the tables: the award of every lot, the
  aggregated award of the package, and the version that makes a second award from the same
  state fail.
\<close>

section \<open>Frames of the writes\<close>

lemma finalize_batch_tables:
  "finalize_batch env db org pkg batch outcomes actor = Inr (view, db') \<Longrightarrow>
     packages db' = packages db \<and> lot_rows db' = lot_rows db"
  using finalize_batch_Inr[of env db org pkg batch outcomes actor view db']
  by (auto simp: finalized_db_def)

lemma next_sync_version_tables:
  "next_sync_version db org = (v, db') \<Longrightarrow> packages db' = packages db \<and> lot_rows db' = lot_rows db"
  by (auto simp: next_sync_version_def Let_def)

lemma award_lot_packages: "award_lot org pkg v la db = Inr db' \<Longrightarrow> packages db' = packages db"
  by (auto simp: award_lot_def input_error_def Let_def split: if_splits)

lemma award_lots_packages:
  "fold_res (award_lot org pkg v) las db = Inr db' \<Longrightarrow> packages db' = packages db"
  by (erule fold_res_invariant) (auto dest: award_lot_packages)

lemma insert_artifact_tables:
  "insert_artifact a db = Inr (i, db') \<Longrightarrow> packages db' = packages db \<and> lot_rows db' = lot_rows db"
  by (auto simp: insert_artifact_def input_error_def split: option.splits if_splits)

lemma insert_artifact_lots_tables:
  "fold_res (insert_artifact_lot env org a) ls db = Inr db' \<Longrightarrow>
     packages db' = packages db \<and> lot_rows db' = lot_rows db"
  by (erule fold_res_invariant)
    (auto simp: insert_artifact_lot_def generate_record_id_def Let_def split: if_splits)

lemma store_evaluation_tables:
  "store_evaluation env m db = Inr db' \<Longrightarrow> packages db' = packages db \<and> lot_rows db' = lot_rows db"
  by (auto simp: store_evaluation_def split: option.splits)

lemma generate_record_id_tables:
  "generate_record_id env p db = (i, db') \<Longrightarrow> packages db' = packages db \<and> lot_rows db' = lot_rows db"
  by (auto simp: generate_record_id_def)

section \<open>The award of the lots\<close>

text \<open>The row of the table that carries the award \<open>a\<close> of lot \<open>i\<close>.\<close>

definition carries_award :: "ident \<Rightarrow> ident \<Rightarrow> 'r lot_db \<Rightarrow> ident \<times> lot_award \<Rightarrow> bool" where
  "carries_award org pkg db la \<longleftrightarrow> (\<exists>l \<in> set (lot_rows db). l_org l = org \<and> l_package l = pkg
     \<and> l_id l = fst la \<and> l_winner l = aw_winner (snd la) \<and> l_award_price l = Some (aw_price (snd la))
     \<and> l_package_duration l = aw_package_duration (snd la)
     \<and> l_contract_duration l = aw_contract_duration (snd la))"

lemma award_lot_carries:
  assumes "award_lot org pkg v la db = Inr db'"
  shows "carries_award org pkg db' la"
proof -
  let ?here = "\<lambda>l. l_org l = org \<and> l_package l = pkg \<and> l_id l = fst la"
  let ?f = "\<lambda>l. l\<lparr>l_winner := aw_winner (snd la), l_award_price := Some (aw_price (snd la)),
     l_package_duration := aw_package_duration (snd la),
     l_contract_duration := aw_contract_duration (snd la),
     l_sync_version := v, l_row_version := l_row_version l + 1\<rparr>"
  have n: "count_where ?here (lot_rows db) \<noteq> 0"
    and db': "db' = db\<lparr>lot_rows := update_where ?here ?f (lot_rows db)\<rparr>"
    using assms by (auto simp: award_lot_def input_error_def Let_def split: if_splits)
  obtain l where l: "l \<in> set (lot_rows db)" "?here l" using n by (auto simp: count_where_eq_0)
  then have "?f l \<in> set (lot_rows db')" by (auto simp: db' table_simps intro: rev_image_eqI)
  then show ?thesis unfolding carries_award_def by (rule rev_bexI) (use l in simp)
qed

lemma award_lot_keeps:
  assumes "award_lot org pkg v la db = Inr db'" and "fst lb \<noteq> fst la" and "carries_award org pkg db lb"
  shows "carries_award org pkg db' lb"
proof -
  obtain l where l: "l \<in> set (lot_rows db)" "l_org l = org \<and> l_package l = pkg
     \<and> l_id l = fst lb \<and> l_winner l = aw_winner (snd lb) \<and> l_award_price l = Some (aw_price (snd lb))
     \<and> l_package_duration l = aw_package_duration (snd lb)
     \<and> l_contract_duration l = aw_contract_duration (snd lb)"
    using assms(3) unfolding carries_award_def by blast
  then show ?thesis
    using assms(1,2)
    by (auto simp: carries_award_def award_lot_def input_error_def Let_def table_simps
        split: if_splits intro!: rev_bexI[OF l(1)])
qed

lemma award_lots_keep:
  "fold_res (award_lot org pkg v) las db = Inr db' \<Longrightarrow> fst lb \<notin> fst ` set las
     \<Longrightarrow> carries_award org pkg db lb \<Longrightarrow> carries_award org pkg db' lb"
  by (induction las arbitrary: db) (auto simp: res_simps intro: award_lot_keeps)

lemma award_lots_carry:
  "fold_res (award_lot org pkg v) las db = Inr db' \<Longrightarrow> distinct (map fst las)
     \<Longrightarrow> la \<in> set las \<Longrightarrow> carries_award org pkg db' la"
proof (induction las arbitrary: db)
  case (Cons x las)
  obtain db1 where db1: "award_lot org pkg v x db = Inr db1"
    "fold_res (award_lot org pkg v) las db1 = Inr db'"
    using Cons.prems(1) by (auto simp: res_simps)
  show ?case
  proof (cases "la = x")
    case True
    then show ?thesis
      using award_lots_keep[OF db1(2) _ award_lot_carries[OF db1(1)]] Cons.prems(2) by simp
  next
    case False
    then show ?thesis using Cons.IH[OF db1(2)] Cons.prems(2,3) by simp
  qed
qed simp

text \<open>The parsed lot results have one entry for each lot.\<close>

lemma parse_lot_result_distinct:
  "parse_lot_result raw acc = Inr acc' \<Longrightarrow> distinct (map fst acc) \<Longrightarrow> distinct (map fst acc')"
  by (auto simp: parse_lot_result_def input_error_def Let_def map_of_eq_None_iff
      split: if_splits pval.splits)

lemma parse_lot_results_distinct:
  "parse_lot_results raws = Inr results \<Longrightarrow> distinct (map fst results)"
  unfolding parse_lot_results_def
  by (rule fold_res_invariant[where P = "\<lambda>r. distinct (map fst r)"])
    (auto intro: parse_lot_result_distinct)

lemma parse_lot_result_prices:
  "parse_lot_result raw acc = Inr acc' \<Longrightarrow> \<forall>(l, a) \<in> set acc. 0 \<le> aw_price a
     \<Longrightarrow> \<forall>(l, a) \<in> set acc'. 0 \<le> aw_price a"
  by (auto simp: parse_lot_result_def input_error_def Let_def split: if_splits pval.splits)

lemma parse_lot_results_prices:
  "parse_lot_results raws = Inr results \<Longrightarrow> \<forall>(l, a) \<in> set results. 0 \<le> aw_price a"
  unfolding parse_lot_results_def
  by (rule fold_res_invariant[where P = "\<lambda>r. \<forall>(l, a) \<in> set r. 0 \<le> aw_price a"])
    (auto dest: parse_lot_result_prices)

lemma check_outcome_winners_Inr:
  "check_outcome_winners results outcomes = Inr () \<Longrightarrow> (l, v) \<in> set outcomes \<Longrightarrow>
     \<exists>x. outcome_of_value v = Some x \<and>
       (x = AWARDED \<longleftrightarrow> Option.bind (map_of results l) aw_winner \<noteq> None)"
  by (induction results outcomes rule: check_outcome_winners.induct)
    (auto simp: input_error_def Let_def split: option.splits if_splits)

section \<open>The award of the package\<close>

lemma award_package_Inr:
  assumes "award_package org pkg st rq v db = Inr db'"
  shows "lot_rows db' = lot_rows db \<and> (\<exists>p \<in> set (packages db). pk_org p = org \<and> pk_id p = pkg
     \<and> pk_row_version p = Some (rq_expected_version rq))
   \<and> (\<exists>p \<in> set (packages db'). pk_org p = org \<and> pk_id p = pkg
     \<and> pk_row_version p = Some (rq_expected_version rq + 1) \<and> pk_status p = st
     \<and> pk_award_price p = total_award_price db' org pkg
     \<and> pk_winner p = package_winner db' org pkg)
   \<and> map (\<lambda>p. (pk_org p, pk_id p)) (packages db') = map (\<lambda>p. (pk_org p, pk_id p)) (packages db)"
proof -
  let ?here = "\<lambda>p. pk_org p = org \<and> pk_id p = pkg \<and> pk_row_version p = Some (rq_expected_version rq)"
  let ?f = "\<lambda>p. p\<lparr>pk_status := st, pk_winner := package_winner db org pkg,
     pk_award_price := total_award_price db org pkg,
     pk_decision_number := rq_number rq, pk_decision_date := rq_date rq, pk_sync_version := v,
     pk_row_version := Some (rq_expected_version rq + 1)\<rparr>"
  have n: "count_where ?here (packages db) \<noteq> 0"
    and db': "db' = db\<lparr>packages := update_where ?here ?f (packages db)\<rparr>"
    using assms by (auto simp: award_package_def input_error_def Let_def split: if_splits)
  have rows: "lot_rows db' = lot_rows db" by (simp add: db')
  have total: "total_award_price db' org pkg = total_award_price db org pkg"
    "package_winner db' org pkg = package_winner db org pkg"
    by (simp_all add: total_award_price_def package_winner_def package_winners_def awarded_lots_def rows)
  obtain p where p: "p \<in> set (packages db)" "?here p" using n by (auto simp: count_where_eq_0)
  then have "?f p \<in> set (packages db')" by (auto simp: db' table_simps intro: rev_image_eqI)
  moreover have "map (\<lambda>p. (pk_org p, pk_id p)) (packages db') = map (\<lambda>p. (pk_org p, pk_id p)) (packages db)"
    by (simp add: db' map_update_where)
  ultimately show ?thesis using p rows total by (intro conjI) (auto intro: bexI[of _ "?f p"])
qed

section \<open>The effect of the command\<close>

lemma award_effect_aux:
  assumes "finalize_batch_award env db org pkg batch outcomes award actor = Inr (resp, db')"
  shows "\<exists>rq results. check_award_request award = Inr rq
    \<and> parse_lot_results (rq_lot_results rq) = Inr results
    \<and> (\<forall>(l, v) \<in> set outcomes. \<exists>x. outcome_of_value v = Some x
          \<and> (x = AWARDED \<longleftrightarrow> Option.bind (map_of results l) aw_winner \<noteq> None))
    \<and> (\<forall>la \<in> set results. carries_award org pkg db' la \<and> 0 \<le> aw_price (snd la))
    \<and> (\<exists>p \<in> set (packages db). pk_org p = org \<and> pk_id p = pkg
          \<and> pk_row_version p = Some (rq_expected_version rq))
    \<and> (\<exists>p \<in> set (packages db'). pk_org p = org \<and> pk_id p = pkg
          \<and> pk_row_version p = Some (rq_expected_version rq + 1)
          \<and> pk_status p = package_award_status (lv_status (ar_view resp))
          \<and> pk_award_price p = total_award_price db' org pkg
          \<and> pk_winner p = package_winner db' org pkg)
    \<and> map (\<lambda>p. (pk_org p, pk_id p)) (packages db') = map (\<lambda>p. (pk_org p, pk_id p)) (packages db)"
proof -
  obtain rq p0 results where 0: "check_award_request award = Inr rq" "find_package db org pkg = Inr p0"
    and ver: "pk_row_version p0 = None \<and> rq_expected_version rq = 1
       \<or> pk_row_version p0 = Some 0 \<and> rq_expected_version rq = 1
       \<or> pk_row_version p0 = Some (rq_expected_version rq)"
    and parse: "parse_lot_results (rq_lot_results rq) = Inr results"
    and check: "check_outcome_winners results outcomes = Inr ()"
    and w: "write_award env db org p0 batch outcomes rq results actor = Inr (resp, db')"
    using finalize_batch_award_Inr[OF assms] by blast
  note p0 = find_package_Inr[OF 0(2)]
  have pkg: "pk_id p0 = pkg" using p0 by simp
  obtain view db1 v db2 db3 db4 db5 rid db6 a art db7 where
    1: "finalize_batch env db org pkg batch outcomes actor = Inr (view, db1)"
    and 2: "next_sync_version db1 org = (v, db2)"
    and 3: "fold_res (award_lot org pkg v) results db2 = Inr db3"
    and 4: "award_package org pkg (package_award_status (lv_status view)) rq v db3 = Inr db4"
    and 5: "store_evaluation env (rq_metadata rq) db4 = Inr db5"
    and 6: "generate_record_id env ''hslcnt-'' db5 = (rid, db6)"
    and 7: "insert_artifact a db6 = Inr (art, db7)"
    and 8: "fold_res (insert_artifact_lot env org art) (sort (map fst results)) db7 = Inr db'"
    and view: "ar_view resp = view"
    using write_award_Inr[OF w] pkg by metis
  have before: "packages db3 = packages db"
    using finalize_batch_tables[OF 1] next_sync_version_tables[OF 2] award_lots_packages[OF 3] by simp
  have after: "packages db' = packages db4" "lot_rows db' = lot_rows db4"
    using store_evaluation_tables[OF 5] generate_record_id_tables[OF 6] insert_artifact_tables[OF 7]
      insert_artifact_lots_tables[OF 8] by simp_all
  note pack = award_package_Inr[OF 4, unfolded before]
  have rows: "lot_rows db' = lot_rows db3" using award_package_Inr[OF 4] after by simp
  have carry: "carries_award org pkg db' la" if "la \<in> set results" for la
    using award_lots_carry[OF 3 parse_lot_results_distinct[OF parse] that]
    by (simp add: carries_award_def rows)
  have total: "total_award_price db4 org pkg = total_award_price db' org pkg"
    "package_winner db4 org pkg = package_winner db' org pkg"
    by (simp_all add: total_award_price_def package_winner_def package_winners_def awarded_lots_def after)
  have outs: "\<forall>(l, v) \<in> set outcomes. \<exists>x. outcome_of_value v = Some x
      \<and> (x = AWARDED \<longleftrightarrow> Option.bind (map_of results l) aw_winner \<noteq> None)"
    using check_outcome_winners_Inr[OF check] by blast
  have lots: "\<forall>la \<in> set results. carries_award org pkg db' la \<and> 0 \<le> aw_price (snd la)"
    using carry parse_lot_results_prices[OF parse] by auto
  show ?thesis
    using 0(1) parse outs lots pack
    by (intro exI[of _ rq] exI[of _ results]) (simp add: view after total)
qed


text \<open>
  C3: Awards are serialised by the version of the package: after an award succeeded, no second
  award that was prepared against the same version can succeed, for whatever batch, outcomes
  and data.
\<close>

theorem award_once_per_version:
  assumes first: "finalize_batch_award env db org pkg batch outcomes award actor = Inr (resp, db')"
    and key: "distinct (map (\<lambda>p. (pk_org p, pk_id p)) (packages db))"
    and same: "check_award_request award = Inr rq" "check_award_request award2 = Inr rq2"
      "rq_expected_version rq2 = rq_expected_version rq"
  shows "\<exists>e. finalize_batch_award env2 db' org pkg batch2 outcomes2 award2 actor2 = Inl e"
proof (rule ccontr)
  assume "\<not> ?thesis"
  then obtain r where second: "finalize_batch_award env2 db' org pkg batch2 outcomes2 award2 actor2 = Inr r"
    by (metis sum.exhaust)
  obtain resp2 db2 where "r = (resp2, db2)" by fastforce
  note second = second[unfolded this]
  obtain p where p: "p \<in> set (packages db')" "pk_org p = org" "pk_id p = pkg"
      "pk_row_version p = Some (rq_expected_version rq + 1)"
    and keys: "map (\<lambda>p. (pk_org p, pk_id p)) (packages db') = map (\<lambda>p. (pk_org p, pk_id p)) (packages db)"
    using award_effect_aux[OF first] same(1) by auto
  obtain q where q: "q \<in> set (packages db')" "pk_org q = org" "pk_id q = pkg"
      "pk_row_version q = Some (rq_expected_version rq)"
    using award_effect_aux[OF second] same(2,3) by auto
  have "p = q" using key p(1-3) q(1-3) unfolding keys[symmetric] by (auto simp: distinct_map inj_on_def)
  then show False using p(4) q(4) by simp
qed

end
