(* ===== verification/Lot_Examples.thy ===== *)
theory Lot_Examples
  imports Award_Effect
begin

text \<open>
  A small package with two lots, taken through claiming, publication and award, and the
  witnesses of the theorems on lot batches.
\<close>

section \<open>A concrete package\<close>

definition demo_env :: "unit lot_env" where
  "demo_env = \<lparr>random_hex = (\<lambda>n. replicate n CHR ''a''), clock_now = 100,
     sha256_hex = (\<lambda>s. take 8 s), save_evaluation = (\<lambda>_ r. Some r)\<rparr>"

definition demo_lot :: "ident \<Rightarrow> int \<Rightarrow> lot_row" where
  "demo_lot l k = \<lparr>l_org = ''o'', l_package = ''p'', l_id = l, l_code = Some l, l_name = None,
     l_sort_order = k, l_archived = False, l_winner = None, l_award_price = None,
     l_package_duration = [], l_contract_duration = [], l_sync_version = 0, l_row_version = 1\<rparr>"

definition demo_db :: "unit lot_db" where
  "demo_db = \<lparr>packages = [\<lparr>pk_org = ''o'', pk_id = ''p'', pk_owner_type = ''organization'',
       pk_phan_lo = Some co_utf8, pk_method = None, pk_row_version = Some 1,
       pk_archived = False, pk_status = ''OPENED'', pk_winner = None, pk_award_price = 0,
       pk_decision_number = [], pk_decision_date = [], pk_sync_version = 0\<rparr>],
     lot_rows = [demo_lot ''a'' 1, demo_lot ''b'' 2],
     batches = [], details = [], groups = [], members = [],
     contractors = [\<lparr>c_org = ''o'', c_id = ''w'', c_archived = False\<rparr>],
     artifacts = [], artifact_lots = [], sync_metadata = [], id_counter = 0, evaluation = ()\<rparr>"

definition demo_create :: "lot_error + (batch_response \<times> unit lot_db)" where
  "demo_create = create_batch demo_env demo_db ''o'' ''p'' [''a''] ''CONSOLIDATED_APPROVAL''
     False [] (Some ''u'')"

definition demo_claimed :: "unit lot_db" where
  "demo_claimed = snd (projr demo_create)"

definition demo_outcomes :: "(ident \<times> pval) list" where
  "demo_outcomes = [(''a'', PStr ''AWARDED'')]"

definition demo_finalize :: "lot_error + (lifecycle_view \<times> unit lot_db)" where
  "demo_finalize = finalize_batch demo_env demo_claimed ''o'' ''p'' ''dxl-'' demo_outcomes (Some ''u'')"

definition demo_closed :: "unit lot_db" where
  "demo_closed = snd (projr demo_finalize)"

definition demo_request :: pval where
  "demo_request = PDict [(''expectedVersion'', PInt 1), (''decisionNumber'', PStr ''1''),
     (''decisionDate'', PStr ''d''), (''metadata'', PDict []),
     (''lotResults'', PList [PDict [(''lotId'', PStr ''a''), (''winnerId'', PStr ''w''), (''awardPrice'', PInt 7)]])]"

definition demo_award :: "lot_error + (award_response \<times> unit lot_db)" where
  "demo_award = finalize_batch_award demo_env demo_claimed ''o'' ''p'' ''dxl-'' demo_outcomes
     demo_request (Some ''u'')"

definition demo_awarded :: "unit lot_db" where
  "demo_awarded = snd (projr demo_award)"

lemma demo_create_ok: "\<not> isl demo_create"
  by code_simp

lemma demo_finalize_ok: "\<not> isl demo_finalize"
  by code_simp

lemma demo_award_ok: "\<not> isl demo_award"
  by code_simp

lemma not_isl_pair: "\<not> isl x \<Longrightarrow> x = Inr (fst (projr x), snd (projr x))"
  by (cases x) auto

lemmas demo_create_eq = demo_create_ok [THEN not_isl_pair, folded demo_claimed_def, unfolded demo_create_def]
lemmas demo_finalize_eq = demo_finalize_ok [THEN not_isl_pair, folded demo_closed_def, unfolded demo_finalize_def]
lemmas demo_award_eq = demo_award_ok [THEN not_isl_pair, folded demo_awarded_def, unfolded demo_award_def]

lemma demo_db_ok: "lots_ok demo_db"
  by (simp add: lots_ok_defs demo_db_def demo_lot_def)

lemma demo_create_step: "lot_step demo_env demo_db demo_claimed"
  using demo_create_eq unfolding demo_claimed_def demo_create_def by (rule lot_step.create)

lemma demo_finalize_step: "lot_step demo_env demo_claimed demo_closed"
  using demo_finalize_eq unfolding demo_closed_def demo_finalize_def by (rule lot_step.finalize)

lemma demo_claimed_ok: "lots_ok demo_claimed"
  using lot_step_ok[OF demo_create_step demo_db_ok] .

lemma demo_closed_ok: "lots_ok demo_closed"
  using lot_step_ok[OF demo_finalize_step demo_claimed_ok] .

lemma demo_claimed_detail:
  "details demo_claimed = [hd (details demo_claimed)] \<and> d_active (hd (details demo_claimed))
     \<and> batch_of demo_claimed (hd (details demo_claimed)) (hd (batches demo_claimed))"
  by code_simp

lemma demo_closed_detail:
  "details demo_closed = [hd (details demo_closed)] \<and> approved (hd (details demo_closed))
     \<and> d_org (hd (details demo_closed)) = ''o'' \<and> d_lot (hd (details demo_closed)) = ''a''"
  by code_simp

section \<open>Witnesses\<close>


lemma demo_run: "lot_run demo_env demo_closed demo_closed" "lot_run demo_env demo_db demo_claimed"
  by (auto intro: lot_run.intros demo_create_step)

text \<open>The result of lot \<open>a\<close> stays while lot \<open>b\<close> is claimed by a second batch.\<close>

definition demo_second :: "lot_error + (batch_response \<times> unit lot_db)" where
  "demo_second = create_batch demo_env demo_closed ''o'' ''p'' [''b''] ''CONSOLIDATED_APPROVAL''
     False [] (Some ''u'')"

definition demo_after :: "unit lot_db" where
  "demo_after = snd (projr demo_second)"

lemma demo_second_ok: "\<not> isl demo_second"
  by code_simp

lemmas demo_second_eq = demo_second_ok [THEN not_isl_pair, folded demo_after_def, unfolded demo_second_def]

lemma demo_second_run: "lot_run demo_env demo_closed demo_after"
  using demo_run(1) lot_step.create[OF demo_second_eq] by (rule lot_run.step)


theorem one_open_batch_per_lot_witness:
  "b_status (hd (batches demo_claimed)) = BS_ACTIVE"
proof -
  let ?d = "hd (details demo_claimed)"
  have d: "?d \<in> set (details demo_claimed)" "d_active ?d"
      "batch_of demo_claimed ?d (hd (batches demo_claimed))"
    using demo_claimed_detail by (metis list.set_intros(1), simp_all)
  have "same_lot ?d ?d" by (simp add: same_lot_def)
  then show ?thesis
    using one_open_batch_per_lot[OF demo_run(2) demo_db_ok d(1,2) d(1,2) _ d(3)] by simp
qed

theorem approved_lot_not_reclaimed_witness:
  "\<exists>e. create_batch demo_env demo_closed ''o'' ''p'' [''a''] ''CONSOLIDATED_APPROVAL'' False [] None = Inl e"
proof -
  let ?d = "hd (details demo_closed)"
  have d: "?d \<in> set (details demo_closed)" "approved ?d" "d_org ?d = ''o''" "d_lot ?d \<in> set [''a'']"
    using demo_closed_detail by (metis list.set_intros(1), simp_all)
  show ?thesis by (rule approved_lot_not_reclaimed[OF demo_closed_ok d])
qed

lemma demo_batch:
  "hd (batches demo_claimed) \<in> set (batches demo_claimed) \<and> b_org (hd (batches demo_claimed)) = ''o''
    \<and> b_package (hd (batches demo_claimed)) = ''p'' \<and> b_id (hd (batches demo_claimed)) = ''dxl-''
    \<and> b_status (hd (batches demo_claimed)) = BS_ACTIVE"
  by code_simp

theorem finalize_batch_effect_witness: "active_batch_lots demo_closed ''o'' ''dxl-'' = []"
  using finalize_batch_effect[OF demo_finalize_eq _ _ _ _ _ demo_claimed_ok] demo_batch by metis

theorem finalize_batch_idempotent_witness:
  "\<exists>v. finalize_batch demo_env demo_closed ''o'' ''p'' ''dxl-'' [] None = Inr (v, demo_closed)"
  using finalize_batch_idempotent[OF demo_finalize_eq demo_claimed_ok, of demo_env "[]" None] by blast


lemma demo_request_ok: "\<not> isl (check_award_request demo_request)"
  by code_simp

theorem award_once_per_version_witness:
  "\<exists>e. finalize_batch_award demo_env demo_awarded ''o'' ''p'' ''dxl-'' demo_outcomes
     demo_request None = Inl e"
proof -
  obtain rq where rq: "check_award_request demo_request = Inr rq"
    using demo_request_ok by (cases "check_award_request demo_request") auto
  have key: "distinct (map (\<lambda>p. (pk_org p, pk_id p)) (packages demo_claimed))" by code_simp
  show ?thesis by (rule award_once_per_version[OF demo_award_eq key rq rq refl])
qed

end
