(* ===== verification/Usage_Credits.thy ===== *)
theory Usage_Credits
  imports Py_Values
begin

text \<open>
  \<open>src/backend/usage_credits/\<close>: credits of an owner for fetching source revisions.  Grants carry
  the counters, reservations hold a credit while a fetch runs, the ledger records every movement.
  The state is a record of the three tables; the clock and the random part of new ids are
  parameters.  The service locks the rows it changes, so operations run one after another, and a
  raised exception rolls the transaction back.
\<close>

section \<open>Value objects\<close>

datatype usage_error =
  UsageValueError string
| UsageException py_exn
| UsagePolicyError string "(string \<times> pval) list"
| UsageIntegrityError

datatype owner_kind = OwnerAccount | OwnerOrganization

record usage_owner =
  uo_kind :: owner_kind
  uo_identifier :: ident

definition required_text :: "pval \<Rightarrow> string \<Rightarrow> usage_error + string" where
  "required_text v field =
     (let t = py_strip (str_or_empty v)
      in if t = [] \<or> 200 < py_len t then Inl (UsageValueError field) else Inr t)"

definition make_owner :: "string \<Rightarrow> pval \<Rightarrow> usage_error + usage_owner" where
  "make_owner kind identifier =
     (if kind = ''account'' then
        res_bind (required_text identifier ''owner'') (\<lambda>t.
          Inr \<lparr>uo_kind = OwnerAccount, uo_identifier = t\<rparr>)
      else if kind = ''organization'' then
        res_bind (required_text identifier ''owner'') (\<lambda>t.
          Inr \<lparr>uo_kind = OwnerOrganization, uo_identifier = t\<rparr>)
      else Inl (UsageValueError ''usage owner kind''))"

definition account_user_id :: "usage_owner \<Rightarrow> ident option" where
  "account_user_id ow = (if uo_kind ow = OwnerAccount then Some (uo_identifier ow) else None)"

definition organization_id :: "usage_owner \<Rightarrow> ident option" where
  "organization_id ow = (if uo_kind ow = OwnerOrganization then Some (uo_identifier ow) else None)"

record source_revision =
  sr_provider :: string
  sr_entity_kind :: string
  sr_source_code :: string
  sr_source_revision :: string

text \<open>A candidate is passed as an object of the class or as its four fields.\<close>

datatype candidate_input =
  BuiltCandidate source_revision
| CandidateFields pval pval pval pval

definition make_candidate :: "candidate_input \<Rightarrow> usage_error + source_revision" where
  "make_candidate i =
     (case i of
        BuiltCandidate c \<Rightarrow> Inr c
      | CandidateFields provider kind code revision \<Rightarrow>
          res_bind (required_text provider ''provider'') (\<lambda>p.
          res_bind (required_text kind ''entity kind'') (\<lambda>k.
          res_bind (required_text code ''source code'') (\<lambda>c.
          res_bind (required_text revision ''source revision'') (\<lambda>r.
          Inr \<lparr>sr_provider = py_casefold p, sr_entity_kind = py_upper k,
               sr_source_code = py_upper c, sr_source_revision = r\<rparr>)))))"

definition candidate_identity :: "source_revision \<Rightarrow> string \<times> string \<times> string \<times> string" where
  "candidate_identity c =
     (sr_provider c, sr_entity_kind c, sr_source_code c, sr_source_revision c)"

section \<open>Tables\<close>

datatype grant_source = FromPlan | FromPurchase | FromAdmin

datatype reservation_state = Reserved | Consumed | Released

datatype ledger_entry = EntryGrant | EntryReserve | EntryConsume | EntryRelease

record credit_grant =
  ug_id :: ident
  ug_account :: "ident option"
  ug_org :: "ident option"
  ug_kind :: owner_kind
  ug_total :: int
  ug_remaining :: int
  ug_reserved :: int
  ug_source :: grant_source
  ug_order_item :: "ident option"
  ug_release :: ident
  ug_checksum :: string
  ug_issued_at :: int
  ug_expires_at :: int

record reservation =
  rv_id :: ident
  rv_account :: "ident option"
  rv_org :: "ident option"
  rv_kind :: owner_kind
  rv_candidate :: source_revision
  rv_job :: string
  rv_grant :: ident
  rv_state :: reservation_state
  rv_lease :: int

record ledger_row =
  lg_id :: ident
  lg_grant :: ident
  lg_reservation :: "ident option"
  lg_entry :: ledger_entry
  lg_quantity :: int
  lg_balance :: int
  lg_metadata :: string

record usage_db =
  ugrants :: "credit_grant list"
  ureservations :: "reservation list"
  uledger :: "ledger_row list"
  uid_counter :: nat

record usage_env =
  usage_hex :: "nat \<Rightarrow> string"
  usage_now :: int

text \<open>\<open>new_id\<close> of \<open>src/backend/commercial_policy/repository.py\<close>\<close>

definition usage_new_id :: "usage_env \<Rightarrow> string \<Rightarrow> usage_db \<Rightarrow> ident \<times> usage_db" where
  "usage_new_id env prefix db =
     (prefix @ ''-'' @ usage_hex env (uid_counter db), db\<lparr>uid_counter := Suc (uid_counter db)\<rparr>)"

text \<open>\<open>_owner_clause\<close> together with \<open>owner_kind = ?\<close>\<close>

definition owned_by :: "usage_owner \<Rightarrow> ident option \<Rightarrow> ident option \<Rightarrow> owner_kind \<Rightarrow> bool" where
  "owned_by ow account org kind \<longleftrightarrow>
     (if uo_kind ow = OwnerAccount then account = Some (uo_identifier ow) \<and> org = None
      else org = Some (uo_identifier ow) \<and> account = None) \<and> kind = uo_kind ow"

section \<open>Writes under the constraints of the tables\<close>

text \<open>The \<open>CHECK\<close>s of \<open>usage_credit_grants\<close> (\<open>src/backend/db/schema.py\<close>).\<close>

definition grant_checks :: "credit_grant \<Rightarrow> bool" where
  "grant_checks g \<longleftrightarrow> 0 < ug_total g \<and> 0 \<le> ug_remaining g \<and> ug_remaining g \<le> ug_total g
     \<and> 0 \<le> ug_reserved g \<and> ug_reserved g \<le> ug_remaining g
     \<and> py_len (ug_checksum g) = 64 \<and> 0 < ug_issued_at g \<and> ug_issued_at g < ug_expires_at g"

definition insert_grant :: "credit_grant \<Rightarrow> usage_db \<Rightarrow> usage_error + usage_db" where
  "insert_grant g db =
     (if ug_id g \<in> set (map ug_id (ugrants db)) \<or> \<not> grant_checks g then Inl UsageIntegrityError
      else Inr (db\<lparr>ugrants := ugrants db @ [g]\<rparr>))"

definition update_grants ::
    "(credit_grant \<Rightarrow> bool) \<Rightarrow> (credit_grant \<Rightarrow> credit_grant) \<Rightarrow> usage_db \<Rightarrow> usage_error + usage_db" where
  "update_grants p f db =
     (if \<exists>g \<in> set (ugrants db). p g \<and> \<not> grant_checks (f g) then Inl UsageIntegrityError
      else Inr (db\<lparr>ugrants := update_where p f (ugrants db)\<rparr>))"

text \<open>The columns of \<open>uq_usage_reservation_identity\<close>; \<open>COALESCE\<close> makes a missing id blank.\<close>

definition reservation_key ::
    "reservation \<Rightarrow> owner_kind \<times> ident \<times> ident \<times> string \<times> string \<times> string \<times> string" where
  "reservation_key r =
     (rv_kind r, (case rv_account r of None \<Rightarrow> [] | Some a \<Rightarrow> a),
      (case rv_org r of None \<Rightarrow> [] | Some g \<Rightarrow> g), candidate_identity (rv_candidate r))"

text \<open>\<open>trim(s) != ''\<close>\<close>

definition sql_nonblank :: "string \<Rightarrow> bool" where
  "sql_nonblank s \<longleftrightarrow> list_ex (\<lambda>c. c \<noteq> CHR '' '') s"

definition reservation_checks :: "reservation \<Rightarrow> bool" where
  "reservation_checks r \<longleftrightarrow> sql_nonblank (sr_provider (rv_candidate r))
     \<and> sql_nonblank (sr_entity_kind (rv_candidate r)) \<and> sql_nonblank (sr_source_code (rv_candidate r))
     \<and> sql_nonblank (sr_source_revision (rv_candidate r)) \<and> sql_nonblank (rv_job r) \<and> 0 < rv_lease r"

definition insert_reservation :: "reservation \<Rightarrow> usage_db \<Rightarrow> usage_error + usage_db" where
  "insert_reservation r db =
     (if rv_id r \<in> set (map rv_id (ureservations db))
       \<or> reservation_key r \<in> set (map reservation_key (ureservations db))
       \<or> \<not> reservation_checks r then Inl UsageIntegrityError
      else Inr (db\<lparr>ureservations := ureservations db @ [r]\<rparr>))"

text \<open>\<open>_ledger\<close>\<close>

definition write_ledger ::
    "usage_env \<Rightarrow> ident \<Rightarrow> ident option \<Rightarrow> ledger_entry \<Rightarrow> int \<Rightarrow> int \<Rightarrow> pval
      \<Rightarrow> usage_db \<Rightarrow> usage_error + usage_db" where
  "write_ledger env grant res entry quantity balance metadata db =
     (let (lid, db') = usage_new_id env ''usage-ledger'' db in
      case canonical_json (py_or metadata (PDict [])) of
        Inl e \<Rightarrow> Inl (UsageException e)
      | Inr text \<Rightarrow>
          if lid \<in> set (map lg_id (uledger db')) \<or> quantity = 0 \<or> balance < 0 \<or> 32768 < py_len text
          then Inl UsageIntegrityError
          else Inr (db'\<lparr>uledger := uledger db' @
            [\<lparr>lg_id = lid, lg_grant = grant, lg_reservation = res, lg_entry = entry,
              lg_quantity = quantity, lg_balance = balance, lg_metadata = text\<rparr>]\<rparr>))"

section \<open>Reading the balance\<close>

record usage_balance =
  ub_total :: int
  ub_used :: int
  ub_remaining :: int
  ub_reserved :: int
  ub_available :: int
  ub_next_expiry :: "int option"

definition live_grants :: "usage_db \<Rightarrow> usage_owner \<Rightarrow> int \<Rightarrow> credit_grant list" where
  "live_grants db ow now =
     filter (\<lambda>g. owned_by ow (ug_account g) (ug_org g) (ug_kind g)
         \<and> now < ug_expires_at g \<and> 0 < ug_remaining g) (ugrants db)"

definition get_balance :: "usage_env \<Rightarrow> usage_db \<Rightarrow> usage_owner \<Rightarrow> int option \<Rightarrow> usage_balance" where
  "get_balance env db ow moment =
     (let now = (case moment of None \<Rightarrow> usage_now env | Some t \<Rightarrow> t);
          gs = live_grants db ow now;
          total = sum_list (map ug_total gs);
          remaining = sum_list (map ug_remaining gs);
          reserved = sum_list (map ug_reserved gs)
      in \<lparr>ub_total = total, ub_used = max 0 (total - remaining), ub_remaining = remaining,
          ub_reserved = reserved, ub_available = max 0 (remaining - reserved),
          ub_next_expiry = (if gs = [] then None else Some (Min (set (map ug_expires_at gs))))\<rparr>)"

section \<open>Granting credits\<close>

definition grant_source_of :: "string \<Rightarrow> grant_source option" where
  "grant_source_of s =
     (if s = ''plan'' then Some FromPlan else if s = ''purchase'' then Some FromPurchase
      else if s = ''admin'' then Some FromAdmin else None)"

definition grant_credits ::
    "usage_env \<Rightarrow> usage_db \<Rightarrow> usage_owner \<Rightarrow> int \<Rightarrow> string \<Rightarrow> ident \<Rightarrow> string \<Rightarrow> int \<Rightarrow> int
      \<Rightarrow> ident option \<Rightarrow> pval \<Rightarrow> usage_error + (ident \<times> usage_db)" where
  "grant_credits env db ow quantity source release checksum issued_at expires_at order_item metadata =
     (if quantity \<le> 0 \<or> expires_at \<le> issued_at then Inl (UsageValueError ''quantity or expiry'')
      else case grant_source_of source of
        None \<Rightarrow> Inl (UsageValueError ''source'')
      | Some src \<Rightarrow>
          if py_len checksum \<noteq> 64 then Inl (UsageValueError ''policy checksum'')
          else
            let (gid, db1) = usage_new_id env ''usage-grant'' db in
            res_bind (insert_grant
              \<lparr>ug_id = gid, ug_account = account_user_id ow, ug_org = organization_id ow,
               ug_kind = uo_kind ow, ug_total = quantity, ug_remaining = quantity, ug_reserved = 0,
               ug_source = src, ug_order_item = order_item, ug_release = release,
               ug_checksum = checksum, ug_issued_at = issued_at, ug_expires_at = expires_at\<rparr> db1) (\<lambda>db2.
            res_bind (write_ledger env gid None EntryGrant quantity quantity
                (py_or metadata (PDict [])) db2) (\<lambda>db3.
            Inr (gid, db3))))"

section \<open>Reserving\<close>

text \<open>Normalize, keep the first of every identity, drop what is already held.\<close>

fun make_candidates :: "candidate_input list \<Rightarrow> usage_error + source_revision list" where
  "make_candidates [] = Inr []"
| "make_candidates (i # is) =
     res_bind (make_candidate i) (\<lambda>c. res_bind (make_candidates is) (\<lambda>cs. Inr (c # cs)))"

definition unique_candidates :: "source_revision list \<Rightarrow> source_revision list" where
  "unique_candidates cs =
     map snd (fold (\<lambda>c. dict_setdefault (candidate_identity c) c) cs [])"

definition list_missing_source_revisions ::
    "candidate_input list \<Rightarrow> (source_revision \<Rightarrow> bool) \<Rightarrow> usage_error + source_revision list" where
  "list_missing_source_revisions is held =
     res_bind (make_candidates is) (\<lambda>cs.
       Inr (filter (\<lambda>c. \<not> held c) (unique_candidates cs)))"

definition find_reservation :: "usage_db \<Rightarrow> usage_owner \<Rightarrow> source_revision \<Rightarrow> reservation option" where
  "find_reservation db ow c =
     List.find (\<lambda>r. owned_by ow (rv_account r) (rv_org r) (rv_kind r)
       \<and> candidate_identity (rv_candidate r) = candidate_identity c) (ureservations db)"

definition lock_available_grants :: "usage_env \<Rightarrow> usage_db \<Rightarrow> usage_owner \<Rightarrow> credit_grant list" where
  "lock_available_grants env db ow =
     sort_key (\<lambda>g. (ug_expires_at g, ug_issued_at g, ug_id g))
       (filter (\<lambda>g. owned_by ow (ug_account g) (ug_org g) (ug_kind g)
          \<and> usage_now env < ug_expires_at g \<and> ug_reserved g < ug_remaining g) (ugrants db))"

definition available_credit :: "credit_grant \<Rightarrow> int" where
  "available_credit g = ug_remaining g - ug_reserved g"

text \<open>What \<open>_reservation_payload\<close> and the reserving loop return for a reservation.\<close>

record reservation_view =
  rp_id :: ident
  rp_state :: reservation_state
  rp_grant :: ident
  rp_candidate :: source_revision
  rp_lease :: int

definition reservation_payload :: "reservation \<Rightarrow> reservation_view" where
  "reservation_payload r =
     \<lparr>rp_id = rv_id r, rp_state = rv_state r, rp_grant = rv_grant r,
      rp_candidate = rv_candidate r, rp_lease = rv_lease r\<rparr>"

definition identity_list :: "source_revision \<Rightarrow> pval" where
  "identity_list c = PList [PStr (sr_provider c), PStr (sr_entity_kind c), PStr (sr_source_code c),
     PStr (sr_source_revision c)]"

text \<open>
  The row of a new reservation, or the released reservation \<open>old\<close> of the same revision taken
  up again.
\<close>

definition write_reservation ::
    "usage_env \<Rightarrow> usage_owner \<Rightarrow> string \<Rightarrow> int \<Rightarrow> ident \<Rightarrow> source_revision
      \<Rightarrow> reservation option \<Rightarrow> usage_db \<Rightarrow> usage_error + (ident \<times> usage_db)" where
  "write_reservation env ow job lease gid c old db =
     (case old of
        Some r \<Rightarrow>
          Inr (rv_id r, db\<lparr>ureservations := update_where (\<lambda>x. rv_id x = rv_id r \<and> rv_state x = Released)
            (\<lambda>x. x\<lparr>rv_grant := gid, rv_state := Reserved, rv_job := job, rv_lease := lease\<rparr>)
            (ureservations db)\<rparr>)
      | None \<Rightarrow>
          let (rid, db1) = usage_new_id env ''usage-reservation'' db in
          res_bind (insert_reservation
            \<lparr>rv_id = rid, rv_account = account_user_id ow, rv_org = organization_id ow,
             rv_kind = uo_kind ow, rv_candidate = c, rv_job = job, rv_grant = gid,
             rv_state = Reserved, rv_lease = lease\<rparr> db1) (\<lambda>db2. Inr (rid, db2)))"

text \<open>One credit of grant \<open>g\<close> for candidate \<open>c\<close>.\<close>

definition reserve_candidate ::
    "usage_env \<Rightarrow> usage_owner \<Rightarrow> string \<Rightarrow> int \<Rightarrow> credit_grant \<Rightarrow> source_revision
      \<Rightarrow> reservation option \<Rightarrow> usage_db \<Rightarrow> usage_error + (reservation_view \<times> usage_db)" where
  "reserve_candidate env ow job lease g c old db =
     res_bind (update_grants (\<lambda>x. ug_id x = ug_id g)
         (\<lambda>x. x\<lparr>ug_reserved := ug_reserved x + 1\<rparr>) db) (\<lambda>db1.
     res_bind (write_reservation env ow job lease (ug_id g) c old db1) (\<lambda>(rid, db2).
     res_bind (write_ledger env (ug_id g) (Some rid) EntryReserve (- 1)
         (ug_remaining g - (ug_reserved g + 1))
         (PDict [(''jobKey'', PStr job), (''candidate'', identity_list c)]) db2) (\<lambda>db3.
     Inr (\<lparr>rp_id = rid, rp_state = Reserved, rp_grant = ug_id g, rp_candidate = c,
           rp_lease = lease\<rparr>, db3))))"

text \<open>
  The loop over the pending candidates: \<open>gs\<close> are the locked rows from \<open>grant_index\<close> on, with
  the reserved counts the loop keeps in memory.
\<close>

fun reserve_pending ::
    "usage_env \<Rightarrow> usage_owner \<Rightarrow> string \<Rightarrow> int \<Rightarrow> (source_revision \<times> reservation option) list
      \<Rightarrow> credit_grant list \<Rightarrow> reservation_view list \<Rightarrow> usage_db
      \<Rightarrow> usage_error + (reservation_view list \<times> usage_db)" where
  "reserve_pending env ow job lease [] gs acc db = Inr (acc, db)"
| "reserve_pending env ow job lease ((c, old) # pending) gs acc db =
     (case dropWhile (\<lambda>g. available_credit g \<le> 0) gs of
        [] \<Rightarrow> Inr (acc, db)
      | g # gs' \<Rightarrow>
          res_bind (reserve_candidate env ow job lease g c old db) (\<lambda>(v, db').
            reserve_pending env ow job lease pending
              (g\<lparr>ug_reserved := ug_reserved g + 1\<rparr> # gs') (acc @ [v]) db'))"

text \<open>\<open>partial_batch_policy\<close>: what to do when the credits cover only a part of the batch.\<close>

definition decision_required :: string where
  "decision_required = ''COMMERCIAL_POLICY_DECISION_REQUIRED''"

definition quota_exhausted :: string where
  "quota_exhausted = ''QUOTA_EXHAUSTED''"

definition policy_kind :: "pval \<Rightarrow> string" where
  "policy_kind policy = str_or_empty (dget (or_empty policy) ''kind'')"

definition held_reservation :: "reservation option \<Rightarrow> bool" where
  "held_reservation r = (case r of None \<Rightarrow> False | Some x \<Rightarrow> rv_state x = Reserved \<or> rv_state x = Consumed)"

definition reserve_source_fetch_batch ::
    "usage_env \<Rightarrow> usage_db \<Rightarrow> usage_owner \<Rightarrow> candidate_input list \<Rightarrow> pval \<Rightarrow> pval \<Rightarrow> int
      \<Rightarrow> usage_error + (reservation_view list \<times> usage_db)" where
  "reserve_source_fetch_batch env db ow candidates job_key policy lease_seconds =
     (let job = py_strip (str_or_empty job_key) in
      if job = [] \<or> 200 < py_len job then Inl (UsageValueError ''job key'')
      else res_bind (list_missing_source_revisions candidates (\<lambda>_. False)) (\<lambda>cs.
        if cs = [] then Inr ([], db)
        else
          let kind = policy_kind policy in
          if kind = ''blocked_decision'' \<and> 1 < length cs
          then Inl (UsagePolicyError decision_required [(''decision'', PStr ''partialBatch'')])
          else if kind \<notin> {''blocked_decision'', ''reject_all'', ''process_affordable_in_stable_order''}
          then Inl (UsagePolicyError decision_required [])
          else
            let found = map (\<lambda>c. (c, find_reservation db ow c)) cs;
                existing = map (\<lambda>(_, r). reservation_payload (the r)) (filter (\<lambda>(_, r). held_reservation r) found);
                pending = filter (\<lambda>(_, r). \<not> held_reservation r) found;
                gs = lock_available_grants env db ow;
                available = sum_list (map available_credit gs)
            in
            if available < int (length pending) \<and> kind \<in> {''blocked_decision'', ''reject_all''}
            then Inl (UsagePolicyError
              (if kind = ''blocked_decision'' \<and> 1 < length cs then decision_required else quota_exhausted)
              [(''required'', PInt (int (length pending))), (''available'', PInt available)])
            else
              let pending' = (if kind = ''process_affordable_in_stable_order''
                    then take (nat available) pending else pending);
                  lease = usage_now env + max 60 lease_seconds
              in reserve_pending env ow job lease pending' gs existing db))"

section \<open>Consuming and releasing\<close>

definition get_reservation :: "usage_db \<Rightarrow> ident \<Rightarrow> reservation option" where
  "get_reservation db rid = List.find (\<lambda>r. rv_id r = rid) (ureservations db)"

definition get_grant :: "usage_db \<Rightarrow> ident \<Rightarrow> usage_error + credit_grant" where
  "get_grant db gid =
     (case List.find (\<lambda>g. ug_id g = gid) (ugrants db) of
        None \<Rightarrow> Inl (UsageValueError ''Usage grant not found.'') | Some g \<Rightarrow> Inr g)"

definition set_reservation_state :: "ident \<Rightarrow> reservation_state \<Rightarrow> usage_db \<Rightarrow> usage_db" where
  "set_reservation_state rid st db = db\<lparr>ureservations :=
     update_where (\<lambda>r. rv_id r = rid \<and> rv_state r = Reserved) (\<lambda>r. r\<lparr>rv_state := st\<rparr>) (ureservations db)\<rparr>"

definition consume_reservation_item ::
    "usage_env \<Rightarrow> usage_db \<Rightarrow> ident \<Rightarrow> pval \<Rightarrow> usage_error + (reservation_view \<times> usage_db)" where
  "consume_reservation_item env db rid snapshot =
     (case get_reservation db rid of
        None \<Rightarrow> Inl (UsageValueError ''Usage reservation not found.'')
      | Some r \<Rightarrow>
          if rv_state r = Consumed then Inr (reservation_payload r, db)
          else if rv_state r \<noteq> Reserved then Inl (UsagePolicyError quota_exhausted [])
          else if \<not> is_dict snapshot \<or> \<not> truthy (dget snapshot ''id'')
          then Inl (UsageValueError ''snapshot'')
          else
            res_bind (get_grant db (rv_grant r)) (\<lambda>g.
            res_bind (update_grants (\<lambda>x. ug_id x = ug_id g \<and> 0 < ug_remaining x \<and> 0 < ug_reserved x)
              (\<lambda>x. x\<lparr>ug_remaining := ug_remaining x - 1, ug_reserved := ug_reserved x - 1\<rparr>)
              (set_reservation_state rid Consumed db)) (\<lambda>db1.
            res_bind (write_ledger env (ug_id g) (Some rid) EntryConsume (- 1) (ug_remaining g - 1)
              (PDict [(''snapshotId'', PStr (py_str (dget snapshot ''id'')))]) db1) (\<lambda>db2.
            Inr ((reservation_payload r)\<lparr>rp_state := Consumed\<rparr>, db2)))))"

definition release_reservation_item ::
    "usage_env \<Rightarrow> usage_db \<Rightarrow> ident \<Rightarrow> pval \<Rightarrow> usage_error + (reservation_view \<times> usage_db)" where
  "release_reservation_item env db rid reason =
     (case get_reservation db rid of
        None \<Rightarrow> Inl (UsageValueError ''Usage reservation not found.'')
      | Some r \<Rightarrow>
          if rv_state r \<noteq> Reserved then Inr (reservation_payload r, db)
          else
            res_bind (get_grant db (rv_grant r)) (\<lambda>g.
            res_bind (update_grants (\<lambda>x. ug_id x = ug_id g \<and> 0 < ug_reserved x)
              (\<lambda>x. x\<lparr>ug_reserved := ug_reserved x - 1\<rparr>)
              (set_reservation_state rid Released db)) (\<lambda>db1.
            res_bind (write_ledger env (ug_id g) (Some rid) EntryRelease 1
              (ug_remaining g - ug_reserved g + 1)
              (PDict [(''reason'', PStr (py_prefix 500 (py_str (py_or reason (PStr ''unspecified'')))))]) db1) (\<lambda>db2.
            Inr ((reservation_payload r)\<lparr>rp_state := Released\<rparr>, db2)))))"

fun release_items ::
    "usage_env \<Rightarrow> ident list \<Rightarrow> usage_db \<Rightarrow> usage_error + (reservation_view list \<times> usage_db)" where
  "release_items env [] db = Inr ([], db)"
| "release_items env (rid # rids) db =
     res_bind (release_reservation_item env db rid (PStr ''lease_expired'')) (\<lambda>(v, db').
     res_bind (release_items env rids db') (\<lambda>(vs, db''). Inr (v # vs, db'')))"

definition expired_reservations :: "usage_env \<Rightarrow> usage_db \<Rightarrow> int \<Rightarrow> ident list" where
  "expired_reservations env db limit =
     take (nat (max 1 (min 1000 limit)))
       (map rv_id (sort_key (\<lambda>r. (rv_lease r, rv_id r))
         (filter (\<lambda>r. rv_state r = Reserved \<and> rv_lease r \<le> usage_now env) (ureservations db))))"

definition release_expired_reservations ::
    "usage_env \<Rightarrow> usage_db \<Rightarrow> int \<Rightarrow> usage_error + (reservation_view list \<times> usage_db)" where
  "release_expired_reservations env db limit = release_items env (expired_reservations env db limit) db"

end
