(* ===== verification/Usage_Laws.thy ===== *)
theory Usage_Laws
  imports Usage_Credits Transactions
begin

text \<open>
  The laws of the usage credits: counters, reservations and ledger always tell the same story,
  nothing is over-committed, and a credit is consumed at most once.
\<close>

section \<open>The invariant\<close>

definition held_count :: "usage_db \<Rightarrow> ident \<Rightarrow> reservation_state \<Rightarrow> int" where
  "held_count db g st =
     int (count_where (\<lambda>r. rv_grant r = g \<and> rv_state r = st) (ureservations db))"

definition ledger_sum :: "usage_db \<Rightarrow> ident \<Rightarrow> ledger_entry set \<Rightarrow> int" where
  "ledger_sum db g es =
     sum_list (map lg_quantity (filter (\<lambda>l. lg_grant l = g \<and> lg_entry l \<in> es) (uledger db)))"

text \<open>
  Counters equal the reservations they count and the ledger entries that moved them:
  \<open>remaining\<close> is what was granted less what was consumed, and the available credit
  is what was granted less what was reserved and not given back.
\<close>

definition grant_ok :: "usage_db \<Rightarrow> credit_grant \<Rightarrow> bool" where
  "grant_ok db g \<longleftrightarrow> grant_checks g
     \<and> ug_reserved g = held_count db (ug_id g) Reserved
     \<and> ug_total g - ug_remaining g = held_count db (ug_id g) Consumed
     \<and> ledger_sum db (ug_id g) {EntryGrant, EntryConsume} = ug_remaining g
     \<and> ledger_sum db (ug_id g) {EntryGrant, EntryReserve, EntryRelease} = available_credit g"

definition usage_keys :: "usage_db \<Rightarrow> bool" where
  "usage_keys db \<longleftrightarrow> distinct (map ug_id (ugrants db)) \<and> distinct (map rv_id (ureservations db))
     \<and> distinct (map reservation_key (ureservations db))
     \<and> rv_grant ` set (ureservations db) \<subseteq> ug_id ` set (ugrants db)
     \<and> lg_grant ` set (uledger db) \<subseteq> ug_id ` set (ugrants db)"

definition credits_ok :: "usage_db \<Rightarrow> bool" where
  "credits_ok db \<longleftrightarrow> usage_keys db \<and> (\<forall>g \<in> set (ugrants db). grant_ok db g)"

lemma held_count_nonneg [simp]: "0 \<le> held_count db g st"
  by (simp add: held_count_def)

lemma held_count_pos:
  "r \<in> set (ureservations db) \<Longrightarrow> 1 \<le> held_count db (rv_grant r) (rv_state r)"
  using count_where_eq_0[of "\<lambda>x. rv_grant x = rv_grant r \<and> rv_state x = rv_state r" "ureservations db"]
  by (force simp: held_count_def)

section \<open>What the writes return\<close>

lemma usage_new_id_frame:
  "usage_new_id env p db = (i, db') \<Longrightarrow> ugrants db' = ugrants db
     \<and> ureservations db' = ureservations db \<and> uledger db' = uledger db"
  by (auto simp: usage_new_id_def)

lemma write_ledger_Inr:
  assumes "write_ledger env g res e q b m db = Inr db'"
  shows "\<exists>l. uledger db' = uledger db @ [l] \<and> lg_grant l = g \<and> lg_entry l = e \<and> lg_quantity l = q
    \<and> lg_reservation l = res \<and> lg_balance l = b \<and> 0 \<le> b
    \<and> ugrants db' = ugrants db \<and> ureservations db' = ureservations db"
proof -
  obtain lid db1 where "usage_new_id env ''usage-ledger'' db = (lid, db1)" by fastforce
  with usage_new_id_frame[OF this] assms show ?thesis
    by (auto simp: write_ledger_def split: sum.splits if_splits)
qed

lemma update_grants_Inr:
  "update_grants p f db = Inr db' \<Longrightarrow>
     db' = db\<lparr>ugrants := update_where p f (ugrants db)\<rparr> \<and> (\<forall>g \<in> set (ugrants db). p g \<longrightarrow> grant_checks (f g))"
  by (auto simp: update_grants_def split: if_splits)

lemma insert_grant_Inr:
  "insert_grant g db = Inr db' \<Longrightarrow>
     db' = db\<lparr>ugrants := ugrants db @ [g]\<rparr> \<and> ug_id g \<notin> ug_id ` set (ugrants db) \<and> grant_checks g"
  by (auto simp: insert_grant_def split: if_splits)

lemma insert_reservation_Inr:
  "insert_reservation r db = Inr db' \<Longrightarrow>
     db' = db\<lparr>ureservations := ureservations db @ [r]\<rparr> \<and> rv_id r \<notin> rv_id ` set (ureservations db)
     \<and> reservation_key r \<notin> reservation_key ` set (ureservations db)"
  by (auto simp: insert_reservation_def split: if_splits)

section \<open>A movement of one credit\<close>

text \<open>
  Every operation moves the counters of one grant by one: \<open>dr\<close> and \<open>dc\<close> are the changes of
  the reserved and of the consumed reservations, and one ledger row records the movement.
\<close>

definition credit_move ::
    "ident \<Rightarrow> int \<Rightarrow> int \<Rightarrow> usage_db \<Rightarrow> usage_db \<Rightarrow> bool" where
  "credit_move gid dr dc db db' \<longleftrightarrow>
     ugrants db' = update_where (\<lambda>g. ug_id g = gid)
       (\<lambda>g. g\<lparr>ug_remaining := ug_remaining g - dc, ug_reserved := ug_reserved g + dr\<rparr>) (ugrants db)
   \<and> (\<forall>g. held_count db' g Reserved = held_count db g Reserved + (if g = gid then dr else 0))
   \<and> (\<forall>g. held_count db' g Consumed = held_count db g Consumed + (if g = gid then dc else 0))
   \<and> (\<exists>l. uledger db' = uledger db @ [l] \<and> lg_grant l = gid
       \<and> (if lg_entry l \<in> {EntryGrant, EntryConsume} then lg_quantity l else 0) = - dc
       \<and> (if lg_entry l \<in> {EntryGrant, EntryReserve, EntryRelease} then lg_quantity l else 0) = - dc - dr)
   \<and> gid \<in> ug_id ` set (ugrants db)
   \<and> (\<forall>g \<in> set (ugrants db'). grant_checks g)
   \<and> distinct (map rv_id (ureservations db')) \<and> distinct (map reservation_key (ureservations db'))
   \<and> rv_grant ` set (ureservations db') \<subseteq> insert gid (rv_grant ` set (ureservations db))"

lemma credit_move_ids: "credit_move gid dr dc db db' \<Longrightarrow> map ug_id (ugrants db') = map ug_id (ugrants db)"
  by (simp add: credit_move_def map_update_where)

lemma credit_move_ok:
  assumes "credit_move gid dr dc db db'" and ok: "credits_ok db"
  shows "credits_ok db'"
proof -
  note move = assms(1)[unfolded credit_move_def]
  have ids: "ug_id ` set (ugrants db') = ug_id ` set (ugrants db)"
    using credit_move_ids[OF assms(1)] by (metis list.set_map)
  have sub: "rv_grant ` set (ureservations db') \<subseteq> insert gid (rv_grant ` set (ureservations db))"
      "gid \<in> ug_id ` set (ugrants db)"
    and ds: "distinct (map rv_id (ureservations db'))" "distinct (map reservation_key (ureservations db'))"
    using move by blast+
  obtain l0 where l0: "uledger db' = uledger db @ [l0]" "lg_grant l0 = gid" using move by blast
  have grants: "rv_grant ` set (ureservations db') \<subseteq> ug_id ` set (ugrants db)"
    using ok sub unfolding credits_ok_def usage_keys_def by blast
  have ledger: "lg_grant ` set (uledger db') \<subseteq> ug_id ` set (ugrants db)"
    using ok l0 sub(2) unfolding credits_ok_def usage_keys_def by simp
  have keys: "usage_keys db'"
    unfolding usage_keys_def ids credit_move_ids[OF assms(1)]
    using ok ds grants ledger by (simp add: credits_ok_def usage_keys_def)
  have "grant_ok db' g'" if g': "g' \<in> set (ugrants db')" for g'
  proof -
    obtain g where g: "g \<in> set (ugrants db)" "g' = (if ug_id g = gid
        then g\<lparr>ug_remaining := ug_remaining g - dc, ug_reserved := ug_reserved g + dr\<rparr> else g)"
      using g' move by (auto simp: table_simps)
    have gok: "grant_ok db g" using ok g(1) by (simp add: credits_ok_def)
    have checks: "grant_checks g'" using move g' by blast
    obtain l where l: "uledger db' = uledger db @ [l]" "lg_grant l = gid"
       "(if lg_entry l \<in> {EntryGrant, EntryConsume} then lg_quantity l else 0) = - dc"
       "(if lg_entry l \<in> {EntryGrant, EntryReserve, EntryRelease} then lg_quantity l else 0) = - dc - dr"
      using move by blast
    have sums: "ledger_sum db' (ug_id g) {EntryGrant, EntryConsume}
         = ledger_sum db (ug_id g) {EntryGrant, EntryConsume} + (if ug_id g = gid then - dc else 0)"
       "ledger_sum db' (ug_id g) {EntryGrant, EntryReserve, EntryRelease}
         = ledger_sum db (ug_id g) {EntryGrant, EntryReserve, EntryRelease}
           + (if ug_id g = gid then - dc - dr else 0)"
      using l by (auto simp: ledger_sum_def)
    have counts: "held_count db' (ug_id g) Reserved = held_count db (ug_id g) Reserved + (if ug_id g = gid then dr else 0)"
       "held_count db' (ug_id g) Consumed = held_count db (ug_id g) Consumed + (if ug_id g = gid then dc else 0)"
      using move by blast+
    show ?thesis
      using gok checks sums counts g(2) unfolding grant_ok_def available_credit_def by auto
  qed
  with keys show ?thesis by (simp add: credits_ok_def)
qed

text \<open>The tables after a write that moves a reservation from one state to another.\<close>

lemma held_count_update:
  assumes "distinct (map rv_id (ureservations db))" and "r \<in> set (ureservations db)" and "rv_state r = s"
    and "ureservations db' = update_where (\<lambda>x. rv_id x = rv_id r \<and> rv_state x = s) f (ureservations db)"
  shows "held_count db' g st = held_count db g st - (if rv_grant r = g \<and> s = st then 1 else 0)
    + (if rv_grant (f r) = g \<and> rv_state (f r) = st then 1 else 0)"
  using count_where_update_key[of rv_id "ureservations db" r "\<lambda>x. rv_state x = s"
      "\<lambda>x. rv_grant x = g \<and> rv_state x = st" f] assms
  by (auto simp: held_count_def)

lemma grants_update_key:
  assumes "distinct (map ug_id (ugrants db))" and "g \<in> set (ugrants db)" and "p g"
  shows "update_where (\<lambda>x. ug_id x = ug_id g \<and> p x) f (ugrants db)
    = update_where (\<lambda>x. ug_id x = ug_id g) f (ugrants db)"
  using assms by (intro update_where_cong) (auto simp: distinct_map inj_on_def)

lemma get_grant_Inr: "get_grant db i = Inr g \<Longrightarrow> g \<in> set (ugrants db) \<and> ug_id g = i"
  by (auto simp: get_grant_def split: option.splits dest: find_Some_iff_mem)

lemma get_reservation_Some: "get_reservation db i = Some r \<Longrightarrow> r \<in> set (ureservations db) \<and> rv_id r = i"
  by (auto simp: get_reservation_def dest: find_Some_iff_mem)

lemma reserved_counters:
  assumes "credits_ok db" and "r \<in> set (ureservations db)" and "rv_state r = Reserved"
    and "g \<in> set (ugrants db)" and "ug_id g = rv_grant r"
  shows "0 < ug_remaining g \<and> 0 < ug_reserved g"
  using held_count_pos[OF assms(2)] assms unfolding credits_ok_def grant_ok_def grant_checks_def by fastforce

section \<open>Every operation is a movement\<close>

lemma credit_moveI:
  assumes "gid \<in> ug_id ` set (ugrants db)"
    and "ugrants db1 = update_where (\<lambda>g. ug_id g = gid)
       (\<lambda>g. g\<lparr>ug_remaining := ug_remaining g - dc, ug_reserved := ug_reserved g + dr\<rparr>) (ugrants db)"
    and "\<forall>g \<in> set (ugrants db1). grant_checks g"
    and "\<And>g. held_count db1 g Reserved = held_count db g Reserved + (if g = gid then dr else 0)"
    and "\<And>g. held_count db1 g Consumed = held_count db g Consumed + (if g = gid then dc else 0)"
    and "distinct (map rv_id (ureservations db1))" "distinct (map reservation_key (ureservations db1))"
    and "rv_grant ` set (ureservations db1) \<subseteq> insert gid (rv_grant ` set (ureservations db))"
    and "uledger db1 = uledger db"
    and "write_ledger env gid res e q b m db1 = Inr db'"
    and "(if e \<in> {EntryGrant, EntryConsume} then q else 0) = - dc"
    and "(if e \<in> {EntryGrant, EntryReserve, EntryRelease} then q else 0) = - dc - dr"
  shows "credit_move gid dr dc db db' \<and> ureservations db' = ureservations db1 \<and> ugrants db' = ugrants db1"
proof -
  obtain l where l: "uledger db' = uledger db1 @ [l]" "lg_grant l = gid" "lg_entry l = e" "lg_quantity l = q"
    and same: "ugrants db' = ugrants db1" "ureservations db' = ureservations db1"
    using write_ledger_Inr[OF assms(10)] by blast
  have "held_count db' g st = held_count db1 g st" for g st by (simp add: held_count_def same)
  moreover have "\<exists>l. uledger db' = uledger db @ [l] \<and> lg_grant l = gid
       \<and> (if lg_entry l \<in> {EntryGrant, EntryConsume} then lg_quantity l else 0) = - dc
       \<and> (if lg_entry l \<in> {EntryGrant, EntryReserve, EntryRelease} then lg_quantity l else 0) = - dc - dr"
    using l assms(9,11,12) by (intro exI[of _ l]) (cases e; simp)
  ultimately show ?thesis
    using assms(1-8) unfolding credit_move_def same by simp
qed

text \<open>Consuming or releasing a reserved reservation.\<close>

lemma state_change_move:
  assumes ok: "credits_ok db" and r: "get_reservation db rid = Some r" "rv_state r = Reserved"
    and st: "st \<noteq> Reserved" and dc: "dc = (if st = Consumed then 1 else 0)"
    and g: "get_grant db (rv_grant r) = Inr g" and q: "q g"
    and f: "f = (\<lambda>x. x\<lparr>ug_remaining := ug_remaining x - dc, ug_reserved := ug_reserved x + - 1\<rparr>)"
    and up: "update_grants (\<lambda>x. ug_id x = ug_id g \<and> q x) f (set_reservation_state rid st db) = Inr db1"
    and led: "write_ledger env (ug_id g) res e n b m db1 = Inr db'"
    and e: "(if e \<in> {EntryGrant, EntryConsume} then n else 0) = - dc"
      "(if e \<in> {EntryGrant, EntryReserve, EntryRelease} then n else 0) = - dc + 1"
  shows "credit_move (rv_grant r) (- 1) dc db db'
    \<and> ureservations db' = ureservations (set_reservation_state rid st db)"
proof -
  note rr = get_reservation_Some[OF r(1)] and gg = get_grant_Inr[OF g]
  have keys: "distinct (map ug_id (ugrants db))" "distinct (map rv_id (ureservations db))"
      "distinct (map reservation_key (ureservations db))"
    using ok by (simp_all add: credits_ok_def usage_keys_def)
  have res: "ureservations db1 = update_where (\<lambda>x. rv_id x = rv_id r \<and> rv_state x = Reserved)
      (\<lambda>x. x\<lparr>rv_state := st\<rparr>) (ureservations db)"
    and old: "uledger db1 = uledger db"
    and grants0: "ugrants db1 = update_where (\<lambda>x. ug_id x = ug_id g \<and> q x) f (ugrants db)"
    and checked: "\<forall>g' \<in> set (ugrants db). ug_id g' = ug_id g \<and> q g' \<longrightarrow> grant_checks (f g')"
    using update_grants_Inr[OF up] rr by (simp_all add: set_reservation_state_def)
  have grants: "ugrants db1 = update_where (\<lambda>x. ug_id x = rv_grant r) f (ugrants db)"
    using grants_update_key[of db g q f] keys(1) gg q grants0 by simp
  have checks: "\<forall>g \<in> set (ugrants db1). grant_checks g"
    using ok checked unfolding grants0 by (auto simp: table_simps credits_ok_def grant_ok_def)
  have counts: "held_count db1 g' s = held_count db g' s - (if rv_grant r = g' \<and> Reserved = s then 1 else 0)
      + (if rv_grant r = g' \<and> st = s then 1 else 0)" for g' s
    using held_count_update[OF keys(2) conjunct1[OF rr] r(2) res] by simp
  have ids: "map rv_id (ureservations db1) = map rv_id (ureservations db)"
      "map reservation_key (ureservations db1) = map reservation_key (ureservations db)"
      "map rv_grant (ureservations db1) = map rv_grant (ureservations db)"
    unfolding res by (simp_all add: map_update_where reservation_key_def)
  have targets: "rv_grant ` set (ureservations db1) = rv_grant ` set (ureservations db)"
    using ids(3) by (metis list.set_map)
  have id: "ug_id g = rv_grant r" using gg by simp
  have res': "ureservations db1 = ureservations (set_reservation_state rid st db)"
    using res rr by (simp add: set_reservation_state_def)
  have mem: "rv_grant r \<in> ug_id ` set (ugrants db)" using gg by force
  have reserved: "held_count db1 g' Reserved = held_count db g' Reserved + (if g' = rv_grant r then - 1 else 0)"
    and consumed: "held_count db1 g' Consumed = held_count db g' Consumed + (if g' = rv_grant r then dc else 0)" for g'
    using counts st dc by auto
  have distinct: "distinct (map rv_id (ureservations db1))" "distinct (map reservation_key (ureservations db1))"
    using keys ids by simp_all
  have sub: "rv_grant ` set (ureservations db1) \<subseteq> insert (rv_grant r) (rv_grant ` set (ureservations db))"
    using targets by blast
  show ?thesis
    unfolding res'[symmetric]
    using credit_moveI[OF mem grants[unfolded f] checks reserved consumed distinct sub old led[unfolded id] e(1)]
      e(2) by simp
qed

lemma consume_move:
  assumes ok: "credits_ok db" and r: "get_reservation db rid = Some r" "rv_state r = Reserved"
    and run: "consume_reservation_item env db rid snap = Inr (v, db')"
  shows "credit_move (rv_grant r) (- 1) 1 db db'
    \<and> ureservations db' = ureservations (set_reservation_state rid Consumed db)
    \<and> v = (reservation_payload r)\<lparr>rp_state := Consumed\<rparr>"
proof -
  obtain g db1 where g: "get_grant db (rv_grant r) = Inr g"
    and 1: "update_grants (\<lambda>x. ug_id x = ug_id g \<and> 0 < ug_remaining x \<and> 0 < ug_reserved x)
        (\<lambda>x. x\<lparr>ug_remaining := ug_remaining x - 1, ug_reserved := ug_reserved x - 1\<rparr>)
        (set_reservation_state rid Consumed db) = Inr db1"
    and 2: "write_ledger env (ug_id g) (Some rid) EntryConsume (- 1) (ug_remaining g - 1)
              (PDict [(''snapshotId'', PStr (py_str (dget snap ''id'')))]) db1 = Inr db'"
    and v: "v = (reservation_payload r)\<lparr>rp_state := Consumed\<rparr>"
    using run r by (auto simp: consume_reservation_item_def res_simps split: if_splits)
  have pos: "0 < ug_remaining g \<and> 0 < ug_reserved g"
    using reserved_counters[OF ok _ r(2), of g] get_reservation_Some[OF r(1)] get_grant_Inr[OF g] by simp
  show ?thesis
    using state_change_move[OF ok r _ _ g _ _ 1 2, of 1] pos v by simp
qed

lemma release_move:
  assumes ok: "credits_ok db" and r: "get_reservation db rid = Some r" "rv_state r = Reserved"
    and run: "release_reservation_item env db rid why = Inr (v, db')"
  shows "credit_move (rv_grant r) (- 1) 0 db db'
    \<and> ureservations db' = ureservations (set_reservation_state rid Released db)
    \<and> v = (reservation_payload r)\<lparr>rp_state := Released\<rparr>"
proof -
  obtain g db1 m where g: "get_grant db (rv_grant r) = Inr g"
    and 1: "update_grants (\<lambda>x. ug_id x = ug_id g \<and> 0 < ug_reserved x)
        (\<lambda>x. x\<lparr>ug_reserved := ug_reserved x - 1\<rparr>) (set_reservation_state rid Released db) = Inr db1"
    and 2: "write_ledger env (ug_id g) (Some rid) EntryRelease 1 (ug_remaining g - ug_reserved g + 1)
              m db1 = Inr db'"
    and v: "v = (reservation_payload r)\<lparr>rp_state := Released\<rparr>"
    using run r by (auto simp: release_reservation_item_def res_simps)
  have pos: "0 < ug_reserved g"
    using reserved_counters[OF ok _ r(2), of g] get_reservation_Some[OF r(1)] get_grant_Inr[OF g] by simp
  show ?thesis
    using state_change_move[OF ok r _ _ g _ _ 1 2, of 0] pos v by simp
qed

lemma update_grants_id:
  "update_where (\<lambda>x. ug_id x = i) (\<lambda>x. x\<lparr>ug_reserved := ug_reserved x + 1\<rparr>) gs
   = update_where (\<lambda>x. ug_id x = i) (\<lambda>x. x\<lparr>ug_remaining := ug_remaining x - 0, ug_reserved := ug_reserved x + 1\<rparr>) gs"
  by (simp add: update_where_def)

lemma reserve_candidate_move:
  assumes ok: "credits_ok db" and g: "g \<in> set (ugrants db)"
    and old: "\<And>r. old = Some r \<Longrightarrow> r \<in> set (ureservations db) \<and> rv_state r = Released \<and> rv_candidate r = c"
    and run: "reserve_candidate env ow job lease g c old db = Inr (v, db')"
  shows "credit_move (ug_id g) 1 0 db db'
    \<and> ugrants db' = update_where (\<lambda>x. ug_id x = ug_id g) (\<lambda>x. x\<lparr>ug_reserved := ug_reserved x + 1\<rparr>) (ugrants db)
    \<and> rp_candidate v = c \<and> rp_grant v = ug_id g
    \<and> (\<exists>r \<in> set (ureservations db'). reservation_payload r = v \<and> rv_state r = Reserved)
    \<and> (\<forall>r \<in> set (ureservations db). old \<noteq> Some r \<longrightarrow> r \<in> set (ureservations db'))"
proof -
  let ?inc = "\<lambda>x. x\<lparr>ug_reserved := ug_reserved x + 1\<rparr>"
  let ?row = "\<lambda>rid. \<lparr>rv_id = rid, rv_account = account_user_id ow, rv_org = organization_id ow,
     rv_kind = uo_kind ow, rv_candidate = c, rv_job = job, rv_grant = ug_id g,
     rv_state = Reserved, rv_lease = lease\<rparr>"
  obtain db1 rid db2 where 1: "update_grants (\<lambda>x. ug_id x = ug_id g) ?inc db = Inr db1"
    and 2: "write_reservation env ow job lease (ug_id g) c old db1 = Inr (rid, db2)"
    and 3: "write_ledger env (ug_id g) (Some rid) EntryReserve (- 1) (ug_remaining g - (ug_reserved g + 1))
         (PDict [(''jobKey'', PStr job), (''candidate'', identity_list c)]) db2 = Inr db'"
    and v: "v = \<lparr>rp_id = rid, rp_state = Reserved, rp_grant = ug_id g, rp_candidate = c, rp_lease = lease\<rparr>"
    using run by (auto simp: reserve_candidate_def res_simps)
  have keys: "distinct (map ug_id (ugrants db))" "distinct (map rv_id (ureservations db))"
      "distinct (map reservation_key (ureservations db))"
    using ok by (simp_all add: credits_ok_def usage_keys_def)
  have u: "ugrants db1 = update_where (\<lambda>x. ug_id x = ug_id g) ?inc (ugrants db)"
      "ureservations db1 = ureservations db" "uledger db1 = uledger db"
      "\<forall>g' \<in> set (ugrants db). ug_id g' = ug_id g \<longrightarrow> grant_checks (?inc g')"
    using update_grants_Inr[OF 1] by simp_all
  have res: "ugrants db2 = ugrants db1 \<and> uledger db2 = uledger db
     \<and> (\<exists>r \<in> set (ureservations db2). reservation_payload r = v \<and> rv_state r = Reserved)
     \<and> (\<forall>r \<in> set (ureservations db). old \<noteq> Some r \<longrightarrow> r \<in> set (ureservations db2))
     \<and> distinct (map rv_id (ureservations db2)) \<and> distinct (map reservation_key (ureservations db2))
     \<and> rv_grant ` set (ureservations db2) \<subseteq> insert (ug_id g) (rv_grant ` set (ureservations db))
     \<and> (\<forall>h. held_count db2 h Reserved = held_count db h Reserved + (if h = ug_id g then 1 else 0))
     \<and> (\<forall>h. held_count db2 h Consumed = held_count db h Consumed)"
  proof (cases old)
    case None
    then obtain dbx where x: "usage_new_id env ''usage-reservation'' db1 = (rid, dbx)"
        "insert_reservation (?row rid) dbx = Inr db2"
      using 2 by (auto simp: write_reservation_def res_simps split: prod.splits)
    then have "ugrants db2 = ugrants db1" "uledger db2 = uledger db" "ureservations db2 = ureservations db @ [?row rid]"
      and new: "rid \<notin> rv_id ` set (ureservations db)"
        "reservation_key (?row rid) \<notin> reservation_key ` set (ureservations db)"
      using insert_reservation_Inr[OF x(2)] usage_new_id_frame[OF x(1)] u by simp_all
    then show ?thesis
      using keys new by (auto simp: v reservation_payload_def held_count_def)
  next
    case (Some r)
    note r = old[OF Some]
    have w: "ureservations db2 = update_where (\<lambda>x. rv_id x = rv_id r \<and> rv_state x = Released)
       (\<lambda>x. x\<lparr>rv_grant := ug_id g, rv_state := Reserved, rv_job := job, rv_lease := lease\<rparr>) (ureservations db)"
      and f: "ugrants db2 = ugrants db1" "uledger db2 = uledger db" and rid: "rid = rv_id r"
      using 2 Some u by (auto simp: write_reservation_def)
    have other: "rv_id x \<noteq> rv_id r" if "x \<in> set (ureservations db)" "x \<noteq> r" for x
      using that r keys(2) by (auto simp: distinct_map inj_on_def)
    let ?r = "r\<lparr>rv_grant := ug_id g, rv_state := Reserved, rv_job := job, rv_lease := lease\<rparr>"
    have "?r \<in> set (ureservations db2)" using r by (force simp: w table_simps)
    moreover have "reservation_payload ?r = v" using r by (simp add: v rid reservation_payload_def)
    moreover have "x \<in> set (ureservations db2)" if "x \<in> set (ureservations db)" "old \<noteq> Some x" for x
      using that other[OF that(1)] Some by (force simp: w table_simps)
    moreover have "map rv_id (ureservations db2) = map rv_id (ureservations db)"
        "map reservation_key (ureservations db2) = map reservation_key (ureservations db)"
      by (simp_all add: w map_update_where reservation_key_def)
    moreover have "rv_grant ` set (ureservations db2) \<subseteq> insert (ug_id g) (rv_grant ` set (ureservations db))"
      by (auto simp: w table_simps)
    moreover have "held_count db2 h st = held_count db h st - (if rv_grant r = h \<and> Released = st then 1 else 0)
        + (if ug_id g = h \<and> Reserved = st then 1 else 0)" for h st
      using held_count_update[of db r Released db2 _ h st] w keys(2) r by simp
    ultimately show ?thesis using f keys by (auto intro: rev_bexI)
  qed
  have mem: "ug_id g \<in> ug_id ` set (ugrants db)" using g by simp
  have checks: "\<forall>g \<in> set (ugrants db2). grant_checks g"
    using ok u(4) res unfolding u(1) by (auto simp: u(1) table_simps credits_ok_def grant_ok_def)
  have grants: "ugrants db2 = update_where (\<lambda>x. ug_id x = ug_id g)
      (\<lambda>x. x\<lparr>ug_remaining := ug_remaining x - 0, ug_reserved := ug_reserved x + 1\<rparr>) (ugrants db)"
    using res u(1) update_grants_id by simp
  note move = credit_moveI[OF mem grants checks _ _ _ _ _ _ 3]
  have "credit_move (ug_id g) 1 0 db db' \<and> ureservations db' = ureservations db2 \<and> ugrants db' = ugrants db2"
    by (rule move) (use res in simp_all)
  then show ?thesis using res u(1) v by simp
qed

section \<open>The reserving loop\<close>

definition grant_key :: "credit_grant \<Rightarrow> int \<times> int \<times> ident" where
  "grant_key g = (ug_expires_at g, ug_issued_at g, ug_id g)"

definition pending_ok :: "(source_revision \<times> reservation option) list \<Rightarrow> usage_db \<Rightarrow> bool" where
  "pending_ok pending db \<longleftrightarrow> distinct (map fst pending) \<and> (\<forall>c r. (c, Some r) \<in> set pending \<longrightarrow>
     r \<in> set (ureservations db) \<and> rv_state r = Released \<and> rv_candidate r = c)"

definition locked_ok :: "credit_grant list \<Rightarrow> usage_db \<Rightarrow> bool" where
  "locked_ok gs db \<longleftrightarrow> set gs \<subseteq> set (ugrants db) \<and> distinct (map ug_id gs) \<and> sorted (map grant_key gs)"

text \<open>\<open>fefo gs v db\<close>: the grant of \<open>v\<close> is in \<open>gs\<close> and every earlier one there has no credit left.\<close>

definition fefo :: "credit_grant list \<Rightarrow> reservation_view \<Rightarrow> usage_db \<Rightarrow> bool" where
  "fefo gs v db \<longleftrightarrow> (\<exists>g \<in> set gs. ug_id g = rp_grant v \<and> (\<forall>h \<in> set gs. grant_key h < grant_key g \<longrightarrow>
     (\<forall>h' \<in> set (ugrants db). ug_id h' = ug_id h \<longrightarrow> available_credit h' = 0)))"

definition total_available :: "usage_db \<Rightarrow> int" where
  "total_available db = sum_list (map available_credit (ugrants db))"

lemma available_nonneg: "credits_ok db \<Longrightarrow> g \<in> set (ugrants db) \<Longrightarrow> 0 \<le> available_credit g"
  by (auto simp: credits_ok_def grant_ok_def grant_checks_def available_credit_def)

lemma total_available_update:
  "distinct (map ug_id gs) \<Longrightarrow> i \<in> ug_id ` set gs \<Longrightarrow>
   sum_list (map available_credit (update_where (\<lambda>x. ug_id x = i) (\<lambda>x. x\<lparr>ug_reserved := ug_reserved x + 1\<rparr>) gs))
     = sum_list (map available_credit gs) - 1"
proof (induction gs)
  case (Cons g gs)
  show ?case
  proof (cases "ug_id g = i")
    case True
    then have "update_where (\<lambda>x. ug_id x = i) (\<lambda>x. x\<lparr>ug_reserved := ug_reserved x + 1\<rparr>) gs = gs"
      using Cons.prems by (intro update_where_none) (metis distinct.simps(2) image_eqI list.set_map list.simps(9))
    then show ?thesis using True by (simp add: available_credit_def)
  qed (use Cons in auto)
qed simp

lemma locked_step:
  assumes ok: "credits_ok db" and gs: "locked_ok (g # gs) db"
    and up: "ugrants db1 = update_where (\<lambda>x. ug_id x = ug_id g) (\<lambda>x. x\<lparr>ug_reserved := ug_reserved x + 1\<rparr>) (ugrants db)"
  shows "locked_ok (g\<lparr>ug_reserved := ug_reserved g + 1\<rparr> # gs) db1"
proof -
  have "h \<in> set (ugrants db1)" if "h \<in> set gs" for h
  proof -
    have "ug_id h \<in> ug_id ` set gs" using that by simp
    then have "ug_id h \<noteq> ug_id g" using gs by (auto simp: locked_ok_def)
    then show ?thesis using gs that by (auto simp: locked_ok_def up table_simps image_iff)
  qed
  moreover have "g\<lparr>ug_reserved := ug_reserved g + 1\<rparr> \<in> set (ugrants db1)"
    using gs by (auto simp: locked_ok_def up table_simps intro: rev_image_eqI)
  ultimately show ?thesis using gs by (auto simp: locked_ok_def grant_key_def)
qed

lemma reserve_pending_first:
  assumes "dropWhile (\<lambda>g. available_credit g \<le> 0) gs = g # gs'"
    and "reserve_pending env ow job lease ((c, old) # pending) gs acc db = Inr (views, db')"
  shows "\<exists>v db1. reserve_candidate env ow job lease g c old db = Inr (v, db1)
    \<and> reserve_pending env ow job lease pending (g\<lparr>ug_reserved := ug_reserved g + 1\<rparr> # gs') (acc @ [v]) db1
        = Inr (views, db')"
proof (cases "reserve_candidate env ow job lease g c old db")
  case (Inr x)
  then show ?thesis using assms by (cases x) simp
qed (use assms in simp)

lemma pending_step:
  assumes pend: "pending_ok ((c, old) # pending) db"
    and kept: "\<forall>r \<in> set (ureservations db). old \<noteq> Some r \<longrightarrow> r \<in> set (ureservations db1)"
  shows "pending_ok pending db1"
  unfolding pending_ok_def
proof (intro conjI allI impI)
  show "distinct (map fst pending)" using pend by (simp add: pending_ok_def)
  fix c' r assume r: "(c', Some r) \<in> set pending"
  then have old: "r \<in> set (ureservations db)" "rv_state r = Released" "rv_candidate r = c'"
    using pend unfolding pending_ok_def by (meson list.set_intros(2))+
  have "c' \<in> fst ` set pending" using r by (metis fst_conv image_eqI)
  then have "c' \<noteq> c" using pend by (auto simp: pending_ok_def)
  moreover have "c = rv_candidate r" if "old = Some r"
    using pend that unfolding pending_ok_def by (metis list.set_intros(1))
  ultimately have "old \<noteq> Some r" using old(3) by auto
  then show "r \<in> set (ureservations db1)" using kept old(1) by blast
  show "rv_state r = Released" "rv_candidate r = c'" using old by blast+
qed

lemma reserve_pending_effect:
  assumes "reserve_pending env ow job lease pending gs acc db = Inr (views, db')"
    and "credits_ok db" and "locked_ok gs db" and "pending_ok pending db"
  shows "\<exists>new. views = acc @ new \<and> credits_ok db'
    \<and> length new = min (length pending) (nat (sum_list (map available_credit gs)))
    \<and> map rp_candidate new = take (length new) (map fst pending)
    \<and> (\<forall>v \<in> set new. (\<exists>r \<in> set (ureservations db'). reservation_payload r = v \<and> rv_state r = Reserved)
          \<and> fefo gs v db')
    \<and> (\<forall>r \<in> set (ureservations db). (\<forall>c. (c, Some r) \<notin> set pending) \<longrightarrow> r \<in> set (ureservations db'))
    \<and> (\<forall>h \<in> set (ugrants db). available_credit h \<le> 0 \<longrightarrow> h \<in> set (ugrants db'))
    \<and> map ug_id (ugrants db') = map ug_id (ugrants db)
    \<and> total_available db' = total_available db - int (length new)"
  using assms
proof (induction pending arbitrary: gs acc db)
  case Nil
  then show ?case by simp
next
  case (Cons p pending)
  obtain c old where p: "p = (c, old)" by fastforce
  have nonneg: "\<And>g. g \<in> set gs \<Longrightarrow> 0 \<le> available_credit g"
    using Cons.prems(2,3) available_nonneg unfolding locked_ok_def by blast
  show ?case
  proof (cases "dropWhile (\<lambda>g. available_credit g \<le> 0) gs")
    case Nil
    then have "\<forall>g \<in> set gs. available_credit g = 0" using nonneg by (fastforce simp: dropWhile_eq_Nil_conv)
    then have "sum_list (map available_credit gs) = 0" by (induction gs) auto
    then show ?thesis using Cons.prems(1,2) Nil by (simp add: p)
  next
    case (Cons g gs')
    define ds where "ds = takeWhile (\<lambda>g. available_credit g \<le> 0) gs"
    have gs: "gs = ds @ g # gs'" unfolding ds_def Cons[symmetric] by simp
    have ds0: "\<And>h. h \<in> set ds \<Longrightarrow> available_credit h = 0"
      using nonneg by (auto simp: ds_def dest!: set_takeWhileD intro: antisym)
    have g0: "0 < available_credit g" using Cons by (auto simp: dropWhile_eq_Cons_conv)
    let ?g = "g\<lparr>ug_reserved := ug_reserved g + 1\<rparr>"
    have lock: "locked_ok (g # gs') db" using Cons.prems(3) by (auto simp: locked_ok_def gs sorted_append)
    obtain v db1 where v: "reserve_candidate env ow job lease g c old db = Inr (v, db1)"
      and rest: "reserve_pending env ow job lease pending (?g # gs') (acc @ [v]) db1 = Inr (views, db')"
      using reserve_pending_first[OF Cons Cons.prems(1)[unfolded p]] by blast
    have olds: "\<And>r. old = Some r \<Longrightarrow> r \<in> set (ureservations db) \<and> rv_state r = Released \<and> rv_candidate r = c"
      using Cons.prems(4) unfolding p pending_ok_def by (meson list.set_intros(1))
    have gdb: "g \<in> set (ugrants db)" using lock by (simp add: locked_ok_def)
    note move = reserve_candidate_move[OF Cons.prems(2) gdb olds v]
    have ok1: "credits_ok db1" using move Cons.prems(2) credit_move_ok by blast
    have lock1: "locked_ok (?g # gs') db1" using locked_step[OF Cons.prems(2) lock] move by blast
    have pend1: "pending_ok pending db1"
      using pending_step[OF Cons.prems(4)[unfolded p]] move by blast
    obtain new where new: "views = acc @ v # new" "credits_ok db'"
      "length new = min (length pending) (nat (sum_list (map available_credit (?g # gs'))))"
      "map rp_candidate new = take (length new) (map fst pending)"
      "\<And>w. w \<in> set new \<Longrightarrow> (\<exists>r \<in> set (ureservations db'). reservation_payload r = w \<and> rv_state r = Reserved)
          \<and> fefo (?g # gs') w db'"
      "\<And>r. r \<in> set (ureservations db1) \<Longrightarrow> (\<And>c. (c, Some r) \<notin> set pending) \<Longrightarrow> r \<in> set (ureservations db')"
      "\<And>h. h \<in> set (ugrants db1) \<Longrightarrow> available_credit h \<le> 0 \<Longrightarrow> h \<in> set (ugrants db')"
      "map ug_id (ugrants db') = map ug_id (ugrants db1)"
      "total_available db' = total_available db1 - int (length new)"
      using Cons.IH[OF rest ok1 lock1 pend1] by auto
    have ids: "map ug_id (ugrants db1) = map ug_id (ugrants db)" using move by (simp add: map_update_where)
    have empty: "h \<in> set (ugrants db')" if "h \<in> set (ugrants db)" "available_credit h \<le> 0" for h
    proof -
      have "ug_id h \<noteq> ug_id g"
        using that g0 gdb Cons.prems(2) by (auto simp: credits_ok_def usage_keys_def distinct_map inj_on_def)
      then have "h \<in> set (ugrants db1)" using move that(1) by (force simp: table_simps)
      then show ?thesis using new(7) that(2) by blast
    qed
    have dry: "available_credit h' = 0" if "h \<in> set ds" "h' \<in> set (ugrants db')" "ug_id h' = ug_id h" for h h'
    proof -
      have "h \<in> set (ugrants db)" using that(1) Cons.prems(3) by (auto simp: locked_ok_def gs)
      then have "h \<in> set (ugrants db')" using empty ds0[OF that(1)] by simp
      then have "h' = h"
        using that new(2) by (auto simp: credits_ok_def usage_keys_def distinct_map inj_on_def)
      then show ?thesis using ds0[OF that(1)] by simp
    qed
    have early: "h \<in> set ds" if "h \<in> set gs" "grant_key h < grant_key g" for h
      using that Cons.prems(3) by (auto simp: locked_ok_def gs sorted_append)
    have first: "fefo gs v db'"
      using move dry early unfolding fefo_def gs by (intro bexI[of _ g]) auto
    have key: "grant_key ?g = grant_key g" "ug_id ?g = ug_id g" by (simp_all add: grant_key_def)
    have later: "fefo gs w db'" if w: "w \<in> set new" for w
    proof -
      obtain g2 where g2: "g2 \<in> set (?g # gs')" "ug_id g2 = rp_grant w"
        and dry2: "\<And>h h'. h \<in> set (?g # gs') \<Longrightarrow> grant_key h < grant_key g2 \<Longrightarrow> h' \<in> set (ugrants db')
          \<Longrightarrow> ug_id h' = ug_id h \<Longrightarrow> available_credit h' = 0"
        using new(5)[OF w] unfolding fefo_def by blast
      obtain g3 where g3: "g3 \<in> set gs" "ug_id g3 = ug_id g2" "grant_key g3 = grant_key g2"
        using g2(1) key unfolding gs by (metis in_set_conv_decomp set_ConsD Un_iff set_append list.set_intros)
      have "available_credit h' = 0" if h: "h \<in> set gs" "grant_key h < grant_key g3"
        and h': "h' \<in> set (ugrants db')" "ug_id h' = ug_id h" for h h'
      proof -
        consider "h \<in> set ds" | "h = g" | "h \<in> set gs'" using h(1) gs by auto
        then show ?thesis
          using dry[OF _ h'] dry2[of ?g h'] dry2[of h h'] h(2) g3(3) h' key by cases simp_all
      qed
      then show ?thesis unfolding fefo_def using g3 g2(2) by (intro bexI[of _ g3]) auto
    qed
    obtain r where r: "r \<in> set (ureservations db1)" "reservation_payload r = v" "rv_state r = Reserved"
      using move by blast
    have "(\<And>c. (c, Some r) \<notin> set pending)"
      using pend1 r(3) unfolding pending_ok_def by (metis reservation_state.distinct(3))
    then have recorded: "r \<in> set (ureservations db')" using new(6) r(1) by blast
    have kept: "r' \<in> set (ureservations db')"
      if "r' \<in> set (ureservations db)" "\<forall>c. (c, Some r') \<notin> set (p # pending)" for r'
      using that new(6)[of r'] move by (auto simp: p)
    have "sum_list (map available_credit ds) = 0" using ds0 by (induction ds) auto
    then have sum: "sum_list (map available_credit gs) = available_credit g + sum_list (map available_credit gs')"
      by (simp add: gs)
    have "0 \<le> sum_list (map available_credit gs')" using nonneg by (auto simp: gs intro!: sum_list_nonneg)
    then have len: "length (v # new) = min (length (p # pending)) (nat (sum_list (map available_credit gs)))"
      using g0 by (simp add: new(3) sum available_credit_def)
    have total: "total_available db' = total_available db - int (length (v # new))"
      using new(9) total_available_update[of "ugrants db" "ug_id g"] Cons.prems(2) gdb move
      by (simp add: total_available_def credits_ok_def usage_keys_def)
    have cands: "map rp_candidate (v # new) = take (length (v # new)) (map fst (p # pending))"
      using new(4) move by (simp add: p)
    show ?thesis
    proof (intro exI[of _ "v # new"] conjI)
      show "\<forall>w \<in> set (v # new). (\<exists>r \<in> set (ureservations db'). reservation_payload r = w \<and> rv_state r = Reserved)
          \<and> fefo gs w db'"
        using first later recorded r(2,3) new(5) by auto
    qed (use new(1,2,8) ids len total cands kept empty in simp_all)
  qed
qed

section \<open>Batches\<close>

lemma candidate_identity_inject: "candidate_identity c = candidate_identity d \<longleftrightarrow> c = d"
  by (auto simp: candidate_identity_def)

lemma setdefault_fold_keys:
  "distinct (map fst d) \<Longrightarrow> \<forall>(k, c) \<in> set d. k = candidate_identity c \<Longrightarrow>
   (let d' = fold (\<lambda>c. dict_setdefault (candidate_identity c) c) cs d in
     distinct (map fst d') \<and> (\<forall>(k, c) \<in> set d'. k = candidate_identity c)
     \<and> snd ` set d' = snd ` set d \<union> set cs)"
proof (induction cs arbitrary: d)
  case (Cons c cs)
  let ?d = "dict_setdefault (candidate_identity c) c d"
  have "distinct (map fst ?d) \<and> (\<forall>(k, c) \<in> set ?d. k = candidate_identity c)"
    using Cons.prems by (auto simp: dict_setdefault_def map_of_eq_None_iff split: option.splits)
  moreover have "snd ` set ?d = insert c (snd ` set d)"
  proof (cases "map_of d (candidate_identity c)")
    case (Some e)
    then have "(candidate_identity c, e) \<in> set d" by (rule map_of_SomeD)
    moreover from this have "e = c" using Cons.prems(2) by (auto simp: candidate_identity_inject)
    ultimately show ?thesis using Some by (force simp: dict_setdefault_def)
  qed (auto simp: dict_setdefault_def)
  ultimately show ?case using Cons.IH[of ?d] by (simp add: Let_def)
qed simp

lemma keyed_values_distinct:
  "distinct (map fst d) \<Longrightarrow> \<forall>(k, c) \<in> set d. k = f c \<Longrightarrow> distinct (map snd d)"
proof (induction d)
  case (Cons x d)
  have "snd x \<notin> snd ` set d"
  proof
    assume "snd x \<in> snd ` set d"
    then obtain y where "y \<in> set d" "snd y = snd x" by force
    then have "fst y = fst x" using Cons.prems(2) by (cases x, cases y) auto
    then show False using Cons.prems(1) \<open>y \<in> set d\<close> by (metis distinct.simps(2) image_eqI list.set_map list.simps(9))
  qed
  then show ?case using Cons by simp
qed simp

lemma unique_candidates_props: "distinct (unique_candidates cs) \<and> set (unique_candidates cs) = set cs"
proof -
  let ?d = "fold (\<lambda>c. dict_setdefault (candidate_identity c) c) cs []"
  have d: "distinct (map fst ?d)" "\<forall>(k, c) \<in> set ?d. k = candidate_identity c" "snd ` set ?d = set cs"
    using setdefault_fold_keys[of "[]" cs] by (simp_all add: Let_def)
  have "distinct (map snd ?d)" using d(1,2) by (rule keyed_values_distinct)
  then show ?thesis using d(3) by (simp add: unique_candidates_def)
qed

lemma list_missing_Inr:
  "list_missing_source_revisions inputs held = Inr cs \<Longrightarrow>
     \<exists>all. make_candidates inputs = Inr all \<and> distinct cs \<and> set cs = {c \<in> set all. \<not> held c}"
  using unique_candidates_props
  by (auto simp: list_missing_source_revisions_def res_simps)

lemma find_reservation_Some:
  "find_reservation db ow c = Some r \<Longrightarrow> r \<in> set (ureservations db) \<and> rv_candidate r = c
     \<and> owned_by ow (rv_account r) (rv_org r) (rv_kind r)"
  by (auto simp: find_reservation_def candidate_identity_inject dest!: find_Some_iff_mem)

lemma lock_available_ok:
  assumes "credits_ok db"
  shows "locked_ok (lock_available_grants env db ow) db"
proof -
  have "distinct (ugrants db)" "inj_on ug_id (set (ugrants db))"
    using assms by (simp_all add: credits_ok_def usage_keys_def distinct_map)
  then have "distinct (map ug_id (lock_available_grants env db ow))"
    by (auto simp: lock_available_grants_def distinct_map distinct_filter intro: inj_on_subset)
  moreover have "sorted (map grant_key (lock_available_grants env db ow))"
    by (simp add: lock_available_grants_def grant_key_def[abs_def])
  ultimately show ?thesis by (auto simp: locked_ok_def lock_available_grants_def)
qed

text \<open>The candidates of a batch with the reservation each has, and those that need a credit.\<close>

definition needs_credit :: "usage_db \<Rightarrow> usage_owner \<Rightarrow> source_revision \<Rightarrow> bool" where
  "needs_credit db ow c \<longleftrightarrow> \<not> held_reservation (find_reservation db ow c)"

lemma pending_ok_take: "pending_ok pending db \<Longrightarrow> pending_ok (take n pending) db"
  unfolding pending_ok_def by (auto simp: take_map[symmetric] dest: in_set_takeD)

lemma reserve_batch_Inr:
  assumes run: "reserve_source_fetch_batch env db ow inputs job policy lease = Inr (views, db')"
    and ok: "credits_ok db"
    and cs: "list_missing_source_revisions inputs (\<lambda>_. False) = Inr cs"
  obtains new where
    "views = map (\<lambda>c. reservation_payload (the (find_reservation db ow c))) (filter (\<lambda>c. \<not> needs_credit db ow c) cs) @ new"
    and "credits_ok db'"
    and "map rp_candidate new = take (length new) (filter (needs_credit db ow) cs)"
    and "int (length new) = min (int (length (filter (needs_credit db ow) cs)))
           (sum_list (map available_credit (lock_available_grants env db ow)))"
    and "policy_kind policy \<noteq> ''process_affordable_in_stable_order'' \<Longrightarrow>
           length new = length (filter (needs_credit db ow) cs)"
    and "\<And>v. v \<in> set new \<Longrightarrow> (\<exists>r \<in> set (ureservations db'). reservation_payload r = v \<and> rv_state r = Reserved)
           \<and> fefo (lock_available_grants env db ow) v db'"
    and "\<And>r. r \<in> set (ureservations db) \<Longrightarrow> held_reservation (Some r) \<Longrightarrow> r \<in> set (ureservations db')"
    and "total_available db' = total_available db - int (length new)"
    and "map ug_id (ugrants db') = map ug_id (ugrants db)"
proof (cases "cs = []")
  case True
  then have "views = [] \<and> db' = db"
    using run cs by (auto simp: reserve_source_fetch_batch_def Let_def split: if_splits)
  moreover have "0 \<le> sum_list (map available_credit (lock_available_grants env db ow))"
    by (intro sum_list_nonneg) (auto simp: lock_available_grants_def available_credit_def)
  ultimately show ?thesis using that[of "[]"] True ok by simp
next
  case False
  let ?found = "map (\<lambda>c. (c, find_reservation db ow c)) cs"
  let ?pending = "filter (\<lambda>(_, r). \<not> held_reservation r) ?found"
  let ?existing = "map (\<lambda>(_, r). reservation_payload (the r)) (filter (\<lambda>(_, r). held_reservation r) ?found)"
  let ?gs = "lock_available_grants env db ow"
  let ?avail = "sum_list (map available_credit ?gs)"
  let ?kind = "policy_kind policy"
  let ?cut = "if ?kind = ''process_affordable_in_stable_order'' then take (nat ?avail) ?pending else ?pending"
  have avail: "0 \<le> ?avail"
    by (intro sum_list_nonneg) (auto simp: lock_available_grants_def available_credit_def)
  obtain job' lease' where
    loop: "reserve_pending env ow job' lease' ?cut ?gs ?existing db = Inr (views, db')"
    and enough: "?kind \<noteq> ''process_affordable_in_stable_order'' \<Longrightarrow> int (length ?pending) \<le> ?avail"
    using run cs False
    by (auto simp: reserve_source_fetch_batch_def Let_def not_less split: if_splits)
  have distinct_cs: "distinct cs" using list_missing_Inr[OF cs] by blast
  have fsts: "map fst ?pending = filter (needs_credit db ow) cs"
    by (induction cs) (auto simp: needs_credit_def)
  have pend: "pending_ok ?pending db"
    unfolding pending_ok_def fsts
  proof (intro conjI allI impI)
    fix c r assume "(c, Some r) \<in> set ?pending"
    then have r: "find_reservation db ow c = Some r" "\<not> held_reservation (Some r)" by auto
    show "r \<in> set (ureservations db)" "rv_candidate r = c" using find_reservation_Some[OF r(1)] by auto
    show "rv_state r = Released" using r(2) by (cases "rv_state r") (auto simp: held_reservation_def)
  qed (use distinct_cs in simp)
  have pend_cut: "pending_ok ?cut db"
    using pend pending_ok_take by simp
  have ex: "?existing = map (\<lambda>c. reservation_payload (the (find_reservation db ow c))) (filter (\<lambda>c. \<not> needs_credit db ow c) cs)"
    by (induction cs) (auto simp: needs_credit_def)
  obtain new where new: "views = ?existing @ new" "credits_ok db'"
    "length new = min (length ?cut) (nat ?avail)"
    "map rp_candidate new = take (length new) (map fst ?cut)"
    "\<And>v. v \<in> set new \<Longrightarrow> (\<exists>r \<in> set (ureservations db'). reservation_payload r = v \<and> rv_state r = Reserved)
          \<and> fefo ?gs v db'"
    "\<And>r. r \<in> set (ureservations db) \<Longrightarrow> (\<And>c. (c, Some r) \<notin> set ?cut) \<Longrightarrow> r \<in> set (ureservations db')"
    "map ug_id (ugrants db') = map ug_id (ugrants db)"
    "total_available db' = total_available db - int (length new)"
    using reserve_pending_effect[OF loop ok lock_available_ok[OF ok] pend_cut] by auto
  have pend_len: "length ?pending = length (filter (needs_credit db ow) cs)"
    using arg_cong[OF fsts, of length] by simp
  show ?thesis
  proof (rule that[OF new(1)[unfolded ex] new(2)])
    have cut: "length new = min (length ?pending) (nat ?avail)" using new(3) by auto
    then show "int (length new) = min (int (length (filter (needs_credit db ow) cs))) ?avail"
      using avail pend_len by simp
    show "length new = length (filter (needs_credit db ow) cs)"
      if "?kind \<noteq> ''process_affordable_in_stable_order''"
      using cut enough[OF that] pend_len by simp
    have "take (length new) (map fst ?cut) = take (length new) (map fst ?pending)"
      using cut by (simp add: take_map[symmetric] min_def)
    then show "map rp_candidate new = take (length new) (filter (needs_credit db ow) cs)"
      using new(4) fsts by simp
    show "r \<in> set (ureservations db')" if "r \<in> set (ureservations db)" "held_reservation (Some r)" for r
    proof (rule new(6)[OF that(1)])
      fix c show "(c, Some r) \<notin> set ?cut" using that(2) by (auto dest: in_set_takeD)
    qed
  qed (use new in auto)
qed

section \<open>The operations keep the invariant\<close>

lemma grant_credits_ok:
  assumes ok: "credits_ok db"
    and run: "grant_credits env db ow n src rel chk t0 t1 item meta = Inr (gid, db')"
  shows "credits_ok db' \<and> total_available db' = total_available db + n"
proof -
  obtain dba dbb source where 1: "usage_new_id env ''usage-grant'' db = (gid, dba)"
    and 2: "insert_grant \<lparr>ug_id = gid, ug_account = account_user_id ow, ug_org = organization_id ow,
       ug_kind = uo_kind ow, ug_total = n, ug_remaining = n, ug_reserved = 0,
       ug_source = source, ug_order_item = item, ug_release = rel,
       ug_checksum = chk, ug_issued_at = t0, ug_expires_at = t1\<rparr> dba = Inr dbb"
      (is "insert_grant ?g dba = _")
    and 3: "write_ledger env gid None EntryGrant n n (py_or meta (PDict [])) dbb = Inr db'"
    using run by (auto simp: grant_credits_def res_simps split: if_splits option.splits prod.splits)
  have frame: "ugrants dba = ugrants db" "ureservations dba = ureservations db" "uledger dba = uledger db"
    using usage_new_id_frame[OF 1] by simp_all
  note ins = insert_grant_Inr[OF 2]
  obtain l where l: "uledger db' = uledger db @ [l]" "lg_grant l = gid" "lg_entry l = EntryGrant" "lg_quantity l = n"
    and same: "ugrants db' = ugrants db @ [?g]" "ureservations db' = ureservations db"
    using write_ledger_Inr[OF 3] ins frame by auto
  have new: "gid \<notin> ug_id ` set (ugrants db)" and checks: "grant_checks ?g" using ins frame by simp_all
  then have "\<forall>r \<in> set (ureservations db). rv_grant r \<noteq> gid" "\<forall>l \<in> set (uledger db). lg_grant l \<noteq> gid"
    using ok by (auto simp: credits_ok_def usage_keys_def image_subset_iff)
  then have none: "held_count db gid st = 0" "ledger_sum db gid es = 0" for st es
    by (simp_all add: held_count_def ledger_sum_def count_where_def)
  have counts: "held_count db' g st = held_count db g st" for g st by (simp add: held_count_def same)
  have old: "ledger_sum db' (ug_id g) es = ledger_sum db (ug_id g) es" if "g \<in> set (ugrants db)" for g es
    using that new l by (auto simp: ledger_sum_def)
  have "ledger_sum db' gid es = ledger_sum db gid es + (if EntryGrant \<in> es then n else 0)" for es
    by (simp add: ledger_sum_def l)
  then have "grant_ok db' ?g"
    using checks none counts by (simp add: grant_ok_def available_credit_def)
  moreover have "grant_ok db' g" if "g \<in> set (ugrants db)" for g
    using ok that old[OF that] counts by (simp add: grant_ok_def credits_ok_def)
  moreover have "usage_keys db'"
    using ok new l same by (auto simp: credits_ok_def usage_keys_def)
  ultimately show ?thesis by (auto simp: credits_ok_def same total_available_def available_credit_def)
qed

lemma consume_ok:
  assumes "credits_ok db" and "consume_reservation_item env db rid snap = Inr (v, db')"
  shows "credits_ok db'"
proof (cases "get_reservation db rid")
  case (Some r)
  then show ?thesis
    using assms consume_move[OF assms(1) Some _ assms(2)] credit_move_ok
    by (cases "rv_state r") (auto simp: consume_reservation_item_def)
qed (use assms in \<open>simp add: consume_reservation_item_def\<close>)

lemma release_ok:
  assumes "credits_ok db" and "release_reservation_item env db rid why = Inr (v, db')"
  shows "credits_ok db'"
proof (cases "get_reservation db rid")
  case (Some r)
  then show ?thesis
    using assms release_move[OF assms(1) Some _ assms(2)] credit_move_ok
    by (cases "rv_state r") (auto simp: release_reservation_item_def)
qed (use assms in \<open>simp add: release_reservation_item_def\<close>)

lemma release_items_ok:
  "release_items env rids db = Inr (vs, db') \<Longrightarrow> credits_ok db \<Longrightarrow> credits_ok db'"
  by (induction rids arbitrary: db vs) (auto simp: res_simps intro: release_ok)

lemma reserve_batch_ok:
  assumes ok: "credits_ok db"
    and run: "reserve_source_fetch_batch env db ow inputs job policy lease = Inr (views, db')"
  shows "credits_ok db'"
proof -
  obtain cs where "list_missing_source_revisions inputs (\<lambda>_. False) = Inr cs"
    using run by (auto simp: reserve_source_fetch_batch_def Let_def res_simps split: if_splits)
  then show ?thesis using reserve_batch_Inr[OF run ok] by blast
qed

inductive usage_step :: "usage_env \<Rightarrow> usage_db \<Rightarrow> usage_db \<Rightarrow> bool" for env where
  granting: "grant_credits env db ow n src rel chk t0 t1 item meta = Inr (gid, db') \<Longrightarrow> usage_step env db db'"
| reserving: "reserve_source_fetch_batch env db ow inputs job policy lease = Inr (views, db') \<Longrightarrow>
     usage_step env db db'"
| consuming: "consume_reservation_item env db rid snap = Inr (v, db') \<Longrightarrow> usage_step env db db'"
| releasing: "release_reservation_item env db rid why = Inr (v, db') \<Longrightarrow> usage_step env db db'"
| expiring: "release_expired_reservations env db limit = Inr (vs, db') \<Longrightarrow> usage_step env db db'"

inductive_cases usage_stepE: "usage_step env db db'"

lemma usage_step_ok: "usage_step env db db' \<Longrightarrow> credits_ok db \<Longrightarrow> credits_ok db'"
  by (elim usage_stepE)
    (auto simp: release_expired_reservations_def intro: consume_ok release_ok reserve_batch_ok
      release_items_ok dest: grant_credits_ok)

interpretation usage_service: stepping "usage_step env" credits_ok for env
  by unfold_locales (rule usage_step_ok)

text \<open>
  C6: Granting, reserving, consuming, releasing and expiring keep the books of the usage credits
  balanced: for every grant \<open>0 \<le> reserved \<le> remaining \<le> total\<close>, the reserved counter is the
  number of its reserved reservations, \<open>total - remaining\<close> the number of its consumed ones, the
  ledger adds up to the counters, and a revision has at most one reservation of an owner.
\<close>

theorem usage_operations_keep_books:
  "usage_step env db db' \<Longrightarrow> credits_ok db \<Longrightarrow> credits_ok db'"
  by (rule usage_service.keeps)

text \<open>
  C7: A successful batch reserves each missing revision once and nothing else: the answer lists
  every requested revision at most once, all of them unless the policy accepts a part of the
  batch; each listed revision has a reserved or consumed reservation; and the available credit
  falls by exactly the number of revisions that held none before.
\<close>

theorem reserve_batch_exact:
  assumes run: "reserve_source_fetch_batch env db ow inputs job policy lease = Inr (views, db')"
    and ok: "credits_ok db" and all: "make_candidates inputs = Inr all"
  shows "distinct (map rp_candidate views) \<and> set (map rp_candidate views) \<subseteq> set all
    \<and> (policy_kind policy \<noteq> ''process_affordable_in_stable_order'' \<longrightarrow> set (map rp_candidate views) = set all)
    \<and> (\<forall>v \<in> set views. \<exists>r \<in> set (ureservations db'). reservation_payload r = v \<and> held_reservation (Some r))
    \<and> total_available db' = total_available db
        - int (length (filter (\<lambda>v. needs_credit db ow (rp_candidate v)) views))
    \<and> 0 \<le> total_available db'"
proof -
  obtain cs where cs: "list_missing_source_revisions inputs (\<lambda>_. False) = Inr cs"
    using all by (auto simp: list_missing_source_revisions_def)
  have dcs: "distinct cs" "set cs = set all" using list_missing_Inr[OF cs] all by auto
  let ?need = "filter (needs_credit db ow) cs" and ?have = "filter (\<lambda>c. \<not> needs_credit db ow c) cs"
  obtain new where v: "views = map (\<lambda>c. reservation_payload (the (find_reservation db ow c))) ?have @ new"
    and ok': "credits_ok db'" and cands: "map rp_candidate new = take (length new) ?need"
    and full: "policy_kind policy \<noteq> ''process_affordable_in_stable_order'' \<Longrightarrow> length new = length ?need"
    and rows: "\<And>v. v \<in> set new \<Longrightarrow> \<exists>r \<in> set (ureservations db'). reservation_payload r = v \<and> rv_state r = Reserved"
    and kept: "\<And>r. r \<in> set (ureservations db) \<Longrightarrow> held_reservation (Some r) \<Longrightarrow> r \<in> set (ureservations db')"
    and total: "total_available db' = total_available db - int (length new)"
    by (rule reserve_batch_Inr[OF run ok cs]) blast
  have have_r: "\<exists>r. find_reservation db ow c = Some r \<and> r \<in> set (ureservations db) \<and> rv_candidate r = c
      \<and> held_reservation (Some r)" if "c \<in> set ?have" for c
    using that find_reservation_Some[of db ow c]
    by (cases "find_reservation db ow c") (auto simp: needs_credit_def held_reservation_def)
  have c1: "map (\<lambda>c. rp_candidate (reservation_payload (the (find_reservation db ow c)))) ?have = ?have"
    by (rule map_idI) (use have_r in \<open>force simp: reservation_payload_def\<close>)
  have cv: "map rp_candidate views = ?have @ take (length new) ?need"
    using c1 cands by (simp add: v comp_def)
  have nonneg: "0 \<le> total_available db'"
    unfolding total_available_def using available_nonneg[OF ok'] by (intro sum_list_nonneg) auto
  have need_new: "filter (\<lambda>v. needs_credit db ow (rp_candidate v)) new = new"
  proof (rule filter_True, rule ballI)
    fix w assume "w \<in> set new"
    then have "rp_candidate w \<in> set (take (length new) ?need)" using cands by (metis image_eqI list.set_map)
    then show "needs_credit db ow (rp_candidate w)" by (auto dest: in_set_takeD)
  qed
  have none_old: "filter (\<lambda>v. needs_credit db ow (rp_candidate v))
      (map (\<lambda>c. reservation_payload (the (find_reservation db ow c))) ?have) = []"
    using have_r by (force simp: filter_empty_conv reservation_payload_def needs_credit_def)
  have recorded: "\<exists>r \<in> set (ureservations db'). reservation_payload r = w \<and> held_reservation (Some r)"
    if "w \<in> set views" for w
  proof (cases "w \<in> set new")
    case True
    then obtain r where "r \<in> set (ureservations db')" "reservation_payload r = w" "rv_state r = Reserved"
      using rows by blast
    then show ?thesis by (intro bexI[of _ r]) (simp_all add: held_reservation_def)
  next
    case False
    then obtain c where c: "c \<in> set ?have" "w = reservation_payload (the (find_reservation db ow c))"
      using \<open>w \<in> set views\<close> unfolding v by auto
    obtain r where "find_reservation db ow c = Some r" "r \<in> set (ureservations db)" "held_reservation (Some r)"
      using have_r[OF c(1)] by blast
    then show ?thesis using kept c(2) by (intro bexI[of _ r]) simp_all
  qed
  have sub: "set (take (length new) ?need) \<subseteq> set ?need" by (rule set_take_subset)
  have "distinct ?have" "distinct (take (length new) ?need)" using dcs(1) by (simp_all add: distinct_take)
  moreover have "set ?have \<inter> set ?need = {}" by auto
  ultimately have "distinct (?have @ take (length new) ?need)" unfolding distinct_append using sub by blast
  moreover have "set (?have @ take (length new) ?need) \<subseteq> set all" using dcs(2) sub by auto
  moreover have "set (?have @ take (length new) ?need) = set all"
    if "policy_kind policy \<noteq> ''process_affordable_in_stable_order''"
    unfolding full[OF that] set_append take_all[OF order_refl] dcs(2)[symmetric] by auto
  moreover have "length (filter (\<lambda>v. needs_credit db ow (rp_candidate v)) views) = length new"
    using none_old need_new by (simp only: v filter_append append_Nil)
  ultimately show ?thesis
    using recorded total nonneg unfolding cv by metis
qed

text \<open>
  Credits are taken first-expired-first-out: if a batch takes a credit from a grant, then
  every grant of the owner that was live with credit left and expires earlier (or, at the same
  expiry, was issued earlier) has no credit left afterwards.
\<close>

lemma reserve_batch_fefo:
  assumes run: "reserve_source_fetch_batch env db ow inputs job policy lease = Inr (views, db')"
    and ok: "credits_ok db" and v: "v \<in> set views" "needs_credit db ow (rp_candidate v)"
    and h: "h \<in> set (ugrants db)" "owned_by ow (ug_account h) (ug_org h) (ug_kind h)"
      "usage_now env < ug_expires_at h" "0 < available_credit h"
  shows "\<exists>g \<in> set (ugrants db). ug_id g = rp_grant v \<and> (grant_key h < grant_key g \<longrightarrow>
    (\<forall>h' \<in> set (ugrants db'). ug_id h' = ug_id h \<longrightarrow> available_credit h' = 0))"
proof -
  obtain cs where cs: "list_missing_source_revisions inputs (\<lambda>_. False) = Inr cs"
    using run by (auto simp: reserve_source_fetch_batch_def Let_def res_simps split: if_splits)
  let ?have = "filter (\<lambda>c. \<not> needs_credit db ow c) cs"
  obtain new where views: "views = map (\<lambda>c. reservation_payload (the (find_reservation db ow c))) ?have @ new"
    and f: "\<And>v. v \<in> set new \<Longrightarrow> fefo (lock_available_grants env db ow) v db'"
    by (rule reserve_batch_Inr[OF run ok cs]) blast
  have "v \<in> set new"
  proof (rule ccontr)
    assume "v \<notin> set new"
    then obtain c where c: "c \<in> set ?have" "v = reservation_payload (the (find_reservation db ow c))"
      using v(1) unfolding views by auto
    obtain r where r: "find_reservation db ow c = Some r"
      using c(1) by (cases "find_reservation db ow c") (auto simp: needs_credit_def held_reservation_def)
    then have "rp_candidate v = c" using find_reservation_Some[OF r] c(2) by (simp add: reservation_payload_def)
    then show False using c(1) v(2) by simp
  qed
  then obtain g where g: "g \<in> set (lock_available_grants env db ow)" "ug_id g = rp_grant v"
    and early: "\<And>h h'. h \<in> set (lock_available_grants env db ow) \<Longrightarrow> grant_key h < grant_key g
        \<Longrightarrow> h' \<in> set (ugrants db') \<Longrightarrow> ug_id h' = ug_id h \<Longrightarrow> available_credit h' = 0"
    using f unfolding fefo_def by blast
  have "h \<in> set (lock_available_grants env db ow)"
    using h by (simp add: lock_available_grants_def available_credit_def)
  moreover have "g \<in> set (ugrants db)" using g(1) by (simp add: lock_available_grants_def)
  ultimately show ?thesis using g(2) early by blast
qed

section \<open>A credit is consumed at most once\<close>

lemma find_set_state:
  assumes "get_reservation db rid = Some r" and "rv_state r = Reserved"
  shows "get_reservation (set_reservation_state rid st db) rid = Some (r\<lparr>rv_state := st\<rparr>)"
proof -
  have "List.find (\<lambda>r. rv_id r = rid) (update_where (\<lambda>r. rv_id r = rid \<and> rv_state r = Reserved)
      (\<lambda>r. r\<lparr>rv_state := st\<rparr>) (ureservations db)) = Some (r\<lparr>rv_state := st\<rparr>)"
    using assms get_reservation_Some[OF assms(1)]
    by (subst find_update_where_key) (auto simp: get_reservation_def)
  then show ?thesis by (simp add: get_reservation_def set_reservation_state_def)
qed

lemma credit_move_grant:
  "credit_move gid dr dc db db' \<Longrightarrow> g \<in> set (ugrants db) \<Longrightarrow>
     (if ug_id g = gid then g\<lparr>ug_remaining := ug_remaining g - dc, ug_reserved := ug_reserved g + dr\<rparr> else g)
       \<in> set (ugrants db')"
  by (auto simp: credit_move_def table_simps)

text \<open>
  Consuming a reservation spends exactly one credit of its grant, once: the first call takes
  one from \<open>remaining\<close> and \<open>reserved\<close>, so the available credit stays as it was, and after it
  neither a repeated consume nor a late release changes anything.
\<close>

lemma consume_exactly_once:
  assumes ok: "credits_ok db"
    and r: "get_reservation db rid = Some r" "rv_state r = Reserved"
    and run: "consume_reservation_item env db rid snap = Inr (v, db')"
  shows "(\<forall>g \<in> set (ugrants db). (if ug_id g = rv_grant r
      then g\<lparr>ug_remaining := ug_remaining g - 1, ug_reserved := ug_reserved g - 1\<rparr> else g) \<in> set (ugrants db'))
    \<and> rp_state v = Consumed
    \<and> consume_reservation_item env2 db' rid snap2 = Inr (v, db')
    \<and> release_reservation_item env3 db' rid why = Inr (v, db')"
proof -
  note move = consume_move[OF ok r run]
  have "get_reservation db' rid = Some (r\<lparr>rv_state := Consumed\<rparr>)"
    using find_set_state[OF r, of Consumed] move by (simp add: get_reservation_def)
  moreover have "v = reservation_payload (r\<lparr>rv_state := Consumed\<rparr>)"
    using move by (simp add: reservation_payload_def)
  moreover have "(if ug_id g = rv_grant r
      then g\<lparr>ug_remaining := ug_remaining g - 1, ug_reserved := ug_reserved g - 1\<rparr> else g) \<in> set (ugrants db')"
    if "g \<in> set (ugrants db)" for g
    using credit_move_grant[OF conjunct1[OF move] that] by (cases "ug_id g = rv_grant r") simp_all
  ultimately show ?thesis
    by (simp add: consume_reservation_item_def release_reservation_item_def reservation_payload_def)
qed

text \<open>
  A released reservation gives its credit back and cannot be consumed: the grant has one more
  available credit, a repeated release changes nothing and a consume is refused.
\<close>

lemma release_gives_back:
  assumes ok: "credits_ok db"
    and r: "get_reservation db rid = Some r" "rv_state r = Reserved"
    and run: "release_reservation_item env db rid why = Inr (v, db')"
  shows "(\<forall>g \<in> set (ugrants db). (if ug_id g = rv_grant r
      then g\<lparr>ug_reserved := ug_reserved g - 1\<rparr> else g) \<in> set (ugrants db'))
    \<and> rp_state v = Released
    \<and> release_reservation_item env2 db' rid why2 = Inr (v, db')
    \<and> consume_reservation_item env3 db' rid snap = Inl (UsagePolicyError quota_exhausted [])"
proof -
  note move = release_move[OF ok r run]
  have "get_reservation db' rid = Some (r\<lparr>rv_state := Released\<rparr>)"
    using find_set_state[OF r, of Released] move by (simp add: get_reservation_def)
  moreover have "v = reservation_payload (r\<lparr>rv_state := Released\<rparr>)"
    using move by (simp add: reservation_payload_def)
  moreover have "(if ug_id g = rv_grant r then g\<lparr>ug_reserved := ug_reserved g - 1\<rparr> else g) \<in> set (ugrants db')"
    if "g \<in> set (ugrants db)" for g
    using credit_move_grant[OF conjunct1[OF move] that] by (cases "ug_id g = rv_grant r") simp_all
  ultimately show ?thesis
    by (simp add: consume_reservation_item_def release_reservation_item_def reservation_payload_def)
qed

section \<open>Expired leases\<close>

lemma release_item_reservations:
  assumes ok: "credits_ok db" and run: "release_reservation_item env db rid why = Inr (v, db')"
  shows "ureservations db' = ureservations (set_reservation_state rid Released db) \<and> rp_id v = rid"
proof -
  obtain r where r: "get_reservation db rid = Some r"
    using run by (auto simp: release_reservation_item_def split: option.splits)
  note rr = get_reservation_Some[OF r]
  show ?thesis
  proof (cases "rv_state r = Reserved")
    case True
    then show ?thesis using release_move[OF ok r True run] rr by (simp add: reservation_payload_def)
  next
    case False
    have only: "x = r" if "x \<in> set (ureservations db)" "rv_id x = rid" for x
      using ok that rr by (auto simp: credits_ok_def usage_keys_def distinct_map inj_on_def)
    have "update_where (\<lambda>r. rv_id r = rid \<and> rv_state r = Reserved) f (ureservations db) = ureservations db" for f
      by (rule update_where_none) (use only False in blast)
    then show ?thesis
      using run r False rr
      by (auto simp: release_reservation_item_def set_reservation_state_def reservation_payload_def)
  qed
qed

lemma release_items_reservations:
  "release_items env rids db = Inr (vs, db') \<Longrightarrow> credits_ok db \<Longrightarrow>
     ureservations db' = map (\<lambda>r. if rv_id r \<in> set rids \<and> rv_state r = Reserved
        then r\<lparr>rv_state := Released\<rparr> else r) (ureservations db) \<and> map rp_id vs = rids"
proof (induction rids arbitrary: db vs)
  case (Cons rid rids)
  obtain v db1 vs1 where 1: "release_reservation_item env db rid (PStr ''lease_expired'') = Inr (v, db1)"
    and 2: "release_items env rids db1 = Inr (vs1, db')" and vs: "vs = v # vs1"
    using Cons.prems(1) by (auto simp: res_simps)
  note step = release_item_reservations[OF Cons.prems(2) 1]
  show ?case
    using Cons.IH[OF 2 release_ok[OF Cons.prems(2) 1]] step vs
    by (auto simp: set_reservation_state_def update_where_def)
qed (simp add: map_idI)

text \<open>
  The expiry worker releases exactly what it selected: every listed reservation was reserved
  with its lease over, all of them are released afterwards, every other reservation is as it
  was, and with a large enough limit no expired reservation is left.
\<close>

lemma release_expired_exact:
  assumes run: "release_expired_reservations env db limit = Inr (vs, db')" and ok: "credits_ok db"
  shows "ureservations db' = map (\<lambda>r. if rv_id r \<in> set (map rp_id vs) then r\<lparr>rv_state := Released\<rparr> else r)
      (ureservations db)
    \<and> (\<forall>r \<in> set (ureservations db). rv_id r \<in> set (map rp_id vs) \<longrightarrow>
          rv_state r = Reserved \<and> rv_lease r \<le> usage_now env)
    \<and> (length (ureservations db) \<le> nat (min 1000 limit) \<longrightarrow>
          (\<forall>r \<in> set (ureservations db'). rv_state r = Reserved \<longrightarrow> usage_now env < rv_lease r))"
proof -
  let ?rids = "expired_reservations env db limit"
  let ?exp = "filter (\<lambda>r. rv_state r = Reserved \<and> rv_lease r \<le> usage_now env) (ureservations db)"
  have rel: "ureservations db' = map (\<lambda>r. if rv_id r \<in> set ?rids \<and> rv_state r = Reserved
        then r\<lparr>rv_state := Released\<rparr> else r) (ureservations db)" and vs: "map rp_id vs = ?rids"
    using release_items_reservations[OF _ ok] run by (auto simp: release_expired_reservations_def)
  have sub: "set ?rids \<subseteq> rv_id ` set ?exp"
    by (auto simp: expired_reservations_def dest!: in_set_takeD)
  have exp: "rv_state r = Reserved \<and> rv_lease r \<le> usage_now env"
    if r: "r \<in> set (ureservations db)" "rv_id r \<in> set ?rids" for r
  proof -
    have "rv_id r \<in> rv_id ` set ?exp" using sub r(2) by blast
    then obtain x where "x \<in> set ?exp" "rv_id x = rv_id r" by (auto simp: image_iff)
    moreover from this have "x = r"
      using ok r(1) by (auto simp: credits_ok_def usage_keys_def distinct_map inj_on_def)
    ultimately show ?thesis by simp
  qed
  have all: "rv_id ` set ?exp \<subseteq> set ?rids" if "length (ureservations db) \<le> nat (min 1000 limit)"
  proof -
    have "length ?exp \<le> nat (max 1 (min 1000 limit))"
      using that length_filter_le[of _ "ureservations db"] by (meson le_trans max.cobounded2 nat_mono)
    then show ?thesis by (auto simp: expired_reservations_def)
  qed
  have left: "usage_now env < rv_lease r"
    if small: "length (ureservations db) \<le> nat (min 1000 limit)"
      and r: "r \<in> set (ureservations db')" "rv_state r = Reserved" for r
  proof -
    obtain x where "x \<in> set (ureservations db)" "r = x" "rv_id x \<notin> set ?rids"
      using r by (auto simp: rel split: if_splits)
    then show ?thesis using all[OF small] r(2) by (force simp: not_le[symmetric])
  qed
  show ?thesis unfolding vs using exp left by (auto simp: rel)
qed

end
