(* ===== verification/Usage_Examples.thy ===== *)
theory Usage_Examples
  imports Usage_Laws
begin

text \<open>
  Two grants of one owner, a reserved, consumed and released revision, and the witnesses of the
  theorems on usage credits.
\<close>

definition ex_env :: usage_env where
  "ex_env = \<lparr>usage_hex = (\<lambda>n. replicate n CHR ''a''), usage_now = 10\<rparr>"

definition ex_owner :: usage_owner where
  "ex_owner = \<lparr>uo_kind = OwnerAccount, uo_identifier = ''u''\<rparr>"

definition ex_grant :: "ident \<Rightarrow> int \<Rightarrow> int \<Rightarrow> credit_grant" where
  "ex_grant i n t = \<lparr>ug_id = i, ug_account = Some ''u'', ug_org = None, ug_kind = OwnerAccount,
     ug_total = n, ug_remaining = n, ug_reserved = 0, ug_source = FromPlan, ug_order_item = None,
     ug_release = ''r'', ug_checksum = replicate 64 CHR ''c'', ug_issued_at = 1, ug_expires_at = t\<rparr>"

definition ex_entry :: "ident \<Rightarrow> ident \<Rightarrow> int \<Rightarrow> ledger_row" where
  "ex_entry l g n = \<lparr>lg_id = l, lg_grant = g, lg_reservation = None, lg_entry = EntryGrant,
     lg_quantity = n, lg_balance = n, lg_metadata = ''{}''\<rparr>"

definition ex_db :: usage_db where
  "ex_db = \<lparr>ugrants = [ex_grant ''late'' 2 90, ex_grant ''soon'' 1 50], ureservations = [],
     uledger = [ex_entry ''k'' ''late'' 2, ex_entry ''l'' ''soon'' 1], uid_counter = 0\<rparr>"

definition ex_inputs :: "candidate_input list" where
  "ex_inputs = [CandidateFields (PStr ''P'') (PStr ''k'') (PStr '' c'') (PStr ''1''),
     CandidateFields (PStr ''p'') (PStr ''K'') (PStr ''C'') (PStr ''1''),
     CandidateFields (PStr ''p'') (PStr ''K'') (PStr ''C'') (PStr ''2'')]"

definition ex_policy :: pval where
  "ex_policy = PDict [(''kind'', PStr ''reject_all'')]"

definition ex_reserve :: "usage_error + (reservation_view list \<times> usage_db)" where
  "ex_reserve = reserve_source_fetch_batch ex_env ex_db ex_owner ex_inputs (PStr ''job'') ex_policy 900"

definition ex_after :: usage_db where
  "ex_after = snd (projr ex_reserve)"

definition ex_views :: "reservation_view list" where
  "ex_views = fst (projr ex_reserve)"

lemma ex_reserve_ok: "\<not> isl ex_reserve"
  by code_simp

lemma projr_pair: "\<not> isl x \<Longrightarrow> x = Inr (fst (projr x), snd (projr x))"
  by (cases x) auto

lemma ex_reserve_val: "ex_reserve = Inr (ex_views, ex_after)"
  unfolding ex_views_def ex_after_def by (rule projr_pair[OF ex_reserve_ok])

lemmas ex_reserve_eq = ex_reserve_val [unfolded ex_reserve_def]

lemma ex_db_ok: "credits_ok ex_db"
  by code_simp

text \<open>A state with one reserved revision.\<close>

definition ex_held :: usage_db where
  "ex_held = \<lparr>ugrants = [(ex_grant ''g'' 2 90)\<lparr>ug_reserved := 1\<rparr>],
     ureservations = [\<lparr>rv_id = ''v'', rv_account = Some ''u'', rv_org = None, rv_kind = OwnerAccount,
        rv_candidate = \<lparr>sr_provider = ''p'', sr_entity_kind = ''K'', sr_source_code = ''C'',
          sr_source_revision = ''1''\<rparr>,
        rv_job = ''j'', rv_grant = ''g'', rv_state = Reserved, rv_lease = 900\<rparr>],
     uledger = [ex_entry ''k'' ''g'' 2,
       \<lparr>lg_id = ''l'', lg_grant = ''g'', lg_reservation = Some ''v'', lg_entry = EntryReserve,
        lg_quantity = - 1, lg_balance = 1, lg_metadata = ''{}''\<rparr>],
     uid_counter = 0\<rparr>"

lemma ex_held_ok: "credits_ok ex_held"
  by code_simp

lemma ex_first: "get_reservation ex_held ''v'' = Some (hd (ureservations ex_held))"
    "rv_state (hd (ureservations ex_held)) = Reserved"
  by (simp_all add: ex_held_def get_reservation_def)

definition ex_snapshot :: pval where
  "ex_snapshot = PDict [(''id'', PStr ''s'')]"

definition ex_consume :: "usage_error + (reservation_view \<times> usage_db)" where
  "ex_consume = consume_reservation_item ex_env ex_held ''v'' ex_snapshot"

definition ex_release :: "usage_error + (reservation_view \<times> usage_db)" where
  "ex_release = release_reservation_item ex_env ex_held ''v'' PNone"

definition ex_later :: usage_env where
  "ex_later = ex_env\<lparr>usage_now := 2000\<rparr>"

definition ex_expire :: "usage_error + (reservation_view list \<times> usage_db)" where
  "ex_expire = release_expired_reservations ex_later ex_held 100"

lemma ex_runs_ok: "\<not> isl ex_consume" "\<not> isl ex_release" "\<not> isl ex_expire"
  by code_simp+

lemmas ex_runs = ex_runs_ok [THEN projr_pair]

lemma ex_inputs_ok: "\<not> isl (make_candidates ex_inputs)"
  by code_simp

lemma ex_reserve_facts:
  "case ex_reserve of Inl _ \<Rightarrow> False | Inr (vs, _) \<Rightarrow> length vs = 2 \<and>
     (\<forall>v \<in> set vs. needs_credit ex_db ex_owner (rp_candidate v))"
  by code_simp

lemma ex_views_facts:
  "length ex_views = 2" "v \<in> set ex_views \<Longrightarrow> needs_credit ex_db ex_owner (rp_candidate v)"
  using ex_reserve_facts unfolding ex_reserve_val by simp_all

section \<open>Witnesses\<close>

theorem usage_operations_keep_books_witness: "credits_ok (snd (projr ex_consume))"
  using usage_operations_keep_books[OF usage_step.consuming ex_held_ok] ex_runs(1)
  unfolding ex_consume_def by blast

theorem reserve_batch_exact_witness:
  "length ex_views = 2 \<and> distinct (map rp_candidate ex_views) \<and> total_available ex_after = total_available ex_db - 2"
proof -
  obtain cs where cs: "make_candidates ex_inputs = Inr cs"
    using ex_inputs_ok by (cases "make_candidates ex_inputs") auto
  have "filter (\<lambda>v. needs_credit ex_db ex_owner (rp_candidate v)) ex_views = ex_views"
    using ex_views_facts(2) by simp
  then show ?thesis using reserve_batch_exact[OF ex_reserve_eq ex_db_ok cs] ex_views_facts(1) by simp
qed

theorem reserve_batch_fefo_witness:
  "\<exists>g \<in> set (ugrants ex_db). ug_id g = rp_grant (last ex_views)
     \<and> (grant_key (ex_grant ''soon'' 1 50) < grant_key g \<longrightarrow>
        (\<forall>h \<in> set (ugrants ex_after). ug_id h = ''soon'' \<longrightarrow> available_credit h = 0))"
proof -
  have v: "last ex_views \<in> set ex_views" using ex_views_facts(1) by (intro last_in_set) auto
  have need: "needs_credit ex_db ex_owner (rp_candidate (last ex_views))" using ex_views_facts(2)[OF v] .
  have h: "ex_grant ''soon'' 1 50 \<in> set (ugrants ex_db)" by (simp add: ex_db_def)
  show ?thesis
    using reserve_batch_fefo[OF ex_reserve_eq ex_db_ok v need h]
    by (simp add: ex_grant_def owned_by_def ex_owner_def ex_env_def available_credit_def)
qed

theorem consume_exactly_once_witness:
  "consume_reservation_item ex_env (snd (projr ex_consume)) ''v'' PNone = ex_consume"
  using consume_exactly_once[OF ex_held_ok ex_first
      ex_runs(1)[unfolded ex_consume_def], of ex_env PNone] ex_runs(1)
  unfolding ex_consume_def by metis

theorem release_gives_back_witness:
  "release_reservation_item ex_env (snd (projr ex_release)) ''v'' PNone = ex_release"
  using release_gives_back[OF ex_held_ok ex_first
      ex_runs(2)[unfolded ex_release_def]] ex_runs(2)
  unfolding ex_release_def by metis

theorem release_expired_exact_witness:
  "list_all (\<lambda>r. rv_state r \<noteq> Reserved) (ureservations (snd (projr ex_expire)))"
proof -
  have "\<forall>r \<in> set (ureservations (snd (projr ex_expire))). rv_lease r \<le> usage_now ex_later"
      "length (ureservations ex_held) \<le> nat (min 1000 100)"
    by code_simp+
  then show ?thesis
    using release_expired_exact[OF ex_runs(3)[unfolded ex_expire_def] ex_held_ok]
    unfolding ex_expire_def list_all_iff by (meson not_le)
qed

end
