(* ===== verification/Json_Text.thy ===== *)
theory Json_Text
  imports Py_Values
begin

text \<open>
  Canonical JSON can be read back: a quoted string, an optional string and a number are
  determined by the text they are printed to, whatever follows.  Digests computed over
  canonical texts therefore identify the values.
\<close>

section \<open>Reading an escaped character\<close>

definition hex_value :: "char \<Rightarrow> int" where
  "hex_value c = (let n = (of_char c :: int) in if n < 58 then n - 48 else n - 87)"

definition short_escape :: "char \<Rightarrow> char" where
  "short_escape c = (if c = CHR ''n'' then CHR 0x0A else if c = CHR ''r'' then CHR 0x0D
     else if c = CHR ''t'' then CHR 0x09 else if c = CHR ''b'' then CHR 0x08
     else if c = CHR ''f'' then CHR 0x0C else c)"

fun read_escaped :: "string \<Rightarrow> (char \<times> string) option" where
  "read_escaped [] = None"
| "read_escaped (c # cs) =
     (if c \<noteq> CHR 0x5C then Some (c, cs)
      else case cs of
        [] \<Rightarrow> None
      | d # ds \<Rightarrow>
          if d \<noteq> CHR ''u'' then Some (short_escape d, ds)
          else case ds of
            _ # _ # h # l # rest \<Rightarrow> Some (char_of (16 * hex_value h + hex_value l), rest)
          | _ \<Rightarrow> None)"

lemma hex_value_digit: "0 \<le> d \<Longrightarrow> d < 16 \<Longrightarrow> hex_value (hex_digit d) = d"
  by (auto simp: hex_value_def hex_digit_def Let_def)

lemma of_char_eq_iff: "(of_char c :: int) = n \<Longrightarrow> c = char_of n"
  by (metis char_of_char)

lemma special_chars:
  "char_of (34 :: int) = CHR 0x22" "char_of (92 :: int) = CHR 0x5C" "char_of (10 :: int) = CHR 0x0A"
  "char_of (13 :: int) = CHR 0x0D" "char_of (9 :: int) = CHR 0x09" "char_of (8 :: int) = CHR 0x08"
  "char_of (12 :: int) = CHR 0x0C"
  by code_simp+

lemma of_char_nonneg: "0 \<le> (of_char c :: int)"
  by (metis of_nat_of_char of_nat_0_le_iff)

lemma read_escape: "read_escaped (json_escape_char c @ u) = Some (c, u)"
proof -
  let ?n = "of_char c :: int"
  have c: "c = char_of ?n" by simp
  consider "?n = 34" | "?n = 92" | "?n = 10" | "?n = 13" | "?n = 9" | "?n = 8" | "?n = 12"
    | "?n < 32" "?n \<notin> {34, 92, 10, 13, 9, 8, 12}" | "32 \<le> ?n" "?n \<noteq> 34" "?n \<noteq> 92" by force
  then show ?thesis
  proof cases
    case 8
    have "hex_value (hex_digit (?n div 16)) = ?n div 16" "hex_value (hex_digit (?n mod 16)) = ?n mod 16"
      using 8(1) of_char_nonneg[of c] by (auto intro!: hex_value_digit)
    then show ?thesis using 8 by (simp add: json_escape_char_def Let_def)
  next
    case 9
    then have "c \<noteq> CHR 0x5C" by auto
    then show ?thesis using 9 by (simp add: json_escape_char_def Let_def)
  qed (drule of_char_eq_iff, simp add: special_chars json_escape_char_def short_escape_def)+
qed

lemma escape_not_quote: "\<exists>d ds. json_escape_char c = d # ds \<and> d \<noteq> CHR 0x22"
proof (cases "c = CHR 0x22")
  case False
  then have "(of_char c :: int) \<noteq> 34" using of_char_eq_iff[of c 34] by (auto simp: special_chars)
  then show ?thesis using False by (auto simp: json_escape_char_def Let_def)
qed (simp add: json_escape_char_def)

section \<open>Reading values\<close>

lemma escaped_split:
  "concat (map json_escape_char s) @ CHR 0x22 # x = concat (map json_escape_char t) @ CHR 0x22 # y
     \<Longrightarrow> s = t \<and> x = y"
proof (induction s arbitrary: t)
  case Nil
  then show ?case using escape_not_quote by (cases t) (auto, metis append_Cons list.inject)
next
  case (Cons c s)
  show ?case
  proof (cases t)
    case Nil
    then show ?thesis using Cons.prems escape_not_quote[of c] by auto
  next
    case (Cons d t')
    then have "read_escaped (json_escape_char c @ concat (map json_escape_char s) @ CHR 0x22 # x)
        = read_escaped (json_escape_char d @ concat (map json_escape_char t') @ CHR 0x22 # y)"
      using Cons.prems by simp
    then show ?thesis using Cons.IH[of t'] Cons by (simp add: read_escape)
  qed
qed

lemma json_string_split: "json_string s @ x = json_string t @ y \<Longrightarrow> s = t \<and> x = y"
  using escaped_split[of s x t y] by (simp add: json_string_def)

definition opt_text :: "string option \<Rightarrow> pval" where
  "opt_text v = (case v of None \<Rightarrow> PNone | Some s \<Rightarrow> PStr s)"

lemma opt_text_split: "json_dumps (opt_text a) @ x = json_dumps (opt_text b) @ y \<Longrightarrow> a = b \<and> x = y"
  by (cases a; cases b) (auto simp: opt_text_def json_string_def dest: escaped_split)

lemma int_decimal_no_comma: "c \<in> set (int_decimal n) \<Longrightarrow> c \<noteq> CHR '',''"
  using nat_decimal_digits by (fastforce simp: int_decimal_def is_digit_def Let_def split: if_splits)

lemma nat_decimal_no_minus: "nat_decimal m \<noteq> CHR ''-'' # cs"
  using nat_decimal_digits[of "CHR ''-''" m] by (auto simp: is_digit_def)

lemma int_decimal_inject: "int_decimal m = int_decimal n \<longleftrightarrow> m = n"
  using nat_decimal_no_minus by (auto simp: int_decimal_def split: if_splits) metis+

lemma int_decimal_split:
  "int_decimal m @ CHR '','' # x = int_decimal n @ CHR '','' # y \<Longrightarrow> m = n \<and> x = y"
proof -
  assume eq: "int_decimal m @ CHR '','' # x = int_decimal n @ CHR '','' # y"
  have "takeWhile (\<lambda>c. c \<noteq> CHR '','') (int_decimal k @ CHR '','' # z) = int_decimal k" for k z
    by (subst takeWhile_append2) (auto simp: int_decimal_no_comma)
  then have "int_decimal m = int_decimal n" using eq by metis
  with eq show ?thesis by (simp add: int_decimal_inject)
qed

section \<open>JSON with blanks\<close>

text \<open>\<open>json.dumps(v, ensure_ascii=False)\<close>: blanks after the separators, keys as they come.\<close>

function json_plain :: "pval \<Rightarrow> string" where
  "json_plain (PList xs) = ''['' @ py_join '', '' (map json_plain xs) @ '']''"
| "json_plain (PDict d) =
     ''{'' @ py_join '', '' (map (\<lambda>e. json_string (fst e) @ '': '' @ json_plain (snd e)) d) @ ''}''"
| "json_plain PNone = json_dumps PNone"
| "json_plain (PBool b) = json_dumps (PBool b)"
| "json_plain (PInt i) = json_dumps (PInt i)"
| "json_plain (PFloat f t) = json_dumps (PFloat f t)"
| "json_plain (PStr s) = json_dumps (PStr s)"
  by pat_completeness auto
termination
  by (relation "measure size") (auto dest: size_pval_members)

end
