(* ===== verification/Py_Objects.thy ===== *)
theory Py_Objects
  imports Py_Values
begin

text \<open>
  More of Python's behaviour on dynamic values: equality across numbers, hashing, attribute and
  key access that raises, and loops over lists that may raise.
\<close>

section \<open>Equality and hashing\<close>

text \<open>Booleans, integers and finite floats compare by value.\<close>

fun num_value :: "pval \<Rightarrow> rat option" where
  "num_value (PBool b) = Some (if b then 1 else 0)"
| "num_value (PInt i) = Some (of_int i)"
| "num_value (PFloat (FFin r) _) = Some r"
| "num_value _ = None"

function py_eq :: "pval \<Rightarrow> pval \<Rightarrow> bool" where
  "py_eq PNone b = (b = PNone)"
| "py_eq (PBool x) b = (num_value b = Some (if x then 1 else 0))"
| "py_eq (PInt i) b = (num_value b = Some (of_int i))"
| "py_eq (PFloat f t) b = (case f of
     FFin r \<Rightarrow> num_value b = Some r
   | FNaN \<Rightarrow> False
   | _ \<Rightarrow> (case b of PFloat g _ \<Rightarrow> g = f | _ \<Rightarrow> False))"
| "py_eq (PStr s) b = (b = PStr s)"
| "py_eq (PList xs) b = (case b of
     PList ys \<Rightarrow> length xs = length ys \<and> list_all (\<lambda>(x, y). py_eq x y) (zip xs ys)
   | _ \<Rightarrow> False)"
| "py_eq (PDict d) b = (case b of
     PDict e \<Rightarrow> length d = length e
       \<and> list_all (\<lambda>(k, v). case map_of e k of None \<Rightarrow> False | Some w \<Rightarrow> py_eq v w) d
   | _ \<Rightarrow> False)"
  by pat_completeness auto
termination
  by (relation "measure (\<lambda>(a, _). size a)")
    (auto simp del: pval.size simp: size_PDict_member intro!: size_PList_member elim: set_zip_leftD)

lemma py_eq_PInt [simp]: "py_eq (PInt i) (PInt j) \<longleftrightarrow> i = j"
  by auto

fun hashable :: "pval \<Rightarrow> bool" where
  "hashable (PList _) = False"
| "hashable (PDict _) = False"
| "hashable _ = True"

text \<open>\<open>v in {...}\<close> for a set of strings, and for a tuple of strings.\<close>

definition in_str_set :: "string list \<Rightarrow> pval \<Rightarrow> py_exn + bool" where
  "in_str_set names v =
     (if hashable v then Inr (case v of PStr s \<Rightarrow> s \<in> set names | _ \<Rightarrow> False) else Inl TypeError)"

definition in_strs :: "string list \<Rightarrow> pval \<Rightarrow> bool" where
  "in_strs names v = (case v of PStr s \<Rightarrow> s \<in> set names | _ \<Rightarrow> False)"

lemma in_strsE: "in_strs names v \<Longrightarrow> (\<And>s. v = PStr s \<Longrightarrow> s \<in> set names \<Longrightarrow> P) \<Longrightarrow> P"
  by (cases v) (auto simp: in_strs_def)

section \<open>Access that raises\<close>

text \<open>\<open>v.get(k)\<close> on a value that need not be a dictionary.\<close>

definition get_attr :: "pval \<Rightarrow> string \<Rightarrow> py_exn + pval" where
  "get_attr v k = (if is_dict v then Inr (dget v k) else Inl AttributeError)"

text \<open>\<open>v[k]\<close> for a text \<open>k\<close>\<close>

definition get_item :: "pval \<Rightarrow> string \<Rightarrow> py_exn + pval" where
  "get_item v k =
     (case v of
        PDict d \<Rightarrow> (case map_of d k of None \<Rightarrow> Inl KeyError | Some w \<Rightarrow> Inr w)
      | _ \<Rightarrow> Inl TypeError)"

text \<open>\<open>{**d, k: v}\<close> and the assignment \<open>d[k] = v\<close>\<close>

definition set_item :: "string \<Rightarrow> pval \<Rightarrow> pval \<Rightarrow> pval" where
  "set_item k v item = PDict (AList.update k v (entries item))"

lemma dget_set_item [simp]: "dget (set_item k v x) j = (if j = k then v else dget x j)"
  by (simp add: set_item_def dget_def dget_default_def AList.update_conv')

lemma is_dict_set_item [simp]: "is_dict (set_item k v x)"
  by (simp add: set_item_def)

text \<open>\<open>type(v) is int\<close>, and the value of anything that is an \<open>int\<close> instance\<close>

fun plain_int :: "pval \<Rightarrow> int option" where
  "plain_int (PInt i) = Some i"
| "plain_int _ = None"

fun int_instance :: "pval \<Rightarrow> int option" where
  "int_instance (PInt i) = Some i"
| "int_instance (PBool b) = Some (if b then 1 else 0)"
| "int_instance _ = None"

fun is_bool :: "pval \<Rightarrow> bool" where
  "is_bool (PBool _) = True"
| "is_bool _ = False"

lemma plain_int_Some [simp]: "plain_int v = Some i \<longleftrightarrow> v = PInt i"
  by (cases v) auto

text \<open>
  \<open>hmac.compare_digest\<close> on texts raises \<open>TypeError\<close> unless both are ASCII.
\<close>

definition ascii_text :: "string \<Rightarrow> bool" where
  "ascii_text s \<longleftrightarrow> list_all (\<lambda>c. (of_char c :: int) < 128) s"

definition compare_digest :: "string \<Rightarrow> string \<Rightarrow> py_exn + bool" where
  "compare_digest a b = (if ascii_text a \<and> ascii_text b then Inr (a = b) else Inl TypeError)"

section \<open>Loops\<close>

fun map_res :: "('a \<Rightarrow> 'e + 'b) \<Rightarrow> 'a list \<Rightarrow> 'e + 'b list" where
  "map_res f [] = Inr []"
| "map_res f (x # xs) = res_bind (f x) (\<lambda>y. res_bind (map_res f xs) (\<lambda>ys. Inr (y # ys)))"

lemma map_res_cong [fundef_cong]:
  "xs = ys \<Longrightarrow> (\<And>x. x \<in> set ys \<Longrightarrow> f x = g x) \<Longrightarrow> map_res f xs = map_res g ys"
proof (induction xs arbitrary: ys)
  case (Cons x xs)
  then show ?case by (cases ys) (auto intro!: res_bind_cong)
qed simp

lemma map_res_Inr: "map_res f xs = Inr ys \<longleftrightarrow> list_all2 (\<lambda>x y. f x = Inr y) xs ys"
proof (induction xs arbitrary: ys)
  case (Cons x xs)
  then show ?case by (cases ys) (auto simp: res_simps)
qed auto

lemma map_res_length: "map_res f xs = Inr ys \<Longrightarrow> length ys = length xs"
  by (auto simp: map_res_Inr dest: list_all2_lengthD)

lemma map_res_in:
  assumes "map_res f xs = Inr ys" and "x \<in> set xs"
  shows "\<exists>y \<in> set ys. f x = Inr y"
  using assms by (auto simp: map_res_Inr list_all2_conv_all_nth in_set_conv_nth)

end
