(* ===== verification/Audit_Chain.thy ===== *)
theory Audit_Chain
  imports Json_Text Py_Objects
begin

text \<open>
  \<open>src/backend/shared/audit_chain.py\<close>: the hash chain over the security audit rows of every
  tenant, its verification (of all rows, of the rows after a checkpoint, and against a
  checkpoint) and the checkpoints themselves.  SHA-256 and HMAC are parameters of the model, and
  so are the clock and the serial of row ids, which a database sequence hands out.
\<close>

section \<open>Rows and heads\<close>

record audit_event =
  ev_actor :: "string option"
  ev_org :: "string option"
  ev_action :: string
  ev_target_type :: "string option"
  ev_target_id :: "string option"
  ev_ip :: "string option"
  ev_metadata :: "string option"
  ev_created :: string

record audit_row =
  ar_id :: int
  ar_chain :: string
  ar_sequence :: int
  ar_event :: audit_event
  ar_previous :: string
  ar_entry :: string

text \<open>A row of \<open>audit_chain_heads\<close>, and the value the verifier keeps for a chain.\<close>

record chain_state =
  cs_sequence :: int
  cs_id :: "int option"
  cs_hash :: string

record audit_db =
  audit_log :: "audit_row list"
  chain_heads :: "(string \<times> chain_state) list"
  audit_serial :: int
  installation :: "string option"

record audit_env =
  au_sha256 :: "string \<Rightarrow> string"
  au_hmac :: "string \<Rightarrow> string \<Rightarrow> string"
  au_now :: string

definition empty_audit_hash :: string where
  "empty_audit_hash = replicate 64 CHR ''0''"

definition empty_state :: chain_state where
  "empty_state = \<lparr>cs_sequence = 0, cs_id = None, cs_hash = empty_audit_hash\<rparr>"

definition event_value :: "string \<Rightarrow> int \<Rightarrow> audit_event \<Rightarrow> pval" where
  "event_value chain n e =
     PDict [(''chain_id'', PStr chain), (''sequence'', PInt n),
       (''actor_user_id'', opt_text (ev_actor e)), (''organization_id'', opt_text (ev_org e)),
       (''action'', PStr (ev_action e)), (''target_type'', opt_text (ev_target_type e)),
       (''target_id'', opt_text (ev_target_id e)), (''ip_address'', opt_text (ev_ip e)),
       (''metadata_json'', opt_text (ev_metadata e)), (''created_at'', PStr (ev_created e))]"

text \<open>\<open>_entry_hash\<close> hashes \<open>f"{previous_hash}\n{_canonical_event(event)}"\<close>.\<close>

definition entry_payload :: "string \<Rightarrow> string \<Rightarrow> int \<Rightarrow> audit_event \<Rightarrow> string" where
  "entry_payload previous chain n e = previous @ [CHR 0x0A] @ json_dumps (event_value chain n e)"

definition entry_hash :: "audit_env \<Rightarrow> string \<Rightarrow> string \<Rightarrow> int \<Rightarrow> audit_event \<Rightarrow> string" where
  "entry_hash env previous chain n e = au_sha256 env (entry_payload previous chain n e)"

section \<open>Health of the verifier\<close>

datatype audit_health = HealthUnknown | HealthValid | HealthInvalid | HealthError

definition set_audit_chain_health :: "pval \<Rightarrow> audit_health" where
  "set_audit_chain_health state =
     (let s = py_casefold (py_strip (py_str (py_or state (PStr ''error''))))
      in if s = ''unknown'' then HealthUnknown else if s = ''valid'' then HealthValid
         else if s = ''invalid'' then HealthInvalid else HealthError)"

definition require_audit_chain_available :: "audit_health \<Rightarrow> audit_health option" where
  "require_audit_chain_available h =
     (if h = HealthInvalid \<or> h = HealthError then None else Some h)"

section \<open>Appending\<close>

text \<open>The constraints of \<open>audit_log\<close>; lengths count code points.\<close>

definition audit_row_allowed :: "audit_row list \<Rightarrow> audit_row \<Rightarrow> bool" where
  "audit_row_allowed rows r \<longleftrightarrow> ar_chain r \<noteq> [] \<and> 0 < ar_sequence r
     \<and> py_len (ar_previous r) = 64 \<and> py_len (ar_entry r) = 64
     \<and> \<not> list_ex (\<lambda>x. ar_id x = ar_id r) rows
     \<and> \<not> list_ex (\<lambda>x. ar_chain x = ar_chain r \<and> (ar_sequence x = ar_sequence r
           \<or> ar_previous x = ar_previous r \<or> ar_entry x = ar_entry r)) rows"

text \<open>
  \<open>insert_audit_row\<close>: the chain is created on its first event, its head is locked, the next row
  is linked to it and the head moves on.  A row refused by a constraint raises
  (\<^term>\<open>None\<close>) and the transaction is rolled back.
\<close>

definition chain_id_of :: "string option \<Rightarrow> string" where
  "chain_id_of org = (case org of None \<Rightarrow> ''global'' | Some g \<Rightarrow> if g = [] then ''global'' else g)"

definition insert_audit_row ::
    "audit_env \<Rightarrow> audit_event \<Rightarrow> audit_db \<Rightarrow> (string \<times> audit_db) option" where
  "insert_audit_row env event db =
     (let e = (if ev_created event = [] then event\<lparr>ev_created := au_now env\<rparr> else event);
          chain = chain_id_of (ev_org e);
          heads = dict_setdefault chain empty_state (chain_heads db)
      in case map_of heads chain of
           None \<Rightarrow> None
         | Some head \<Rightarrow>
             let sequence = cs_sequence head + 1;
                 hash = entry_hash env (cs_hash head) chain sequence e;
                 row = \<lparr>ar_id = audit_serial db, ar_chain = chain, ar_sequence = sequence,
                        ar_event = e, ar_previous = cs_hash head, ar_entry = hash\<rparr>
             in if audit_row_allowed (audit_log db) row
                then Some (hash, db\<lparr>audit_log := audit_log db @ [row],
                  chain_heads := AList.update chain
                    \<lparr>cs_sequence = sequence, cs_id = Some (audit_serial db), cs_hash = hash\<rparr> heads,
                  audit_serial := audit_serial db + 1\<rparr>)
                else None)"

text \<open>\<open>append_audit_row\<close> refuses a connection that is already in a transaction.\<close>

definition append_audit_row ::
    "audit_env \<Rightarrow> bool \<Rightarrow> audit_event \<Rightarrow> audit_db \<Rightarrow> (string \<times> audit_db) option" where
  "append_audit_row env in_transaction event db =
     (if in_transaction then None else insert_audit_row env event db)"

section \<open>Verification of every chain\<close>

datatype audit_failure =
  SequenceMismatch | PreviousHashMismatch | EntryHashMismatch | MaterializedHeadMismatch
| CheckpointInvalid | CheckpointInstallationMismatch | CheckpointShapeInvalid
| CheckpointHeadMissing | CheckpointHeadMismatch

record verification =
  vf_valid :: bool
  vf_row_count :: int
  vf_first_id :: "int option"
  vf_first_previous :: "string option"
  vf_last_id :: "int option"
  vf_last_hash :: "string option"
  vf_failure :: "audit_failure option"
  vf_heads :: "(string \<times> chain_state) list"

definition failed_verification :: "audit_failure \<Rightarrow> int \<Rightarrow> (string \<times> chain_state) list \<Rightarrow> verification" where
  "failed_verification reason n heads =
     \<lparr>vf_valid = False, vf_row_count = n, vf_first_id = None, vf_first_previous = None,
      vf_last_id = None, vf_last_hash = None, vf_failure = Some reason, vf_heads = heads\<rparr>"

definition ordered_log :: "audit_row list \<Rightarrow> audit_row list" where
  "ordered_log rows = sort_key (\<lambda>r. (ar_chain r, ar_sequence r)) rows"

text \<open>The check of one row against the state of its chain.\<close>

definition check_row :: "audit_env \<Rightarrow> chain_state \<Rightarrow> audit_row \<Rightarrow> audit_failure option" where
  "check_row env st r =
     (if ar_sequence r \<noteq> cs_sequence st + 1 then Some SequenceMismatch
      else if ar_previous r \<noteq> cs_hash st then Some PreviousHashMismatch
      else if entry_hash env (ar_previous r) (ar_chain r) (ar_sequence r) (ar_event r) \<noteq> ar_entry r
      then Some EntryHashMismatch
      else None)"

definition row_state :: "audit_row \<Rightarrow> chain_state" where
  "row_state r = \<lparr>cs_sequence = ar_sequence r, cs_id = Some (ar_id r), cs_hash = ar_entry r\<rparr>"

text \<open>
  The scan: \<open>current\<close> is the chain being read with its state, \<open>heads\<close> the finished ones.  A
  failure carries the id and the last good hash at that point.
\<close>

fun scan_rows ::
    "audit_env \<Rightarrow> audit_row list \<Rightarrow> (string \<times> chain_state) option \<Rightarrow> (string \<times> chain_state) list
      \<Rightarrow> (audit_failure \<times> int \<times> string) + (string \<times> chain_state) list" where
  "scan_rows env [] current heads =
     Inr (heads @ (case current of None \<Rightarrow> [] | Some c \<Rightarrow> [c]))"
| "scan_rows env (r # rs) current heads =
     (let same = (case current of None \<Rightarrow> False | Some (chain, _) \<Rightarrow> chain = ar_chain r);
          st = (if same then snd (the current) else empty_state);
          heads' = (if same then heads else heads @ (case current of None \<Rightarrow> [] | Some c \<Rightarrow> [c]))
      in case check_row env st r of
           Some f \<Rightarrow> Inl (f, ar_id r, cs_hash st)
         | None \<Rightarrow> scan_rows env rs (Some (ar_chain r, row_state r)) heads')"

definition dict_equal :: "('k \<times> 'v) list \<Rightarrow> ('k \<times> 'v) list \<Rightarrow> bool" where
  "dict_equal a b \<longleftrightarrow> list_all (\<lambda>k. map_of a k = map_of b k) (map fst a @ map fst b)"

text \<open>\<open>{**calculated_heads, **empty_heads} == stored_heads\<close>\<close>

definition heads_match :: "(string \<times> chain_state) list \<Rightarrow> (string \<times> chain_state) list \<Rightarrow> bool" where
  "heads_match calculated stored \<longleftrightarrow>
     dict_equal (filter (\<lambda>(_, s). s = empty_state) stored @ calculated) stored"

definition head_value :: "string \<times> chain_state \<Rightarrow> pval" where
  "head_value h = PDict [(''chainId'', PStr (fst h)), (''sequence'', PInt (cs_sequence (snd h))),
     (''id'', case cs_id (snd h) of None \<Rightarrow> PNone | Some i \<Rightarrow> PInt i),
     (''entryHash'', PStr (cs_hash (snd h)))]"

definition aggregate_hash :: "audit_env \<Rightarrow> (string \<times> chain_state) list \<Rightarrow> string" where
  "aggregate_hash env heads = au_sha256 env (json_dumps (PList (map head_value heads)))"

definition inspect_audit_chain :: "audit_env \<Rightarrow> audit_db \<Rightarrow> verification" where
  "inspect_audit_chain env db =
     (let n = int (length (audit_log db));
          rows = ordered_log (audit_log db);
          first = (if rows = [] then None else Some (hd rows));
          last_row = (if rows = [] then None else Some (last rows));
          result = (\<lambda>valid last_id last_hash failure heads.
             \<lparr>vf_valid = valid, vf_row_count = n, vf_first_id = map_option ar_id first,
              vf_first_previous = map_option ar_previous first, vf_last_id = last_id,
              vf_last_hash = last_hash, vf_failure = failure, vf_heads = heads\<rparr>)
      in case scan_rows env rows None [] of
           Inl (f, i, h) \<Rightarrow> result False (Some i) (Some h) (Some f) []
         | Inr heads \<Rightarrow>
             if heads_match heads (chain_heads db)
             then result True (map_option ar_id last_row) (Some (aggregate_hash env heads)) None heads
             else result False (map_option ar_id last_row) (map_option ar_entry last_row)
                    (Some MaterializedHeadMismatch) heads)"

section \<open>Checkpoints\<close>

definition checkpoint_format :: string where
  "checkpoint_format = ''biddingflow-audit-checkpoint''"

definition checkpoint_payload ::
    "audit_env \<Rightarrow> string \<Rightarrow> verification \<Rightarrow> (string \<times> pval) list" where
  "checkpoint_payload env inst v =
     [(''format'', PStr checkpoint_format), (''version'', PInt 3), (''installationId'', PStr inst),
      (''createdAt'', PStr (au_now env)), (''rowCount'', PInt (vf_row_count v)),
      (''heads'', PList (map head_value (vf_heads v))),
      (''aggregateHash'', opt_text (vf_last_hash v))]"

text \<open>\<open>if hmac_key:\<close>\<close>

definition keyed :: "string option \<Rightarrow> string option" where
  "keyed key = (case key of None \<Rightarrow> None | Some k \<Rightarrow> if k = [] then None else Some k)"

definition build_audit_checkpoint ::
    "audit_env \<Rightarrow> audit_db \<Rightarrow> string option \<Rightarrow> verification option \<Rightarrow> pval option" where
  "build_audit_checkpoint env db key given =
     (let v = (case given of None \<Rightarrow> inspect_audit_chain env db | Some v \<Rightarrow> v) in
      if \<not> vf_valid v then None
      else case installation db of
        None \<Rightarrow> None
      | Some inst \<Rightarrow>
          if py_strip inst = [] then None
          else
            let payload = checkpoint_payload env inst v;
                material = json_dumps (PDict payload);
                digest = [(''algorithm'', PStr ''SHA-256''), (''digest'', PStr (au_sha256 env material))];
                integrity = (case keyed key of None \<Rightarrow> digest
                  | Some k \<Rightarrow> digest @ [(''hmacSha256'', PStr (au_hmac env k material))])
            in Some (PDict (payload @ [(''integrity'', PDict integrity)])))"

text \<open>\<open>v == 3\<close>\<close>

fun equals_int :: "int \<Rightarrow> pval \<Rightarrow> bool" where
  "equals_int n (PInt i) = (i = n)"
| "equals_int n (PBool b) = ((if b then 1 else 0) = n)"
| "equals_int n (PFloat f _) = (f = FFin (of_int n))"
| "equals_int n _ = False"

definition verify_audit_checkpoint :: "audit_env \<Rightarrow> pval \<Rightarrow> string option \<Rightarrow> py_exn + bool" where
  "verify_audit_checkpoint env checkpoint key =
     (if \<not> is_dict checkpoint \<or> \<not> is_dict (dget checkpoint ''integrity'') then Inr False
      else
        let integrity = dget checkpoint ''integrity'';
            payload = PDict (filter (\<lambda>(k, _). k \<noteq> ''integrity'') (entries checkpoint));
            material = json_dumps payload
        in res_bind (compare_digest (str_or_empty (dget integrity ''digest'')) (au_sha256 env material)) (\<lambda>same.
           if \<not> same then Inr False
           else res_bind (case keyed key of
                 None \<Rightarrow> Inr True
               | Some k \<Rightarrow> compare_digest (str_or_empty (dget integrity ''hmacSha256'')) (au_hmac env k material))
             (\<lambda>signed.
               Inr (signed \<and> dget payload ''format'' = PStr checkpoint_format
                 \<and> equals_int 3 (dget payload ''version'')
                 \<and> is_str (dget payload ''installationId'') \<and> truthy (dget payload ''installationId'')))))"

text \<open>The check that the checkpoint was taken from this installation.\<close>

definition same_installation :: "audit_db \<Rightarrow> pval \<Rightarrow> py_exn + bool" where
  "same_installation db checkpoint =
     (case installation db of
        None \<Rightarrow> Inr False
      | Some inst \<Rightarrow> compare_digest inst (str_or_empty (dget checkpoint ''installationId'')))"

section \<open>Verification against a checkpoint\<close>

definition invalidated :: "verification \<Rightarrow> audit_failure \<Rightarrow> verification" where
  "invalidated v f = v\<lparr>vf_valid := False, vf_failure := Some f\<rparr>"

fun int_like :: "pval \<Rightarrow> int option" where
  "int_like (PInt i) = Some i"
| "int_like (PBool b) = Some (if b then 1 else 0)"
| "int_like _ = None"

fun str_like :: "pval \<Rightarrow> string option" where
  "str_like (PStr s) = Some s"
| "str_like _ = None"

fun check_anchors ::
    "audit_row list \<Rightarrow> verification \<Rightarrow> pval list \<Rightarrow> py_exn + verification" where
  "check_anchors rows v [] = Inr v"
| "check_anchors rows v (h # hs) =
     (if \<not> is_dict h then Inr (invalidated v CheckpointShapeInvalid)
      else case (str_like (dget h ''chainId''), int_like (dget h ''id''), str_like (dget h ''entryHash'')) of
        (Some chain, Some i, Some hash) \<Rightarrow>
          (case List.find (\<lambda>r. ar_chain r = chain \<and> ar_id r = i) rows of
             None \<Rightarrow> Inr (invalidated v CheckpointHeadMissing)
           | Some r \<Rightarrow>
               res_bind (compare_digest (ar_entry r) hash) (\<lambda>same.
                 if same then check_anchors rows v hs else Inr (invalidated v CheckpointHeadMismatch)))
      | _ \<Rightarrow> Inr (invalidated v CheckpointShapeInvalid))"

definition inspect_audit_chain_against_checkpoint ::
    "audit_env \<Rightarrow> audit_db \<Rightarrow> pval \<Rightarrow> string option \<Rightarrow> py_exn + verification" where
  "inspect_audit_chain_against_checkpoint env db checkpoint key =
     (let v = inspect_audit_chain env db in
      if \<not> vf_valid v then Inr v
      else res_bind (verify_audit_checkpoint env checkpoint key) (\<lambda>genuine.
        if \<not> genuine then Inr (invalidated v CheckpointInvalid)
        else res_bind (same_installation db checkpoint) (\<lambda>here.
          if \<not> here then Inr (invalidated v CheckpointInstallationMismatch)
          else case dget checkpoint ''heads'' of
            PList heads \<Rightarrow> check_anchors (audit_log db) v heads
          | _ \<Rightarrow> Inr (invalidated v CheckpointShapeInvalid))))"

section \<open>Verification of the rows after a checkpoint\<close>

definition strict_int :: "pval \<Rightarrow> int option" where
  "strict_int v = (case v of PInt i \<Rightarrow> Some i | _ \<Rightarrow> None)"

text \<open>The heads of a checkpoint, in order; \<^term>\<open>None\<close> is a wrong shape.\<close>

definition parse_head :: "pval \<Rightarrow> (string \<times> chain_state) option" where
  "parse_head h =
     (if \<not> is_dict h then None
      else case (str_like (dget h ''chainId''), strict_int (dget h ''sequence''),
            strict_int (dget h ''id''), str_like (dget h ''entryHash'')) of
        (Some chain, Some n, Some i, Some hash) \<Rightarrow>
          if chain = [] \<or> n \<le> 0 \<or> i \<le> 0 \<or> py_len hash \<noteq> 64 then None
          else Some (chain, \<lparr>cs_sequence = n, cs_id = Some i, cs_hash = hash\<rparr>)
      | _ \<Rightarrow> None)"

fun parse_heads :: "pval list \<Rightarrow> (string \<times> chain_state) list \<Rightarrow> (string \<times> chain_state) list option" where
  "parse_heads [] acc = Some acc"
| "parse_heads (h # hs) acc =
     (case parse_head h of
        None \<Rightarrow> None
      | Some (chain, st) \<Rightarrow>
          if map_of acc chain \<noteq> None then None else parse_heads hs (acc @ [(chain, st)]))"

text \<open>Every head is anchored to its row: all anchor ids exist and carry the chain, number and hash.\<close>

fun check_states ::
    "audit_row list \<Rightarrow> (string \<times> chain_state) list \<Rightarrow> py_exn + audit_failure option" where
  "check_states rows [] = Inr None"
| "check_states rows ((chain, st) # rest) =
     (case List.find (\<lambda>r. Some (ar_id r) = cs_id st) rows of
        None \<Rightarrow> Inr (Some CheckpointHeadMissing)
      | Some r \<Rightarrow>
          if ar_chain r \<noteq> chain \<or> ar_sequence r \<noteq> cs_sequence st then Inr (Some CheckpointHeadMismatch)
          else res_bind (compare_digest (ar_entry r) (cs_hash st)) (\<lambda>same.
            if same then check_states rows rest else Inr (Some CheckpointHeadMismatch)))"

definition anchor_ids :: "(string \<times> chain_state) list \<Rightarrow> int list" where
  "anchor_ids states = List.map_filter (\<lambda>(_, st). cs_id st) states"

definition anchors_found :: "audit_row list \<Rightarrow> (string \<times> chain_state) list \<Rightarrow> bool" where
  "anchors_found rows states \<longleftrightarrow>
     card (set (map ar_id rows) \<inter> set (anchor_ids states)) = length (anchor_ids states)"

text \<open>The tail scan; a failure carries the number of rows read and the states at that point.\<close>

fun scan_tail ::
    "audit_env \<Rightarrow> audit_row list \<Rightarrow> (string \<times> chain_state) list \<Rightarrow> int
      \<Rightarrow> py_exn + ((audit_failure \<times> int \<times> (string \<times> chain_state) list) + (string \<times> chain_state) list)" where
  "scan_tail env [] states n = Inr (Inr states)"
| "scan_tail env (r # rs) states n =
     (let states' = dict_setdefault (ar_chain r) empty_state states;
          st = the (map_of states' (ar_chain r))
      in if ar_sequence r \<noteq> cs_sequence st + 1 then Inr (Inl (SequenceMismatch, n + 1, states'))
         else res_bind (compare_digest (ar_previous r) (cs_hash st)) (\<lambda>linked.
           if \<not> linked then Inr (Inl (PreviousHashMismatch, n + 1, states'))
           else res_bind (compare_digest
               (entry_hash env (ar_previous r) (ar_chain r) (ar_sequence r) (ar_event r)) (ar_entry r)) (\<lambda>hashed.
             if \<not> hashed then Inr (Inl (EntryHashMismatch, n + 1, states'))
             else scan_tail env rs (AList.update (ar_chain r) (row_state r) states') (n + 1))))"

definition max_default :: "int list \<Rightarrow> int" where
  "max_default xs = (if xs = [] then 0 else Max (set xs))"

definition inspect_tail ::
    "audit_env \<Rightarrow> audit_db \<Rightarrow> int \<Rightarrow> (string \<times> chain_state) list \<Rightarrow> py_exn + verification" where
  "inspect_tail env db rows states =
     (let top = max_default (anchor_ids states);
          tail = ordered_log (filter (\<lambda>r. top < ar_id r) (audit_log db));
          n = rows + int (length tail)
      in res_bind (scan_tail env tail states 0) (\<lambda>outcome.
         case outcome of
           Inl (f, k, sts) \<Rightarrow> Inr (failed_verification f (rows + k) sts)
         | Inr sts \<Rightarrow>
             let heads = sort_key fst sts in
             if heads_match heads (chain_heads db)
             then Inr \<lparr>vf_valid = True, vf_row_count = n,
                 vf_first_id = (if tail = [] then None else Some (ar_id (hd tail))),
                 vf_first_previous = (if tail = [] then None else Some (ar_previous (hd tail))),
                 vf_last_id = (if tail \<noteq> [] then Some (ar_id (last tail)) else if top = 0 then None else Some top),
                 vf_last_hash = Some (aggregate_hash env heads), vf_failure = None, vf_heads = heads\<rparr>
             else Inr (failed_verification MaterializedHeadMismatch n heads)))"

definition inspect_audit_chain_incremental ::
    "audit_env \<Rightarrow> audit_db \<Rightarrow> pval \<Rightarrow> string option \<Rightarrow> py_exn + verification" where
  "inspect_audit_chain_incremental env db checkpoint key =
     res_bind (verify_audit_checkpoint env checkpoint key) (\<lambda>genuine.
     if \<not> genuine then Inr (failed_verification CheckpointInvalid 0 [])
     else res_bind (same_installation db checkpoint) (\<lambda>here.
     if \<not> here then Inr (failed_verification CheckpointInstallationMismatch 0 [])
     else case (strict_int (dget checkpoint ''rowCount''), dget checkpoint ''heads'') of
       (Some rows, PList heads) \<Rightarrow>
         if rows < 0 then Inr (failed_verification CheckpointShapeInvalid 0 [])
         else (case parse_heads heads [] of
             None \<Rightarrow> Inr (failed_verification CheckpointShapeInvalid 0 [])
           | Some states \<Rightarrow>
               if rows \<noteq> sum_list (map (\<lambda>(_, st). cs_sequence st) states)
               then Inr (failed_verification CheckpointShapeInvalid 0 [])
               else if states \<noteq> [] \<and> \<not> anchors_found (audit_log db) states
               then Inr (failed_verification CheckpointHeadMissing rows [])
               else res_bind (check_states (audit_log db) states) (\<lambda>bad.
                 case bad of
                   Some f \<Rightarrow> Inr (failed_verification f rows [])
                 | None \<Rightarrow> inspect_tail env db rows states))
     | _ \<Rightarrow> Inr (failed_verification CheckpointShapeInvalid 0 [])))"

text \<open>
  The decision of \<open>_inspect_database\<close> in \<open>src/backend/shared/audit_monitor.py\<close>: with a checkpoint
  at hand and nothing to export the rows after it are checked, and a refusal is confirmed by a
  full verification against the checkpoint.
\<close>

definition inspect_database ::
    "audit_env \<Rightarrow> audit_db \<Rightarrow> pval option \<Rightarrow> string option \<Rightarrow> bool \<Rightarrow> bool \<Rightarrow> py_exn + verification" where
  "inspect_database env db checkpoint key incremental export_checkpoint =
     (case checkpoint of
        None \<Rightarrow> Inr (inspect_audit_chain env db)
      | Some c \<Rightarrow>
          if incremental \<and> \<not> export_checkpoint
          then res_bind (inspect_audit_chain_incremental env db c key) (\<lambda>v.
            if vf_valid v then Inr v else inspect_audit_chain_against_checkpoint env db c key)
          else inspect_audit_chain_against_checkpoint env db c key)"

end
