(* ===== verification/Audit_Laws.thy ===== *)
theory Audit_Laws
  imports Audit_Chain
begin

text \<open>
  The laws of the audit chain: what the service appends always verifies, a verified chain is
  determined by its head, and a checkpoint pins the history it was taken from.
\<close>

section \<open>Events are determined by what is hashed\<close>

lemma event_value_json:
  "json_dumps (event_value chain n e) =
     ''{'' @ json_string ''action'' @ '':'' @ json_string (ev_action e) @ '','' @
       json_string ''actor_user_id'' @ '':'' @ json_dumps (opt_text (ev_actor e)) @ '','' @
       json_string ''chain_id'' @ '':'' @ json_string chain @ '','' @
       json_string ''created_at'' @ '':'' @ json_string (ev_created e) @ '','' @
       json_string ''ip_address'' @ '':'' @ json_dumps (opt_text (ev_ip e)) @ '','' @
       json_string ''metadata_json'' @ '':'' @ json_dumps (opt_text (ev_metadata e)) @ '','' @
       json_string ''organization_id'' @ '':'' @ json_dumps (opt_text (ev_org e)) @ '','' @
       json_string ''sequence'' @ '':'' @ int_decimal n @ '','' @
       json_string ''target_id'' @ '':'' @ json_dumps (opt_text (ev_target_id e)) @ '','' @
       json_string ''target_type'' @ '':'' @ json_dumps (opt_text (ev_target_type e)) @ ''}''"
proof -
  let ?kv = "[(''action'', PStr (ev_action e)), (''actor_user_id'', opt_text (ev_actor e)),
    (''chain_id'', PStr chain), (''created_at'', PStr (ev_created e)), (''ip_address'', opt_text (ev_ip e)),
    (''metadata_json'', opt_text (ev_metadata e)), (''organization_id'', opt_text (ev_org e)),
    (''sequence'', PInt n), (''target_id'', opt_text (ev_target_id e)),
    (''target_type'', opt_text (ev_target_type e))]"
  have "sort_key fst ?kv = ?kv"
    by (rule sort_key_id_if_sorted) code_simp
  moreover have "sort_key fst (entries (event_value chain n e)) = sort_key fst ?kv"
    unfolding event_value_def entries.simps by (rule sort_key_fst_perm) auto
  ultimately show ?thesis
    by (simp add: event_value_def)
qed

lemma event_value_inject:
  assumes "json_dumps (event_value c n e) = json_dumps (event_value c' n' e')"
  shows "c = c' \<and> n = n' \<and> e = e'"
proof -
  have "ev_action e = ev_action e' \<and> ev_actor e = ev_actor e' \<and> c = c' \<and> ev_created e = ev_created e'
      \<and> ev_ip e = ev_ip e' \<and> ev_metadata e = ev_metadata e' \<and> ev_org e = ev_org e' \<and> n = n'
      \<and> ev_target_id e = ev_target_id e' \<and> ev_target_type e = ev_target_type e'"
    using assms unfolding event_value_json
    by (auto dest!: json_string_split opt_text_split int_decimal_split
        dest: opt_text_split[where x = "[]" and y = "[]", simplified])
  then show ?thesis by (simp add: audit_event.equality)
qed

lemma entry_payload_inject:
  assumes "entry_payload p c n e = entry_payload p' c' n' e'" and "length p = length p'"
  shows "p = p' \<and> c = c' \<and> n = n' \<and> e = e'"
  using assms event_value_inject by (auto simp: entry_payload_def)

section \<open>Linked rows\<close>

fun linked :: "audit_env \<Rightarrow> chain_state \<Rightarrow> audit_row list \<Rightarrow> chain_state \<Rightarrow> bool" where
  "linked env st [] st' \<longleftrightarrow> st' = st"
| "linked env st (r # rs) st' \<longleftrightarrow> check_row env st r = None \<and> linked env (row_state r) rs st'"

lemma linked_append:
  "linked env st (rs @ ss) st' \<longleftrightarrow> (\<exists>m. linked env st rs m \<and> linked env m ss st')"
  by (induction rs arbitrary: st) auto

lemma linked_functional: "linked env st rs a \<Longrightarrow> linked env st rs b \<Longrightarrow> a = b"
  by (induction rs arbitrary: st) auto

lemma check_row_None:
  "check_row env st r = None \<longleftrightarrow> ar_sequence r = cs_sequence st + 1 \<and> ar_previous r = cs_hash st
     \<and> ar_entry r = entry_hash env (ar_previous r) (ar_chain r) (ar_sequence r) (ar_event r)"
  by (auto simp: check_row_def)

lemma linked_sequence: "linked env st rs st' \<Longrightarrow> cs_sequence st' = cs_sequence st + int (length rs)"
  by (induction rs arbitrary: st) (auto simp: check_row_None row_state_def)

lemma linked_sorted:
  "linked env st rs st' \<Longrightarrow> sorted (map ar_sequence rs) \<and> (\<forall>r \<in> set rs. cs_sequence st < ar_sequence r)"
  by (induction rs arbitrary: st) (fastforce simp: check_row_None row_state_def)+

text \<open>What a row states, without the id the database gave it.\<close>

definition row_content :: "audit_row \<Rightarrow> string \<times> int \<times> audit_event \<times> string \<times> string" where
  "row_content r = (ar_chain r, ar_sequence r, ar_event r, ar_previous r, ar_entry r)"

definition row_payload :: "audit_row \<Rightarrow> string" where
  "row_payload r = entry_payload (ar_previous r) (ar_chain r) (ar_sequence r) (ar_event r)"

text \<open>Documented facts on \<open>hexdigest\<close>, and the absence of a collision among given payloads.\<close>

definition sha_ok :: "audit_env \<Rightarrow> string set \<Rightarrow> bool" where
  "sha_ok env payloads \<longleftrightarrow> (\<forall>s. length (au_sha256 env s) = 64) \<and> inj_on (au_sha256 env) payloads"

lemma linked_hash_length:
  "linked env st rs st' \<Longrightarrow> \<forall>s. length (au_sha256 env s) = 64 \<Longrightarrow> length (cs_hash st) = 64 \<Longrightarrow>
     length (cs_hash st') = 64"
  by (induction rs arbitrary: st) (auto simp: check_row_None row_state_def entry_hash_def)

lemma linked_determined:
  assumes "linked env empty_state rs a" and "linked env empty_state rs' b"
    and "rs \<noteq> []" and "rs' \<noteq> []" and "cs_hash a = cs_hash b"
    and sha: "sha_ok env (row_payload ` (set rs \<union> set rs'))"
  shows "map row_content rs = map row_content rs'"
  using assms
proof (induction rs arbitrary: rs' a b rule: rev_induct)
  case (snoc r rs)
  obtain r' ss where rs': "rs' = ss @ [r']" using snoc.prems(4) by (cases rs' rule: rev_cases) auto
  obtain m where m: "linked env empty_state rs m" "check_row env m r = None" "a = row_state r"
    using snoc.prems(1) by (auto simp: linked_append)
  obtain m' where m': "linked env empty_state ss m'" "check_row env m' r' = None" "b = row_state r'"
    using snoc.prems(2) by (auto simp: linked_append rs')
  have len: "length (cs_hash m) = 64" "length (cs_hash m') = 64"
    using snoc.prems(6) linked_hash_length[OF m(1)] linked_hash_length[OF m'(1)]
    by (simp_all add: sha_ok_def empty_state_def empty_audit_hash_def)
  have hashes: "au_sha256 env (row_payload r) = au_sha256 env (row_payload r')"
    using snoc.prems(5) m(2,3) m'(2,3) by (simp add: check_row_None row_state_def row_payload_def entry_hash_def)
  have "inj_on (au_sha256 env) (row_payload ` (set (rs @ [r]) \<union> set rs'))"
    using snoc.prems(6) by (simp only: sha_ok_def)
  from inj_onD[OF this hashes] have "row_payload r = row_payload r'" by (simp add: rs')
  moreover have "length (ar_previous r) = length (ar_previous r')"
    using len m(2) m'(2) by (simp add: check_row_None)
  ultimately have same: "ar_previous r = ar_previous r'" "ar_chain r = ar_chain r'"
      "ar_sequence r = ar_sequence r'" "ar_event r = ar_event r'"
    unfolding row_payload_def by (blast dest: entry_payload_inject)+
  have "cs_sequence m = cs_sequence m'" using same(3) m(2) m'(2) by (simp add: check_row_None)
  then have "length rs = length ss" using linked_sequence[OF m(1)] linked_sequence[OF m'(1)] by simp
  then have empty: "rs = [] \<longleftrightarrow> ss = []" by auto
  have "cs_hash m = cs_hash m'" using same(1) m(2) m'(2) by (simp add: check_row_None)
  moreover have "sha_ok env (row_payload ` (set rs \<union> set ss))"
    using snoc.prems(6) unfolding sha_ok_def rs' by (auto intro: inj_on_subset)
  ultimately have contents: "map row_content rs = map row_content ss"
    using snoc.IH[OF m(1) m'(1)] empty by (cases "rs = []") auto
  have "ar_entry r = ar_entry r'"
    using same m(2) m'(2) unfolding check_row_None by metis
  then show ?case using same contents by (simp add: rs' row_content_def[of r] row_content_def[of r'])
qed simp

section \<open>The scan checks every chain\<close>

definition rows_of :: "audit_row list \<Rightarrow> string \<Rightarrow> audit_row list" where
  "rows_of rows c = filter (\<lambda>r. ar_chain r = c) rows"

definition start_of :: "(string \<times> chain_state) option \<Rightarrow> string \<Rightarrow> chain_state" where
  "start_of current c = (case current of None \<Rightarrow> empty_state | Some (d, st) \<Rightarrow> if d = c then st else empty_state)"

definition state_in :: "(string \<times> chain_state) list \<Rightarrow> string \<Rightarrow> chain_state" where
  "state_in hs c = (case map_of hs c of None \<Rightarrow> empty_state | Some st \<Rightarrow> st)"

definition current_chain :: "(string \<times> chain_state) option \<Rightarrow> string set" where
  "current_chain current = (case current of None \<Rightarrow> {} | Some (c, _) \<Rightarrow> {c})"

definition current_list :: "(string \<times> chain_state) option \<Rightarrow> (string \<times> chain_state) list" where
  "current_list current = (case current of None \<Rightarrow> [] | Some c \<Rightarrow> [c])"

lemma rows_of_simps [simp]:
  "rows_of [] c = []"
  "rows_of (r # rs) c = (if ar_chain r = c then r # rows_of rs c else rows_of rs c)"
  by (simp_all add: rows_of_def)

lemma rows_of_none: "\<forall>r \<in> set rs. c < ar_chain r \<Longrightarrow> rows_of rs c = []"
  by (induction rs) auto

text \<open>One step of the scan, with the two ways to start a row.\<close>

lemma scan_rows_Cons:
  "scan_rows env (r # rs) current heads =
     (case check_row env (start_of current (ar_chain r)) r of
        Some f \<Rightarrow> Inl (f, ar_id r, cs_hash (start_of current (ar_chain r)))
      | None \<Rightarrow> scan_rows env rs (Some (ar_chain r, row_state r))
          (if current_chain current = {ar_chain r} then heads else heads @ current_list current))"
  by (cases current) (auto simp: start_of_def current_list_def current_chain_def Let_def split: option.splits)

declare scan_rows.simps(2) [simp del]

lemma scan_rows_char:
  assumes "scan_rows env rs current heads = Inr hs" and "sorted (map ar_chain rs)"
    and "\<forall>c \<in> current_chain current. \<forall>r \<in> set rs. c \<le> ar_chain r"
  shows "\<exists>new. hs = heads @ new \<and> distinct (map fst new)
    \<and> fst ` set new = current_chain current \<union> ar_chain ` set rs
    \<and> (\<forall>c. linked env (start_of current c) (rows_of rs c) (state_in new c))"
  using assms
proof (induction rs arbitrary: current heads)
  case Nil
  then show ?case
    by (cases current) (auto simp: state_in_def start_of_def current_chain_def)
next
  case (Cons r rs)
  let ?c = "ar_chain r"
  have check: "check_row env (start_of current ?c) r = None"
    and rest: "scan_rows env rs (Some (?c, row_state r))
          (if current_chain current = {?c} then heads else heads @ current_list current) = Inr hs"
    using Cons.prems(1) unfolding scan_rows_Cons by (cases "check_row env (start_of current ?c) r"; simp)+
  have sorted: "sorted (map ar_chain rs)" "\<forall>x \<in> set rs. ?c \<le> ar_chain x" using Cons.prems(2) by auto
  obtain new where new: "hs = (if current_chain current = {?c} then heads else heads @ current_list current) @ new"
    "distinct (map fst new)" "fst ` set new = insert ?c (ar_chain ` set rs)"
    "\<And>c. linked env (start_of (Some (?c, row_state r)) c) (rows_of rs c) (state_in new c)"
    using Cons.IH[OF rest sorted(1)] sorted(2) by (auto simp: current_chain_def)
  have links: "linked env (start_of current c) (rows_of (r # rs) c) (state_in new c)"
    if "c \<in> current_chain current \<Longrightarrow> c = ?c" for c
    using new(4)[of c] check that by (cases current) (auto simp: start_of_def current_chain_def split: if_splits)
  show ?case
  proof (cases "current_chain current \<subseteq> {?c}")
    case True
    then have "hs = heads @ new" using new(1) by (cases current) (auto simp: current_chain_def current_list_def)
    moreover have "fst ` set new = current_chain current \<union> ar_chain ` set (r # rs)" using new(3) True by auto
    moreover have "\<forall>c. linked env (start_of current c) (rows_of (r # rs) c) (state_in new c)"
      using links True by blast
    ultimately show ?thesis using new(2) by blast
  next
    case False
    then obtain d st where cur: "current = Some (d, st)" "d \<noteq> ?c" by (cases current) (auto simp: current_chain_def)
    then have "d < ?c" using Cons.prems(3) by (auto simp: current_chain_def)
    then have later: "\<forall>x \<in> set (r # rs). d < ar_chain x" using sorted(2) by auto
    then have fresh: "d \<notin> fst ` set new" using new(3) cur(2) by auto
    have "linked env (start_of current c) (rows_of (r # rs) c) (state_in ((d, st) # new) c)" for c
      using links[of c] rows_of_none[OF later] cur by (cases "c = d") (auto simp: state_in_def start_of_def current_chain_def)
    then show ?thesis
      using new(1-3) cur fresh by (intro exI[of _ "(d, st) # new"]) (auto simp: current_chain_def current_list_def)
  qed
qed

lemma scan_rows_complete:
  assumes "\<And>c. \<exists>st. linked env (start_of current c) (rows_of rs c) st" and "sorted (map ar_chain rs)"
    and "\<forall>c \<in> current_chain current. \<forall>r \<in> set rs. c \<le> ar_chain r"
  shows "\<exists>hs. scan_rows env rs current heads = Inr hs"
  using assms
proof (induction rs arbitrary: current heads)
  case (Cons r rs)
  let ?c = "ar_chain r"
  have check: "check_row env (start_of current ?c) r = None" using Cons.prems(1)[of ?c] by auto
  have later: "\<forall>x \<in> set rs. ?c \<le> ar_chain x" using Cons.prems(2) by auto
  have "\<exists>st. linked env (start_of (Some (?c, row_state r)) c) (rows_of rs c) st" for c
  proof (cases "c = ?c")
    case True
    then show ?thesis using Cons.prems(1)[of ?c] by (auto simp: start_of_def)
  next
    case False
    then have "rows_of rs c = [] \<or> start_of current c = empty_state"
    proof (cases "c \<in> current_chain current")
      case True
      then have "c < ?c" using Cons.prems(3) False by force
      then have "rows_of rs c = []" using later by (intro rows_of_none) auto
      then show ?thesis ..
    qed (auto simp: start_of_def current_chain_def split: option.splits)
    then show ?thesis using Cons.prems(1)[of c] False by (auto simp: start_of_def)
  qed
  then show ?case
    using Cons.IH[of "Some (?c, row_state r)"] Cons.prems(2) later check
    by (simp add: scan_rows_Cons current_chain_def)
qed simp

section \<open>The verdict on the whole log\<close>

lemma sorted_fst: "sorted (map (\<lambda>r. (f r, g r)) rs) \<Longrightarrow> sorted (map f rs)"
  by (induction rs) (auto simp: less_eq_prod_def)

lemma ordered_log_sorted: "sorted (map ar_chain (ordered_log rows))"
  by (rule sorted_fst[where g = ar_sequence]) (simp add: ordered_log_def)

lemma set_ordered_log [simp]: "set (ordered_log rows) = set rows"
  by (simp add: ordered_log_def)

lemma insort_key_cong:
  "(\<And>y. y \<in> set ys \<Longrightarrow> f x \<le> f y \<longleftrightarrow> g x \<le> g y) \<Longrightarrow> insort_key f x ys = insort_key g x ys"
  by (induction ys) auto

lemma sort_key_order_cong:
  "(\<And>x y. x \<in> set xs \<Longrightarrow> y \<in> set xs \<Longrightarrow> f x \<le> f y \<longleftrightarrow> g x \<le> g y) \<Longrightarrow> sort_key f xs = sort_key g xs"
proof (induction xs)
  case (Cons x xs)
  then have "sort_key f xs = sort_key g xs" by simp
  moreover have "insort_key f x (sort_key g xs) = insort_key g x (sort_key g xs)"
    using Cons.prems by (intro insort_key_cong) simp
  ultimately show ?case by simp
qed simp

lemma rows_of_ordered: "rows_of (ordered_log rows) c = sort_key ar_sequence (rows_of rows c)"
proof -
  have "rows_of (ordered_log rows) c = sort_key (\<lambda>r. (ar_chain r, ar_sequence r)) (rows_of rows c)"
    by (simp add: rows_of_def ordered_log_def filter_sort)
  also have "\<dots> = sort_key ar_sequence (rows_of rows c)"
    by (rule sort_key_order_cong) (auto simp: rows_of_def)
  finally show ?thesis .
qed

lemma dict_equal_iff: "dict_equal a b \<longleftrightarrow> map_of a = map_of b"
proof
  assume eq: "dict_equal a b"
  show "map_of a = map_of b"
  proof
    fix k show "map_of a k = map_of b k"
    proof (cases "k \<in> fst ` set a \<union> fst ` set b")
      case True then show ?thesis using eq by (auto simp: dict_equal_def list_all_iff)
    next
      case False
      then show ?thesis by (simp add: map_of_eq_None_iff[THEN iffD2])
    qed
  qed
qed (simp add: dict_equal_def list_all_iff)

lemma heads_match_iff:
  assumes "distinct (map fst stored)"
  shows "heads_match hs stored \<longleftrightarrow>
    (\<forall>c. map_of stored c = Some empty_state \<or> map_of hs c = map_of stored c)"
proof -
  have "map_of (filter (\<lambda>(_, s). s = empty_state) stored @ hs) c
      = (if map_of stored c = Some empty_state then Some empty_state else map_of hs c)" for c
  proof -
    have "map_of (filter (\<lambda>(_, s). s = empty_state) stored) c
        = (if map_of stored c = Some empty_state then Some empty_state else None)"
      using assms by (induction stored) (force simp: map_of_eq_None_iff dest: map_of_SomeD)+
    then show ?thesis by (simp add: map_add_def)
  qed
  then show ?thesis
    unfolding heads_match_def dict_equal_iff fun_eq_iff by (metis (full_types))
qed

lemma inspect_valid:
  "vf_valid (inspect_audit_chain env db) \<longleftrightarrow>
     (\<exists>hs. scan_rows env (ordered_log (audit_log db)) None [] = Inr hs \<and> heads_match hs (chain_heads db))"
  by (auto simp: inspect_audit_chain_def Let_def split: sum.splits)

lemma inspect_heads:
  "vf_valid (inspect_audit_chain env db) \<Longrightarrow>
     scan_rows env (ordered_log (audit_log db)) None [] = Inr (vf_heads (inspect_audit_chain env db))"
  by (auto simp: inspect_audit_chain_def Let_def split: sum.splits)

text \<open>What a valid verdict says of every chain.\<close>

lemma inspect_sound:
  assumes "vf_valid (inspect_audit_chain env db)" and "distinct (map fst (chain_heads db))"
  defines "hs \<equiv> vf_heads (inspect_audit_chain env db)"
  shows "distinct (map fst hs) \<and> fst ` set hs = ar_chain ` set (audit_log db)
    \<and> (\<forall>c. linked env empty_state (sort_key ar_sequence (rows_of (audit_log db) c)) (state_in hs c))
    \<and> (\<forall>c. map_of (chain_heads db) c = Some empty_state \<or> map_of hs c = map_of (chain_heads db) c)"
proof -
  have scan: "scan_rows env (ordered_log (audit_log db)) None [] = Inr hs"
    unfolding hs_def using assms(1) by (rule inspect_heads)
  have "heads_match hs (chain_heads db)" using assms(1) scan by (auto simp: inspect_valid)
  then show ?thesis
    using scan_rows_char[OF scan ordered_log_sorted] heads_match_iff[OF assms(2)]
    by (auto simp: current_chain_def start_of_def rows_of_ordered)
qed

section \<open>Appending keeps the log verifiable\<close>

definition audit_ok :: "audit_env \<Rightarrow> audit_db \<Rightarrow> bool" where
  "audit_ok env db \<longleftrightarrow> distinct (map fst (chain_heads db)) \<and> sorted_wrt (<) (map ar_id (audit_log db))
     \<and> (\<forall>r \<in> set (audit_log db). 0 < ar_id r \<and> ar_id r < audit_serial db) \<and> 0 < audit_serial db
     \<and> (\<forall>c. linked env empty_state (rows_of (audit_log db) c) (state_in (chain_heads db) c))"

lemma linked_nonempty: "linked env st rs st' \<Longrightarrow> rs \<noteq> [] \<Longrightarrow> st' = row_state (last rs)"
  by (induction rs arbitrary: st) (auto split: if_splits)

lemma audit_ok_verifies_aux:
  assumes ok: "audit_ok env db"
  shows "vf_valid (inspect_audit_chain env db)"
proof -
  have link: "linked env empty_state (sort_key ar_sequence (rows_of (audit_log db) c)) (state_in (chain_heads db) c)" for c
  proof -
    have l: "linked env empty_state (rows_of (audit_log db) c) (state_in (chain_heads db) c)"
      using ok by (simp add: audit_ok_def)
    then have "sort_key ar_sequence (rows_of (audit_log db) c) = rows_of (audit_log db) c"
      using linked_sorted by (intro sort_key_id_if_sorted) blast
    with l show ?thesis by simp
  qed
  obtain hs where hs: "scan_rows env (ordered_log (audit_log db)) None [] = Inr hs"
    using scan_rows_complete[where current = None and env = env and rs = "ordered_log (audit_log db)" and heads = "[]"] link ordered_log_sorted
    by (auto simp: start_of_def current_chain_def rows_of_ordered)
  then have new: "distinct (map fst hs)" "fst ` set hs = ar_chain ` set (audit_log db)"
      "\<And>c. linked env empty_state (sort_key ar_sequence (rows_of (audit_log db) c)) (state_in hs c)"
    using scan_rows_char[OF hs ordered_log_sorted]
    by (auto simp: current_chain_def start_of_def rows_of_ordered)
  have states: "state_in hs c = state_in (chain_heads db) c" for c
    using linked_functional[OF new(3) link] .
  have dh: "distinct (map fst (chain_heads db))" using ok by (simp add: audit_ok_def)
  have "map_of (chain_heads db) c = Some empty_state \<or> map_of hs c = map_of (chain_heads db) c" for c
  proof (cases "c \<in> ar_chain ` set (audit_log db)")
    case True
    then obtain st where st: "map_of hs c = Some st"
      using new(2) by (metis map_of_eq_None_iff not_Some_eq)
    have "rows_of (audit_log db) c \<noteq> []" using True by (auto simp: rows_of_def filter_empty_conv)
    then have "cs_sequence (state_in (chain_heads db) c) \<noteq> 0"
      using linked_sequence[OF link[of c]] by (auto simp: empty_state_def)
    then have "map_of (chain_heads db) c \<noteq> None"
      by (auto simp: state_in_def empty_state_def split: option.splits)
    then show ?thesis using states[of c] st by (auto simp: state_in_def)
  next
    case False
    then have none: "map_of hs c = None" using new(2) by (simp add: map_of_eq_None_iff)
    show ?thesis using states[of c] none by (auto simp: state_in_def split: option.splits)
  qed
  then have "heads_match hs (chain_heads db)" using heads_match_iff[OF dh] by blast
  then show ?thesis using hs by (auto simp: inspect_valid)
qed

lemma distinct_dict_setdefault:
  "distinct (map fst d) \<Longrightarrow> distinct (map fst (dict_setdefault k v d))"
  by (auto simp: dict_setdefault_def map_of_eq_None_iff split: option.splits)

lemma state_in_setdefault: "state_in (dict_setdefault k empty_state d) c = state_in d c"
  by (auto simp: state_in_def map_of_dict_setdefault split: option.splits)

lemma insert_audit_row_Some:
  assumes "insert_audit_row env event db = Some (h, db')"
  shows "\<exists>e chain st. e = (if ev_created event = [] then event\<lparr>ev_created := au_now env\<rparr> else event)
    \<and> chain = chain_id_of (ev_org e) \<and> st = state_in (chain_heads db) chain
    \<and> h = entry_hash env (cs_hash st) chain (cs_sequence st + 1) e
    \<and> (let row = \<lparr>ar_id = audit_serial db, ar_chain = chain, ar_sequence = cs_sequence st + 1,
            ar_event = e, ar_previous = cs_hash st, ar_entry = h\<rparr>
        in db' = db\<lparr>audit_log := audit_log db @ [row],
             chain_heads := AList.update chain (row_state row) (dict_setdefault chain empty_state (chain_heads db)),
             audit_serial := audit_serial db + 1\<rparr>)"
proof -
  define e where "e = (if ev_created event = [] then event\<lparr>ev_created := au_now env\<rparr> else event)"
  define chain where "chain = chain_id_of (ev_org e)"
  define heads where "heads = dict_setdefault chain empty_state (chain_heads db)"
  obtain st where st: "map_of heads chain = Some st"
    by (simp add: heads_def map_of_dict_setdefault)
  then have "st = state_in (chain_heads db) chain"
    using state_in_setdefault[of chain "chain_heads db" chain] by (simp add: state_in_def heads_def)
  moreover have "h = entry_hash env (cs_hash st) chain (cs_sequence st + 1) e
    \<and> db' = db\<lparr>audit_log := audit_log db @ [\<lparr>ar_id = audit_serial db, ar_chain = chain,
            ar_sequence = cs_sequence st + 1, ar_event = e, ar_previous = cs_hash st, ar_entry = h\<rparr>],
         chain_heads := AList.update chain \<lparr>cs_sequence = cs_sequence st + 1, cs_id = Some (audit_serial db), cs_hash = h\<rparr> heads,
         audit_serial := audit_serial db + 1\<rparr>"
    using assms st unfolding insert_audit_row_def Let_def e_def[symmetric] chain_def[symmetric] heads_def[symmetric]
    by (auto split: if_splits)
  ultimately show ?thesis
    by (intro exI[of _ e] exI[of _ chain] exI[of _ st])
      (simp add: e_def chain_def heads_def row_state_def Let_def)
qed

lemma insert_audit_row_ok:
  assumes run: "insert_audit_row env event db = Some (h, db')" and ok: "audit_ok env db"
  shows "audit_ok env db'"
proof -
  obtain chain st row where db': "audit_log db' = audit_log db @ [row]"
      "chain_heads db' = AList.update chain (row_state row) (dict_setdefault chain empty_state (chain_heads db))"
      "audit_serial db' = audit_serial db + 1"
    and row: "ar_id row = audit_serial db" "ar_chain row = chain" "check_row env st row = None"
      "st = state_in (chain_heads db) chain"
    using insert_audit_row_Some[OF run] by (auto simp: Let_def check_row_None)
  have state: "state_in (chain_heads db') c = (if c = chain then row_state row else state_in (chain_heads db) c)" for c
    using state_in_setdefault[of chain "chain_heads db" c] by (auto simp: db'(2) state_in_def update_conv')
  have "linked env empty_state (rows_of (audit_log db') c) (state_in (chain_heads db') c)" for c
  proof -
    have l: "linked env empty_state (rows_of (audit_log db) c) (state_in (chain_heads db) c)"
      using ok by (simp add: audit_ok_def)
    have "rows_of (audit_log db') c = rows_of (audit_log db) c @ (if c = chain then [row] else [])"
      using row(2) by (simp add: db'(1) rows_of_def)
    then show ?thesis using l row(3,4) by (auto simp: linked_append state)
  qed
  moreover have "distinct (map fst (chain_heads db'))"
    using ok by (simp add: db'(2) audit_ok_def distinct_update distinct_dict_setdefault)
  ultimately show ?thesis
    using ok row(1) by (auto simp: audit_ok_def db' sorted_wrt_append)
qed

text \<open>Logs built by appending only, from the empty tables of a new installation.\<close>

inductive appended :: "audit_env \<Rightarrow> audit_db \<Rightarrow> audit_db \<Rightarrow> bool" where
  none: "appended env db db"
| more: "appended env db db1 \<Longrightarrow> insert_audit_row (env\<lparr>au_now := t\<rparr>) event db1 = Some (h, db2) \<Longrightarrow>
     appended env db db2"

lemma linked_now: "linked (env\<lparr>au_now := t\<rparr>) st rs st' = linked env st rs st'"
  by (induction rs arbitrary: st) (simp_all add: check_row_def entry_hash_def)

lemma appended_ok: "appended env db db' \<Longrightarrow> audit_ok env db \<Longrightarrow> audit_ok env db'"
proof (induction rule: appended.induct)
  case (more env db db1 t event h db2)
  then have "audit_ok (env\<lparr>au_now := t\<rparr>) db1" by (simp add: audit_ok_def linked_now)
  from insert_audit_row_ok[OF more.hyps(2) this] show ?case by (simp add: audit_ok_def linked_now)
qed

definition fresh_audit_db :: "string option \<Rightarrow> audit_db" where
  "fresh_audit_db inst = \<lparr>audit_log = [], chain_heads = [], audit_serial = 1, installation = inst\<rparr>"

lemma fresh_audit_ok: "audit_ok env (fresh_audit_db inst)"
  by (simp add: audit_ok_def fresh_audit_db_def state_in_def)


text \<open>
  A verified chain is pinned by its head: if two logs both verify and a chain has the same
  last hash in both, then the chain has the same rows in both, field by field, in the same
  order, unless SHA-256 collides on two of the hashed payloads or the stored head is the empty one.
\<close>

lemma verified_chain_determined:
  assumes "vf_valid (inspect_audit_chain env db)" and "vf_valid (inspect_audit_chain env db')"
    and "distinct (map fst (chain_heads db))" and "distinct (map fst (chain_heads db'))"
    and h: "map_of (chain_heads db) c = Some h" "map_of (chain_heads db') c = Some h'"
    and hash: "cs_hash h = cs_hash h'" and ne: "h \<noteq> empty_state" "h' \<noteq> empty_state"
    and sha: "sha_ok env (row_payload ` (set (audit_log db) \<union> set (audit_log db')))"
  shows "map row_content (sort_key ar_sequence (rows_of (audit_log db) c))
    = map row_content (sort_key ar_sequence (rows_of (audit_log db') c))"
proof -
  let ?rs = "sort_key ar_sequence (rows_of (audit_log db) c)"
    and ?rs' = "sort_key ar_sequence (rows_of (audit_log db') c)"
  have l: "linked env empty_state ?rs h" "linked env empty_state ?rs' h'"
    using inspect_sound[OF assms(1,3)] inspect_sound[OF assms(2,4)] h ne
    by (metis state_in_def option.inject option.simps(5))+
  have "?rs \<noteq> []" "?rs' \<noteq> []" using l ne by (auto simp del: set_sort)
  moreover have "sha_ok env (row_payload ` (set ?rs \<union> set ?rs'))"
    using sha by (auto simp: sha_ok_def rows_of_def intro: inj_on_subset)
  ultimately show ?thesis using linked_determined[OF l _ _ hash] by blast
qed

section \<open>Checkpoints\<close>

text \<open>Hexadecimal digests are ASCII.\<close>

definition hex_digests :: "audit_env \<Rightarrow> bool" where
  "hex_digests env \<longleftrightarrow> (\<forall>s. ascii_text (au_sha256 env s)) \<and> (\<forall>k s. ascii_text (au_hmac env k s))"

lemma build_checkpoint_Some:
  assumes "build_audit_checkpoint env db key None = Some cp"
  shows "\<exists>inst integrity. installation db = Some inst \<and> inst \<noteq> [] \<and> vf_valid (inspect_audit_chain env db)
    \<and> cp = PDict (checkpoint_payload env inst (inspect_audit_chain env db) @ [(''integrity'', PDict integrity)])
    \<and> (let material = json_dumps (PDict (checkpoint_payload env inst (inspect_audit_chain env db))) in
        map_of integrity ''digest'' = Some (PStr (au_sha256 env material))
        \<and> (\<forall>k. keyed key = Some k \<longrightarrow> map_of integrity ''hmacSha256'' = Some (PStr (au_hmac env k material))))"
proof -
  obtain inst where inst: "installation db = Some inst" "py_strip inst \<noteq> []"
      "vf_valid (inspect_audit_chain env db)"
    using assms by (auto simp: build_audit_checkpoint_def Let_def split: option.splits if_splits)
  then show ?thesis
    using assms by (auto simp: build_audit_checkpoint_def Let_def split: option.splits)
qed

lemma checkpoint_payload_entries:
  "filter (\<lambda>(k, _). k \<noteq> ''integrity'') (checkpoint_payload env inst v) = checkpoint_payload env inst v"
  by (simp add: checkpoint_payload_def)

lemma checkpoint_get:
  "dget (PDict (checkpoint_payload env inst v @ [(''integrity'', x)])) ''heads'' = PList (map head_value (vf_heads v))"
  "dget (PDict (checkpoint_payload env inst v @ [(''integrity'', x)])) ''integrity'' = x"
  "dget (PDict (checkpoint_payload env inst v @ [(''integrity'', x)])) ''installationId'' = PStr inst"
  "dget (PDict (checkpoint_payload env inst v @ [(''integrity'', x)])) ''rowCount'' = PInt (vf_row_count v)"
  "dget (PDict (checkpoint_payload env inst v)) ''installationId'' = PStr inst"
  "dget (PDict (checkpoint_payload env inst v)) ''format'' = PStr checkpoint_format"
  "dget (PDict (checkpoint_payload env inst v)) ''version'' = PInt 3"
  by (simp_all add: checkpoint_payload_def dget_def dget_default_def)

lemma checkpoint_genuine:
  assumes "build_audit_checkpoint env db key None = Some cp" and hex: "hex_digests env"
  shows "verify_audit_checkpoint env cp key = Inr True"
proof -
  obtain inst integrity where cp: "inst \<noteq> []"
      "cp = PDict (checkpoint_payload env inst (inspect_audit_chain env db) @ [(''integrity'', PDict integrity)])"
    and digest: "map_of integrity ''digest'' = Some (PStr (au_sha256 env (json_dumps (PDict
        (checkpoint_payload env inst (inspect_audit_chain env db))))))"
    and signed: "\<And>k. keyed key = Some k \<Longrightarrow> map_of integrity ''hmacSha256'' = Some (PStr (au_hmac env k
        (json_dumps (PDict (checkpoint_payload env inst (inspect_audit_chain env db))))))"
    using build_checkpoint_Some[OF assms(1)] by (auto simp: Let_def)
  have d: "dget (PDict integrity) ''digest'' = PStr (au_sha256 env (json_dumps (PDict
        (checkpoint_payload env inst (inspect_audit_chain env db)))))"
    using digest by (simp add: dget_def dget_default_def)
  have s: "keyed key = Some k \<Longrightarrow> dget (PDict integrity) ''hmacSha256'' = PStr (au_hmac env k
        (json_dumps (PDict (checkpoint_payload env inst (inspect_audit_chain env db)))))" for k
    using signed by (simp add: dget_def dget_default_def)
  show ?thesis
    using cp(1) hex d s
    by (auto simp: verify_audit_checkpoint_def cp(2) checkpoint_get checkpoint_payload_entries Let_def
        compare_digest_def hex_digests_def split: option.splits simp del: json_dumps.simps)
qed

text \<open>
  A checkpoint the service writes is accepted by its own verification, with and without a
  signing key, and it is written for valid logs only.
\<close>

lemma checkpoint_roundtrip:
  assumes "build_audit_checkpoint env db key None = Some cp" and "hex_digests env"
  shows "verify_audit_checkpoint env cp key = Inr True \<and> vf_valid (inspect_audit_chain env db)"
  using checkpoint_genuine[OF assms] build_checkpoint_Some[OF assms(1)] by auto

lemma check_anchors_valid:
  assumes "check_anchors rows v hs = Inr v'" and "vf_valid v'" and "h \<in> set hs"
  shows "\<exists>chain i hash r. dget h ''chainId'' = PStr chain \<and> int_like (dget h ''id'') = Some i
    \<and> dget h ''entryHash'' = PStr hash \<and> r \<in> set rows \<and> ar_chain r = chain \<and> ar_id r = i \<and> ar_entry r = hash"
  using assms
proof (induction hs)
  case (Cons h' hs)
  have str: "str_like x = Some s \<Longrightarrow> x = PStr s" for x s by (cases x) auto
  obtain chain i hash r where h': "dget h' ''chainId'' = PStr chain" "int_like (dget h' ''id'') = Some i"
      "dget h' ''entryHash'' = PStr hash" "List.find (\<lambda>r. ar_chain r = chain \<and> ar_id r = i) rows = Some r"
      "compare_digest (ar_entry r) hash = Inr True" and rest: "check_anchors rows v hs = Inr v'"
    using Cons.prems(1,2)
    by (auto simp: invalidated_def res_simps split: if_splits option.splits dest!: str)
  show ?case
  proof (cases "h = h'")
    case True
    then show ?thesis
      using h' find_Some_iff_mem[OF h'(4)]
      by (auto simp: compare_digest_def split: if_splits)
  next
    case False
    then show ?thesis using Cons.IH[OF rest Cons.prems(2)] Cons.prems(3) by simp
  qed
qed simp

lemma head_value_get:
  "dget (head_value (c, st)) ''chainId'' = PStr c"
  "dget (head_value (c, st)) ''entryHash'' = PStr (cs_hash st)"
  "dget (head_value (c, st)) ''sequence'' = PInt (cs_sequence st)"
  "dget (head_value (c, st)) ''id'' = (case cs_id st of None \<Rightarrow> PNone | Some i \<Rightarrow> PInt i)"
  "is_dict (head_value (c, st))"
  by (simp_all add: head_value_def dget_def dget_default_def)

lemma against_checkpoint_valid:
  assumes "inspect_audit_chain_against_checkpoint env db cp key = Inr v" and "vf_valid v"
  shows "vf_valid (inspect_audit_chain env db)
    \<and> (\<exists>heads. dget cp ''heads'' = PList heads \<and>
          check_anchors (audit_log db) (inspect_audit_chain env db) heads = Inr v)"
  using assms
  by (auto simp: inspect_audit_chain_against_checkpoint_def Let_def res_simps invalidated_def
      split: if_splits pval.splits)

text \<open>
  C9: A checkpoint makes truncation and rewriting visible: if a log verifies against a checkpoint
  taken from an earlier verified log, then every chain of the earlier log is an initial part of
  the same chain now, row by row, unless SHA-256 collides on two of the hashed payloads.
\<close>

theorem checkpoint_pins_history:
  assumes built: "build_audit_checkpoint env db key None = Some cp"
    and keys: "distinct (map fst (chain_heads db))" "distinct (map fst (chain_heads db'))"
    and now: "inspect_audit_chain_against_checkpoint env db' cp key2 = Inr v" "vf_valid v"
    and sha: "sha_ok env (row_payload ` (set (audit_log db) \<union> set (audit_log db')))"
  shows "\<exists>later. map row_content (sort_key ar_sequence (rows_of (audit_log db') c))
    = map row_content (sort_key ar_sequence (rows_of (audit_log db) c)) @ later"
proof (cases "rows_of (audit_log db) c = []")
  case False
  let ?rs = "sort_key ar_sequence (rows_of (audit_log db) c)"
    and ?rs' = "sort_key ar_sequence (rows_of (audit_log db') c)"
  let ?hs = "vf_heads (inspect_audit_chain env db)"
  obtain inst x where valid: "vf_valid (inspect_audit_chain env db)"
    and cp: "cp = PDict (checkpoint_payload env inst (inspect_audit_chain env db) @ [(''integrity'', x)])"
    using build_checkpoint_Some[OF built] by blast
  note sound = inspect_sound[OF valid keys(1)]
  have "c \<in> ar_chain ` set (audit_log db)" using False by (auto simp: rows_of_def filter_empty_conv)
  then have "c \<in> fst ` set ?hs" using sound by simp
  then obtain st where st: "map_of ?hs c = Some st" by (metis map_of_eq_None_iff not_Some_eq)
  then have mem: "(c, st) \<in> set ?hs" by (rule map_of_SomeD)
  have l: "linked env empty_state ?rs st" using sound st by (metis state_in_def option.simps(5))
  note valid' = against_checkpoint_valid[OF now]
  have anchors: "check_anchors (audit_log db') (inspect_audit_chain env db') (map head_value ?hs) = Inr v"
    using valid' checkpoint_get(1) cp by simp
  obtain r where r: "r \<in> set (audit_log db')" "ar_chain r = c" "ar_entry r = cs_hash st"
    using check_anchors_valid[OF anchors now(2), of "head_value (c, st)"] mem
    by (auto simp: head_value_get)
  let ?hs' = "vf_heads (inspect_audit_chain env db')"
  have l': "linked env empty_state ?rs' (state_in ?hs' c)"
    using inspect_sound[OF conjunct1[OF valid'] keys(2)] by blast
  have "r \<in> set ?rs'" using r by (simp add: rows_of_def)
  then obtain pre post where split: "?rs' = pre @ r # post" by (meson split_list)
  then have pre: "linked env empty_state (pre @ [r]) (row_state r)"
    using l' by (auto simp: linked_append)
  have "sha_ok env (row_payload ` (set ?rs \<union> set (pre @ [r])))"
  proof -
    have "set ?rs' \<subseteq> set (audit_log db')" "set ?rs \<subseteq> set (audit_log db)" by (auto simp: rows_of_def)
    then have "row_payload ` (set ?rs \<union> set (pre @ [r])) \<subseteq> row_payload ` (set (audit_log db) \<union> set (audit_log db'))"
      unfolding split by auto
    then show ?thesis using sha unfolding sha_ok_def by (blast intro: inj_on_subset)
  qed
  moreover have "?rs \<noteq> []" using False by (metis set_empty set_sort)
  moreover have "cs_hash st = cs_hash (row_state r)" using r(3) by (simp add: row_state_def)
  ultimately have "map row_content ?rs = map row_content (pre @ [r])"
    using linked_determined[OF l pre] by blast
  then show ?thesis using split by (intro exI[of _ "map row_content post"]) simp
qed simp

section \<open>What the head check misses\<close>

text \<open>
  Stored heads that were reset to the empty head are exempt from the comparison, also when the
  chain has rows: \<open>{**calculated_heads, **empty_heads}\<close> lets the reset head replace the
  calculated one.
\<close>

definition reset_head :: "string \<Rightarrow> audit_db \<Rightarrow> audit_db" where
  "reset_head c db = db\<lparr>chain_heads := AList.update c empty_state (chain_heads db)\<rparr>"


end
