(* ===== verification/Audit_Incremental.thy ===== *)
theory Audit_Incremental
  imports Audit_Laws
begin

text \<open>
  The verification of the rows after a checkpoint accepts every log that grew from the
  checkpointed one by appending, and the monitor's decision rests on one of the two verifications.
\<close>

section \<open>The tail scan\<close>

definition ascii_row :: "audit_row \<Rightarrow> bool" where
  "ascii_row r \<longleftrightarrow> ascii_text (ar_previous r) \<and> ascii_text (ar_entry r)"

lemma ascii_empty_hash: "ascii_text empty_audit_hash"
  by (simp add: ascii_text_def empty_audit_hash_def list_all_iff)

lemma linked_ascii:
  "linked env st rs st' \<Longrightarrow> hex_digests env \<Longrightarrow> ascii_text (cs_hash st) \<Longrightarrow>
     (\<forall>r \<in> set rs. ascii_row r) \<and> ascii_text (cs_hash st')"
  by (induction rs arbitrary: st)
    (auto simp: check_row_None row_state_def ascii_row_def entry_hash_def hex_digests_def)

lemma compare_digest_same: "ascii_text a \<Longrightarrow> compare_digest a a = Inr True"
  by (simp add: compare_digest_def)

lemma scan_tail_complete:
  assumes "\<And>c. linked env (state_in states c) (rows_of rs c) (final c)"
    and "\<And>c. ascii_text (cs_hash (state_in states c))" and "hex_digests env"
    and "distinct (map fst states)"
  shows "\<exists>sts. scan_tail env rs states n = Inr (Inr sts) \<and> distinct (map fst sts)
    \<and> fst ` set sts = fst ` set states \<union> ar_chain ` set rs \<and> (\<forall>c. state_in sts c = final c)"
  using assms
proof (induction rs arbitrary: states n)
  case (Cons r rs)
  let ?c = "ar_chain r"
  let ?start = "dict_setdefault ?c empty_state states"
  let ?next = "AList.update ?c (row_state r) ?start"
  have st: "the (map_of ?start ?c) = state_in states ?c"
    by (auto simp: map_of_dict_setdefault state_in_def split: option.splits)
  have check: "check_row env (state_in states ?c) r = None" using Cons.prems(1)[of ?c] by simp
  then have row: "ar_sequence r = cs_sequence (state_in states ?c) + 1" "ar_previous r = cs_hash (state_in states ?c)"
      "entry_hash env (ar_previous r) ?c (ar_sequence r) (ar_event r) = ar_entry r"
    by (simp_all add: check_row_None)
  have ascii: "ascii_text (ar_previous r)" "ascii_text (ar_entry r)"
    using Cons.prems(2)[of ?c] Cons.prems(3) row(2,3)[symmetric] by (simp_all add: hex_digests_def entry_hash_def)
  have next_state: "state_in ?next c = (if c = ?c then row_state r else state_in states c)" for c
    using state_in_setdefault[of ?c states c] by (auto simp: state_in_def update_conv')
  have "linked env (state_in ?next c) (rows_of rs c) (final c)" for c
    using Cons.prems(1)[of c] by (auto simp: next_state split: if_splits)
  moreover have "ascii_text (cs_hash (state_in ?next c))" for c
    unfolding next_state using Cons.prems(2) ascii(2) by (simp add: row_state_def)
  moreover have "distinct (map fst ?next)" using Cons.prems(4) by (simp add: distinct_update distinct_dict_setdefault)
  ultimately obtain sts where sts: "scan_tail env rs ?next (n + 1) = Inr (Inr sts)" "distinct (map fst sts)"
      "fst ` set sts = fst ` set ?next \<union> ar_chain ` set rs" "\<forall>c. state_in sts c = final c"
    using Cons.IH[of ?next "n + 1"] Cons.prems(3) by blast
  have "fst ` set ?next = insert ?c (fst ` set states)"
    by (simp add: dom_update fst_dict_setdefault)
  then have "fst ` set sts = fst ` set states \<union> ar_chain ` set (r # rs)" using sts(3) by simp
  moreover have step: "scan_tail env (r # rs) states n = scan_tail env rs ?next (n + 1)"
    using row ascii by (simp add: Let_def st compare_digest_same)
  ultimately show ?case unfolding step using sts(1,2,4) by blast
qed (simp add: fun_eq_iff)

section \<open>The heads of a checkpoint\<close>

lemma parse_heads_heads:
  assumes "distinct (map fst (acc @ hs))"
    and "\<And>c st. (c, st) \<in> set hs \<Longrightarrow> c \<noteq> [] \<and> 0 < cs_sequence st \<and> (\<exists>i. cs_id st = Some i \<and> 0 < i) \<and> py_len (cs_hash st) = 64"
  shows "parse_heads (map head_value hs) acc = Some (acc @ hs)"
  using assms
proof (induction hs arbitrary: acc)
  case (Cons h hs)
  obtain c st where h: "h = (c, st)" by fastforce
  then obtain i where i: "c \<noteq> []" "0 < cs_sequence st" "cs_id st = Some i" "0 < i" "py_len (cs_hash st) = 64"
    using Cons.prems(2)[of c st] by auto
  have "parse_head (head_value h) = Some (c, st)"
    using i by (simp add: parse_head_def head_value_get h strict_int_def)
  moreover have "map_of acc c = None" using Cons.prems(1) by (auto simp: h map_of_eq_None_iff)
  moreover have "parse_heads (map head_value hs) (acc @ [(c, st)]) = Some ((acc @ [(c, st)]) @ hs)"
    using Cons.prems by (intro Cons.IH) (auto simp: h)
  ultimately show ?case by (simp add: h)
qed simp

lemma check_states_complete:
  assumes "\<And>c st. (c, st) \<in> set hs \<Longrightarrow> \<exists>r \<in> set rows. ar_chain r = c \<and> row_state r = st \<and> ascii_row r"
    and "distinct (map ar_id rows)"
  shows "check_states rows hs = Inr None"
  using assms
proof (induction hs)
  case (Cons h hs)
  obtain c st where h: "h = (c, st)" by fastforce
  then obtain r where r: "r \<in> set rows" "ar_chain r = c" "row_state r = st" "ascii_row r"
    using Cons.prems(1)[of c st] by auto
  have "(\<lambda>x :: audit_row. Some (ar_id x) = cs_id st) = (\<lambda>x. ar_id x = ar_id r)" using r(3) by (auto simp: row_state_def)
  then have "List.find (\<lambda>x. Some (ar_id x) = cs_id st) rows = Some r"
    using find_unique_key[OF Cons.prems(2) r(1)] by simp
  then show ?case
    using r Cons by (auto simp: h row_state_def ascii_row_def compare_digest_same)
qed simp

lemma sum_rows_of:
  "finite C \<Longrightarrow> ar_chain ` set rows \<subseteq> C \<Longrightarrow> (\<Sum>c\<in>C. int (length (rows_of rows c))) = int (length rows)"
proof (induction rows)
  case (Cons r rows)
  have "(\<Sum>c\<in>C. int (length (rows_of (r # rows) c)))
      = (\<Sum>c\<in>C. int (length (rows_of rows c)) + (if c = ar_chain r then 1 else 0))"
    by (rule sum.cong) auto
  also have "\<dots> = int (length rows) + 1"
    using Cons by (simp add: sum.distrib)
  finally show ?case by simp
qed simp

section \<open>Completeness\<close>

lemma appended_log:
  "appended env db db' \<Longrightarrow> \<exists>new. audit_log db' = audit_log db @ new \<and> (\<forall>r \<in> set new. audit_serial db \<le> ar_id r)
     \<and> audit_serial db \<le> audit_serial db' \<and> installation db' = installation db"
proof (induction rule: appended.induct)
  case (more env db db1 t event h db2)
  then show ?case using insert_audit_row_Some[OF more.hyps(2)] by (auto simp: Let_def)
qed simp

lemma head_rows:
  assumes ok: "audit_ok env db" and dig: "hex_digests env"
    and st: "map_of (vf_heads (inspect_audit_chain env db)) c = Some st"
  shows "\<exists>r \<in> set (audit_log db). ar_chain r = c \<and> row_state r = st \<and> ascii_row r
    \<and> cs_sequence st = int (length (rows_of (audit_log db) c)) \<and> 0 < cs_sequence st
    \<and> linked env empty_state (rows_of (audit_log db) c) st"
proof -
  have keys: "distinct (map fst (chain_heads db))" using ok by (simp add: audit_ok_def)
  note sound = inspect_sound[OF audit_ok_verifies_aux[OF ok] keys]
  let ?rs = "rows_of (audit_log db) c"
  have "(c, st) \<in> set (vf_heads (inspect_audit_chain env db))" using st by (rule map_of_SomeD)
  then have "c \<in> ar_chain ` set (audit_log db)" using sound by (metis fst_conv image_eqI)
  then have ne: "?rs \<noteq> []" by (auto simp: rows_of_def filter_empty_conv)
  have "linked env empty_state ?rs (state_in (chain_heads db) c)" using ok by (simp add: audit_ok_def)
  moreover from this have "sort_key ar_sequence ?rs = ?rs"
    using linked_sorted by (intro sort_key_id_if_sorted) blast
  moreover have "linked env empty_state (sort_key ar_sequence ?rs) st"
    using sound st by (metis state_in_def option.simps(5))
  ultimately have l: "linked env empty_state ?rs st" by simp
  have "last ?rs \<in> set ?rs" using ne by simp
  then have "last ?rs \<in> set (audit_log db)" "ar_chain (last ?rs) = c" by (simp_all add: rows_of_def)
  moreover have "row_state (last ?rs) = st" using linked_nonempty[OF l ne] by simp
  moreover have "ascii_row (last ?rs)"
    using linked_ascii[OF l dig] ascii_empty_hash \<open>last ?rs \<in> set ?rs\<close> by (simp add: empty_state_def)
  ultimately show ?thesis
    using linked_sequence[OF l] ne l by (intro bexI[of _ "last ?rs"]) (auto simp: empty_state_def)
qed

lemma py_len_ascii: "ascii_text s \<Longrightarrow> py_len s = int (length s)"
  by (induction s) (auto simp: ascii_text_def utf8_continuation_def Let_def)

lemma sorted_wrt_last:
  fixes f :: "'a \<Rightarrow> int"
  shows "sorted_wrt (<) (map f xs) \<Longrightarrow> x \<in> set xs \<Longrightarrow> f x \<le> f (last xs)"
  by (induction xs) (auto intro: less_imp_le)

text \<open>The newest row of a log is the head of its chain, so the anchors bound all row ids.\<close>

lemma top_anchor:
  assumes ok: "audit_ok env db" and dig: "hex_digests env"
  shows "(\<forall>r \<in> set (audit_log db). ar_id r \<le> max_default (anchor_ids (vf_heads (inspect_audit_chain env db))))
    \<and> max_default (anchor_ids (vf_heads (inspect_audit_chain env db))) < audit_serial db"
proof -
  let ?hs = "vf_heads (inspect_audit_chain env db)"
  have keys: "distinct (map fst (chain_heads db))" using ok by (simp add: audit_ok_def)
  note sound = inspect_sound[OF audit_ok_verifies_aux[OF ok] keys]
  have anchor: "\<exists>r \<in> set (audit_log db). ar_id r = i" if i: "i \<in> set (anchor_ids ?hs)" for i
  proof -
    obtain c st where "(c, st) \<in> set ?hs" "cs_id st = Some i"
      using i by (auto simp: anchor_ids_def List.map_filter_def)
    moreover from this have "map_of ?hs c = Some st" using sound by simp
    then obtain r where "r \<in> set (audit_log db)" "row_state r = st" using head_rows[OF ok dig] by blast
    ultimately show ?thesis by (intro bexI[of _ r]) (auto simp: row_state_def)
  qed
  show ?thesis
  proof (cases "audit_log db = []")
    case True
    then have "anchor_ids ?hs = []" using anchor by (cases "anchor_ids ?hs") auto
    then show ?thesis using True ok by (simp add: max_default_def audit_ok_def)
  next
    case False
    let ?l = "last (audit_log db)"
    have l: "?l \<in> set (audit_log db)" using False by simp
    obtain rows where rows: "audit_log db = rows @ [?l]" using False by (metis append_butlast_last_id)
    have le: "ar_id r \<le> ar_id ?l" if "r \<in> set (audit_log db)" for r
      using sorted_wrt_last[of ar_id "audit_log db"] ok that by (simp add: audit_ok_def)
    obtain st where st: "map_of ?hs (ar_chain ?l) = Some st"
      using sound l by (metis image_eqI map_of_eq_None_iff not_Some_eq)
    have "rows_of (audit_log db) (ar_chain ?l) = rows_of rows (ar_chain ?l) @ [?l]"
      by (subst rows) (simp add: rows_of_def)
    then have "st = row_state ?l"
      using head_rows[OF ok dig st] linked_nonempty[of env empty_state _ st] by fastforce
    then have "ar_id ?l \<in> set (anchor_ids ?hs)"
      using map_of_SomeD[OF st] by (force simp: anchor_ids_def List.map_filter_def row_state_def)
    then have "max_default (anchor_ids ?hs) = ar_id ?l"
      using anchor le by (auto simp: max_default_def intro!: Max_eqI)
    then show ?thesis using le l ok by (auto simp: audit_ok_def)
  qed
qed

lemma anchors_found_complete:
  assumes "\<And>i. i \<in> set (anchor_ids hs) \<Longrightarrow> i \<in> ar_id ` set rows" and "distinct (anchor_ids hs)"
  shows "anchors_found rows hs"
proof -
  have "set (map ar_id rows) \<inter> set (anchor_ids hs) = set (anchor_ids hs)" using assms(1) by auto
  then show ?thesis unfolding anchors_found_def using distinct_card[OF assms(2)] by simp
qed

lemma anchor_ids_distinct:
  assumes "distinct (map fst hs)" and "distinct (map ar_id rows)"
    and "\<And>c st. (c, st) \<in> set hs \<Longrightarrow> \<exists>r \<in> set rows. ar_chain r = c \<and> row_state r = st"
  shows "distinct (anchor_ids hs)"
  using assms(1,3)
proof (induction hs)
  case (Cons h hs)
  obtain c st where h: "h = (c, st)" by fastforce
  then obtain r where r: "r \<in> set rows" "ar_chain r = c" "row_state r = st" using Cons.prems(2) by auto
  have "ar_id r \<notin> set (anchor_ids hs)"
  proof
    assume "ar_id r \<in> set (anchor_ids hs)"
    then obtain d s where d: "(d, s) \<in> set hs" "cs_id s = Some (ar_id r)"
      by (auto simp: anchor_ids_def List.map_filter_def)
    then obtain q where q: "q \<in> set rows" "ar_chain q = d" "row_state q = s" using Cons.prems(2)[of d s] by auto
    then have "ar_id q = ar_id r" using d(2) by (auto simp: row_state_def)
    then have "q = r" using assms(2) q(1) r(1) by (auto simp: distinct_map inj_on_def)
    then show False using Cons.prems(1) d(1) q(2) r(2) by (force simp: h)
  qed
  moreover have "anchor_ids (h # hs) = ar_id r # anchor_ids hs"
    using r by (auto simp: anchor_ids_def List.map_filter_def h row_state_def)
  ultimately show ?case using Cons by auto
qed (simp add: anchor_ids_def List.map_filter_def)

lemma checkpoint_states:
  assumes ok: "audit_ok env db" and dig: "hex_digests env" and len: "\<forall>s. length (au_sha256 env s) = 64"
    and names: "\<forall>r \<in> set (audit_log db). ar_chain r \<noteq> []"
  defines "hs \<equiv> vf_heads (inspect_audit_chain env db)"
  shows "parse_heads (map head_value hs) [] = Some hs
    \<and> sum_list (map (\<lambda>(_, st). cs_sequence st) hs) = int (length (audit_log db))"
proof -
  have keys: "distinct (map fst (chain_heads db))" using ok by (simp add: audit_ok_def)
  note sound = inspect_sound[OF audit_ok_verifies_aux[OF ok] keys, folded hs_def]
  have get: "map_of hs c = Some st" if "(c, st) \<in> set hs" for c st using sound that by simp
  have "parse_heads (map head_value hs) [] = Some ([] @ hs)"
  proof (rule parse_heads_heads)
    fix c st assume "(c, st) \<in> set hs"
    note get = get[OF this]
    obtain r where r: "r \<in> set (audit_log db)" "ar_chain r = c" "row_state r = st" "0 < cs_sequence st"
        "linked env empty_state (rows_of (audit_log db) c) st"
      using head_rows[OF ok dig get[unfolded hs_def]] by auto
    have "length (cs_hash st) = 64"
      using linked_hash_length[OF r(5) len] by (simp add: empty_state_def empty_audit_hash_def)
    moreover have "ascii_text (cs_hash st)"
      using linked_ascii[OF r(5) dig] ascii_empty_hash by (simp add: empty_state_def)
    ultimately have "py_len (cs_hash st) = 64" by (simp add: py_len_ascii)
    moreover have "c \<noteq> [] \<and> 0 < ar_id r" using r(1,2) names ok by (auto simp: audit_ok_def)
    ultimately show "c \<noteq> [] \<and> 0 < cs_sequence st \<and> (\<exists>i. cs_id st = Some i \<and> 0 < i) \<and> py_len (cs_hash st) = 64"
      using r(3,4) by (auto simp: row_state_def)
  qed (use sound in simp)
  moreover have "sum_list (map (\<lambda>(_, st). cs_sequence st) hs) = int (length (audit_log db))"
  proof -
    have "cs_sequence st = int (length (rows_of (audit_log db) c))" if "(c, st) \<in> set hs" for c st
      using head_rows[OF ok dig get[OF that, unfolded hs_def]] by auto
    then have "map (\<lambda>(_, st). cs_sequence st) hs = map (\<lambda>c. int (length (rows_of (audit_log db) c))) (map fst hs)"
      by auto
    then have "sum_list (map (\<lambda>(_, st). cs_sequence st) hs)
        = (\<Sum>c\<in>set (map fst hs). int (length (rows_of (audit_log db) c)))"
      using sound by (simp only: sum_list_distinct_conv_sum_set)
    also have "\<dots> = int (length (audit_log db))" using sound by (intro sum_rows_of) auto
    finally show ?thesis .
  qed
  ultimately show ?thesis by simp
qed

lemma map_of_sort_fst:
  assumes "distinct (map fst d)"
  shows "map_of (sort_key fst d) = map_of d"
proof -
  have "mset (map fst (sort_key fst d)) = mset (map fst d)" by simp
  then have "distinct (map fst (sort_key fst d))" using assms mset_eq_imp_distinct_iff by blast
  then show ?thesis using assms by (simp add: map_of_inject_set)
qed

lemma audit_ok_link: "audit_ok env db \<Longrightarrow> linked env empty_state (rows_of (audit_log db) c) (state_in (chain_heads db) c)"
  by (simp add: audit_ok_def)

lemma audit_ok_head:
  assumes "audit_ok env db" and "rows_of (audit_log db) c \<noteq> []"
  shows "map_of (chain_heads db) c = Some (state_in (chain_heads db) c)"
proof -
  have "cs_sequence (state_in (chain_heads db) c) \<noteq> 0"
    using linked_sequence[OF audit_ok_link[OF assms(1), of c]] assms(2) by (simp add: empty_state_def)
  then show ?thesis by (auto simp: state_in_def empty_state_def split: option.splits)
qed

lemma inspected_states:
  assumes "audit_ok env db"
  shows "state_in (vf_heads (inspect_audit_chain env db)) c = state_in (chain_heads db) c"
proof -
  have "distinct (map fst (chain_heads db))" using assms by (simp add: audit_ok_def)
  note sound = inspect_sound[OF audit_ok_verifies_aux[OF assms] this]
  note l = audit_ok_link[OF assms, of c]
  then have "sort_key ar_sequence (rows_of (audit_log db) c) = rows_of (audit_log db) c"
    using linked_sorted by (intro sort_key_id_if_sorted) blast
  then show ?thesis using sound l linked_functional by metis
qed

text \<open>What was appended after a sound log links to the heads of that log.\<close>

lemma appended_links:
  assumes ok: "audit_ok env db" and ok': "audit_ok env db'" and new: "audit_log db' = audit_log db @ new"
  shows "linked env (state_in (chain_heads db) c) (rows_of (ordered_log new) c) (state_in (chain_heads db') c)"
proof -
  have "rows_of (audit_log db') c = rows_of (audit_log db) c @ rows_of new c" by (simp add: new rows_of_def)
  then obtain m where m: "linked env empty_state (rows_of (audit_log db) c) m"
      "linked env m (rows_of new c) (state_in (chain_heads db') c)"
    using audit_ok_link[OF ok', of c] by (auto simp: linked_append)
  have "m = state_in (chain_heads db) c" using linked_functional[OF m(1) audit_ok_link[OF ok]] .
  moreover have "sort_key ar_sequence (rows_of new c) = rows_of new c"
    using linked_sorted[OF m(2)] by (intro sort_key_id_if_sorted) simp
  ultimately show ?thesis using m(2) by (simp add: rows_of_ordered)
qed

lemma tail_heads_match:
  assumes ok': "audit_ok env db'" and sts: "distinct (map fst sts)"
    "fst ` set sts = ar_chain ` set (audit_log db')" "\<forall>c. state_in sts c = state_in (chain_heads db') c"
  shows "heads_match (sort_key fst sts) (chain_heads db')"
proof -
  have keys: "distinct (map fst (chain_heads db'))" using ok' by (simp add: audit_ok_def)
  have "map_of (chain_heads db') c = Some empty_state \<or> map_of sts c = map_of (chain_heads db') c" for c
  proof (cases "map_of sts c")
    case (Some st)
    then have "c \<in> ar_chain ` set (audit_log db')" using sts(2) by (metis map_of_SomeD fst_conv image_eqI)
    then have "rows_of (audit_log db') c \<noteq> []" by (auto simp: rows_of_def filter_empty_conv)
    then show ?thesis using audit_ok_head[OF ok'] sts(3)[rule_format, of c] Some by (simp add: state_in_def)
  next
    case None
    then show ?thesis using sts(3)[rule_format, of c] by (auto simp: state_in_def split: option.splits)
  qed
  then show ?thesis using heads_match_iff[OF keys] map_of_sort_fst[OF sts(1)] by simp
qed

lemma inspect_row_count: "vf_row_count (inspect_audit_chain env db) = int (length (audit_log db))"
  by (simp add: inspect_audit_chain_def Let_def split: sum.split)


end
