(* ===== verification/Audit_Examples.thy ===== *)
theory Audit_Examples
  imports Audit_Incremental
begin

text \<open>
  A log of two events of one tenant under a toy digest, and the witnesses of the theorems on the
  audit chain.
\<close>

definition toy_env :: audit_env where
  "toy_env = \<lparr>au_sha256 = (\<lambda>s. case drop 76 s of [] \<Rightarrow> replicate 64 CHR ''b''
        | c # _ \<Rightarrow> replicate 64 (if c = CHR ''x'' then CHR ''a'' else CHR ''b'')),
     au_hmac = (\<lambda>_ _. ''f''), au_now = ''t''\<rparr>"

definition toy_event :: "string \<Rightarrow> audit_event" where
  "toy_event action = \<lparr>ev_actor = Some ''u'', ev_org = Some ''o'', ev_action = action,
     ev_target_type = None, ev_target_id = None, ev_ip = None, ev_metadata = None, ev_created = ''t''\<rparr>"

definition toy_row :: "int \<Rightarrow> string \<Rightarrow> string \<Rightarrow> string \<Rightarrow> audit_row" where
  "toy_row n action previous entry = \<lparr>ar_id = n, ar_chain = ''o'', ar_sequence = n,
     ar_event = toy_event action, ar_previous = previous, ar_entry = entry\<rparr>"

definition toy_one :: audit_db where
  "toy_one = \<lparr>audit_log = [toy_row 1 ''x'' empty_audit_hash (replicate 64 CHR ''a'')],
     chain_heads = [(''o'', \<lparr>cs_sequence = 1, cs_id = Some 1, cs_hash = replicate 64 CHR ''a''\<rparr>)],
     audit_serial = 2, installation = Some ''i''\<rparr>"

definition toy_two :: audit_db where
  "toy_two = \<lparr>audit_log = [toy_row 1 ''x'' empty_audit_hash (replicate 64 CHR ''a''),
       toy_row 2 ''y'' (replicate 64 CHR ''a'') (replicate 64 CHR ''b'')],
     chain_heads = [(''o'', \<lparr>cs_sequence = 2, cs_id = Some 2, cs_hash = replicate 64 CHR ''b''\<rparr>)],
     audit_serial = 3, installation = Some ''i''\<rparr>"

lemma toy_inserts:
  "insert_audit_row toy_env (toy_event ''x'') (fresh_audit_db (Some ''i''))
     = Some (replicate 64 CHR ''a'', toy_one)"
  "insert_audit_row toy_env (toy_event ''y'') toy_one = Some (replicate 64 CHR ''b'', toy_two)"
  by code_simp+

lemma toy_env_now: "toy_env\<lparr>au_now := ''t''\<rparr> = toy_env"
  by (simp add: toy_env_def)

lemma toy_steps:
  "insert_audit_row (toy_env\<lparr>au_now := ''t''\<rparr>) (toy_event ''x'') (fresh_audit_db (Some ''i''))
     = Some (replicate 64 CHR ''a'', toy_one)"
  "insert_audit_row (toy_env\<lparr>au_now := ''t''\<rparr>) (toy_event ''y'') toy_one = Some (replicate 64 CHR ''b'', toy_two)"
  unfolding toy_env_now by (rule toy_inserts)+

lemma toy_appended: "appended toy_env toy_one toy_two"
  by (rule appended.more[OF appended.none toy_steps(2)])

lemma toy_one_from_fresh: "appended toy_env (fresh_audit_db (Some ''i'')) toy_one"
  by (rule appended.more[OF appended.none toy_steps(1)])

lemma toy_from_fresh: "appended toy_env (fresh_audit_db (Some ''i'')) toy_two"
  by (rule appended.more[OF toy_one_from_fresh toy_steps(2)])

lemma toy_ok: "audit_ok toy_env toy_one" "audit_ok toy_env toy_two"
  using appended_ok[OF toy_one_from_fresh fresh_audit_ok] appended_ok[OF toy_from_fresh fresh_audit_ok] .

lemma toy_hex: "hex_digests toy_env"
  by (auto simp: hex_digests_def toy_env_def ascii_text_def list_all_iff split: list.splits)

lemma toy_length: "\<forall>s. length (au_sha256 toy_env s) = 64"
  by (simp add: toy_env_def split: list.split)

lemma toy_entries:
  "\<forall>r \<in> set (audit_log toy_two). \<forall>r' \<in> set (audit_log toy_two).
     au_sha256 toy_env (row_payload r) = au_sha256 toy_env (row_payload r') \<longrightarrow> r = r'"
  by code_simp

lemma toy_sha: "sha_ok toy_env (row_payload ` set (audit_log toy_two))"
  using toy_entries toy_length by (auto simp: sha_ok_def inj_on_def)

lemma toy_subset: "set (audit_log toy_one) \<union> set (audit_log toy_two) = set (audit_log toy_two)"
  by (auto simp: toy_one_def toy_two_def)

definition toy_checkpoint :: pval where
  "toy_checkpoint = the (build_audit_checkpoint toy_env toy_one (Some ''k'') None)"

lemma toy_checkpoint_built: "build_audit_checkpoint toy_env toy_one (Some ''k'') None = Some toy_checkpoint"
proof -
  have "build_audit_checkpoint toy_env toy_one (Some ''k'') None \<noteq> None" by code_simp
  then show ?thesis by (simp add: toy_checkpoint_def)
qed

lemma toy_against:
  "case inspect_audit_chain_against_checkpoint toy_env toy_two toy_checkpoint None of
     Inl _ \<Rightarrow> False | Inr v \<Rightarrow> vf_valid v"
  by code_simp

section \<open>Witnesses\<close>


theorem verified_chain_determined_witness:
  "map row_content (sort_key ar_sequence (rows_of (audit_log toy_two) ''o''))
     = map row_content (sort_key ar_sequence (rows_of (audit_log (toy_two\<lparr>audit_serial := 9\<rparr>)) ''o''))"
proof -
  let ?h = "\<lparr>cs_sequence = 2, cs_id = Some 2, cs_hash = replicate 64 CHR ''b''\<rparr>"
  have heads: "map_of (chain_heads toy_two) ''o'' = Some ?h" "distinct (map fst (chain_heads toy_two))"
    by (simp_all add: toy_two_def)
  have valid: "vf_valid (inspect_audit_chain toy_env toy_two)" using toy_ok(2) by (rule audit_ok_verifies_aux)
  have "vf_valid (inspect_audit_chain toy_env (toy_two\<lparr>audit_serial := 9\<rparr>))"
    using valid by (simp add: inspect_valid)
  then show ?thesis
    using verified_chain_determined[OF valid, of "toy_two\<lparr>audit_serial := 9\<rparr>" "''o''" ?h ?h] heads toy_sha
    by (simp add: empty_state_def)
qed

theorem checkpoint_roundtrip_witness: "verify_audit_checkpoint toy_env toy_checkpoint (Some ''k'') = Inr True"
  using checkpoint_roundtrip[OF toy_checkpoint_built toy_hex] by simp

theorem checkpoint_pins_history_witness:
  "\<exists>later. map row_content (sort_key ar_sequence (rows_of (audit_log toy_two) ''o''))
     = map row_content (sort_key ar_sequence (rows_of (audit_log toy_one) ''o'')) @ later"
proof -
  obtain v where v: "inspect_audit_chain_against_checkpoint toy_env toy_two toy_checkpoint None = Inr v" "vf_valid v"
    using toy_against by (auto split: sum.splits)
  have keys: "distinct (map fst (chain_heads toy_one))" "distinct (map fst (chain_heads toy_two))"
    by (simp_all add: toy_one_def toy_two_def)
  show ?thesis
    using checkpoint_pins_history[OF toy_checkpoint_built keys v] toy_sha toy_subset by metis
qed



end
