(* ===== verification/Commercial_Rules.thy ===== *)
theory Commercial_Rules
  imports Py_Objects
begin

text \<open>
  The arithmetic and the transition rules of \<open>src/backend/commercial_policy/\<close>: the tax on a
  price (\<open>tax.py\<close>), the review of plan changes (\<open>transitions.py\<close>), and the cheapest
  purchase of credit packs with the savings of a connected plan (\<open>document.py\<close>).
\<close>

section \<open>Tax\<close>

definition tax_roundings :: "string list" where
  "tax_roundings = [''half_up'', ''floor'', ''ceil'']"

definition invoice_triggers :: "string list" where
  "invoice_triggers = [''verified_payment'', ''activation_applied'', ''manual'', ''disabled'']"

definition tax_arithmetic_configured :: "pval \<Rightarrow> bool" where
  "tax_arithmetic_configured policy \<longleftrightarrow>
     is_dict policy \<and> is_bool (dget policy ''taxInclusive'')
     \<and> (case plain_int (dget policy ''taxBasisPoints'') of None \<Rightarrow> False | Some bp \<Rightarrow> 0 \<le> bp \<and> bp \<le> 10000)
     \<and> in_strs tax_roundings (dget policy ''rounding'')"

definition rounded_ratio :: "int \<Rightarrow> int \<Rightarrow> string \<Rightarrow> int" where
  "rounded_ratio numerator denominator rounding =
     (let q = numerator div denominator; r = numerator mod denominator
      in if rounding = ''ceil'' then q + (if 0 < r then 1 else 0)
         else if rounding = ''half_up'' then q + (if denominator \<le> r * 2 then 1 else 0)
         else q)"

record tax_price =
  tp_subtotal :: int
  tp_tax :: int
  tp_total :: int
  tp_period :: pval

fun str_value :: "pval \<Rightarrow> string" where
  "str_value (PStr s) = s"
| "str_value _ = []"

fun int_value :: "pval \<Rightarrow> int" where
  "int_value (PInt i) = i"
| "int_value _ = 0"

definition calculate_tax_price :: "pval \<Rightarrow> pval \<Rightarrow> pval \<Rightarrow> py_exn + tax_price" where
  "calculate_tax_price amount policy period =
     res_bind (py_int amount) (\<lambda>a.
     if a < 0 then Inl ValueError
     else
       let configured = tax_arithmetic_configured policy;
           inclusive = configured \<and> dget policy ''taxInclusive'' = PBool True;
           bp = int_value (dget policy ''taxBasisPoints'');
           denominator = (if inclusive then 10000 + bp else 10000);
           tax = (if configured
                  then rounded_ratio (a * bp) denominator (str_value (dget policy ''rounding'')) else 0);
           subtotal = (if inclusive then a - tax else a)
       in Inr \<lparr>tp_subtotal = subtotal, tp_tax = tax, tp_total = subtotal + tax, tp_period = period\<rparr>)"

section \<open>Transitions between plans\<close>

text \<open>The columns of a subscription that the rules read.\<close>

record subscription_state =
  ss_status :: string
  ss_expires_at :: "int option"
  ss_revision :: int

text \<open>\<open>not expires_at or expires_at > now\<close>: no expiry (or zero) never ends.\<close>

definition subscription_active :: "subscription_state option \<Rightarrow> int \<Rightarrow> bool" where
  "subscription_active current now \<longleftrightarrow>
     (case current of
        None \<Rightarrow> False
      | Some s \<Rightarrow> ss_status s = ''active''
          \<and> (case ss_expires_at s of None \<Rightarrow> True | Some e \<Rightarrow> e = 0 \<or> now < e))"

definition product_mismatch :: string where "product_mismatch = ''PRODUCT_OPERATION_MISMATCH''"
definition active_term_review :: string where "active_term_review = ''ACTIVE_TERM_REQUIRES_TRANSITION_REVIEW''"
definition plan_transition_review :: string where "plan_transition_review = ''PLAN_TRANSITION_REVIEW_REQUIRED''"

definition transition_review_reason ::
    "string \<Rightarrow> string \<Rightarrow> pval \<Rightarrow> subscription_state option \<Rightarrow> int \<Rightarrow> py_exn + string option" where
  "transition_review_reason operation item_type policy current now =
     (if item_type = ''procurement_credit_pack'' then
        Inr (if operation = ''credit_pack'' then None else Some product_mismatch)
      else if item_type \<noteq> ''base_plan'' \<or> operation \<notin> {''purchase'', ''renew'', ''upgrade'', ''downgrade''}
      then Inr (Some product_mismatch)
      else
        let active = subscription_active current now in
        if operation = ''purchase'' then Inr (if active then Some active_term_review else None)
        else if operation = ''renew'' then Inr None
        else
          res_bind (get_attr policy operation) (\<lambda>raw.
          let rule = or_empty raw in
          res_bind (get_attr rule ''kind'') (\<lambda>kind.
          Inr (if kind \<noteq> PStr ''start_new_term'' then Some plan_transition_review
            else if operation = ''downgrade'' \<and> dget rule ''selfService'' \<noteq> PBool True
            then Some plan_transition_review
            else if active \<and> dget rule ''activeTerm'' \<noteq> PStr ''start_new_term''
            then Some active_term_review
            else None))))"

text \<open>\<^term>\<open>Some r\<close> is the error \<open>TRANSITION_NOT_ALLOWED\<close> with the reason in its details.\<close>

definition require_self_service_transition ::
    "string \<Rightarrow> string \<Rightarrow> pval \<Rightarrow> subscription_state option \<Rightarrow> int \<Rightarrow> py_exn + string option" where
  "require_self_service_transition operation item_type policy current now =
     res_bind (transition_review_reason operation item_type policy current now) (\<lambda>reason.
       Inr (if operation = ''purchase'' \<and> reason = Some active_term_review then None else reason))"

section \<open>The cheapest purchase of credit packs\<close>

text \<open>
  A pack is its quantity and its price; the validator lets only positive integers through.
  \<open>unreachable\<close> is the sentinel \<open>10**30\<close> of the code.
\<close>

definition unreachable :: int where
  "unreachable = 10 ^ 30"

definition relax_pack :: "nat \<Rightarrow> nat \<times> int \<Rightarrow> int list \<Rightarrow> int list" where
  "relax_pack q pack costs =
     (let following = min (length costs - 1) (q + fst pack)
      in costs[following := min (costs ! following) (costs ! q + snd pack)])"

definition relax_quantity :: "(nat \<times> int) list \<Rightarrow> nat \<Rightarrow> int list \<Rightarrow> int list" where
  "relax_quantity packs q costs =
     (if costs ! q = unreachable then costs else fold (relax_pack q) packs costs)"

definition pack_costs :: "nat \<Rightarrow> (nat \<times> int) list \<Rightarrow> int list" where
  "pack_costs target packs =
     (let size = target + Max (set (map fst packs)) + 1
      in fold (relax_quantity packs) [0..<size] ((replicate size unreachable)[0 := 0]))"

definition minimum_pack_cost :: "nat \<Rightarrow> (nat \<times> int) list \<Rightarrow> int" where
  "minimum_pack_cost target packs = Min (set (drop target (pack_costs target packs)))"

section \<open>The savings of a connected plan\<close>

record plan_saving =
  sv_tier :: string
  sv_period :: string
  sv_internal_plus_credits :: int
  sv_connected :: int
  sv_saving :: int
  sv_basis_points :: int

definition supported_tiers :: "string list" where
  "supported_tiers = [''personal'', ''silver'', ''gold'', ''diamond'']"

definition supported_variants :: "string list" where
  "supported_variants = [''internal'', ''connected'']"

definition price_periods :: "string list" where
  "price_periods = [''yearly'', ''monthly'']"

text \<open>The packs with their tax-inclusive totals.\<close>

definition priced_pack :: "pval \<Rightarrow> pval \<Rightarrow> py_exn + (nat \<times> int)" where
  "priced_pack tax pack =
     res_bind (get_item pack ''price'') (\<lambda>p.
     res_bind (calculate_tax_price p tax (PStr ''one_time'')) (\<lambda>t.
     res_bind (get_item pack ''quantity'') (\<lambda>q.
     case int_instance q of None \<Rightarrow> Inl TypeError | Some n \<Rightarrow> Inr (nat n, tp_total t))))"

text \<open>The key of \<open>by_tier_variant\<close>; a later offer with an equal key replaces an earlier one.\<close>

definition offer_key :: "pval \<Rightarrow> py_exn + (pval \<times> pval \<times> pval)" where
  "offer_key offer =
     res_bind (get_attr offer ''tier'') (\<lambda>t.
     res_bind (get_attr (dget_default offer ''price'' (PDict [])) ''period'') (\<lambda>p.
     if hashable t \<and> hashable (dget offer ''variant'') \<and> hashable p
     then Inr (t, dget offer ''variant'', p) else Inl TypeError))"

definition offer_of ::
    "((pval \<times> pval \<times> pval) \<times> pval) list \<Rightarrow> string \<Rightarrow> string \<Rightarrow> string \<Rightarrow> pval" where
  "offer_of keyed_offers t v p =
     (case map_of (rev keyed_offers) (PStr t, PStr v, PStr p) of None \<Rightarrow> PNone | Some x \<Rightarrow> x)"

definition saving_basis_points :: "int \<Rightarrow> int \<Rightarrow> int" where
  "saving_basis_points saving equivalent =
     (if equivalent \<noteq> 0 then (saving * 10000 + equivalent div 2) div equivalent else 0)"

definition tier_saving ::
    "(nat \<times> int) list \<Rightarrow> ((pval \<times> pval \<times> pval) \<times> pval) list \<Rightarrow> string \<times> string
      \<Rightarrow> py_exn + plan_saving list" where
  "tier_saving packs keyed_offers tier_period =
     (let (t, p) = tier_period;
          internal = offer_of keyed_offers t ''internal'' p;
          connected = offer_of keyed_offers t ''connected'' p
      in if \<not> truthy internal \<or> \<not> truthy connected then Inr []
         else
           res_bind (int_or_zero (dget connected ''includedProcurementQuota'')) (\<lambda>quota.
           res_bind (get_item internal ''price'') (\<lambda>ip.
           res_bind (get_item ip ''total'') (\<lambda>it.
           res_bind (py_int it) (\<lambda>internal_total.
           res_bind (get_item connected ''price'') (\<lambda>cp.
           res_bind (get_item cp ''total'') (\<lambda>ct.
           res_bind (py_int ct) (\<lambda>connected_total.
           let equivalent = internal_total + minimum_pack_cost (nat quota) packs;
               saving = equivalent - connected_total
           in Inr [\<lparr>sv_tier = t, sv_period = p, sv_internal_plus_credits = equivalent,
                    sv_connected = connected_total, sv_saving = saving,
                    sv_basis_points = saving_basis_points saving equivalent\<rparr>]))))))))"

definition connected_savings :: "pval \<Rightarrow> py_exn + plan_saving list" where
  "connected_savings document =
     (case (py_or (dget document ''creditPacks'') (PList []), py_or (dget document ''offers'') (PList [])) of
        (PList ps, PList os) \<Rightarrow>
          res_bind (map_res (priced_pack (or_empty (dget document ''taxInvoice''))) ps) (\<lambda>packs.
          res_bind (map_res (\<lambda>x. res_bind (offer_key x) (\<lambda>k. Inr (k, x))) os) (\<lambda>keyed_offers.
          if packs = [] then Inr []
          else res_bind (map_res (tier_saving packs keyed_offers)
                 (concat (map (\<lambda>p. map (\<lambda>t. (t, p)) supported_tiers) price_periods)))
               (\<lambda>savings. Inr (concat savings))))
      | _ \<Rightarrow> Inl TypeError)"

end
