(* ===== verification/Commercial_Document.thy ===== *)
theory Commercial_Document
  imports Commercial_Rules
begin

text \<open>
  \<open>validate_document\<close> of \<open>src/backend/commercial_policy/document.py\<close>: the closed schema of the
  commercial policy document.  A finding is its code and path; the wording of the messages is
  left out.  The left side of a result is an exception the function lets through.
\<close>

section \<open>Findings and constants\<close>

type_synonym issue = "string \<times> string"

definition issue_if :: "bool \<Rightarrow> string \<Rightarrow> string \<Rightarrow> issue list" where
  "issue_if b code path = (if b then [(code, path)] else [])"

lemma issue_if_Nil [simp]: "issue_if b code path = [] \<longleftrightarrow> \<not> b"
  by (simp add: issue_if_def)

definition indexed :: "string \<Rightarrow> nat \<Rightarrow> string" where
  "indexed name i = name @ ''['' @ nat_decimal i @ '']''"

definition max_document_bytes :: int where "max_document_bytes = 262144"
definition max_depth :: int where "max_depth = 12"
definition max_offers :: nat where "max_offers = 16"
definition max_credit_packs :: nat where "max_credit_packs = 32"
definition max_credit_units :: int where "max_credit_units = 100000"
definition annual_quota_multiplier :: int where "annual_quota_multiplier = 15"

definition max_monthly_quota :: int where
  "max_monthly_quota = max_credit_units div annual_quota_multiplier"

definition owner_kinds :: "string list" where
  "owner_kinds = [''account'', ''organization'']"

definition sales_states :: "string list" where
  "sales_states = [''sellable'', ''stopped'', ''non_sellable'']"

definition public_visibility :: "string list" where
  "public_visibility = [''public'', ''hidden'']"

definition export_capabilities :: "string list" where
  "export_capabilities =
     [''document.export.word'', ''document.export.excel'', ''document.export.award_result_excel'']"

definition policy_kinds :: "string list" where
  "policy_kinds = [''blocked_decision'', ''calendar_anniversary'', ''fixed_days'', ''start_new_term'',
     ''end_of_term'', ''manual_review'', ''reject_all'', ''process_affordable_in_stable_order'',
     ''fefo'', ''no_carry_over'', ''manual_off_platform'', ''no_refunds'']"

function document_depth :: "pval \<Rightarrow> int \<Rightarrow> int" where
  "document_depth (PDict d) current =
     foldr max (map (\<lambda>e. document_depth (snd e) (current + 1)) d) current"
| "document_depth (PList xs) current =
     foldr max (map (\<lambda>x. document_depth x (current + 1)) xs) current"
| "document_depth PNone current = current"
| "document_depth (PBool b) current = current"
| "document_depth (PInt i) current = current"
| "document_depth (PFloat f t) current = current"
| "document_depth (PStr s) current = current"
  by pat_completeness auto
termination
  by (relation "measure (\<lambda>(v, _). size v)") (auto dest: size_pval_members)

section \<open>One offer\<close>

definition offer_price :: "pval \<Rightarrow> pval" where
  "offer_price offer = (if is_dict (dget offer ''price'') then dget offer ''price'' else PDict [])"

definition offer_code :: "pval \<Rightarrow> string" where
  "offer_code x = py_strip (str_or_empty (dget x ''code''))"

definition offer_pair :: "pval \<Rightarrow> pval \<times> pval \<times> pval" where
  "offer_pair offer = (dget offer ''tier'', dget offer ''variant'', dget (offer_price offer) ''period'')"

definition pair_eq :: "pval \<times> pval \<times> pval \<Rightarrow> pval \<times> pval \<times> pval \<Rightarrow> bool" where
  "pair_eq p q \<longleftrightarrow> py_eq (fst p) (fst q) \<and> py_eq (fst (snd p)) (fst (snd q))
     \<and> py_eq (snd (snd p)) (snd (snd q))"

definition pair_hashable :: "pval \<times> pval \<times> pval \<Rightarrow> bool" where
  "pair_hashable p \<longleftrightarrow> hashable (fst p) \<and> hashable (fst (snd p)) \<and> hashable (snd (snd p))"

definition identity_issues ::
    "string \<Rightarrow> string list \<Rightarrow> (pval \<times> pval \<times> pval) list \<Rightarrow> pval \<Rightarrow> py_exn + issue list" where
  "identity_issues path codes pairs offer =
     (let code = offer_code offer; pair = offer_pair offer in
      if \<not> pair_hashable pair then Inl TypeError
      else Inr (issue_if (code = [] \<or> code \<in> set codes) ''DUPLICATE_OFFER'' (path @ ''.code'')
        @ issue_if (list_ex (pair_eq pair) pairs \<or> \<not> in_strs supported_tiers (fst pair)
            \<or> \<not> in_strs supported_variants (fst (snd pair))) ''OFFER_PAIR_INVALID'' path))"

definition quota_issues :: "string \<Rightarrow> pval \<Rightarrow> string \<Rightarrow> int \<Rightarrow> issue list" where
  "quota_issues path offer field least =
     (case plain_int (dget offer field) of
        None \<Rightarrow> [(''INTEGER_REQUIRED'', path @ ''.'' @ field)]
      | Some n \<Rightarrow>
          if n < least then [(''INTEGER_REQUIRED'', path @ ''.'' @ field)]
          else issue_if (max_credit_units < n) ''VALUE_TOO_LARGE'' (path @ ''.'' @ field))"

definition kind_issues :: "string \<Rightarrow> pval \<Rightarrow> issue list" where
  "kind_issues path offer =
     issue_if (\<not> in_strs owner_kinds (dget offer ''ownerKind'')) ''OWNER_KIND_INVALID'' (path @ ''.ownerKind'')
     @ issue_if (\<not> in_strs sales_states (dget offer ''salesState'')) ''SALES_STATE_INVALID'' (path @ ''.salesState'')
     @ issue_if (\<not> is_bool (dget offer ''violationCheckEnabled'')) ''VIOLATION_CHECK_INVALID''
         (path @ ''.violationCheckEnabled'')
     @ quota_issues path offer ''memberQuota'' 1
     @ quota_issues path offer ''includedProcurementQuota'' 0"

fun amount_ok :: "pval \<Rightarrow> bool" where
  "amount_ok (PInt i) \<longleftrightarrow> 0 \<le> i"
| "amount_ok _ \<longleftrightarrow> False"

definition price_amounts :: "pval \<Rightarrow> pval list" where
  "price_amounts price = [dget price ''subtotal'', dget price ''tax'', dget price ''total'']"

definition price_issues :: "string \<Rightarrow> pval \<Rightarrow> issue list" where
  "price_issues path offer =
     (let price = offer_price offer in
      issue_if (\<not> is_dict (dget offer ''price'')) ''PRICE_OBJECT_REQUIRED'' (path @ ''.price'')
      @ issue_if (\<not> in_strs price_periods (dget price ''period'')) ''PRICE_PERIOD_INVALID'' (path @ ''.price.period'')
      @ issue_if (dget price ''currency'' \<noteq> PStr ''VND'') ''PRICE_CURRENCY_INVALID'' (path @ ''.price.currency'')
      @ (if \<not> list_all amount_ok (price_amounts price)
         then [(''MONEY_INTEGER_REQUIRED'', path @ ''.price'')]
         else issue_if (int_value (dget price ''total'')
             \<noteq> int_value (dget price ''subtotal'') + int_value (dget price ''tax''))
           ''PRICE_TOTAL_MISMATCH'' (path @ ''.price'')))"

text \<open>Offers that differ only in the period, compared by position in the list.\<close>

definition same_product :: "pval \<Rightarrow> pval \<Rightarrow> bool" where
  "same_product other offer \<longleftrightarrow>
     list_all (\<lambda>k. py_eq (dget other k) (dget offer k)) [''tier'', ''variant'', ''ownerKind'']"

definition other_offers :: "pval list \<Rightarrow> nat \<Rightarrow> pval list" where
  "other_offers offers i = filter is_dict (take i offers @ drop (Suc i) offers)"

definition monthly_price_issues :: "pval \<Rightarrow> pval list \<Rightarrow> nat \<Rightarrow> pval \<Rightarrow> issue list" where
  "monthly_price_issues document offers i offer =
     (let price = offer_price offer; path = indexed ''offers'' i; tax = dget document ''taxInvoice'';
          mismatch = (''MONTHLY_ANNUAL_PRICE_MISMATCH'', path @ ''.price'')
      in if \<not> dhas price ''monthlyBaseAmount'' then []
         else if \<not> amount_ok (dget price ''monthlyBaseAmount'')
         then [(''MONTHLY_BASE_PRICE_INVALID'', path @ ''.price.monthlyBaseAmount'')]
         else
           let base = int_value (dget price ''monthlyBaseAmount'');
               basis = (if is_dict tax \<and> dget tax ''taxInclusive'' = PBool False then ''subtotal'' else ''total'');
               multiplier = (if dget price ''period'' = PStr ''yearly'' then 10 else 1)
           in (if py_eq (dget price basis) (PInt (base * multiplier)) then [] else [mismatch])
              @ map (\<lambda>_. mismatch)
                  (filter (\<lambda>other. dget (dget other ''price'') ''period'' = PStr ''monthly''
                      \<and> same_product other offer \<and> \<not> py_eq (dget (dget other ''price'') basis) (PInt base))
                    (other_offers offers i)))"

definition quota_multiplier :: "pval \<Rightarrow> int" where
  "quota_multiplier price = (if dget price ''period'' = PStr ''yearly'' then annual_quota_multiplier else 1)"

definition monthly_quota_issues :: "pval list \<Rightarrow> nat \<Rightarrow> pval \<Rightarrow> issue list" where
  "monthly_quota_issues offers i offer =
     (let path = indexed ''offers'' i;
          mismatch = (''MONTHLY_ANNUAL_QUOTA_MISMATCH'', path @ ''.includedProcurementQuota'')
      in if \<not> dhas offer ''monthlyBaseProcurementQuota'' then []
         else
           (case plain_int (dget offer ''monthlyBaseProcurementQuota'') of
              None \<Rightarrow> [(''MONTHLY_BASE_QUOTA_INVALID'', path @ ''.monthlyBaseProcurementQuota'')]
            | Some q \<Rightarrow>
                if q < 0 \<or> max_monthly_quota < q
                then [(''MONTHLY_BASE_QUOTA_INVALID'', path @ ''.monthlyBaseProcurementQuota'')]
                else
                  (if py_eq (dget offer ''includedProcurementQuota'') (PInt (q * quota_multiplier (offer_price offer)))
                   then [] else [mismatch])
                  @ map (\<lambda>_. mismatch)
                      (filter (\<lambda>other. in_strs price_periods (dget (dget other ''price'') ''period'')
                          \<and> same_product other offer
                          \<and> \<not> py_eq (dget other ''includedProcurementQuota'')
                                 (PInt (q * quota_multiplier (dget other ''price''))))
                        (other_offers offers i))))"

text \<open>\<open>set(capabilities)\<close> and \<open>capabilities.values()\<close> on whatever the offer holds.\<close>

definition capability_issues :: "string \<Rightarrow> pval \<Rightarrow> py_exn + issue list" where
  "capability_issues path offer =
     (let path' = path @ ''.exportCapabilities''; invalid = Inr [(''CAPABILITY_INVALID'', path')] in
      case dget offer ''exportCapabilities'' of
        PNone \<Rightarrow> Inr [(''BLOCKED_DECISION'', path')]
      | PDict d \<Rightarrow>
          if set (map fst d) \<noteq> set export_capabilities \<or> \<not> list_all (\<lambda>e. is_bool (snd e)) d
          then invalid else Inr []
      | PList xs \<Rightarrow>
          if \<not> list_all hashable xs then Inl TypeError
          else if set xs = PStr ` set export_capabilities then Inl AttributeError else invalid
      | PStr _ \<Rightarrow> invalid
      | _ \<Rightarrow> Inl TypeError)"

definition blank_text :: "pval \<Rightarrow> bool" where
  "blank_text v \<longleftrightarrow> (case v of PStr s \<Rightarrow> py_strip s = [] | _ \<Rightarrow> True)"

definition display_issues :: "string \<Rightarrow> pval \<Rightarrow> issue list" where
  "display_issues path offer =
     (let display = dget offer ''display'';
          text_issue = (\<lambda>field. issue_if
            (if field = ''name'' then blank_text (dget display field)
             else dget display field \<noteq> PNone \<and> \<not> is_str (dget display field))
            ''DISPLAY_TEXT_INVALID'' (path @ ''.display.'' @ field));
          order = dget display ''order''; recommended = dget display ''recommended'';
          visibility = dget display ''visibility''; benefits = dget display ''benefits''
      in issue_if (\<not> is_dict display) ''DISPLAY_OBJECT_REQUIRED'' (path @ ''.display'')
         @ concat (map text_issue [''name'', ''description'', ''badge'', ''variantLabel'', ''periodLabel''])
         @ issue_if (order \<noteq> PNone \<and> \<not> amount_ok order) ''DISPLAY_ORDER_INVALID'' (path @ ''.display.order'')
         @ issue_if (recommended \<noteq> PNone \<and> \<not> is_bool recommended) ''DISPLAY_BOOLEAN_INVALID''
             (path @ ''.display.recommended'')
         @ issue_if (visibility \<noteq> PNone \<and> \<not> in_strs public_visibility visibility)
             ''DISPLAY_VISIBILITY_INVALID'' (path @ ''.display.visibility'')
         @ issue_if (benefits \<noteq> PNone \<and> (case benefits of PList xs \<Rightarrow> list_ex blank_text xs | _ \<Rightarrow> True))
             ''DISPLAY_BENEFITS_INVALID'' (path @ ''.display.benefits''))"

text \<open>The loop over the offers; \<open>codes\<close> and \<open>pairs\<close> are what was seen before.\<close>

fun check_offers ::
    "pval \<Rightarrow> pval list \<Rightarrow> nat \<Rightarrow> pval list \<Rightarrow> string list \<Rightarrow> (pval \<times> pval \<times> pval) list
      \<Rightarrow> py_exn + (issue list \<times> (pval \<times> pval \<times> pval) list)" where
  "check_offers document offers i [] codes pairs = Inr ([], pairs)"
| "check_offers document offers i (offer # rest) codes pairs =
     (let path = indexed ''offers'' i in
      if \<not> is_dict offer then
        res_bind (check_offers document offers (Suc i) rest codes pairs) (\<lambda>(issues, pairs').
          Inr ((''OFFER_OBJECT_REQUIRED'', path) # issues, pairs'))
      else
        res_bind (identity_issues path codes pairs offer) (\<lambda>own.
        res_bind (capability_issues path offer) (\<lambda>capabilities.
        res_bind (check_offers document offers (Suc i) rest (offer_code offer # codes) (offer_pair offer # pairs))
          (\<lambda>(issues, pairs').
          Inr (own @ kind_issues path offer @ price_issues path offer
            @ monthly_price_issues document offers i offer @ monthly_quota_issues offers i offer
            @ capabilities @ display_issues path offer @ issues, pairs')))))"

definition yearly_matrix :: "(pval \<times> pval \<times> pval) list" where
  "yearly_matrix = concat (map (\<lambda>t. map (\<lambda>v. (PStr t, PStr v, PStr ''yearly'')) supported_variants) supported_tiers)"

definition matrix_issues :: "(pval \<times> pval \<times> pval) list \<Rightarrow> issue list" where
  "matrix_issues pairs =
     issue_if (set (filter (\<lambda>p. snd (snd p) = PStr ''yearly'') pairs) \<noteq> set yearly_matrix)
       ''OFFER_MATRIX_INCOMPLETE'' ''offers''"

section \<open>Credit packs\<close>

definition pack_field_issues :: "nat \<Rightarrow> pval \<Rightarrow> string \<Rightarrow> issue list" where
  "pack_field_issues i pack field =
     (let path = indexed ''creditPacks'' i @ ''.'' @ field in
      case plain_int (dget pack field) of
        None \<Rightarrow> [(''INTEGER_REQUIRED'', path)]
      | Some n \<Rightarrow>
          if n \<le> 0 then [(''INTEGER_REQUIRED'', path)]
          else issue_if (field = ''quantity'' \<and> max_credit_units < n) ''VALUE_TOO_LARGE'' path)"

fun check_packs :: "nat \<Rightarrow> pval list \<Rightarrow> string list \<Rightarrow> py_exn + issue list" where
  "check_packs i [] codes = Inr []"
| "check_packs i (pack # rest) codes =
     (if \<not> is_dict pack then Inl AttributeError
      else
        let code = offer_code pack in
        res_bind (check_packs (Suc i) rest (code # codes)) (\<lambda>issues.
          Inr (issue_if (code = [] \<or> code \<in> set codes) ''DUPLICATE_SKU'' (indexed ''creditPacks'' i @ ''.code'')
            @ pack_field_issues i pack ''quantity'' @ pack_field_issues i pack ''price'' @ issues)))"

section \<open>Policies\<close>

definition invalid_days :: "pval \<Rightarrow> bool" where
  "invalid_days v = (case plain_int v of None \<Rightarrow> True | Some d \<Rightarrow> d < 1 \<or> 3660 < d)"

fun kind_policy_issues :: "(string \<times> pval) list \<Rightarrow> py_exn + issue list" where
  "kind_policy_issues [] = Inr []"
| "kind_policy_issues ((name, policy) # rest) =
     (if \<not> dhas policy ''kind'' then kind_policy_issues rest
      else
        res_bind (in_str_set policy_kinds (dget policy ''kind'')) (\<lambda>known.
        res_bind (kind_policy_issues rest) (\<lambda>issues.
          Inr (issue_if (\<not> known) ''UNKNOWN_POLICY_KIND'' (''policies.'' @ name @ ''.kind'')
            @ issue_if (dget policy ''kind'' = PStr ''blocked_decision'') ''BLOCKED_DECISION'' (''policies.'' @ name)
            @ issues))))"

definition refund_issues :: "pval \<Rightarrow> issue list" where
  "refund_issues policies =
     (let refund = dget policies ''refund'' in
      issue_if (dget refund ''kind'' = PStr ''no_refunds'' \<and> dget refund ''partial'' \<noteq> PBool False)
        ''REFUND_POLICY_INVALID'' ''policies.refund.partial'')"

definition term_issues :: "pval \<Rightarrow> pval list \<Rightarrow> py_exn + issue list" where
  "term_issues policies offers =
     (let base = or_empty (dget policies ''baseTerm''); monthly = dget policies ''monthlyBaseTerm'';
          expiry = or_empty (dget policies ''creditPackExpiry'')
      in
      res_bind (get_attr base ''kind'') (\<lambda>kind.
      res_bind (get_attr expiry ''kind'') (\<lambda>expiry_kind.
      Inr (issue_if (kind = PStr ''fixed_days'' \<and> invalid_days (dget base ''days''))
            ''BASE_TERM_INVALID'' ''policies.baseTerm.days''
        @ issue_if (kind = PStr ''calendar_anniversary'') ''BLOCKED_DECISION'' ''policies.baseTerm''
        @ (if list_ex (\<lambda>x. dget (dget x ''price'') ''period'' = PStr ''monthly'') offers
           then (if dget monthly ''kind'' \<noteq> PStr ''fixed_days''
                 then [(''BLOCKED_DECISION'', ''policies.monthlyBaseTerm'')]
                 else issue_if (invalid_days (dget monthly ''days'')) ''BASE_TERM_INVALID''
                        ''policies.monthlyBaseTerm.days'')
           else [])
        @ issue_if (expiry_kind \<noteq> PStr ''fixed_days'' \<or> invalid_days (dget expiry ''days''))
            ''CREDIT_EXPIRY_INVALID'' ''policies.creditPackExpiry''))))"

definition authority_issues :: "pval \<Rightarrow> py_exn + issue list" where
  "authority_issues policies =
     (let invalid = [(''PURCHASE_AUTHORITY_INVALID'', ''policies.organizationPurchaseAuthority'')] in
      case dget policies ''organizationPurchaseAuthority'' of
        PList xs \<Rightarrow>
          if xs = [] \<or> PStr ''super_admin'' \<notin> set xs then Inr invalid
          else if \<not> list_all hashable xs then Inl TypeError
          else Inr (if list_all (in_strs [''super_admin'', ''manager'']) xs then [] else invalid)
      | _ \<Rightarrow> Inr invalid)"

definition grace_issues :: "pval \<Rightarrow> issue list" where
  "grace_issues policies =
     issue_if (case plain_int (dget policies ''graceDays'') of None \<Rightarrow> True | Some d \<Rightarrow> d < 0 \<or> 365 < d)
       ''GRACE_INVALID'' ''policies.graceDays''"

definition advantage_threshold :: "pval \<Rightarrow> int option" where
  "advantage_threshold policies =
     (case plain_int (dget policies ''connectedAdvantageBasisPoints'') of
        None \<Rightarrow> None | Some t \<Rightarrow> if t < 0 \<or> 10000 < t then None else Some t)"

definition policy_issues :: "pval \<Rightarrow> pval list \<Rightarrow> py_exn + issue list" where
  "policy_issues policies offers =
     (if \<not> is_dict policies then Inl AttributeError
      else
        res_bind (kind_policy_issues (entries policies)) (\<lambda>kinds.
        res_bind (term_issues policies offers) (\<lambda>terms.
        res_bind (authority_issues policies) (\<lambda>authorities.
        Inr (kinds @ refund_issues policies @ terms @ authorities @ grace_issues policies
          @ issue_if (advantage_threshold policies = None) ''THRESHOLD_INVALID''
              ''policies.connectedAdvantageBasisPoints'')))))"

section \<open>Savings\<close>

definition savings_blockers :: "string list" where
  "savings_blockers = [''INTEGER_REQUIRED'', ''MONEY_INTEGER_REQUIRED'', ''VALUE_TOO_LARGE'',
     ''CREDIT_PACKS_INVALID'', ''OFFERS_INVALID'', ''OFFER_OBJECT_REQUIRED'', ''PRICE_OBJECT_REQUIRED'']"

definition savings_of ::
    "pval \<Rightarrow> pval list \<Rightarrow> pval list \<Rightarrow> issue list \<Rightarrow> py_exn + plan_saving list" where
  "savings_of document offers packs issues =
     (if packs \<noteq> [] \<and> offers \<noteq> [] \<and> \<not> list_ex (\<lambda>e. fst e \<in> set savings_blockers) issues
      then connected_savings document else Inr [])"

definition saving_issues :: "int \<Rightarrow> plan_saving list \<Rightarrow> issue list" where
  "saving_issues threshold savings =
     map (\<lambda>s. (''CONNECTED_ADVANTAGE_TOO_LOW'', ''offers.'' @ sv_tier s @ ''.'' @ sv_period s))
       (filter (\<lambda>s. sv_basis_points s < threshold) savings)"

section \<open>Payment providers, tax and readiness\<close>

definition profile_supported :: "pval \<Rightarrow> bool" where
  "profile_supported p \<longleftrightarrow>
     in_strs [''fake'', ''payos''] (dget p ''provider'')
     \<and> in_strs [''test'', ''staging'', ''production''] (dget p ''environment'')
     \<and> in_strs [''off'', ''shadow'', ''live''] (dget p ''mode'')
     \<and> in_strs [''ready'', ''blocked_external'', ''disabled''] (dget p ''readiness'')
     \<and> \<not> blank_text (dget p ''alias'')
     \<and> (dget p ''credentialReference'' = PNone \<or> is_str (dget p ''credentialReference''))
     \<and> (case (plain_int (dget p ''minAmount''), plain_int (dget p ''maxAmount''),
              plain_int (dget p ''checkoutTtlSeconds'')) of
          (Some low, Some high, Some ttl) \<Rightarrow>
            0 \<le> low \<and> low \<le> high \<and> high \<le> 2147483647 \<and> 60 \<le> ttl \<and> ttl \<le> 86400
        | _ \<Rightarrow> False)"

definition profile_list :: "pval \<Rightarrow> pval list option" where
  "profile_list v = (case v of PList xs \<Rightarrow> if xs = [] \<or> 32 < length xs then None else Some xs | _ \<Rightarrow> None)"

fun profile_issues :: "nat \<Rightarrow> pval list \<Rightarrow> issue list" where
  "profile_issues i [] = []"
| "profile_issues i (p # ps) =
     issue_if (\<not> is_dict p \<or> \<not> profile_supported p) ''PROVIDER_PROFILE_INVALID'' (indexed ''providerProfiles'' i)
     @ profile_issues (Suc i) ps"

definition tax_value_valid :: "string \<Rightarrow> pval \<Rightarrow> bool" where
  "tax_value_valid key v \<longleftrightarrow>
     (if key = ''approvalReference'' then \<not> blank_text v
      else if key \<in> {''taxInclusive'', ''invoiceEnabled''} then is_bool v
      else if key = ''taxBasisPoints''
      then (case plain_int v of None \<Rightarrow> False | Some bp \<Rightarrow> 0 \<le> bp \<and> bp \<le> 10000)
      else if key = ''rounding'' then in_strs tax_roundings v
      else in_strs invoice_triggers v)"

definition tax_issues :: "pval \<Rightarrow> issue list" where
  "tax_issues raw =
     (let tax = (if is_dict raw then raw else PDict []); seller = dget tax ''sellerProfile'' in
      issue_if (\<not> is_dict raw) ''TAX_POLICY_INVALID'' ''taxInvoice''
      @ concat (map (\<lambda>key. issue_if (dget tax key \<noteq> PNone \<and> \<not> tax_value_valid key (dget tax key))
            ''TAX_POLICY_INVALID'' (''taxInvoice.'' @ key))
          [''approvalReference'', ''taxInclusive'', ''invoiceEnabled'', ''taxBasisPoints'', ''rounding'',
           ''invoiceTrigger''])
      @ issue_if (seller \<noteq> PNone \<and> (\<not> is_dict seller
            \<or> list_ex (\<lambda>e. case snd e of PNone \<Rightarrow> False | PStr s \<Rightarrow> 1000 < py_len s | _ \<Rightarrow> True) (entries seller)))
          ''TAX_POLICY_INVALID'' ''taxInvoice.sellerProfile'')"

definition tax_price_matches :: "pval \<Rightarrow> pval \<Rightarrow> bool" where
  "tax_price_matches tax price \<longleftrightarrow>
     (case calculate_tax_price (if dget tax ''taxInclusive'' = PBool True then dget price ''total''
            else dget price ''subtotal'') tax (dget price ''period'') of
        Inl _ \<Rightarrow> False
      | Inr p \<Rightarrow> price_amounts price = [PInt (tp_subtotal p), PInt (tp_tax p), PInt (tp_total p)])"

fun tax_price_issues :: "pval \<Rightarrow> nat \<Rightarrow> pval list \<Rightarrow> issue list" where
  "tax_price_issues tax i [] = []"
| "tax_price_issues tax i (offer # offers) =
     issue_if (is_dict offer \<and> is_dict (dget offer ''price'')
         \<and> list_all amount_ok (price_amounts (dget offer ''price''))
         \<and> \<not> tax_price_matches tax (dget offer ''price''))
       ''TAX_PRICE_MISMATCH'' (indexed ''offers'' i @ ''.price'')
     @ tax_price_issues tax (Suc i) offers"

definition healthy_profile :: "pval \<Rightarrow> bool" where
  "healthy_profile p \<longleftrightarrow> dget p ''provider'' = PStr ''payos'' \<and> dget p ''environment'' = PStr ''production''
     \<and> dget p ''mode'' = PStr ''live'' \<and> dget p ''readiness'' = PStr ''ready''
     \<and> \<not> blank_text (dget p ''credentialReference'')"

definition readiness_issues :: "pval \<Rightarrow> pval list \<Rightarrow> issue list" where
  "readiness_issues tax profiles =
     (let enabled = dget tax ''invoiceEnabled'';
          required = [''taxInclusive'', ''taxBasisPoints'', ''rounding'']
            @ (if enabled \<noteq> PBool False then [''invoiceTrigger''] else [])
      in issue_if (list_ex (\<lambda>key. dget tax key = PNone) required) ''BLOCKED_EXTERNAL'' ''taxInvoice''
         @ issue_if (enabled = PBool True \<and> dget tax ''invoiceTrigger'' = PStr ''disabled'')
             ''TAX_POLICY_INVALID'' ''taxInvoice.invoiceTrigger''
         @ issue_if (\<not> list_ex healthy_profile (filter (\<lambda>p. is_dict p \<and> profile_supported p) profiles))
             ''NO_HEALTHY_PROVIDER'' ''providerProfiles'')"

section \<open>The validator\<close>

record impact =
  im_offers :: nat
  im_packs :: nat
  im_savings :: "plan_saving list"
  im_rollout :: pval

record validation =
  vd_errors :: "issue list"
  vd_warnings :: "issue list"
  vd_impact :: "impact option"

definition head_issues :: "pval \<Rightarrow> string \<Rightarrow> issue list" where
  "head_issues document encoded =
     issue_if (max_document_bytes < int (length encoded)) ''DOCUMENT_TOO_LARGE'' ''$''
     @ issue_if (max_depth < document_depth document 0) ''DOCUMENT_TOO_DEEP'' ''$''
     @ issue_if (\<not> py_eq (dget document ''schemaVersion'') (PInt 1)) ''UNSUPPORTED_SCHEMA'' ''schemaVersion''
     @ issue_if (dget document ''currency'' \<noteq> PStr ''VND'') ''CURRENCY_INVALID'' ''currency''
     @ issue_if (dget document ''timezone'' \<noteq> PStr ''Asia/Ho_Chi_Minh'') ''TIMEZONE_INVALID'' ''timezone''"

definition offer_list :: "pval \<Rightarrow> pval list option" where
  "offer_list v = (case v of PList xs \<Rightarrow> if max_offers < length xs then None else Some xs | _ \<Rightarrow> None)"

definition pack_list :: "pval \<Rightarrow> pval list option" where
  "pack_list v = (case v of
     PList xs \<Rightarrow> if xs = [] \<or> max_credit_packs < length xs then None else Some xs | _ \<Rightarrow> None)"

definition listed :: "pval list option \<Rightarrow> pval list" where
  "listed l = (case l of None \<Rightarrow> [] | Some xs \<Rightarrow> xs)"

definition validate_document :: "pval \<Rightarrow> bool \<Rightarrow> py_exn + validation" where
  "validate_document document require_production_ready =
     (case canonical_json document of
        Inl _ \<Rightarrow> Inr \<lparr>vd_errors = [(''INVALID_JSON'', ''$'')], vd_warnings = [], vd_impact = None\<rparr>
      | Inr encoded \<Rightarrow>
          if \<not> is_dict document
          then Inr \<lparr>vd_errors = [(''DOCUMENT_OBJECT_REQUIRED'', ''$'')], vd_warnings = [], vd_impact = None\<rparr>
          else
            let offers = listed (offer_list (dget document ''offers''));
                packs = listed (pack_list (dget document ''creditPacks''));
                policies = or_empty (dget document ''policies'');
                profiles = listed (profile_list (dget document ''providerProfiles''));
                raw_tax = or_empty (dget document ''taxInvoice'');
                tax = (if is_dict raw_tax then raw_tax else PDict [])
            in
            res_bind (check_offers document offers 0 offers [] []) (\<lambda>(offer_issues, pairs).
            res_bind (check_packs 0 packs []) (\<lambda>pack_issues.
            res_bind (policy_issues policies offers) (\<lambda>rules.
            let before = head_issues document encoded
                  @ issue_if (offer_list (dget document ''offers'') = None) ''OFFERS_INVALID'' ''offers''
                  @ offer_issues @ matrix_issues pairs
                  @ issue_if (pack_list (dget document ''creditPacks'') = None) ''CREDIT_PACKS_INVALID'' ''creditPacks''
                  @ pack_issues @ rules;
                threshold = (case advantage_threshold policies of None \<Rightarrow> 0 | Some t \<Rightarrow> t)
            in
            res_bind (savings_of document offers packs before) (\<lambda>savings.
            res_bind (get_attr (or_empty (dget document ''rollout'')) ''mode'') (\<lambda>mode.
            res_bind (in_str_set [''shadow'', ''pilot'', ''production''] mode) (\<lambda>known_mode.
            let ready = in_strs [''pilot'', ''production''] mode \<or> require_production_ready;
                errors = before @ saving_issues threshold savings
                  @ issue_if (\<not> known_mode) ''ROLLOUT_MODE_INVALID'' ''rollout.mode''
                  @ issue_if (profile_list (dget document ''providerProfiles'') = None)
                      ''PROVIDER_PROFILE_INVALID'' ''providerProfiles''
                  @ profile_issues 0 profiles @ tax_issues raw_tax
                  @ (if tax_arithmetic_configured tax then tax_price_issues tax 0 offers else [])
                  @ (if ready then readiness_issues tax profiles else [])
            in Inr \<lparr>vd_errors = errors,
                    vd_warnings = (if ready then [] else [(''SHADOW_ONLY'', ''rollout.mode'')]),
                    vd_impact = Some \<lparr>im_offers = length offers, im_packs = length packs,
                      im_savings = savings, im_rollout = mode\<rparr>\<rparr>)))))))"

end
