(* ===== verification/Commercial_Laws.thy ===== *)
theory Commercial_Laws
  imports Commercial_Rules
begin

text \<open>
  What the commercial arithmetic promises: the rounding of the tax, and that the dynamic
  programme over credit packs finds the cheapest purchase.
\<close>

section \<open>Tax\<close>

text \<open>The deviation of a rounded quotient from the exact one, scaled by the denominator.\<close>

lemma rounded_ratio_bounds:
  fixes a d :: int
  assumes "0 < d"
  shows "rounded_ratio a d ''floor'' * d \<le> a \<and> a < rounded_ratio a d ''floor'' * d + d"
    and "a \<le> rounded_ratio a d ''ceil'' * d \<and> rounded_ratio a d ''ceil'' * d < a + d"
    and "2 * a < 2 * rounded_ratio a d ''half_up'' * d + d
      \<and> 2 * rounded_ratio a d ''half_up'' * d \<le> 2 * a + d"
proof -
  obtain q r where qr: "q = a div d" "r = a mod d" by blast
  then have a: "a = q * d + r" and m: "0 \<le> r" "r < d" using assms by simp_all
  note ratio = rounded_ratio_def Let_def qr [symmetric]
  show "rounded_ratio a d ''floor'' * d \<le> a \<and> a < rounded_ratio a d ''floor'' * d + d"
    using a m by (simp add: ratio)
  show "a \<le> rounded_ratio a d ''ceil'' * d \<and> rounded_ratio a d ''ceil'' * d < a + d"
    using a m by (auto simp: ratio algebra_simps)
  show "2 * a < 2 * rounded_ratio a d ''half_up'' * d + d
      \<and> 2 * rounded_ratio a d ''half_up'' * d \<le> 2 * a + d"
    using a m by (auto simp: ratio algebra_simps)
qed

lemma rounded_ratio_range:
  fixes a d :: int
  assumes "0 < d" and "0 \<le> a" and "a \<le> n * d"
  shows "0 \<le> rounded_ratio a d r \<and> rounded_ratio a d r \<le> n"
proof -
  have q: "0 \<le> a div d" "a div d \<le> n"
    using assms zdiv_mono1[OF assms(3,1)] by (simp_all add: pos_imp_zdiv_nonneg_iff)
  have "a div d + 1 \<le> n" if "0 < a mod d"
  proof (rule ccontr)
    assume "\<not> ?thesis"
    then have "a div d = n" using q by simp
    then have "a = n * d + a mod d" by (metis div_mult_mod_eq)
    then show False using assms(3) that by simp
  qed
  moreover have "0 < a mod d" if "d \<le> a mod d * 2" using assms(1) that by linarith
  ultimately show ?thesis using q by (auto simp: rounded_ratio_def Let_def)
qed

text \<open>How far the tax may be from the exact share of the net price, scaled by 10000.\<close>

definition tax_deviation_ok :: "string \<Rightarrow> int \<Rightarrow> int \<Rightarrow> bool" where
  "tax_deviation_ok rounding step dev \<longleftrightarrow>
     (if rounding = ''floor'' then - step < dev \<and> dev \<le> 0
      else if rounding = ''ceil'' then 0 \<le> dev \<and> dev < step
      else - step < 2 * dev \<and> 2 * dev \<le> step)"

lemma deviation_inclusive:
  fixes t a bp :: int
  shows "10000 * t - (a - t) * bp = t * (10000 + bp) - a * bp"
  by (simp add: algebra_simps)

lemma configured_tax:
  assumes "tax_arithmetic_configured policy"
  obtains incl bp r where "dget policy ''taxInclusive'' = PBool incl"
    and "dget policy ''taxBasisPoints'' = PInt bp" and "0 \<le> bp" and "bp \<le> 10000"
    and "dget policy ''rounding'' = PStr r" and "r \<in> set tax_roundings"
  using assms by (auto simp: tax_arithmetic_configured_def elim!: in_strsE is_bool.elims split: option.splits)

text \<open>
  A price with tax is exact money: subtotal and tax are not negative and add up to the total;
  the configured amount is the total when prices include the tax and the subtotal otherwise; and
  the tax differs from the exact rate of the subtotal by less than one unit, downwards for
  \<open>floor\<close>, upwards for \<open>ceil\<close> and by at most half a unit for \<open>half_up\<close>.
\<close>

lemma tax_price_exact:
  assumes "calculate_tax_price amount policy period = Inr p"
  shows "tp_total p = tp_subtotal p + tp_tax p \<and> 0 \<le> tp_tax p \<and> 0 \<le> tp_subtotal p
    \<and> py_int amount = Inr (if tax_arithmetic_configured policy \<and> dget policy ''taxInclusive'' = PBool True
        then tp_total p else tp_subtotal p)
    \<and> (\<not> tax_arithmetic_configured policy \<longrightarrow> tp_tax p = 0)
    \<and> (tax_arithmetic_configured policy \<longrightarrow>
        tax_deviation_ok (str_value (dget policy ''rounding''))
          (if dget policy ''taxInclusive'' = PBool True
           then 10000 + int_value (dget policy ''taxBasisPoints'') else 10000)
          (10000 * tp_tax p - tp_subtotal p * int_value (dget policy ''taxBasisPoints'')))"
proof -
  obtain a where a: "py_int amount = Inr a" "0 \<le> a"
    using assms by (auto simp: calculate_tax_price_def res_simps split: if_splits)
  show ?thesis
  proof (cases "tax_arithmetic_configured policy")
    case True
    then obtain incl bp r where c: "dget policy ''taxInclusive'' = PBool incl"
        "dget policy ''taxBasisPoints'' = PInt bp" "0 \<le> bp" "bp \<le> 10000"
        "dget policy ''rounding'' = PStr r" "r \<in> set tax_roundings"
      by (rule configured_tax)
    define d where "d = (if incl then 10000 + bp else 10000)"
    define t where "t = rounded_ratio (a * bp) d r"
    have p: "tp_tax p = t" "tp_subtotal p = (if incl then a - t else a)"
        "tp_total p = tp_subtotal p + tp_tax p"
      using assms a True c by (auto simp: calculate_tax_price_def Let_def t_def d_def)
    have d: "0 < d" using c(3) by (simp add: d_def)
    have "a * bp \<le> a * d" using a(2) c(3,4) unfolding d_def by (intro mult_left_mono) auto
    then have t: "0 \<le> t" "t \<le> a"
      using rounded_ratio_range[OF d, of "a * bp" a r] a(2) c(3) by (simp_all add: t_def)
    have dev: "10000 * tp_tax p - tp_subtotal p * bp = t * d - a * bp"
      unfolding p d_def using deviation_inclusive[of t a bp] by (cases incl) simp_all
    have "tax_deviation_ok r d (t * d - a * bp)"
      using c(6) rounded_ratio_bounds[OF d, of "a * bp"] unfolding t_def
      by (auto simp: tax_deviation_ok_def tax_roundings_def)
    then have "tax_deviation_ok (str_value (dget policy ''rounding''))
        (if dget policy ''taxInclusive'' = PBool True
         then 10000 + int_value (dget policy ''taxBasisPoints'') else 10000)
        (10000 * tp_tax p - tp_subtotal p * int_value (dget policy ''taxBasisPoints''))"
      unfolding c(1,2,5) by (simp only: str_value.simps int_value.simps dev d_def pval.inject simp_thms)
    moreover have "0 \<le> tp_tax p" "0 \<le> tp_subtotal p" using p t a(2) by simp_all
    moreover have "a = (if incl then tp_total p else tp_subtotal p)" using p by simp
    ultimately show ?thesis using p(3) a(1) True c(1) by simp
  next
    case False
    then show ?thesis using assms a by (auto simp: calculate_tax_price_def Let_def)
  qed
qed

section \<open>Credit packs\<close>

text \<open>A purchase is a list of packs.\<close>

definition bought :: "(nat \<times> int) list \<Rightarrow> nat" where
  "bought ps = sum_list (map fst ps)"

definition paid :: "(nat \<times> int) list \<Rightarrow> int" where
  "paid ps = sum_list (map snd ps)"

lemma bought_simps [simp]: "bought [] = 0" "bought (p # ps) = fst p + bought ps"
  by (simp_all add: bought_def)

lemma paid_simps [simp]: "paid [] = 0" "paid (p # ps) = snd p + paid ps"
  by (simp_all add: paid_def)

lemma unreachable_pos: "0 < unreachable"
  by (simp add: unreachable_def)

text \<open>The table holds at every index the cost of a purchase, or the sentinel.\<close>

definition costs_sound :: "nat \<Rightarrow> (nat \<times> int) list \<Rightarrow> int list \<Rightarrow> bool" where
  "costs_sound cap packs costs \<longleftrightarrow> length costs = Suc cap \<and> costs ! 0 = 0
     \<and> (\<forall>j \<le> cap. costs ! j \<le> unreachable)
     \<and> (\<forall>j \<le> cap. costs ! j < unreachable \<longrightarrow>
          (\<exists>ps. set ps \<subseteq> set packs \<and> min cap (bought ps) = j \<and> paid ps = costs ! j))"

text \<open>Quantity \<open>n\<close> has been used: no pack on cap of it improves the table.\<close>

definition relaxed :: "nat \<Rightarrow> (nat \<times> int) list \<Rightarrow> int list \<Rightarrow> nat \<Rightarrow> bool" where
  "relaxed cap packs costs n \<longleftrightarrow> (costs ! n < unreachable \<longrightarrow>
     (\<forall>p \<in> set packs. costs ! min cap (n + fst p) \<le> costs ! n + snd p))"

lemma relax_pack_sound:
  assumes ok: "costs_sound cap packs costs" and q: "q \<le> cap" "costs ! q < unreachable"
    and p: "p \<in> set packs" "0 < fst p" "0 < snd p"
  shows "costs_sound cap packs (relax_pack q p costs)
    \<and> (\<forall>j. relax_pack q p costs ! j \<le> costs ! j)
    \<and> (\<forall>j \<le> q. relax_pack q p costs ! j = costs ! j)
    \<and> relax_pack q p costs ! min cap (q + fst p) \<le> costs ! q + snd p"
proof -
  let ?f = "min cap (q + fst p)"
  have len: "length costs = Suc cap" using ok by (simp add: costs_sound_def)
  have upd: "relax_pack q p costs = costs[?f := min (costs ! ?f) (costs ! q + snd p)]"
    by (simp add: relax_pack_def len Let_def)
  have keep: "relax_pack q p costs ! j = costs ! j" if "j \<le> q" for j
    using that p q by (cases "j = ?f") (auto simp: upd len min_def)
  have less: "relax_pack q p costs ! j \<le> costs ! j" for j
    by (cases "j = ?f") (auto simp: upd len)
  obtain ps where ps: "set ps \<subseteq> set packs" "min cap (bought ps) = q" "paid ps = costs ! q"
    using ok q by (auto simp: costs_sound_def)
  have new: "set (p # ps) \<subseteq> set packs" "min cap (bought (p # ps)) = ?f" "paid (p # ps) = costs ! q + snd p"
    using ps p(1) by auto
  have "\<exists>ps. set ps \<subseteq> set packs \<and> min cap (bought ps) = j \<and> paid ps = relax_pack q p costs ! j"
    if j: "j \<le> cap" "relax_pack q p costs ! j < unreachable" for j
  proof (cases "relax_pack q p costs ! j = costs ! j")
    case True
    then show ?thesis using ok j by (auto simp: costs_sound_def)
  next
    case False
    then have "j = ?f" "relax_pack q p costs ! j = costs ! q + snd p"
      by (auto simp: upd len nth_list_update split: if_splits)
    then show ?thesis using new by metis
  qed
  moreover have "relax_pack q p costs ! j \<le> unreachable" if "j \<le> cap" for j
    using less[of j] ok that by (auto simp: costs_sound_def intro: order_trans)
  moreover have "length (relax_pack q p costs) = Suc cap" by (simp add: upd len)
  moreover have "relax_pack q p costs ! 0 = 0" using keep[of 0] ok by (simp add: costs_sound_def)
  ultimately have "costs_sound cap packs (relax_pack q p costs)" by (simp add: costs_sound_def)
  moreover have "relax_pack q p costs ! ?f \<le> costs ! q + snd p" by (simp add: upd len)
  ultimately show ?thesis using keep less by blast
qed

lemma relax_packs_sound:
  assumes "costs_sound cap packs costs" and "q \<le> cap" and "costs ! q < unreachable"
    and "set ps \<subseteq> set packs" and "\<And>p. p \<in> set packs \<Longrightarrow> 0 < fst p \<and> 0 < snd p"
  shows "costs_sound cap packs (fold (relax_pack q) ps costs)
    \<and> (\<forall>j. fold (relax_pack q) ps costs ! j \<le> costs ! j)
    \<and> (\<forall>j \<le> q. fold (relax_pack q) ps costs ! j = costs ! j)
    \<and> (\<forall>p \<in> set ps. fold (relax_pack q) ps costs ! min cap (q + fst p) \<le> costs ! q + snd p)"
  using assms
proof (induction ps arbitrary: costs)
  case (Cons p ps)
  let ?c = "relax_pack q p costs"
  have step: "costs_sound cap packs ?c" "\<forall>j. ?c ! j \<le> costs ! j" "\<forall>j \<le> q. ?c ! j = costs ! j"
      "?c ! min cap (q + fst p) \<le> costs ! q + snd p"
    using relax_pack_sound[OF Cons.prems(1-3), of p] Cons.prems(4,5) by auto
  then have "?c ! q < unreachable" using Cons.prems(3) by simp
  note rest = Cons.IH[OF step(1) Cons.prems(2) this _ Cons.prems(5)]
  then show ?case using step Cons.prems(4)
    by simp (meson order_trans)
qed simp

lemma relax_quantity_sound:
  assumes ok: "costs_sound cap packs costs" and k: "k \<le> cap"
    and closed: "\<forall>n < k. relaxed cap packs costs n"
    and pos: "\<And>p. p \<in> set packs \<Longrightarrow> 0 < fst p \<and> 0 < snd p"
  shows "costs_sound cap packs (relax_quantity packs k costs)
    \<and> (\<forall>n < Suc k. relaxed cap packs (relax_quantity packs k costs) n)"
proof (cases "costs ! k = unreachable")
  case True
  then show ?thesis using assms by (simp add: relax_quantity_def relaxed_def less_Suc_eq)
next
  case False
  then have lt: "costs ! k < unreachable" using ok k by (auto simp: costs_sound_def le_less)
  let ?c = "fold (relax_pack k) packs costs"
  note step = relax_packs_sound[OF ok k lt order_refl pos]
  have "relaxed cap packs ?c n" if "n < Suc k" for n
  proof (cases "n = k")
    case True
    then show ?thesis using step by (simp add: relaxed_def)
  next
    case neq: False
    then have "?c ! n = costs ! n" "relaxed cap packs costs n" using that step closed by simp_all
    then show ?thesis using step unfolding relaxed_def by (metis order_trans)
  qed
  then show ?thesis using step False by (simp add: relax_quantity_def)
qed

lemma pack_costs_sound:
  assumes pos: "\<And>p. p \<in> set packs \<Longrightarrow> 0 < fst p \<and> 0 < snd p"
    and cap: "cap = target + Max (set (map fst packs))"
  shows "costs_sound cap packs (pack_costs target packs)
    \<and> (\<forall>n \<le> cap. relaxed cap packs (pack_costs target packs) n)"
proof -
  let ?init = "(replicate (Suc cap) unreachable)[0 := 0]"
  have init: "?init ! 0 = 0" "\<And>j. 0 < j \<Longrightarrow> j \<le> cap \<Longrightarrow> ?init ! j = unreachable"
    by (simp_all del: replicate_Suc)
  have "costs_sound cap packs ?init"
    unfolding costs_sound_def
  proof (intro conjI allI impI)
    fix j assume j: "j \<le> cap"
    show "?init ! j \<le> unreachable" using init j unreachable_pos by (cases "j = 0") auto
    assume "?init ! j < unreachable"
    then have "j = 0" using init(2)[of j] j by (cases "j = 0") auto
    then show "\<exists>ps. set ps \<subseteq> set packs \<and> min cap (bought ps) = j \<and> paid ps = ?init ! j"
      using init(1) by (intro exI[of _ "[]"]) simp
  qed (use init in simp_all)
  then have "costs_sound cap packs (fold (relax_quantity packs) [0..<k] ?init)
      \<and> (\<forall>n < k. relaxed cap packs (fold (relax_quantity packs) [0..<k] ?init) n)" if "k \<le> Suc cap" for k
    using that
  proof (induction k)
    case (Suc k)
    then show ?case using relax_quantity_sound[of cap packs _ k] pos by simp
  qed simp
  from this[of "Suc cap"] show ?thesis
    by (simp add: pack_costs_def cap Let_def less_Suc_eq_le del: replicate_Suc upt_Suc)
qed

lemma relaxed_lower_bound:
  assumes "costs_sound cap packs costs" and "\<forall>n \<le> cap. relaxed cap packs costs n"
    and "set ps \<subseteq> set packs" and "\<And>p. p \<in> set packs \<Longrightarrow> 0 < snd p"
  shows "costs ! min cap (bought ps) \<le> paid ps"
  using assms(3)
proof (induction ps)
  case Nil
  then show ?case using assms(1) by (simp add: costs_sound_def)
next
  case (Cons p ps)
  let ?n = "min cap (bought ps)"
  have IH: "costs ! ?n \<le> paid ps" and p: "p \<in> set packs" using Cons by auto
  have eq: "min cap (bought (p # ps)) = min cap (?n + fst p)" by auto
  have le: "costs ! min cap (?n + fst p) \<le> unreachable" using assms(1) by (simp add: costs_sound_def)
  show ?case
  proof (cases "costs ! ?n < unreachable")
    case True
    then have "costs ! min cap (?n + fst p) \<le> costs ! ?n + snd p"
      using assms(2) p unfolding relaxed_def by (meson min.cobounded1)
    then show ?thesis using IH unfolding eq by simp
  next
    case False
    then show ?thesis using le IH assms(4)[OF p] unfolding eq by simp
  qed
qed

text \<open>
  C13: The dynamic programme finds the cheapest purchase: no list of the offered packs that
  reaches the quota costs less than \<open>_minimum_pack_cost\<close>, and unless even the sentinel
  \<open>10**30\<close> is cheaper than every purchase, some list of packs costs exactly that.
\<close>

theorem minimum_pack_cost_optimal:
  assumes pos: "\<forall>p \<in> set packs. 0 < fst p \<and> 0 < snd p"
  shows "(\<forall>ps. set ps \<subseteq> set packs \<longrightarrow> target \<le> bought ps \<longrightarrow> minimum_pack_cost target packs \<le> paid ps)
    \<and> (minimum_pack_cost target packs < unreachable \<longrightarrow>
        (\<exists>ps. set ps \<subseteq> set packs \<and> target \<le> bought ps \<and> paid ps = minimum_pack_cost target packs))"
proof -
  define cap where "cap = target + Max (set (map fst packs))"
  let ?c = "pack_costs target packs"
  have sound: "costs_sound cap packs ?c" and closed: "\<forall>n \<le> cap. relaxed cap packs ?c n"
    using pack_costs_sound[OF _ cap_def] pos by blast+
  have len: "length ?c = Suc cap" and tt: "target \<le> cap"
    using sound by (simp_all add: costs_sound_def cap_def)
  have tail: "set (drop target ?c) = (\<lambda>j. ?c ! j) ` {target..cap}"
  proof -
    have "drop target ?c = map ((!) ?c) [target..<Suc cap]"
      by (rule nth_equalityI) (auto simp: len simp del: upt_Suc)
    then show ?thesis by (simp add: atLeastLessThanSuc_atLeastAtMost del: upt_Suc)
  qed
  have lower: "minimum_pack_cost target packs \<le> paid ps"
    if "set ps \<subseteq> set packs" "target \<le> bought ps" for ps
  proof -
    have "?c ! min cap (bought ps) \<in> set (drop target ?c)" unfolding tail using that(2) tt by auto
    then have "minimum_pack_cost target packs \<le> ?c ! min cap (bought ps)"
      by (simp add: minimum_pack_cost_def)
    also have "\<dots> \<le> paid ps" using relaxed_lower_bound[OF sound closed that(1)] pos by blast
    finally show ?thesis .
  qed
  have "minimum_pack_cost target packs \<in> set (drop target ?c)"
    unfolding minimum_pack_cost_def using len tt by (intro Min_in) auto
  then obtain j where j: "target \<le> j" "j \<le> cap" "minimum_pack_cost target packs = ?c ! j"
    unfolding tail by auto
  have "\<exists>ps. set ps \<subseteq> set packs \<and> target \<le> bought ps \<and> paid ps = minimum_pack_cost target packs"
    if "minimum_pack_cost target packs < unreachable"
  proof -
    have "\<exists>ps. set ps \<subseteq> set packs \<and> min cap (bought ps) = j \<and> paid ps = ?c ! j"
      using sound j(2) that unfolding costs_sound_def j(3) by blast
    then obtain ps where "set ps \<subseteq> set packs" "min cap (bought ps) = j" "paid ps = ?c ! j"
      by (elim exE conjE) (rule that)
    then show ?thesis using j by (intro exI[of _ ps]) auto
  qed
  with lower show ?thesis by blast
qed

end
