(* ===== verification/Commercial_Document_Laws.thy ===== *)
theory Commercial_Document_Laws
  imports Commercial_Document Commercial_Laws
begin

text \<open>
  What a commercial document without findings guarantees to the code that sells from it, and
  where the validator raises instead of reporting.
\<close>

section \<open>Clean offers and packs\<close>

text \<open>An offer that can be sold: exact money, bounded quotas and a known owner.\<close>

definition sellable_offer :: "pval \<Rightarrow> bool" where
  "sellable_offer offer \<longleftrightarrow> offer_code offer \<noteq> []
     \<and> (\<exists>s t. price_amounts (dget offer ''price'') = [PInt s, PInt t, PInt (s + t)] \<and> 0 \<le> s \<and> 0 \<le> t)
     \<and> (\<exists>m. dget offer ''memberQuota'' = PInt m \<and> 1 \<le> m \<and> m \<le> max_credit_units)
     \<and> (\<exists>q. dget offer ''includedProcurementQuota'' = PInt q \<and> 0 \<le> q \<and> q \<le> max_credit_units)
     \<and> in_strs owner_kinds (dget offer ''ownerKind'')
     \<and> (\<exists>caps. dget offer ''exportCapabilities'' = PDict caps \<and> set (map fst caps) = set export_capabilities
          \<and> list_all (\<lambda>e. is_bool (snd e)) caps)"

definition sellable_pack :: "pval \<Rightarrow> bool" where
  "sellable_pack pack \<longleftrightarrow> offer_code pack \<noteq> []
     \<and> (\<exists>q. dget pack ''quantity'' = PInt q \<and> 0 < q \<and> q \<le> max_credit_units)
     \<and> (\<exists>p. dget pack ''price'' = PInt p \<and> 0 < p)"

lemma amount_ok_iff: "amount_ok v \<longleftrightarrow> (\<exists>i. v = PInt i \<and> 0 \<le> i)"
  by (cases v) auto

lemma quota_issues_Nil:
  "quota_issues path offer field least = [] \<longleftrightarrow>
     (\<exists>n. dget offer field = PInt n \<and> least \<le> n \<and> n \<le> max_credit_units)"
  by (auto simp: quota_issues_def split: option.splits)

lemma price_issues_Nil:
  assumes "price_issues path offer = []"
  shows "is_dict (dget offer ''price'')
    \<and> (\<exists>s t. price_amounts (dget offer ''price'') = [PInt s, PInt t, PInt (s + t)] \<and> 0 \<le> s \<and> 0 \<le> t)"
  using assms
  by (auto simp: price_issues_def Let_def offer_price_def price_amounts_def amount_ok_iff split: if_splits)

lemma capability_issues_Nil:
  assumes "capability_issues path offer = Inr []"
  shows "\<exists>caps. dget offer ''exportCapabilities'' = PDict caps \<and> set (map fst caps) = set export_capabilities
    \<and> list_all (\<lambda>e. is_bool (snd e)) caps"
  using assms by (auto simp: capability_issues_def Let_def split: pval.splits if_splits)

lemma clean_offer:
  assumes "identity_issues path codes pairs offer = Inr []" and "kind_issues path offer = []"
    and "price_issues path offer = []" and "capability_issues path offer = Inr []"
  shows "sellable_offer offer \<and> offer_code offer \<notin> set codes"
proof -
  have "offer_code offer \<noteq> []" "offer_code offer \<notin> set codes"
    using assms(1) by (auto simp: identity_issues_def Let_def split: if_splits)
  then show ?thesis
    using assms(2) price_issues_Nil[OF assms(3)] capability_issues_Nil[OF assms(4)]
    by (simp add: sellable_offer_def kind_issues_def quota_issues_Nil)
qed

lemma clean_offers:
  assumes "check_offers document offers i os codes pairs = Inr ([], pairs')"
  shows "(\<forall>x \<in> set os. sellable_offer x) \<and> distinct (map offer_code os)
    \<and> set codes \<inter> offer_code ` set os = {} \<and> set pairs' = offer_pair ` set os \<union> set pairs"
  using assms
proof (induction os arbitrary: i codes pairs)
  case (Cons x os)
  let ?path = "indexed ''offers'' i"
  have x: "is_dict x" using Cons.prems by (auto simp: Let_def res_simps split: if_splits)
  then have own: "identity_issues ?path codes pairs x = Inr []" "capability_issues ?path x = Inr []"
      "kind_issues ?path x = []" "price_issues ?path x = []"
    and rest: "check_offers document offers (Suc i) os (offer_code x # codes) (offer_pair x # pairs) = Inr ([], pairs')"
    using Cons.prems by (auto simp: Let_def res_simps)
  show ?case
    using Cons.IH[OF rest] clean_offer[OF own(1,3,4,2)] by auto
qed simp

lemma pack_field_Nil:
  "pack_field_issues i pack field = [] \<longleftrightarrow>
     (\<exists>n. dget pack field = PInt n \<and> 0 < n \<and> (field = ''quantity'' \<longrightarrow> n \<le> max_credit_units))"
  by (auto simp: pack_field_issues_def Let_def split: option.splits)

lemma clean_packs:
  assumes "check_packs i packs codes = Inr []"
  shows "(\<forall>x \<in> set packs. sellable_pack x) \<and> distinct (map offer_code packs)
    \<and> set codes \<inter> offer_code ` set packs = {}"
  using assms
proof (induction packs arbitrary: i codes)
  case (Cons x packs)
  then have rest: "check_packs (Suc i) packs (offer_code x # codes) = Inr []"
    and x: "offer_code x \<noteq> []" "offer_code x \<notin> set codes"
      "pack_field_issues i x ''quantity'' = []" "pack_field_issues i x ''price'' = []"
    by (auto simp: Let_def res_simps split: if_splits)
  show ?case using Cons.IH[OF rest] x by (auto simp: sellable_pack_def pack_field_Nil)
qed simp

section \<open>The accepted document\<close>

text \<open>The parts of a run that reports nothing.\<close>

lemma validate_clean:
  assumes "validate_document document strict = Inr r" and "vd_errors r = []"
  obtains encoded offers packs pairs savings mode where
    "canonical_json document = Inr encoded" and "is_dict document"
    and "dget document ''offers'' = PList offers" and "length offers \<le> max_offers"
    and "dget document ''creditPacks'' = PList packs" and "packs \<noteq> []"
    and "check_offers document offers 0 offers [] [] = Inr ([], pairs)" and "matrix_issues pairs = []"
    and "check_packs 0 packs [] = Inr []"
    and "savings_of document offers packs [] = Inr savings"
    and "saving_issues (case advantage_threshold (or_empty (dget document ''policies'')) of
           None \<Rightarrow> 0 | Some t \<Rightarrow> t) savings = []"
    and "advantage_threshold (or_empty (dget document ''policies'')) \<noteq> None"
    and "get_attr (or_empty (dget document ''rollout'')) ''mode'' = Inr mode"
    and "tax_issues (or_empty (dget document ''taxInvoice'')) = []"
    and "tax_arithmetic_configured (or_empty (dget document ''taxInvoice'')) \<Longrightarrow>
      tax_price_issues (or_empty (dget document ''taxInvoice'')) 0 offers = []"
    and "in_strs [''pilot'', ''production''] mode \<or> strict \<Longrightarrow>
      readiness_issues (or_empty (dget document ''taxInvoice''))
        (listed (profile_list (dget document ''providerProfiles''))) = []"
    and "im_savings (the (vd_impact r)) = savings"
proof -
  obtain encoded where enc: "canonical_json document = Inr encoded" and dict: "is_dict document"
    using assms by (auto simp: validate_document_def split: sum.splits if_splits)
  let ?offers = "listed (offer_list (dget document ''offers''))"
    and ?packs = "listed (pack_list (dget document ''creditPacks''))"
    and ?policies = "or_empty (dget document ''policies'')"
    and ?tax = "or_empty (dget document ''taxInvoice'')"
  note run = assms(1)[unfolded validate_document_def enc sum.case Let_def, simplified dict]
  obtain oi pairs where o: "check_offers document ?offers 0 ?offers [] [] = Inr (oi, pairs)"
    using run by (auto simp: res_simps)
  note run = run[unfolded o, simplified]
  obtain pi where p: "check_packs 0 ?packs [] = Inr pi" using run by (auto simp: res_simps)
  note run = run[unfolded p, simplified]
  obtain rules where ru: "policy_issues ?policies ?offers = Inr rules" using run by (auto simp: res_simps)
  note run = run[unfolded ru, simplified]
  let ?before = "head_issues document encoded
     @ issue_if (offer_list (dget document ''offers'') = None) ''OFFERS_INVALID'' ''offers''
     @ oi @ matrix_issues pairs
     @ issue_if (pack_list (dget document ''creditPacks'') = None) ''CREDIT_PACKS_INVALID'' ''creditPacks''
     @ pi @ rules"
  obtain savings where sv: "savings_of document ?offers ?packs ?before = Inr savings"
    using run by (auto simp: res_simps)
  note run = run[unfolded sv, simplified]
  obtain mode where mo: "get_attr (or_empty (dget document ''rollout'')) ''mode'' = Inr mode"
    using run by (auto simp: res_simps)
  note run = run[unfolded mo, simplified]
  obtain known where kn: "in_str_set [''shadow'', ''pilot'', ''production''] mode = Inr known"
    using run by (auto simp: res_simps)
  note run = run[unfolded kn, simplified]
  have errors: "?before = []" "profile_list (dget document ''providerProfiles'') \<noteq> None"
      "saving_issues (case advantage_threshold ?policies of None \<Rightarrow> 0 | Some t \<Rightarrow> t) savings = []"
      "tax_issues ?tax = []"
    using run assms(2) by (auto simp: split: if_splits)
  have tax: "is_dict ?tax" using errors(4) by (simp add: tax_issues_def Let_def)
  have prices: "tax_price_issues ?tax 0 ?offers = []" if "tax_arithmetic_configured ?tax"
    using run assms(2) that tax by (auto split: if_splits)
  have ready: "readiness_issues ?tax (listed (profile_list (dget document ''providerProfiles''))) = []"
    if "in_strs [''pilot'', ''production''] mode \<or> strict"
    using run assms(2) that tax by (auto split: if_splits)
  obtain offers where offers: "dget document ''offers'' = PList offers" "length offers \<le> max_offers"
    using errors(1) by (auto simp: offer_list_def split: pval.splits if_splits)
  obtain packs where packs: "dget document ''creditPacks'' = PList packs" "packs \<noteq> []" "?packs = packs"
    using errors(1) by (auto simp: pack_list_def listed_def split: pval.splits if_splits)
  have "?offers = offers" using offers by (simp add: offer_list_def listed_def)
  moreover have "advantage_threshold ?policies \<noteq> None"
    using ru errors(1) by (auto simp: policy_issues_def res_simps split: if_splits)
  moreover have "im_savings (the (vd_impact r)) = savings" using run by auto
  ultimately show thesis
    using that[OF enc dict offers packs(1,2)] o p sv mo errors prices ready packs(3) by simp
qed

lemma matrix_complete:
  assumes "matrix_issues pairs = []" and "set pairs = offer_pair ` set offers"
    and "t \<in> set supported_tiers" and "v \<in> set supported_variants"
  shows "\<exists>x \<in> set offers. offer_pair x = (PStr t, PStr v, PStr ''yearly'')"
proof -
  have "(PStr t, PStr v, PStr ''yearly'') \<in> set yearly_matrix"
    using assms(3,4) by (auto simp: yearly_matrix_def)
  then have "(PStr t, PStr v, PStr ''yearly'') \<in> set pairs"
    using assms(1) by (auto simp: matrix_issues_def set_eq_iff)
  then show ?thesis using assms(2) by force
qed

text \<open>
  C12: A document without findings can be sold from: it has at most sixteen offers with distinct
  codes, among them every scale with both variants by the year; every offer has exact money
  (total is subtotal plus tax), bounded quotas, a known owner kind and every export capability
  decided; and there is at least one pack of credits, all with distinct codes, positive
  quantities and positive prices.
\<close>

theorem validated_document_sellable:
  assumes "validate_document document strict = Inr r" and "vd_errors r = []"
  shows "\<exists>offers packs. dget document ''offers'' = PList offers \<and> dget document ''creditPacks'' = PList packs
    \<and> length offers \<le> max_offers \<and> distinct (map offer_code offers)
    \<and> (\<forall>t \<in> set supported_tiers. \<forall>v \<in> set supported_variants.
         \<exists>x \<in> set offers. offer_pair x = (PStr t, PStr v, PStr ''yearly''))
    \<and> (\<forall>x \<in> set offers. sellable_offer x)
    \<and> packs \<noteq> [] \<and> distinct (map offer_code packs) \<and> (\<forall>x \<in> set packs. sellable_pack x)"
proof -
  obtain offers packs pairs where run: "dget document ''offers'' = PList offers" "length offers \<le> max_offers"
      "dget document ''creditPacks'' = PList packs" "packs \<noteq> []"
      "check_offers document offers 0 offers [] [] = Inr ([], pairs)" "matrix_issues pairs = []"
      "check_packs 0 packs [] = Inr []"
    by (rule validate_clean[OF assms]) (rule that)
  have pairs: "set pairs = offer_pair ` set offers" using clean_offers[OF run(5)] by simp
  have "\<forall>t \<in> set supported_tiers. \<forall>v \<in> set supported_variants.
      \<exists>x \<in> set offers. offer_pair x = (PStr t, PStr v, PStr ''yearly'')"
    by (intro ballI) (rule matrix_complete[OF run(6) pairs])
  then show ?thesis
    using run(1-4) clean_offers[OF run(5)] clean_packs[OF run(7)]
    by (intro exI[of _ offers] exI[of _ packs] conjI) (elim conjE, assumption)+
qed

lemma tax_configured_when_ready:
  assumes "tax_issues tax = []" and "readiness_issues tax profiles = []"
  shows "tax_arithmetic_configured tax"
proof -
  have valid: "tax_value_valid key (dget tax key)"
    if "key \<in> {''taxInclusive'', ''taxBasisPoints'', ''rounding''}" for key
    using assms that by (auto simp: tax_issues_def readiness_issues_def Let_def split: if_splits)
  from valid[of "''taxInclusive''"] valid[of "''taxBasisPoints''"] valid[of "''rounding''"] show ?thesis
    using assms(1) by (auto simp: tax_arithmetic_configured_def tax_value_valid_def tax_issues_def Let_def)
qed

lemma tax_prices_clean:
  "tax_price_issues tax i offers = [] \<Longrightarrow> x \<in> set offers \<Longrightarrow> is_dict x \<Longrightarrow> is_dict (dget x ''price'')
    \<Longrightarrow> list_all amount_ok (price_amounts (dget x ''price'')) \<Longrightarrow> tax_price_matches tax (dget x ''price'')"
  by (induction offers arbitrary: i) auto

text \<open>
  A document that is accepted for production keeps its promises: the tax is configured and
  every offer's price is exactly the price the tax arithmetic computes, a live payment provider
  is ready, and every connected plan is cheaper than the internal plan with the cheapest credit
  packs by at least the configured advantage.
\<close>

lemma production_document_ready:
  assumes "validate_document document strict = Inr r" and "vd_errors r = []"
    and "strict \<or> dget (dget document ''rollout'') ''mode'' \<in> {PStr ''pilot'', PStr ''production''}"
  shows "tax_arithmetic_configured (dget document ''taxInvoice'')
    \<and> (\<forall>x \<in> set (listed (offer_list (dget document ''offers''))).
         tax_price_matches (dget document ''taxInvoice'') (dget x ''price''))
    \<and> (\<exists>p \<in> set (listed (profile_list (dget document ''providerProfiles''))). healthy_profile p)
    \<and> (\<exists>savings threshold. connected_savings document = Inr savings
         \<and> dget (dget document ''policies'') ''connectedAdvantageBasisPoints'' = PInt threshold
         \<and> (\<forall>s \<in> set savings. threshold \<le> sv_basis_points s))"
proof -
  let ?tax = "or_empty (dget document ''taxInvoice'')" and ?policies = "or_empty (dget document ''policies'')"
  obtain encoded offers packs pairs savings mode where run:
      "dget document ''offers'' = PList offers" "length offers \<le> max_offers"
      "packs \<noteq> []" "check_offers document offers 0 offers [] [] = Inr ([], pairs)" "matrix_issues pairs = []"
      "savings_of document offers packs [] = Inr savings"
      "saving_issues (case advantage_threshold ?policies of None \<Rightarrow> 0 | Some t \<Rightarrow> t) savings = []"
      "advantage_threshold ?policies \<noteq> None"
      "get_attr (or_empty (dget document ''rollout'')) ''mode'' = Inr mode" "tax_issues ?tax = []"
    and prices: "tax_arithmetic_configured ?tax \<Longrightarrow> tax_price_issues ?tax 0 offers = []"
    and ready: "in_strs [''pilot'', ''production''] mode \<or> strict \<Longrightarrow>
      readiness_issues ?tax (listed (profile_list (dget document ''providerProfiles''))) = []"
    by (rule validate_clean[OF assms(1,2)]) (rule that)
  have or_get: "dget (or_empty v) k = dget v k" for v k
    by (cases v) (auto simp: or_empty_def py_or_def dget_def dget_default_def)
  have "mode = dget (dget document ''rollout'') ''mode''"
    using run(9) by (auto simp: get_attr_def or_get split: if_splits)
  then have "in_strs [''pilot'', ''production''] mode \<or> strict" using assms(3) by (auto simp: in_strs_def)
  note rd = ready[OF this]
  have conf: "tax_arithmetic_configured ?tax" using tax_configured_when_ready[OF run(10) rd] .
  have tax: "?tax = dget document ''taxInvoice''"
    using conf by (auto simp: or_empty_def py_or_def tax_arithmetic_configured_def dget_def dget_default_def)
  have sellable: "\<forall>x \<in> set offers. sellable_offer x" using clean_offers[OF run(4)] by simp
  have "offers \<noteq> []"
    using matrix_complete[OF run(5), of offers "''gold''" "''internal''"] clean_offers[OF run(4)]
    by (auto simp: supported_tiers_def supported_variants_def)
  then have savings: "connected_savings document = Inr savings"
    using run(3,6) by (simp add: savings_of_def)
  obtain t where t: "advantage_threshold ?policies = Some t" using run(8) by blast
  then have "dget (dget document ''policies'') ''connectedAdvantageBasisPoints'' = PInt t"
    by (auto simp: advantage_threshold_def or_get split: option.splits if_splits)
  moreover have "\<forall>s \<in> set savings. t \<le> sv_basis_points s"
    using run(7) t by (auto simp: saving_issues_def filter_empty_conv)
  moreover have "tax_price_matches ?tax (dget x ''price'')" if x: "x \<in> set offers" for x
  proof -
    obtain s u where a: "price_amounts (dget x ''price'') = [PInt s, PInt u, PInt (s + u)]" "0 \<le> s" "0 \<le> u"
      using sellable x by (auto simp: sellable_offer_def)
    then have dict: "is_dict (dget x ''price'')"
      by (cases "dget x ''price''") (auto simp: price_amounts_def dget_def dget_default_def)
    then have "is_dict x" by (cases x) (auto simp: dget_def dget_default_def)
    then show ?thesis using tax_prices_clean[OF prices[OF conf] x _ dict] a by simp
  qed
  moreover have "\<exists>p \<in> set (listed (profile_list (dget document ''providerProfiles''))). healthy_profile p"
    using rd by (auto simp: readiness_issues_def Let_def list_ex_iff)
  ultimately show ?thesis
    using conf savings run(1,2) unfolding tax by (auto simp: offer_list_def listed_def)
qed

section \<open>The size of the canonical text\<close>

text \<open>A bound that is cheaper to compute than the text: a character takes at most six bytes.\<close>

fun text_weight :: "string \<Rightarrow> int" where
  "text_weight [] = 2"
| "text_weight (_ # cs) = 6 + text_weight cs"

function json_weight :: "pval \<Rightarrow> int" where
  "json_weight PNone = 4"
| "json_weight (PBool b) = 5"
| "json_weight (PInt i) = \<bar>i\<bar> + 2"
| "json_weight (PFloat f t) = 9 + text_weight t"
| "json_weight (PStr s) = text_weight s"
| "json_weight (PList xs) = 2 + sum_list (map (\<lambda>x. 1 + json_weight x) xs)"
| "json_weight (PDict d) = 2 + sum_list (map (\<lambda>e. 2 + text_weight (fst e) + json_weight (snd e)) d)"
  by pat_completeness auto
termination
  by (relation "measure size") (auto dest: size_pval_members)

lemma text_weight_eq: "text_weight s = 2 + 6 * int (length s)"
  by (induction s) simp_all

lemma nat_decimal_length: "length (nat_decimal n) \<le> Suc n"
proof (induction n rule: nat_decimal.induct)
  case (1 n)
  show ?case
  proof (cases "n < 10")
    case False
    have "length (nat_decimal (n div 10)) \<le> Suc (n div 10)" using 1[OF False] .
    then show ?thesis using False by (subst nat_decimal.simps) simp
  qed (simp add: nat_decimal.simps)
qed

lemma int_decimal_length: "int (length (int_decimal i)) \<le> \<bar>i\<bar> + 2"
  using nat_decimal_length[of "nat i"] nat_decimal_length[of "nat (- i)"] by (auto simp: int_decimal_def)

lemma json_string_weight: "int (length (json_string s)) \<le> text_weight s"
proof -
  have char: "length (json_escape_char c) \<le> 6" for c by (simp add: json_escape_char_def Let_def)
  have "length (concat (map json_escape_char s)) \<le> 6 * length s"
  proof (induction s)
    case (Cons c s)
    then show ?case using char[of c] by simp
  qed simp
  then show ?thesis by (simp add: json_string_def text_weight_eq)
qed

lemma py_join_length: "length (py_join [c] xs) \<le> sum_list (map (\<lambda>x. 1 + length x) xs)"
  by (induction "[c]" xs rule: py_join.induct) auto

lemma sum_list_sort_key: "sum_list (map f (sort_key k xs)) = (sum_list (map f xs) :: nat)"
  by (metis mset_map mset_sort sum_mset_sum_list)

lemma sum_list_le:
  "(\<And>x. x \<in> set xs \<Longrightarrow> int (f x) \<le> g x) \<Longrightarrow> int (sum_list (map f xs)) \<le> sum_list (map g xs)"
  by (induction xs) (auto intro: add_mono)

lemma json_dumps_weight: "int (length (json_dumps v)) \<le> json_weight v"
proof (induction v rule: json_weight.induct)
  case (6 xs)
  have "int (length (py_join '','' (map json_dumps xs))) \<le> int (sum_list (map (\<lambda>x. 1 + length (json_dumps x)) xs))"
    using py_join_length[of "CHR '',''" "map json_dumps xs"] by (simp add: comp_def)
  also have "\<dots> \<le> sum_list (map (\<lambda>x. 1 + json_weight x) xs)"
    using 6 by (intro sum_list_le) auto
  finally show ?case by simp
next
  case (7 d)
  let ?e = "\<lambda>e. json_string (fst e) @ '':'' @ json_dumps (snd e)"
  have "int (length (py_join '','' (map ?e (sort_key fst d)))) \<le> int (sum_list (map (\<lambda>e. 1 + length (?e e)) d))"
    using py_join_length[of "CHR '',''" "map ?e (sort_key fst d)"]
    by (simp only: map_map comp_def sum_list_sort_key of_nat_le_iff)
  also have "\<dots> \<le> sum_list (map (\<lambda>e. 2 + text_weight (fst e) + json_weight (snd e)) d)"
    using 7 json_string_weight by (intro sum_list_le) (auto intro!: add_mono)
  finally show ?case by simp
next
  case (3 i)
  then show ?case using int_decimal_length by simp
next
  case (5 s)
  then show ?case using json_string_weight by simp
qed (auto simp: text_weight_eq split: pyfloat.split)

section \<open>Where the validator raises\<close>

lemma check_packs_raises: "\<exists>x \<in> set packs. \<not> is_dict x \<Longrightarrow> \<exists>e. check_packs i packs codes = Inl e"
proof (induction packs arbitrary: i codes)
  case (Cons x packs)
  show ?case
  proof (cases "is_dict x")
    case True
    then have "\<exists>x \<in> set packs. \<not> is_dict x" using Cons.prems by auto
    then obtain e where "check_packs (Suc i) packs (offer_code x # codes) = Inl e" using Cons.IH by blast
    then show ?thesis using True by (simp add: Let_def)
  qed simp
qed simp

text \<open>
  The validator does not report every malformed draft: a draft whose credit packs hold
  anything but objects makes it raise, although the same mistake among the offers is reported.
\<close>

lemma malformed_pack_raises:
  assumes "is_dict document" and "json_finite document"
    and "dget document ''creditPacks'' = PList packs" and "length packs \<le> max_credit_packs"
    and "x \<in> set packs" and "\<not> is_dict x"
  shows "\<exists>e. validate_document document strict = Inl e"
proof -
  have packs: "listed (pack_list (dget document ''creditPacks'')) = packs"
    using assms(3-5) by (auto simp: pack_list_def listed_def)
  obtain e where e: "check_packs 0 packs [] = Inl e" using check_packs_raises assms(5,6) by blast
  show ?thesis
    using assms(1,2) e packs
    by (cases "check_offers document (listed (offer_list (dget document ''offers''))) 0
          (listed (offer_list (dget document ''offers''))) [] []")
      (auto simp: validate_document_def canonical_json_def Let_def)
qed

end
