(* ===== verification/Commercial_Examples.thy ===== *)
theory Commercial_Examples
  imports Commercial_Document_Laws
begin

text \<open>
  A complete commercial document, accepted for production, and concrete prices: the theorems on
  commercial rules applied where their hypotheses hold.
\<close>

definition demo_tax :: pval where
  "demo_tax = PDict [(''taxInclusive'', PBool True), (''taxBasisPoints'', PInt 1000),
     (''rounding'', PStr ''half_up''), (''invoiceEnabled'', PBool False)]"

definition demo_offer :: "string \<Rightarrow> string \<Rightarrow> int \<Rightarrow> int \<Rightarrow> int \<Rightarrow> pval" where
  "demo_offer t v quota net gross = PDict [(''code'', PStr (t @ ''.'' @ v)), (''tier'', PStr t), (''variant'', PStr v),
     (''ownerKind'', PStr (if t = ''personal'' then ''account'' else ''organization'')),
     (''salesState'', PStr ''sellable''), (''violationCheckEnabled'', PBool True), (''memberQuota'', PInt 5),
     (''includedProcurementQuota'', PInt quota),
     (''price'', PDict [(''period'', PStr ''yearly''), (''currency'', PStr ''VND''), (''subtotal'', PInt net),
        (''tax'', PInt (gross - net)), (''total'', PInt gross)]),
     (''exportCapabilities'', PDict (map (\<lambda>c. (c, PBool True)) export_capabilities)),
     (''display'', PDict [(''name'', PStr t)])]"

definition demo_profile :: pval where
  "demo_profile = PDict [(''provider'', PStr ''payos''), (''environment'', PStr ''production''),
     (''mode'', PStr ''live''), (''readiness'', PStr ''ready''), (''alias'', PStr ''payOS''),
     (''credentialReference'', PStr ''env''), (''minAmount'', PInt 1), (''maxAmount'', PInt 5000),
     (''checkoutTtlSeconds'', PInt 900)]"

definition demo_policies :: pval where
  "demo_policies = PDict [(''baseTerm'', PDict [(''kind'', PStr ''fixed_days''), (''days'', PInt 365)]),
     (''creditPackExpiry'', PDict [(''kind'', PStr ''fixed_days''), (''days'', PInt 365)]),
     (''organizationPurchaseAuthority'', PList [PStr ''super_admin'']), (''graceDays'', PInt 0),
     (''connectedAdvantageBasisPoints'', PInt 2000)]"

definition demo_specs :: "(string \<times> string \<times> int \<times> int \<times> int) list" where
  "demo_specs = concat (map (\<lambda>t. [(t, ''internal'', 0, 1000, 1100), (t, ''connected'', 2, 2000, 2200)]) supported_tiers)"

fun spec_offer :: "string \<times> string \<times> int \<times> int \<times> int \<Rightarrow> pval" where
  "spec_offer (t, v, q, n, g) = demo_offer t v q n g"

fun spec_code :: "string \<times> string \<times> int \<times> int \<times> int \<Rightarrow> string" where
  "spec_code (t, v, _) = py_strip (t @ ''.'' @ v)"

fun spec_pair :: "string \<times> string \<times> int \<times> int \<times> int \<Rightarrow> pval \<times> pval \<times> pval" where
  "spec_pair (t, v, _) = (PStr t, PStr v, PStr ''yearly'')"

fun spec_ok :: "string \<times> string \<times> int \<times> int \<times> int \<Rightarrow> bool" where
  "spec_ok (t, v, q, n, g) \<longleftrightarrow> 0 \<le> q \<and> q \<le> 1000 \<and> 0 \<le> n \<and> n \<le> g \<and> py_strip t \<noteq> []
     \<and> py_strip (t @ ''.'' @ v) \<noteq> [] \<and> t \<in> set supported_tiers \<and> v \<in> set supported_variants"

definition demo_offers :: "pval list" where
  "demo_offers = map spec_offer demo_specs"

definition demo_packs :: "pval list" where
  "demo_packs = [PDict [(''code'', PStr ''one''), (''quantity'', PInt 1), (''price'', PInt 1100)]]"

definition demo_document :: pval where
  "demo_document = PDict [(''schemaVersion'', PInt 1), (''currency'', PStr ''VND''),
     (''timezone'', PStr ''Asia/Ho_Chi_Minh''), (''rollout'', PDict [(''mode'', PStr ''production'')]),
     (''offers'', PList demo_offers), (''creditPacks'', PList demo_packs),
     (''policies'', demo_policies), (''providerProfiles'', PList [demo_profile]), (''taxInvoice'', demo_tax)]"

text \<open>The parts of the document, checked one by one.\<close>

lemma demo_gets [simp]:
  "is_dict demo_document"
  "dget demo_document ''schemaVersion'' = PInt 1" "dget demo_document ''currency'' = PStr ''VND''"
  "dget demo_document ''timezone'' = PStr ''Asia/Ho_Chi_Minh''"
  "dget demo_document ''offers'' = PList demo_offers" "dget demo_document ''creditPacks'' = PList demo_packs"
  "dget demo_document ''policies'' = demo_policies" "dget demo_document ''taxInvoice'' = demo_tax"
  "dget demo_document ''providerProfiles'' = PList [demo_profile]"
  "dget demo_document ''rollout'' = PDict [(''mode'', PStr ''production'')]"
  "or_empty demo_policies = demo_policies" "or_empty demo_tax = demo_tax" "is_dict demo_tax"
  by (simp_all add: demo_document_def dget_def dget_default_def or_empty_def py_or_def demo_policies_def demo_tax_def)

lemma demo_lists [simp]:
  "offer_list (PList demo_offers) = Some demo_offers" "pack_list (PList demo_packs) = Some demo_packs"
  "profile_list (PList [demo_profile]) = Some [demo_profile]" "listed (Some xs) = xs"
proof -
  have "length demo_specs = 8" by code_simp
  then show "offer_list (PList demo_offers) = Some demo_offers"
    by (simp add: offer_list_def demo_offers_def max_offers_def)
qed (simp_all add: pack_list_def profile_list_def listed_def demo_packs_def max_credit_packs_def)

lemma demo_json: "\<exists>t. canonical_json demo_document = Inr t \<and> int (length t) \<le> max_document_bytes"
proof -
  have "json_weight demo_document \<le> max_document_bytes" by code_simp
  moreover have "json_finite demo_document" by code_simp
  ultimately show ?thesis using json_dumps_weight[of demo_document] by (simp add: canonical_json_def)
qed

lemma demo_depth: "document_depth demo_document 0 \<le> max_depth" by code_simp

text \<open>The offers, one by one.\<close>

lemma demo_offer_gets [simp]:
  "dget (demo_offer t v q n g) ''tier'' = PStr t" "dget (demo_offer t v q n g) ''variant'' = PStr v"
  "dget (demo_offer t v q n g) ''code'' = PStr (t @ ''.'' @ v)"
  "dget (demo_offer t v q n g) ''salesState'' = PStr ''sellable''"
  "dget (demo_offer t v q n g) ''ownerKind'' = PStr (if t = ''personal'' then ''account'' else ''organization'')"
  "dget (demo_offer t v q n g) ''violationCheckEnabled'' = PBool True"
  "dget (demo_offer t v q n g) ''memberQuota'' = PInt 5"
  "dget (demo_offer t v q n g) ''includedProcurementQuota'' = PInt q"
  "dget (demo_offer t v q n g) ''price'' = PDict [(''period'', PStr ''yearly''), (''currency'', PStr ''VND''),
     (''subtotal'', PInt n), (''tax'', PInt (g - n)), (''total'', PInt g)]"
  "dget (demo_offer t v q n g) ''exportCapabilities'' = PDict (map (\<lambda>c. (c, PBool True)) export_capabilities)"
  "dget (demo_offer t v q n g) ''display'' = PDict [(''name'', PStr t)]"
  "\<not> dhas (demo_offer t v q n g) ''monthlyBaseProcurementQuota''" "is_dict (demo_offer t v q n g)"
  by (simp_all add: demo_offer_def dget_def dget_default_def dhas_def)

lemma demo_offer_clean:
  assumes "0 \<le> q" "q \<le> 1000" "0 \<le> n" "n \<le> g" "py_strip t \<noteq> []"
  shows "kind_issues path (demo_offer t v q n g) = []" "price_issues path (demo_offer t v q n g) = []"
    "capability_issues path (demo_offer t v q n g) = Inr []" "display_issues path (demo_offer t v q n g) = []"
    "monthly_price_issues document offers i (demo_offer t v q n g) = []"
    "monthly_quota_issues offers i (demo_offer t v q n g) = []"
    "offer_pair (demo_offer t v q n g) = (PStr t, PStr v, PStr ''yearly'')"
    "offer_code (demo_offer t v q n g) = py_strip (t @ ''.'' @ v)"
  using assms
  by (simp_all add: kind_issues_def quota_issues_Nil in_strs_def owner_kinds_def sales_states_def max_credit_units_def
      price_issues_def Let_def offer_price_def price_periods_def price_amounts_def dget_def[of "PDict _"] dget_default_def
      capability_issues_def list_all_iff image_image display_issues_def blank_text_def
      monthly_price_issues_def dhas_def[of "PDict _"] monthly_quota_issues_def offer_pair_def offer_code_def comp_def)

lemma demo_offers_step:
  assumes "0 \<le> q" "q \<le> 1000" "0 \<le> n" "n \<le> g" "py_strip t \<noteq> []"
    and "py_strip (t @ ''.'' @ v) \<notin> set codes" "py_strip (t @ ''.'' @ v) \<noteq> []"
    and "t \<in> set supported_tiers" "v \<in> set supported_variants"
    and "(PStr t, PStr v, PStr ''yearly'') \<notin> set pairs"
  shows "check_offers document offers i (demo_offer t v q n g # rest) codes pairs =
    check_offers document offers (Suc i) rest (py_strip (t @ ''.'' @ v) # codes)
      ((PStr t, PStr v, PStr ''yearly'') # pairs)"
proof -
  note clean = demo_offer_clean[OF assms(1-5)]
  have "\<not> list_ex (pair_eq (PStr t, PStr v, PStr ''yearly'')) pairs"
    using assms(10) by (auto simp: list_ex_iff pair_eq_def)
  then have "identity_issues path codes pairs (demo_offer t v q n g) = Inr []" for path
    using assms(6-9) clean(7,8) by (simp add: identity_issues_def Let_def pair_hashable_def in_strs_def)
  then show ?thesis
    by (cases "check_offers document offers (Suc i) rest (py_strip (t @ ''.'' @ v) # codes)
          ((PStr t, PStr v, PStr ''yearly'') # pairs)") (auto simp: Let_def clean)
qed

lemma demo_offers_run:
  assumes "list_all spec_ok specs" and "distinct (map spec_code specs)" and "distinct (map spec_pair specs)"
    and "set (map spec_code specs) \<inter> set codes = {}" and "set (map spec_pair specs) \<inter> set pairs = {}"
  shows "check_offers document offers i (map spec_offer specs) codes pairs = Inr ([], rev (map spec_pair specs) @ pairs)"
  using assms
proof (induction specs arbitrary: i codes pairs)
  case (Cons s specs)
  obtain t v q n g where s: "s = (t, v, q, n, g)" by (cases s) auto
  have "check_offers document offers i (spec_offer s # map spec_offer specs) codes pairs =
      check_offers document offers (Suc i) (map spec_offer specs) (spec_code s # codes) (spec_pair s # pairs)"
    using Cons.prems unfolding s spec_offer.simps spec_code.simps spec_pair.simps
    by (intro demo_offers_step) auto
  also have "\<dots> = Inr ([], rev (map spec_pair specs) @ spec_pair s # pairs)"
    using Cons.prems by (intro Cons.IH) auto
  finally show ?case by simp
qed simp

lemma demo_specs_facts: "list_all spec_ok demo_specs" "distinct (map spec_code demo_specs)"
  "distinct (map spec_pair demo_specs)"
  by code_simp+

lemma demo_offers_clean:
  "check_offers demo_document demo_offers 0 demo_offers [] [] = Inr ([], rev (map spec_pair demo_specs))"
  using demo_offers_run[OF demo_specs_facts, of "[]" "[]" demo_document demo_offers 0] by (simp add: demo_offers_def)

lemma demo_matrix: "matrix_issues (rev (map spec_pair demo_specs)) = []"
  by code_simp

lemma demo_packs_clean: "check_packs 0 demo_packs [] = Inr []"
  by code_simp

lemma demo_policies_clean: "policy_issues demo_policies demo_offers = Inr []"
  by code_simp

lemma demo_savings: "\<exists>s. savings_of demo_document demo_offers demo_packs [] = Inr s \<and> saving_issues 2000 s = []"
proof -
  have "case savings_of demo_document demo_offers demo_packs [] of Inl _ \<Rightarrow> False | Inr s \<Rightarrow> saving_issues 2000 s = []"
    by code_simp
  then show ?thesis by (auto split: sum.splits)
qed

lemma demo_rest:
  "advantage_threshold demo_policies = Some 2000" "profile_issues 0 [demo_profile] = []" "tax_issues demo_tax = []"
  "is_dict demo_profile" "profile_supported demo_profile"
  "tax_price_issues demo_tax 0 demo_offers = []" "readiness_issues demo_tax [demo_profile] = []"
  by code_simp+

lemma demo_validates: "\<exists>r. validate_document demo_document True = Inr r \<and> vd_errors r = []"
proof -
  obtain t where t: "canonical_json demo_document = Inr t" "int (length t) \<le> max_document_bytes"
    using demo_json by blast
  have "head_issues demo_document t = []"
    using t(2) demo_depth by (simp add: head_issues_def)
  moreover obtain s where "savings_of demo_document demo_offers demo_packs [] = Inr s" "saving_issues 2000 s = []"
    using demo_savings by blast
  moreover have "get_attr (or_empty (PDict [(''mode'', PStr ''production'')])) ''mode'' = Inr (PStr ''production'')"
    "in_str_set [''shadow'', ''pilot'', ''production''] (PStr ''production'') = Inr True"
    by code_simp+
  ultimately show ?thesis
    using t(1) by (simp add: validate_document_def Let_def demo_offers_clean demo_matrix demo_packs_clean
        demo_policies_clean demo_rest issue_if_def)
qed

section \<open>Witnesses\<close>

theorem validated_document_sellable_witness:
  "\<exists>offers packs. dget demo_document ''offers'' = PList offers \<and> dget demo_document ''creditPacks'' = PList packs
     \<and> length offers \<le> max_offers \<and> distinct (map offer_code offers) \<and> packs \<noteq> []"
proof -
  obtain r where "validate_document demo_document True = Inr r" "vd_errors r = []" using demo_validates by blast
  from validated_document_sellable[OF this] show ?thesis by blast
qed

theorem production_document_ready_witness:
  "tax_arithmetic_configured (dget demo_document ''taxInvoice'')
     \<and> (\<exists>p \<in> set (listed (profile_list (dget demo_document ''providerProfiles''))). healthy_profile p)"
proof -
  obtain r where "validate_document demo_document True = Inr r" "vd_errors r = []" using demo_validates by blast
  from production_document_ready[OF this] show ?thesis by blast
qed

theorem malformed_pack_raises_witness:
  "\<exists>e. validate_document (PDict [(''creditPacks'', PList [PInt 1])]) False = Inl e"
  by (rule malformed_pack_raises [where packs = "[PInt 1]" and x = "PInt 1"])
    (simp_all add: dget_def dget_default_def max_credit_packs_def)

definition demo_price :: tax_price where
  "demo_price = \<lparr>tp_subtotal = 91, tp_tax = 9, tp_total = 100, tp_period = PStr ''one_time''\<rparr>"

theorem tax_price_exact_witness:
  "tp_total demo_price = tp_subtotal demo_price + tp_tax demo_price \<and> 0 \<le> tp_tax demo_price"
proof -
  have "case calculate_tax_price (PInt 100) demo_tax (PStr ''one_time'') of
      Inl _ \<Rightarrow> False | Inr p \<Rightarrow> p = demo_price" by code_simp
  then have "calculate_tax_price (PInt 100) demo_tax (PStr ''one_time'') = Inr demo_price"
    by (auto split: sum.splits)
  from tax_price_exact[OF this] show ?thesis by blast
qed

theorem minimum_pack_cost_optimal_witness:
  "minimum_pack_cost 30 [(20, 99), (100, 399)] \<le> paid [(20, 99), (20, 99)]"
proof -
  have pos: "\<forall>p \<in> set [(20 :: nat, 99 :: int), (100, 399)]. 0 < fst p \<and> 0 < snd p" by simp
  show ?thesis
    by (rule conjunct1[OF minimum_pack_cost_optimal[OF pos], rule_format]) simp_all
qed

end
