(* ===== verification/Billing_Activation.thy ===== *)
theory Billing_Activation
  imports Commercial_Rules Usage_Credits Audit_Chain
begin

text \<open>
  \<open>src/backend/billing/activation.py\<close>: the reconciliation of provider payments and the
  activation of paid orders, with \<open>provider_timestamp.py\<close> and the progress record of
  \<open>checkout_payment.py\<close>.  The state is a record of the billing tables together with the
  tables of the usage credits and of the audit chain, which an activation writes in the same
  transaction.  A JSON column holds its value; a JSON text that is never read back is kept as
  text.  \<^term>\<open>Inl e\<close> is a raised exception, and the worker rolls the transaction back.
\<close>

section \<open>Rows\<close>

datatype payment_state =
  Unverified | VerifiedPaid | RefundPending | PartiallyRefunded | Refunded | RefundFailed

datatype activation_state =
  ActNotReady | ActPending | ActApplied | ActRetry | ActReview | ActReversed

datatype event_status =
  EvPending | EvProcessing | EvRetry | EvProcessed | EvDead | EvIgnored | EvReview

datatype payment_status = PayVerified | PaySettled | PayFailed

datatype payment_timing = OnTime | LateAfterCancel | LateAfterExpiry

record order_row =
  bo_id :: ident
  bo_public :: string
  bo_actor :: ident
  bo_kind :: owner_kind
  bo_account :: "ident option"
  bo_org :: "ident option"
  bo_operation :: string
  bo_release :: ident
  bo_profile :: ident
  bo_code :: int
  bo_decision :: pval
  bo_subtotal :: int
  bo_tax :: int
  bo_total :: int
  bo_currency :: string
  bo_checkout :: string
  bo_payment :: payment_state
  bo_activation :: activation_state
  bo_progress :: pval
  bo_checkout_expires :: "int option"
  bo_expected :: "int option"
  bo_revision :: int

record item_row =
  bi_id :: ident
  bi_order :: ident
  bi_plan :: "ident option"
  bi_quantity :: int
  bi_snapshot :: pval

record plan_row =
  pl_id :: ident
  pl_package :: "ident option"
  pl_members :: int
  pl_included :: int
  pl_code :: string
  pl_kind :: owner_kind
  pl_tier :: string
  pl_variant :: string

record subscription_row =
  su_kind :: owner_kind
  su_owner :: ident
  su_package :: ident
  su_plan :: "ident option"
  su_source_order :: "ident option"
  su_status :: string
  su_starts :: int
  su_expires :: "int option"
  su_members :: "int option"
  su_revision :: int

text \<open>The rows of \<open>payment_transactions\<close> whose type is \<open>payment\<close>.\<close>

record payment_row =
  py_id :: ident
  py_order :: ident
  py_profile :: ident
  py_transaction :: string
  py_status :: payment_status
  py_amount :: int
  py_currency :: string
  py_timing :: payment_timing
  py_occurred :: int
  py_evidence :: string

text \<open>
  The \<open>after_json\<close> of an activation: what was applied, what is scheduled, or the evidence of a
  review.
\<close>

datatype after_state =
  AfterEmpty
| AfterTerm int int "ident option"
| AfterCredits int int
| AfterScheduled int int "ident option" "ident option" "ident option"
| AfterEvidence string

record activation_row =
  av_id :: ident
  av_order :: ident
  av_state :: activation_state
  av_before :: "subscription_row option"
  av_after :: after_state
  av_expected :: "int option"
  av_applied :: "int option"
  av_reason :: string

record event_row =
  we_id :: ident
  we_profile :: ident
  we_signed :: pval
  we_status :: event_status
  we_error :: "string option"
  we_locked_by :: "ident option"
  we_lease :: "int option"
  we_processed_at :: "int option"

record invoice_row =
  iv_id :: ident
  iv_order :: ident
  iv_payment :: ident
  iv_tax_snapshot :: string
  iv_buyer :: string

record outbox_row =
  ob_id :: ident
  ob_type :: string
  ob_aggregate :: ident
  ob_payload :: string
  ob_available :: int

record billing_db =
  bl_orders :: "order_row list"
  bl_items :: "item_row list"
  bl_plans :: "plan_row list"
  bl_payments :: "payment_row list"
  bl_events :: "event_row list"
  bl_activations :: "activation_row list"
  bl_invoices :: "invoice_row list"
  bl_outbox :: "outbox_row list"
  bl_subscriptions :: "subscription_row list"
  bl_owner_status :: "((owner_kind \<times> ident) \<times> string) list"
  bl_pending_refunds :: "ident list"
  bl_usage :: usage_db
  bl_audit :: audit_db

text \<open>
  \<open>be_iso\<close> is the reading of a timestamp text by \<open>datetime.fromisoformat\<close> and \<open>timestamp\<close>.
\<close>

datatype iso_time = IsoInvalid | IsoNaive | IsoOverflow | IsoSeconds int

record billing_env =
  be_usage :: usage_env
  be_audit :: audit_env
  be_health :: audit_health
  be_iso :: "string \<Rightarrow> iso_time"

datatype billing_error =
  BillingException py_exn | BillingUsageError usage_error | BillingIntegrity | AuditUnavailable | AuditRefused

definition lift_py :: "py_exn + 'a \<Rightarrow> billing_error + 'a" where
  "lift_py m = (case m of Inl e \<Rightarrow> Inl (BillingException e) | Inr x \<Rightarrow> Inr x)"

definition lift_usage :: "usage_error + 'a \<Rightarrow> billing_error + 'a" where
  "lift_usage m = (case m of Inl e \<Rightarrow> Inl (BillingUsageError e) | Inr x \<Rightarrow> Inr x)"

lemma lift_eq_Inr [res_simps]:
  "lift_py m = Inr x \<longleftrightarrow> m = Inr x" "lift_usage m' = Inr x' \<longleftrightarrow> m' = Inr x'"
  by (cases m; auto simp: lift_py_def) (cases m'; auto simp: lift_usage_def)

lemma lift_py_Inr [simp]: "lift_py (Inr x) = Inr x"
  by (simp add: lift_py_def)

definition billing_now :: "billing_env \<Rightarrow> int" where
  "billing_now env = usage_now (be_usage env)"

definition billing_new_id :: "billing_env \<Rightarrow> string \<Rightarrow> billing_db \<Rightarrow> ident \<times> billing_db" where
  "billing_new_id env prefix db =
     (let (i, u) = usage_new_id (be_usage env) prefix (bl_usage db) in (i, db\<lparr>bl_usage := u\<rparr>))"

section \<open>The time of a provider transaction\<close>

definition max_unix_seconds :: int where
  "max_unix_seconds = 253402300799"

definition integer_text :: "string \<Rightarrow> bool" where
  "integer_text s \<longleftrightarrow> (case s of
     [] \<Rightarrow> False
   | c # cs \<Rightarrow> if c = CHR ''+'' \<or> c = CHR ''-'' then cs \<noteq> [] \<and> list_all is_digit cs else list_all is_digit s)"

definition time_in_range :: "int \<Rightarrow> string + int" where
  "time_in_range i = (if i < 0 \<or> max_unix_seconds < i then Inl ''PAYMENT_TIMESTAMP_OUT_OF_RANGE'' else Inr i)"

definition unix_seconds :: "pval \<Rightarrow> string + int" where
  "unix_seconds v =
     (case v of
        PInt i \<Rightarrow> time_in_range i
      | PStr s \<Rightarrow> if integer_text (py_strip s)
                  then (case parse_int s of None \<Rightarrow> Inl ''PAYMENT_TIMESTAMP_INVALID'' | Some i \<Rightarrow> time_in_range i)
                  else Inl ''PAYMENT_TIMESTAMP_INVALID''
      | PFloat (FFin r) _ \<Rightarrow> if r = of_int \<lfloor>r\<rfloor> then time_in_range \<lfloor>r\<rfloor> else Inl ''PAYMENT_TIMESTAMP_INVALID''
      | _ \<Rightarrow> Inl ''PAYMENT_TIMESTAMP_INVALID'')"

text \<open>\<open>v in {None, ""}\<close>\<close>

definition absent_value :: "pval \<Rightarrow> py_exn + bool" where
  "absent_value v = (if hashable v then Inr (v = PNone \<or> v = PStr []) else Inl TypeError)"

definition parse_provider_transaction_time :: "billing_env \<Rightarrow> pval \<Rightarrow> py_exn + (string + int)" where
  "parse_provider_transaction_time env payload =
     (let v = dget payload ''transactionDateTime'' in
      res_bind (absent_value v) (\<lambda>missing.
      if missing then
        res_bind (absent_value (dget payload ''createdAt'')) (\<lambda>no_created.
          Inr (Inl (if no_created then ''PAYMENT_OCCURRENCE_TIME_MISSING''
                    else ''PAYMENT_OCCURRENCE_TIME_REVIEW_REQUIRED'')))
      else Inr (case v of
          PStr s \<Rightarrow>
            if integer_text (py_strip s) then unix_seconds v
            else (case be_iso env (py_strip s) of
                IsoInvalid \<Rightarrow> Inl ''PAYMENT_TIMESTAMP_INVALID''
              | IsoNaive \<Rightarrow> Inl ''PAYMENT_TIMESTAMP_TIMEZONE_REQUIRED''
              | IsoOverflow \<Rightarrow> Inl ''PAYMENT_TIMESTAMP_OUT_OF_RANGE''
              | IsoSeconds i \<Rightarrow> time_in_range i)
        | _ \<Rightarrow> unix_seconds v)))"

section \<open>Writes\<close>

definition insert_outbox ::
    "billing_env \<Rightarrow> string \<Rightarrow> ident \<Rightarrow> pval \<Rightarrow> billing_db \<Rightarrow> billing_error + billing_db" where
  "insert_outbox env event_type aggregate payload db =
     (let (oid, db') = billing_new_id env ''commercial-outbox'' db in
      res_bind (lift_py (canonical_json payload)) (\<lambda>text.
      if oid \<in> set (map ob_id (bl_outbox db')) \<or> billing_now env \<le> 0 then Inl BillingIntegrity
      else Inr (db'\<lparr>bl_outbox := bl_outbox db' @ [\<lparr>ob_id = oid, ob_type = event_type,
        ob_aggregate = aggregate, ob_payload = text, ob_available = billing_now env\<rparr>]\<rparr>)))"

text \<open>\<open>log_audit\<close> with a cursor and \<open>required=True\<close>.\<close>

definition log_audit ::
    "billing_env \<Rightarrow> string \<Rightarrow> ident \<Rightarrow> ident option \<Rightarrow> ident \<Rightarrow> (string \<times> pval) list \<Rightarrow> billing_db
      \<Rightarrow> billing_error + billing_db" where
  "log_audit env action actor org target metadata db =
     (case require_audit_chain_available (be_health env) of
        None \<Rightarrow> Inl AuditUnavailable
      | Some _ \<Rightarrow>
          (case insert_audit_row (be_audit env)
              \<lparr>ev_actor = Some actor, ev_org = org, ev_action = action,
               ev_target_type = Some ''billing_order'', ev_target_id = Some target, ev_ip = None,
               ev_metadata = (if metadata = [] then None else Some (json_plain (PDict metadata))),
               ev_created = []\<rparr> (bl_audit db) of
            None \<Rightarrow> Inl AuditRefused
          | Some (_, a) \<Rightarrow> Inr (db\<lparr>bl_audit := a\<rparr>)))"

definition set_order :: "ident \<Rightarrow> (order_row \<Rightarrow> order_row) \<Rightarrow> billing_db \<Rightarrow> billing_db" where
  "set_order oid f db = db\<lparr>bl_orders :=
     update_where (\<lambda>o'. bo_id o' = oid) (\<lambda>o'. (f o')\<lparr>bo_revision := bo_revision o' + 1\<rparr>) (bl_orders db)\<rparr>"

text \<open>\<open>INSERT ... ON CONFLICT(order_id) DO UPDATE\<close> of an activation.\<close>

definition upsert_activation ::
    "billing_env \<Rightarrow> activation_row \<Rightarrow> (activation_row \<Rightarrow> activation_row) \<Rightarrow> billing_db
      \<Rightarrow> billing_error + billing_db" where
  "upsert_activation env row f db =
     (let (aid, db') = billing_new_id env ''subscription-activation'' db in
      if \<exists>a \<in> set (bl_activations db'). av_order a = av_order row
      then Inr (db'\<lparr>bl_activations := update_where (\<lambda>a. av_order a = av_order row) f (bl_activations db')\<rparr>)
      else if aid \<in> set (map av_id (bl_activations db')) then Inl BillingIntegrity
      else Inr (db'\<lparr>bl_activations := bl_activations db' @ [row\<lparr>av_id := aid\<rparr>]\<rparr>))"

datatype activation_outcome = OutApplied | OutScheduled after_state | OutReview string | OutReversed

definition mark_review ::
    "billing_env \<Rightarrow> order_row \<Rightarrow> string \<Rightarrow> pval option \<Rightarrow> billing_db
      \<Rightarrow> billing_error + (activation_outcome \<times> billing_db)" where
  "mark_review env ord reason evidence db =
     res_bind (upsert_activation env
        \<lparr>av_id = [], av_order = bo_id ord, av_state = ActReview, av_before = None, av_after = AfterEmpty,
         av_expected = None, av_applied = None, av_reason = py_prefix 200 reason\<rparr>
        (\<lambda>a. a\<lparr>av_state := ActReview, av_reason := py_prefix 200 reason\<rparr>) db) (\<lambda>db1.
     res_bind (case evidence of
         None \<Rightarrow> Inr db1
       | Some v \<Rightarrow>
           if \<not> truthy v then Inr db1
           else res_bind (lift_py (canonical_json v)) (\<lambda>text.
             Inr (db1\<lparr>bl_activations := update_where (\<lambda>a. av_order a = bo_id ord)
               (\<lambda>a. a\<lparr>av_after := AfterEvidence text\<rparr>) (bl_activations db1)\<rparr>))) (\<lambda>db2.
     Inr (OutReview reason, set_order (bo_id ord) (\<lambda>r. r\<lparr>bo_activation := ActReview\<rparr>) db2)))"

section \<open>Invoices\<close>

definition owner_id :: "order_row \<Rightarrow> ident option" where
  "owner_id ord = (if bo_kind ord = OwnerAccount then bo_account ord else bo_org ord)"

definition kind_text :: "owner_kind \<Rightarrow> string" where
  "kind_text k = (if k = OwnerAccount then ''account'' else ''organization'')"

definition insert_invoice ::
    "billing_env \<Rightarrow> order_row \<Rightarrow> ident \<Rightarrow> pval \<Rightarrow> billing_db \<Rightarrow> billing_error + billing_db" where
  "insert_invoice env ord payment policy db =
     (let (iid, db1) = billing_new_id env ''invoice-request'' db in
      res_bind (lift_py (canonical_json (PDict [(''currency'', PStr (bo_currency ord)),
          (''subtotalAmount'', PInt (bo_subtotal ord)), (''taxAmount'', PInt (bo_tax ord)),
          (''totalAmount'', PInt (bo_total ord)), (''policy'', policy)]))) (\<lambda>tax_text.
      res_bind (lift_py (canonical_json (PDict [(''ownerKind'', PStr (kind_text (bo_kind ord))),
          (''ownerId'', opt_text (owner_id ord))]))) (\<lambda>buyer_text.
      if \<exists>i \<in> set (bl_invoices db1). iv_order i = bo_id ord then Inr db1
      else if iid \<in> set (map iv_id (bl_invoices db1)) then Inl BillingIntegrity
      else insert_outbox env ''billing.invoice_requested'' (bo_id ord)
        (PDict [(''publicId'', PStr (bo_public ord)), (''invoiceRequestId'', PStr iid)])
        (db1\<lparr>bl_invoices := bl_invoices db1 @ [\<lparr>iv_id = iid, iv_order = bo_id ord, iv_payment = payment,
           iv_tax_snapshot = tax_text, iv_buyer = buyer_text\<rparr>]\<rparr>))))"

definition request_invoice_if_due ::
    "billing_env \<Rightarrow> order_row \<Rightarrow> ident \<Rightarrow> bool \<Rightarrow> billing_db \<Rightarrow> billing_error + billing_db" where
  "request_invoice_if_due env ord payment applied db =
     res_bind (lift_py (get_attr (bo_decision ord) ''taxInvoiceSnapshot'')) (\<lambda>raw.
     let policy = or_empty raw in
     res_bind (lift_py (get_attr policy ''invoiceEnabled'')) (\<lambda>enabled.
     if enabled = PBool False then Inr db
     else
       let trigger = dget policy ''invoiceTrigger'' in
       res_bind (lift_py (in_str_set [''manual'', ''disabled''] trigger)) (\<lambda>off.
       if off \<or> (trigger = PStr ''activation_applied'' \<and> \<not> applied) then Inr db
       else if trigger \<noteq> PNone \<and> trigger \<noteq> PStr ''verified_payment'' \<and> trigger \<noteq> PStr ''activation_applied''
       then Inr db
       else insert_invoice env ord payment policy db)))"

definition verified_payments :: "billing_db \<Rightarrow> ident \<Rightarrow> payment_row list" where
  "verified_payments db oid = filter (\<lambda>p. py_order p = oid \<and> py_status p = PayVerified) (bl_payments db)"

definition mark_applied ::
    "billing_env \<Rightarrow> order_row \<Rightarrow> subscription_row option \<Rightarrow> after_state \<Rightarrow> billing_db
      \<Rightarrow> billing_error + (activation_outcome \<times> billing_db)" where
  "mark_applied env ord prior after db =
     res_bind (upsert_activation env
        \<lparr>av_id = [], av_order = bo_id ord, av_state = ActApplied, av_before = prior, av_after = after,
         av_expected = bo_expected ord, av_applied = Some (bo_revision ord + 1), av_reason = ''APPLIED''\<rparr>
        (\<lambda>a. a\<lparr>av_state := ActApplied, av_before := prior, av_after := after,
               av_applied := Some (bo_revision ord + 1), av_reason := ''APPLIED''\<rparr>) db) (\<lambda>db1.
     let db2 = set_order (bo_id ord) (\<lambda>r. r\<lparr>bo_activation := ActApplied\<rparr>) db1 in
     case verified_payments db2 (bo_id ord) of
       [] \<Rightarrow> Inr (OutApplied, db2)
     | p # _ \<Rightarrow> res_bind (request_invoice_if_due env ord (py_id p) True db2) (\<lambda>db3. Inr (OutApplied, db3)))"

section \<open>Payment facts\<close>

definition payment_timing_of :: "order_row \<Rightarrow> int \<Rightarrow> payment_timing" where
  "payment_timing_of ord occurred =
     (if bo_checkout ord = ''cancelled'' then LateAfterCancel
      else case bo_checkout_expires ord of
          Some e \<Rightarrow> if e \<noteq> 0 \<and> e < occurred then LateAfterExpiry else OnTime
        | None \<Rightarrow> OnTime)"

definition timing_text :: "payment_timing \<Rightarrow> string" where
  "timing_text t = (case t of OnTime \<Rightarrow> ''on_time'' | LateAfterCancel \<Rightarrow> ''late_after_cancel''
     | LateAfterExpiry \<Rightarrow> ''late_after_expiry'')"

datatype payment_fact = PaymentInserted ident | PaymentKnown ident | PaymentMismatch string

definition insert_or_validate_payment ::
    "billing_env \<Rightarrow> order_row \<Rightarrow> ident \<Rightarrow> string \<Rightarrow> int \<Rightarrow> payment_timing \<Rightarrow> int \<Rightarrow> pval \<Rightarrow> billing_db
      \<Rightarrow> billing_error + (payment_fact \<times> billing_db)" where
  "insert_or_validate_payment env ord profile tx amount timing occurred evidence db =
     (let (pid, db1) = billing_new_id env ''payment-tx'' db;
          currency = (if bo_currency ord = [] then ''VND'' else bo_currency ord)
      in
      res_bind (lift_py (canonical_json evidence)) (\<lambda>text.
      case List.find (\<lambda>p. py_profile p = profile \<and> py_transaction p = tx) (bl_payments db1) of
        None \<Rightarrow>
          if pid \<in> set (map py_id (bl_payments db1)) \<or> amount < 0 then Inl BillingIntegrity
          else Inr (PaymentInserted pid, db1\<lparr>bl_payments := bl_payments db1 @
            [\<lparr>py_id = pid, py_order = bo_id ord, py_profile = profile, py_transaction = tx, py_status = PayVerified,
              py_amount = amount, py_currency = currency, py_timing = timing,
              py_occurred = occurred, py_evidence = text\<rparr>]\<rparr>)
      | Some p \<Rightarrow>
          if py_order p \<noteq> bo_id ord then Inr (PaymentMismatch ''PAYMENT_TRANSACTION_ORDER_MISMATCH'', db1)
          else if py_status p \<noteq> PayVerified \<or> py_amount p \<noteq> amount \<or> py_currency p \<noteq> currency
          then Inr (PaymentMismatch ''PAYMENT_TRANSACTION_EVIDENCE_MISMATCH'', db1)
          else Inr (PaymentKnown (py_id p), db1)))"

text \<open>\<open>merge_payment_progress\<close>; an update of a dictionary keeps the place of a known key.\<close>

definition merge_payment_progress :: "pval \<Rightarrow> pval \<Rightarrow> int \<Rightarrow> pval option" where
  "merge_payment_progress metadata result expected =
     (let current = entries metadata;
          kept = (if current = [] then None else Some (PDict current))
      in case plain_int (dget result ''amountPaid'') of
           None \<Rightarrow> kept
         | Some paid \<Rightarrow>
             if expected \<le> 0 \<or> paid < 0 \<or> expected < paid then kept
             else
               let seen = max paid (case plain_int (dget metadata ''amountPaid'') of None \<Rightarrow> 0 | Some n \<Rightarrow> n);
                   status = (if 0 < seen \<and> seen < expected then ''UNDERPAID''
                     else py_upper (py_str (py_or (dget result ''status'') (PStr ''PENDING''))))
               in Some (PDict (AList.update ''amountRemaining'' (PInt (expected - seen))
                    (AList.update ''amountPaid'' (PInt seen)
                      (AList.update ''paymentStatus'' (PStr status) current)))))"

definition record_payment_progress ::
    "billing_env \<Rightarrow> order_row \<Rightarrow> pval \<Rightarrow> billing_db \<Rightarrow> billing_error + billing_db" where
  "record_payment_progress env ord result db =
     (case merge_payment_progress (bo_progress ord) result (bo_total ord) of
        None \<Rightarrow> Inr db
      | Some progress \<Rightarrow>
          if py_eq progress (bo_progress ord) then Inr db
          else res_bind (lift_py (canonical_json progress)) (\<lambda>_.
            Inr (set_order (bo_id ord) (\<lambda>r. r\<lparr>bo_progress := progress\<rparr>) db)))"

definition outcome_status :: "activation_outcome \<Rightarrow> string" where
  "outcome_status out = (case out of OutApplied \<Rightarrow> ''applied'' | OutScheduled _ \<Rightarrow> ''scheduled''
     | OutReview _ \<Rightarrow> ''review_required'' | OutReversed \<Rightarrow> ''reversed'')"

definition outcome_reason :: "activation_outcome \<Rightarrow> string option" where
  "outcome_reason out = (case out of OutReview r \<Rightarrow> Some r | _ \<Rightarrow> None)"

definition activation_event :: "activation_outcome \<Rightarrow> string" where
  "activation_event out = (case out of OutApplied \<Rightarrow> ''billing.activation_applied''
     | OutScheduled _ \<Rightarrow> ''billing.activation_scheduled'' | _ \<Rightarrow> ''billing.activation_review_required'')"

definition record_verified_payment_effects ::
    "billing_env \<Rightarrow> order_row \<Rightarrow> ident \<Rightarrow> payment_timing \<Rightarrow> activation_outcome \<Rightarrow> billing_db
      \<Rightarrow> billing_error + billing_db" where
  "record_verified_payment_effects env ord payment timing out db =
     (let org = (if bo_kind ord = OwnerOrganization then bo_org ord else None);
          public = (''publicId'', PStr (bo_public ord));
          paid = (''paymentTransactionId'', PStr payment);
          timed = (''timing'', PStr (timing_text timing));
          outcome = [public, (''status'', PStr (outcome_status out)), (''reason'', opt_text (outcome_reason out))]
      in
      res_bind (request_invoice_if_due env ord payment (out = OutApplied) db) (\<lambda>db1.
      res_bind (insert_outbox env ''billing.payment_verified'' (bo_id ord) (PDict [public, paid, timed]) db1) (\<lambda>db2.
      res_bind (insert_outbox env (activation_event out) (bo_id ord) (PDict outcome) db2) (\<lambda>db3.
      res_bind (log_audit env ''billing.payment_verified'' (bo_actor ord) org (bo_id ord)
        [public, paid, timed, (''totalAmount'', PInt (bo_total ord)), (''currency'', PStr (bo_currency ord))] db3) (\<lambda>db4.
      log_audit env (activation_event out) (bo_actor ord) org (bo_id ord) outcome db4)))))"

end
