(* ===== verification/Billing_Apply.thy ===== *)
theory Billing_Apply
  imports Billing_Activation
begin

text \<open>
  The activation of a paid order (\<open>_activate_order\<close> with plans, scheduled renewals and credit
  packs) and the three entry points of \<open>BillingActivationService\<close>: the webhook event, the query
  of the provider, and the retry of the worker.
\<close>

section \<open>What an activation reads\<close>

definition find_order :: "billing_db \<Rightarrow> ident \<Rightarrow> order_row option" where
  "find_order db oid = List.find (\<lambda>r. bo_id r = oid) (bl_orders db)"

definition find_activation :: "billing_db \<Rightarrow> ident \<Rightarrow> activation_row option" where
  "find_activation db oid = List.find (\<lambda>a. av_order a = oid) (bl_activations db)"

definition owner_is_active :: "billing_db \<Rightarrow> order_row \<Rightarrow> bool" where
  "owner_is_active db ord =
     (case owner_id ord of
        None \<Rightarrow> False
      | Some i \<Rightarrow>
          (case map_of (bl_owner_status db) (bo_kind ord, i) of
             None \<Rightarrow> False | Some s \<Rightarrow> py_casefold (py_strip s) = ''active''))"

definition subscription_of :: "billing_db \<Rightarrow> order_row \<Rightarrow> subscription_row option" where
  "subscription_of db ord =
     List.find (\<lambda>s. su_kind s = bo_kind ord \<and> Some (su_owner s) = owner_id ord) (bl_subscriptions db)"

definition subscription_view :: "subscription_row \<Rightarrow> subscription_state" where
  "subscription_view s = \<lparr>ss_status = su_status s, ss_expires_at = su_expires s, ss_revision = su_revision s\<rparr>"

definition order_owner :: "order_row \<Rightarrow> billing_error + usage_owner" where
  "order_owner ord =
     lift_usage (make_owner (kind_text (bo_kind ord)) (opt_text (owner_id ord)))"

definition plan_of :: "billing_db \<Rightarrow> item_row \<Rightarrow> plan_row option" where
  "plan_of db item = List.find (\<lambda>p. Some (pl_id p) = bi_plan item) (bl_plans db)"

text \<open>\<open>snapshot.get(key) or decision.get(key) or {}\<close>\<close>

definition pinned :: "pval \<Rightarrow> pval \<Rightarrow> string \<Rightarrow> py_exn + pval" where
  "pinned snapshot decision key =
     res_bind (get_attr snapshot key) (\<lambda>v.
       if truthy v then Inr v
       else res_bind (get_attr decision key) (\<lambda>w. Inr (or_empty w)))"

text \<open>\<open>int(column or benefits.get(key) or fallback)\<close>\<close>

definition benefit_number :: "int option \<Rightarrow> pval \<Rightarrow> string \<Rightarrow> int \<Rightarrow> py_exn + int" where
  "benefit_number column benefits key fallback =
     (case column of
        Some n \<Rightarrow> if n \<noteq> 0 then Inr n
          else res_bind (get_attr benefits key) (\<lambda>v. py_int (py_or v (PInt fallback)))
      | None \<Rightarrow> res_bind (get_attr benefits key) (\<lambda>v. py_int (py_or v (PInt fallback))))"

definition benefit_first :: "pval \<Rightarrow> string \<Rightarrow> int \<Rightarrow> py_exn + int" where
  "benefit_first benefits key column =
     res_bind (get_attr benefits key) (\<lambda>v. py_int (py_or v (PInt column)))"

section \<open>Credit packs\<close>

definition subscription_live :: "subscription_row option \<Rightarrow> int \<Rightarrow> bool" where
  "subscription_live current now = subscription_active (map_option subscription_view current) now"

definition grant_for_order ::
    "billing_env \<Rightarrow> usage_owner \<Rightarrow> int \<Rightarrow> string \<Rightarrow> order_row \<Rightarrow> string \<Rightarrow> int \<Rightarrow> int \<Rightarrow> ident
      \<Rightarrow> billing_db \<Rightarrow> billing_error + billing_db" where
  "grant_for_order env ow quantity source ord checksum starts expires item db =
     res_bind (lift_usage (grant_credits (be_usage env) (bl_usage db) ow quantity source (bo_release ord)
         checksum starts expires (Some item) PNone)) (\<lambda>(_, u).
       Inr (db\<lparr>bl_usage := u\<rparr>))"

text \<open>\<open>int(expiry)\<close> with zero for \<open>TypeError\<close> and \<open>ValueError\<close>\<close>

definition expiry_days :: "pval \<Rightarrow> py_exn + int" where
  "expiry_days v =
     (case py_int v of
        Inl TypeError \<Rightarrow> Inr 0 | Inl ValueError \<Rightarrow> Inr 0 | Inl e \<Rightarrow> Inl e | Inr i \<Rightarrow> Inr i)"

definition apply_credit_pack ::
    "billing_env \<Rightarrow> order_row \<Rightarrow> item_row \<Rightarrow> pval \<Rightarrow> billing_db
      \<Rightarrow> billing_error + (activation_outcome \<times> billing_db)" where
  "apply_credit_pack env ord item benefits db =
     res_bind (order_owner ord) (\<lambda>ow.
     let now = billing_now env in
     if \<not> subscription_live (subscription_of db ord) now
     then mark_review env ord ''BASE_SUBSCRIPTION_REQUIRED'' None db
     else
     res_bind (lift_py (get_attr benefits ''expiryPolicy'')) (\<lambda>raw.
     res_bind (lift_py (get_attr (or_empty raw) ''days'')) (\<lambda>d.
     res_bind (lift_py (expiry_days d)) (\<lambda>days.
     if days \<le> 0 then mark_review env ord ''CREDIT_PACK_EXPIRY_INVALID'' None db
     else
     res_bind (lift_py (benefit_first benefits ''procurementCredits'' (bi_quantity item))) (\<lambda>quantity.
     if quantity \<le> 0 then mark_review env ord ''CREDIT_PACK_QUANTITY_INVALID'' None db
     else
     let expires = now + days * 86400 in
     res_bind (grant_for_order env ow quantity ''purchase'' ord
         (py_str (dget (bi_snapshot item) ''releaseChecksum'')) now expires (bi_id item) db) (\<lambda>db1.
     mark_applied env ord None (AfterCredits quantity expires) db1))))))"

section \<open>Renewals\<close>

definition same_renewal_plan :: "billing_db \<Rightarrow> subscription_row \<Rightarrow> item_row \<Rightarrow> bool" where
  "same_renewal_plan db current item \<longleftrightarrow> su_plan current \<noteq> None \<and> su_plan current \<noteq> Some []
     \<and> (\<exists>p \<in> set (bl_plans db). \<exists>q \<in> set (bl_plans db). Some (pl_id p) = su_plan current \<and> Some (pl_id q) = bi_plan item
          \<and> pl_code p = pl_code q \<and> pl_kind p = pl_kind q \<and> pl_tier p = pl_tier q \<and> pl_variant p = pl_variant q)"

text \<open>A queued renewal: its order, its end and plan, and the revision it expects.\<close>

record queued_renewal =
  qr_order :: ident
  qr_expires :: int
  qr_plan :: "ident option"
  qr_expected :: "int option"

definition queued_of :: "activation_row \<Rightarrow> queued_renewal option" where
  "queued_of a =
     (case av_after a of
        AfterScheduled starts expires plan _ _ \<Rightarrow>
          Some \<lparr>qr_order = av_order a, qr_expires = expires, qr_plan = plan, qr_expected = av_expected a\<rparr>
      | _ \<Rightarrow> None)"

definition same_owner :: "order_row \<Rightarrow> order_row \<Rightarrow> bool" where
  "same_owner q ord \<longleftrightarrow> bo_kind q = bo_kind ord \<and> owner_id q \<noteq> None \<and> owner_id q = owner_id ord"

definition queued_renewals :: "billing_db \<Rightarrow> order_row \<Rightarrow> queued_renewal list" where
  "queued_renewals db ord =
     sort_key (\<lambda>q. (qr_expires q, qr_order q))
       (List.map_filter queued_of
         (filter (\<lambda>a. av_state a = ActPending
             \<and> list_ex (\<lambda>q. bo_id q = av_order a \<and> same_owner q ord \<and> bo_id q \<noteq> bo_id ord
                  \<and> bo_operation q = ''renew'' \<and> bo_payment q = VerifiedPaid \<and> bo_activation q = ActPending)
                (bl_orders db))
           (bl_activations db)))"

text \<open>The loop over the queued renewals: the start, the revision to expect, and the last of them.\<close>

fun chain_renewals ::
    "queued_renewal list \<Rightarrow> int \<Rightarrow> int \<Rightarrow> queued_renewal option \<Rightarrow> py_exn + (int \<times> int \<times> queued_renewal option)" where
  "chain_renewals [] starts revision predecessor = Inr (starts, revision, predecessor)"
| "chain_renewals (q # qs) starts revision predecessor =
     (case qr_expected q of
        None \<Rightarrow> Inl TypeError
      | Some r \<Rightarrow> chain_renewals qs (max starts (qr_expires q)) (max revision (r + 1)) (Some q))"

definition schedule_renewal ::
    "billing_env \<Rightarrow> order_row \<Rightarrow> subscription_row \<Rightarrow> item_row \<Rightarrow> int \<Rightarrow> int \<Rightarrow> int \<Rightarrow> queued_renewal option
      \<Rightarrow> billing_db \<Rightarrow> billing_error + (activation_outcome \<times> billing_db)" where
  "schedule_renewal env ord current item starts expires expected predecessor db =
     (let after = AfterScheduled starts expires (bi_plan item)
            (case predecessor of Some q \<Rightarrow> qr_plan q | None \<Rightarrow> su_plan current)
            (case predecessor of Some q \<Rightarrow> Some (qr_order q) | None \<Rightarrow> su_source_order current)
      in
      res_bind (upsert_activation env
         \<lparr>av_id = [], av_order = bo_id ord, av_state = ActPending, av_before = Some current, av_after = after,
          av_expected = Some expected, av_applied = None, av_reason = ''RENEWAL_SCHEDULED''\<rparr>
         (\<lambda>a. a\<lparr>av_state := ActPending, av_before := Some current, av_after := after,
                av_expected := Some expected, av_reason := ''RENEWAL_SCHEDULED''\<rparr>) db) (\<lambda>db1.
      Inr (OutScheduled after, set_order (bo_id ord) (\<lambda>r. r\<lparr>bo_activation := ActPending\<rparr>) db1)))"

section \<open>The base plan\<close>

definition write_subscription :: "subscription_row \<Rightarrow> billing_db \<Rightarrow> billing_error + billing_db" where
  "write_subscription s db =
     (let same = (\<lambda>x. su_kind x = su_kind s \<and> su_owner x = su_owner s) in
      if su_starts s \<le> 0 \<or> (case su_expires s of None \<Rightarrow> False | Some e \<Rightarrow> e \<le> su_starts s)
        \<or> (case su_members s of None \<Rightarrow> False | Some n \<Rightarrow> n \<le> 0) then Inl BillingIntegrity
      else if list_ex same (bl_subscriptions db)
      then Inr (db\<lparr>bl_subscriptions := update_where same
        (\<lambda>x. s\<lparr>su_revision := su_revision x + 1\<rparr>) (bl_subscriptions db)\<rparr>)
      else Inr (db\<lparr>bl_subscriptions := bl_subscriptions db @ [s\<lparr>su_revision := 1\<rparr>]\<rparr>))"

text \<open>The term of the new subscription, once the rules allow it.\<close>

definition apply_term ::
    "billing_env \<Rightarrow> order_row \<Rightarrow> item_row \<Rightarrow> plan_row option \<Rightarrow> ident \<Rightarrow> pval \<Rightarrow> usage_owner
      \<Rightarrow> subscription_row option \<Rightarrow> int \<Rightarrow> int \<Rightarrow> bool \<Rightarrow> billing_db
      \<Rightarrow> billing_error + (activation_outcome \<times> billing_db)" where
  "apply_term env ord item plan package benefits ow current starts expires scheduled db =
     res_bind (if bo_kind ord = OwnerAccount then Inr None
       else res_bind (lift_py (benefit_number (map_option pl_members plan) benefits ''memberQuota'' 1))
         (\<lambda>n. Inr (Some n))) (\<lambda>members.
     res_bind (write_subscription
        \<lparr>su_kind = bo_kind ord, su_owner = uo_identifier ow, su_package = package, su_plan = bi_plan item,
         su_source_order = Some (bo_id ord), su_status = ''active'', su_starts = starts,
         su_expires = Some expires, su_members = members, su_revision = 1\<rparr> db) (\<lambda>db1.
     res_bind (lift_py (benefit_number (map_option pl_included plan) benefits ''includedProcurementQuota'' 0))
       (\<lambda>included.
     res_bind (if included \<le> 0 then Inr db1
       else grant_for_order env ow included ''plan'' ord
         (py_str (let c = dget (bi_snapshot item) ''releaseChecksum'' in
           if truthy c then c else dget (bo_decision ord) ''releaseChecksum'')) starts expires (bi_id item) db1) (\<lambda>db2.
     res_bind (mark_applied env ord current (AfterTerm starts expires (bi_plan item)) db2) (\<lambda>(out, db3).
     if \<not> scheduled then Inr (out, db3)
     else
       res_bind (insert_outbox env ''billing.activation_applied'' (bo_id ord)
         (PDict [(''publicId'', PStr (bo_public ord)), (''startsAt'', PInt starts), (''expiresAt'', PInt expires)]) db3) (\<lambda>db4.
       res_bind (log_audit env ''billing.activation_applied'' (bo_actor ord) (bo_org ord) (bo_id ord)
         [(''startsAt'', PInt starts), (''expiresAt'', PInt expires)] db4) (\<lambda>db5.
       Inr (out, db5))))))))"

text \<open>The scheduled term of an activation that waits for its start.\<close>

definition scheduled_term ::
    "activation_row option \<Rightarrow> (int \<times> int \<times> ident option \<times> ident option \<times> activation_row) option" where
  "scheduled_term existing =
     (case existing of
        None \<Rightarrow> None
      | Some a \<Rightarrow>
          (case (av_state a, av_after a) of
             (ActPending, AfterScheduled starts expires _ plan source) \<Rightarrow> Some (starts, expires, plan, source, a)
           | _ \<Rightarrow> None))"

definition renew_term ::
    "billing_env \<Rightarrow> order_row \<Rightarrow> item_row \<Rightarrow> plan_row option \<Rightarrow> ident \<Rightarrow> pval \<Rightarrow> pval \<Rightarrow> usage_owner \<Rightarrow> int
      \<Rightarrow> subscription_row option \<Rightarrow> billing_db \<Rightarrow> billing_error + (activation_outcome \<times> billing_db)" where
  "renew_term env ord item plan package benefits policy ow days current db =
     res_bind (lift_py (get_attr policy ''renewalAnchor'')) (\<lambda>raw.
     res_bind (lift_py (get_attr (or_empty raw) ''kind'')) (\<lambda>anchor.
     if anchor \<noteq> PStr ''end_of_term'' then mark_review env ord ''RENEWAL_ANCHOR_DECISION_REQUIRED'' None db
     else case current of
       None \<Rightarrow> mark_review env ord ''RENEWAL_BASE_SUBSCRIPTION_REQUIRED'' None db
     | Some s \<Rightarrow>
         (case su_expires s of
            None \<Rightarrow> mark_review env ord ''RENEWAL_BASE_SUBSCRIPTION_REQUIRED'' None db
          | Some ends \<Rightarrow>
              if su_status s \<notin> {''active'', ''expired''} \<or> ends = 0
              then mark_review env ord ''RENEWAL_BASE_SUBSCRIPTION_REQUIRED'' None db
              else if \<not> same_renewal_plan db s item
              then mark_review env ord ''RENEWAL_PLAN_TRANSITION_REVIEW_REQUIRED'' None db
              else case verified_payments db (bo_id ord) of
                [] \<Rightarrow> mark_review env ord ''RENEWAL_PAYMENT_TIME_REQUIRED'' None db
              | p # _ \<Rightarrow>
                  if py_occurred p = 0 then mark_review env ord ''RENEWAL_PAYMENT_TIME_REQUIRED'' None db
                  else
                    res_bind (lift_py (chain_renewals (queued_renewals db ord)
                        (max (py_occurred p) ends) (su_revision s) None)) (\<lambda>(starts, expected, predecessor).
                    let expires = starts + days * 86400 in
                    if billing_now env < starts
                    then schedule_renewal env ord s item starts expires expected predecessor db
                    else apply_term env ord item plan package benefits ow current starts expires False db))))"

definition apply_base_plan ::
    "billing_env \<Rightarrow> order_row \<Rightarrow> item_row \<Rightarrow> pval \<Rightarrow> subscription_row option
      \<Rightarrow> (int \<times> int \<times> ident option \<times> ident option \<times> activation_row) option \<Rightarrow> billing_db
      \<Rightarrow> billing_error + (activation_outcome \<times> billing_db)" where
  "apply_base_plan env ord item benefits current waiting db =
     res_bind (lift_py (pinned (bi_snapshot item) (bo_decision ord) ''policySnapshot'')) (\<lambda>policy.
     res_bind (lift_py (transition_review_reason (bo_operation ord) ''base_plan'' policy
         (map_option subscription_view current) (billing_now env))) (\<lambda>reason.
     case reason of
       Some r \<Rightarrow> mark_review env ord r None db
     | None \<Rightarrow>
     res_bind (lift_py (pinned (bi_snapshot item) (bo_decision ord) ''price'')) (\<lambda>price.
     if \<not> is_dict price then Inl (BillingException AttributeError)
     else
     let period = dget_default price ''period'' (PStr ''yearly'') in
     res_bind (lift_py (get_attr policy (if period = PStr ''monthly'' then ''monthlyBaseTerm'' else ''baseTerm''))) (\<lambda>raw.
     let term_policy = or_empty raw in
     res_bind (lift_py (get_attr term_policy ''kind'')) (\<lambda>term.
     res_bind (lift_py (in_str_set [''blocked_decision'', ''calendar_anniversary''] term)) (\<lambda>undecided.
     if term = PNone \<or> undecided then mark_review env ord ''BASE_TERM_DECISION_REQUIRED'' None db
     else
     let plan = plan_of db item; package = Option.bind plan pl_package in
     if package = None \<or> package = Some [] then mark_review env ord ''PLAN_PACKAGE_MAPPING_MISSING'' None db
     else if term \<noteq> PStr ''fixed_days'' then mark_review env ord ''BASE_TERM_UNSUPPORTED'' None db
     else
     res_bind (lift_py (int_or_zero (dget term_policy ''days''))) (\<lambda>days.
     if days \<le> 0 then mark_review env ord ''BASE_TERM_INVALID'' None db
     else
     res_bind (order_owner ord) (\<lambda>ow.
     let now = billing_now env in
     case waiting of
       Some (starts, expires, plan_before, source_before, a) \<Rightarrow>
         if now < starts then Inr (OutScheduled (av_after a), db)
         else (case current of
             None \<Rightarrow> mark_review env ord ''RENEWAL_PREDECESSOR_MISMATCH'' None db
           | Some s \<Rightarrow>
               if su_status s \<noteq> ''active'' \<or> su_plan s \<noteq> plan_before \<or> su_source_order s \<noteq> source_before
               then mark_review env ord ''RENEWAL_PREDECESSOR_MISMATCH'' None db
               else apply_term env ord item plan (the package) benefits ow current starts expires True db)
     | None \<Rightarrow>
         if bo_operation ord = ''renew''
         then renew_term env ord item plan (the package) benefits policy ow days current db
         else if subscription_live current now \<and> bo_operation ord = ''purchase''
         then mark_review env ord active_term_review None db
         else apply_term env ord item plan (the package) benefits ow current now (now + days * 86400) False db))))))))"

section \<open>\<open>_activate_order\<close>\<close>

definition refund_state :: "payment_state \<Rightarrow> bool" where
  "refund_state s \<longleftrightarrow> s = RefundPending \<or> s = PartiallyRefunded \<or> s = Refunded \<or> s = RefundFailed"

definition refund_review :: string where
  "refund_review = ''PAYMENT_REFUND_REVIEW_REQUIRED''"

definition activate_item ::
    "billing_env \<Rightarrow> order_row \<Rightarrow> activation_row option \<Rightarrow> item_row \<Rightarrow> billing_db
      \<Rightarrow> billing_error + (activation_outcome \<times> billing_db)" where
  "activate_item env ord existing item db =
     res_bind (lift_py (pinned (bi_snapshot item) (bo_decision ord) ''benefits'')) (\<lambda>benefits.
     let current = subscription_of db ord; waiting = scheduled_term existing;
         expected = (case waiting of Some (_, _, _, _, a) \<Rightarrow> av_expected a | None \<Rightarrow> bo_expected ord);
         stale = (case expected of None \<Rightarrow> False
           | Some r \<Rightarrow> (case current of None \<Rightarrow> True | Some s \<Rightarrow> su_revision s \<noteq> r))
     in
     if stale then
       (case waiting of
          Some (starts, _, _, _, a) \<Rightarrow>
            if billing_now env < starts then Inr (OutScheduled (av_after a), db)
            else mark_review env ord ''SUBSCRIPTION_REVISION_MISMATCH'' None db
        | None \<Rightarrow> mark_review env ord ''SUBSCRIPTION_REVISION_MISMATCH'' None db)
     else if dget (bi_snapshot item) ''itemType'' = PStr ''procurement_credit_pack''
     then apply_credit_pack env ord item benefits db
     else apply_base_plan env ord item benefits current waiting db)"

definition activate_order_row ::
    "billing_env \<Rightarrow> order_row \<Rightarrow> billing_db \<Rightarrow> billing_error + (activation_outcome \<times> billing_db)" where
  "activate_order_row env ord db =
     (if bo_activation ord = ActReversed then Inr (OutReversed, db)
      else if refund_state (bo_payment ord) \<or> bo_id ord \<in> set (bl_pending_refunds db)
      then Inr (OutReview refund_review, db)
      else
        let existing = find_activation db (bo_id ord) in
        if (case existing of None \<Rightarrow> False | Some a \<Rightarrow> av_state a = ActApplied) then Inr (OutApplied, db)
        else if \<not> owner_is_active db ord then mark_review env ord ''OWNER_INACTIVE'' None db
        else case List.find (\<lambda>i. bi_order i = bo_id ord) (bl_items db) of
          None \<Rightarrow> mark_review env ord ''ORDER_ITEM_MISSING'' None db
        | Some item \<Rightarrow> activate_item env ord existing item db)"

section \<open>Entry points\<close>

datatype apply_result =
  ResMissing | ResEvent event_status | ResNotPaid string | ResOutcome activation_outcome

text \<open>\<open>activate_order\<close>, the retry of the worker\<close>

definition activate_order ::
    "billing_env \<Rightarrow> billing_db \<Rightarrow> ident \<Rightarrow> billing_error + (apply_result \<times> billing_db)" where
  "activate_order env db oid =
     (case find_order db oid of
        None \<Rightarrow> Inr (ResMissing, db)
      | Some ord \<Rightarrow>
          if bo_activation ord = ActApplied then Inr (ResOutcome OutApplied, db)
          else if bo_payment ord \<noteq> VerifiedPaid then Inr (ResOutcome (OutReview ''PAYMENT_NOT_VERIFIED''), db)
          else res_bind (activate_order_row env ord db) (\<lambda>(out, db'). Inr (ResOutcome out, db')))"

definition paid_statuses :: "string list" where
  "paid_statuses = [''PAID'', ''SUCCESS'', ''COMPLETED'', ''SETTLED'']"

definition result_dict :: "pval \<Rightarrow> py_exn + pval" where
  "result_dict v = (let d = or_empty v in if is_dict d then Inr d else Inl TypeError)"

definition result_amount :: "pval \<Rightarrow> py_exn + int" where
  "result_amount result =
     (if dget result ''amountPaid'' \<noteq> PNone then py_int (dget result ''amountPaid'')
      else int_or_zero (dget result ''amount''))"

definition set_verified :: "ident \<Rightarrow> billing_db \<Rightarrow> billing_db" where
  "set_verified oid = set_order oid (\<lambda>r. r\<lparr>
     bo_payment := (if refund_state (bo_payment r) then bo_payment r else VerifiedPaid),
     bo_activation := (if bo_activation r = ActApplied \<or> bo_activation r = ActReversed
       then bo_activation r else ActPending)\<rparr>)"

text \<open>The payment fact, the activation and their effects, shared by both entry points.\<close>

definition settle_payment ::
    "billing_env \<Rightarrow> order_row \<Rightarrow> ident \<Rightarrow> string \<Rightarrow> int \<Rightarrow> int \<Rightarrow> pval \<Rightarrow> billing_db
      \<Rightarrow> billing_error + (activation_outcome \<times> billing_db)" where
  "settle_payment env ord profile tx amount occurred evidence db =
     (let timing = payment_timing_of ord occurred in
      res_bind (insert_or_validate_payment env ord profile tx amount timing occurred evidence db) (\<lambda>(fact, db1).
      case fact of
        PaymentMismatch reason \<Rightarrow> mark_review env ord reason None db1
      | _ \<Rightarrow>
          let db2 = set_verified (bo_id ord) db1 in
          res_bind (if timing \<noteq> OnTime then mark_review env ord ''LATE_PAYMENT_REVIEW_REQUIRED'' None db2
            else activate_order_row env ord db2) (\<lambda>(out, db3).
          (case fact of
             PaymentInserted pid \<Rightarrow>
               res_bind (record_verified_payment_effects env ord pid timing out db3) (\<lambda>db4. Inr (out, db4))
           | _ \<Rightarrow> Inr (out, db3)))))"

definition transaction_id :: "pval \<Rightarrow> int \<Rightarrow> string" where
  "transaction_id result code =
     py_str (py_or (dget result ''reference'') (py_or (dget result ''paymentLinkId'')
       (PStr (int_decimal code @ ''-payment''))))"

definition timestamp_evidence :: "pval \<Rightarrow> pval" where
  "timestamp_evidence result =
     PDict [(''providerOrderCode'', dget result ''orderCode''),
       (''paymentLinkId'', py_or (dget result ''paymentLinkId'') (dget result ''id'')),
       (''providerReference'', dget result ''reference''), (''providerStatus'', dget result ''status''),
       (''transactionDateTime'', dget result ''transactionDateTime''), (''createdAt'', dget result ''createdAt'')]"

text \<open>\<open>apply_order_result\<close>: the answer of the provider to a query of an order\<close>

definition apply_order_result ::
    "billing_env \<Rightarrow> billing_db \<Rightarrow> ident \<Rightarrow> pval \<Rightarrow> ident \<Rightarrow> billing_error + (apply_result \<times> billing_db)" where
  "apply_order_result env db oid provider_result profile =
     (case find_order db oid of
        None \<Rightarrow> Inr (ResMissing, db)
      | Some ord \<Rightarrow>
          res_bind (lift_py (result_dict provider_result)) (\<lambda>result.
          let status = py_upper (str_or_empty (dget result ''status'')); paid = status \<in> set paid_statuses;
              outcome = (\<lambda>(out, db'). Inr (ResOutcome out, db'))
          in
          res_bind (lift_py (result_amount result)) (\<lambda>amount.
          res_bind (lift_py (py_int (py_or (dget result ''orderCode'') (PInt (bo_code ord))))) (\<lambda>code.
          if code \<noteq> bo_code ord
          then res_bind (mark_review env ord ''PROVIDER_ORDER_CODE_MISMATCH'' None db) outcome
          else
          res_bind (record_payment_progress env ord result db) (\<lambda>db1.
          if paid \<and> amount \<noteq> bo_total ord
          then res_bind (mark_review env ord ''PAYMENT_AMOUNT_MISMATCH'' None db1) outcome
          else if \<not> paid then Inr (ResNotPaid status, db1)
          else
          res_bind (lift_py (parse_provider_transaction_time env result)) (\<lambda>time.
          case time of
            Inl reason \<Rightarrow> res_bind (mark_review env ord reason (Some (timestamp_evidence result)) db1) outcome
          | Inr occurred \<Rightarrow>
              res_bind (settle_payment env ord profile (transaction_id result (bo_code ord)) amount occurred
                (PDict [(''provider'', result)]) db1) outcome))))))"

definition event_state :: "billing_env \<Rightarrow> ident \<Rightarrow> event_status \<Rightarrow> string option \<Rightarrow> billing_db \<Rightarrow> billing_db" where
  "event_state env eid status error db = db\<lparr>bl_events := update_where (\<lambda>e. we_id e = eid)
     (\<lambda>e. e\<lparr>we_status := status, we_error := error, we_lease := None, we_locked_by := None,
            we_processed_at := (if status = EvProcessed \<or> status = EvIgnored then Some (billing_now env)
              else we_processed_at e)\<rparr>) (bl_events db)\<rparr>"

definition review_event ::
    "billing_env \<Rightarrow> ident \<Rightarrow> order_row \<Rightarrow> string \<Rightarrow> pval option \<Rightarrow> billing_db
      \<Rightarrow> billing_error + (apply_result \<times> billing_db)" where
  "review_event env eid ord reason evidence db =
     res_bind (mark_review env ord reason evidence db) (\<lambda>(out, db').
       Inr (ResOutcome out, event_state env eid EvReview (Some reason) db'))"

text \<open>The part of \<open>apply_verified\<close> that knows the order.\<close>

definition apply_to_order ::
    "billing_env \<Rightarrow> ident \<Rightarrow> order_row \<Rightarrow> int \<Rightarrow> pval \<Rightarrow> pval \<Rightarrow> ident \<Rightarrow> billing_db
      \<Rightarrow> billing_error + (apply_result \<times> billing_db)" where
  "apply_to_order env eid ord order_code signed provider_result profile db =
     res_bind (lift_py (result_dict provider_result)) (\<lambda>result.
     let status = py_upper (str_or_empty (py_or (dget result ''status'') (dget signed ''status'')));
         paid = status \<in> set paid_statuses
     in
     res_bind (lift_py (result_amount result)) (\<lambda>amount.
     res_bind (lift_py (py_int (py_or (dget result ''orderCode'') (PInt order_code)))) (\<lambda>code.
     if code \<noteq> order_code then review_event env eid ord ''PROVIDER_ORDER_CODE_MISMATCH'' None db
     else
     res_bind (lift_py (int_or_zero (dget signed ''amount''))) (\<lambda>signed_amount.
     if paid \<and> signed_amount \<noteq> bo_total ord then review_event env eid ord ''WEBHOOK_AMOUNT_MISMATCH'' None db
     else
     let link = py_strip (str_or_empty (dget signed ''paymentLinkId''));
         result_link = py_strip (str_or_empty (py_or (dget result ''paymentLinkId'') (dget result ''id'')))
     in
     if link = [] \<or> result_link \<noteq> link then review_event env eid ord ''PAYMENT_LINK_ID_MISMATCH'' None db
     else
     res_bind (record_payment_progress env ord result db) (\<lambda>db1.
     if paid \<and> amount \<noteq> bo_total ord then review_event env eid ord ''PAYMENT_AMOUNT_MISMATCH'' None db1
     else if \<not> paid \<or> amount < bo_total ord
     then Inr (ResNotPaid status, event_state env eid EvProcessed None db1)
     else
     res_bind (lift_py (parse_provider_transaction_time env result)) (\<lambda>time.
     case time of
       Inl reason \<Rightarrow> review_event env eid ord reason (Some (timestamp_evidence result)) db1
     | Inr occurred \<Rightarrow>
         res_bind (settle_payment env ord profile (transaction_id result order_code) (bo_total ord) occurred
           (PDict [(''provider'', result), (''webhook'', signed)]) db1) (\<lambda>(out, db2).
         Inr (ResOutcome out, event_state env eid
           (case out of OutReview _ \<Rightarrow> EvReview | _ \<Rightarrow> EvProcessed) (outcome_reason out) db2))))))))"

definition apply_verified ::
    "billing_env \<Rightarrow> billing_db \<Rightarrow> ident \<Rightarrow> pval \<Rightarrow> ident \<Rightarrow> billing_error + (apply_result \<times> billing_db)" where
  "apply_verified env db eid provider_result profile =
     (case List.find (\<lambda>e. we_id e = eid) (bl_events db) of
        None \<Rightarrow> Inr (ResMissing, db)
      | Some event \<Rightarrow>
          if we_status event \<in> {EvProcessed, EvIgnored, EvDead} then Inr (ResEvent (we_status event), db)
          else
            res_bind (lift_py (get_attr (we_signed event) ''orderCode'')) (\<lambda>raw.
            res_bind (lift_py (py_int (py_or raw (PInt 0)))) (\<lambda>order_code.
            case List.find (\<lambda>r. bo_profile r = profile \<and> bo_code r = order_code) (bl_orders db) of
              None \<Rightarrow> Inr (ResOutcome (OutReview ''ORDER_NOT_FOUND''),
                event_state env eid EvReview (Some ''ORDER_NOT_FOUND'') db)
            | Some ord \<Rightarrow> apply_to_order env eid ord order_code (we_signed event) provider_result profile db)))"

text \<open>\<open>reconcile_event\<close>: the event is read, the provider is asked, and the answer applied.\<close>

definition reconcile_event ::
    "billing_env \<Rightarrow> (int \<Rightarrow> pval) \<Rightarrow> billing_db \<Rightarrow> ident \<Rightarrow> billing_error + (apply_result \<times> billing_db)" where
  "reconcile_event env get_payment db eid =
     (case List.find (\<lambda>e. we_id e = eid) (bl_events db) of
        None \<Rightarrow> Inr (ResMissing, db)
      | Some event \<Rightarrow>
          if we_status event \<in> {EvProcessed, EvIgnored, EvDead} then Inr (ResEvent (we_status event), db)
          else
            res_bind (lift_py (get_attr (we_signed event) ''orderCode'')) (\<lambda>raw.
            res_bind (lift_py (py_int (py_or raw (PInt 0)))) (\<lambda>order_code.
            apply_verified env db eid (get_payment order_code) (we_profile event))))"

end
