(* ===== verification/Billing_Laws.thy ===== *)
theory Billing_Laws
  imports Billing_Apply Usage_Laws Audit_Laws
begin

text \<open>
  What a billing call may write.  Every entry point is a sequence of writes of one kind of row
  each; the invariants are proved once for the writes, and the calls inherit them.
\<close>

section \<open>Writes\<close>

text \<open>
  A silent write takes an id, appends an outbox, audit or invoice row, or moves an event.  A quiet
  write may also move the progress columns of an order or an activation.  Neither touches a
  payment, a subscription or a credit.
\<close>

definition order_step :: "order_row \<Rightarrow> order_row \<Rightarrow> bool" where
  "order_step r r' \<longleftrightarrow> r'\<lparr>bo_activation := bo_activation r, bo_progress := bo_progress r\<rparr> = r"

definition event_facts :: "event_row \<Rightarrow> ident \<times> ident \<times> pval" where
  "event_facts e = (we_id e, we_profile e, we_signed e)"

inductive silent_write :: "billing_env \<Rightarrow> billing_db \<Rightarrow> billing_db \<Rightarrow> bool" for env where
  fresh_id: "silent_write env db (db\<lparr>bl_usage := (bl_usage db)\<lparr>uid_counter := n\<rparr>\<rparr>)"
| outbox: "silent_write env db (db\<lparr>bl_outbox := bl_outbox db @ [x]\<rparr>)"
| audit: "insert_audit_row (be_audit env) e (bl_audit db) = Some (h, a) \<Longrightarrow> silent_write env db (db\<lparr>bl_audit := a\<rparr>)"
| invoice: "iv_order i \<notin> iv_order ` set (bl_invoices db) \<Longrightarrow>
    silent_write env db (db\<lparr>bl_invoices := bl_invoices db @ [i]\<rparr>)"
| event: "(\<And>e. event_facts (f e) = event_facts e) \<Longrightarrow> silent_write env db (db\<lparr>bl_events := update_where (\<lambda>e. we_id e = eid) f (bl_events db)\<rparr>)"

inductive quiet_write :: "billing_env \<Rightarrow> billing_db \<Rightarrow> billing_db \<Rightarrow> bool" for env where
  silently: "silent_write env db db' \<Longrightarrow> quiet_write env db db'"
| order: "(\<And>r. order_step r (f r)) \<Longrightarrow> quiet_write env db (set_order oid f db)"
| activation: "(\<And>a. av_order (f a) = av_order a) \<Longrightarrow>
    quiet_write env db (db\<lparr>bl_activations := update_where (\<lambda>a. av_order a = oid) f (bl_activations db)\<rparr>)"
| new_activation: "av_order a \<notin> av_order ` set (bl_activations db) \<Longrightarrow>
    quiet_write env db (db\<lparr>bl_activations := bl_activations db @ [a]\<rparr>)"

definition silent :: "billing_env \<Rightarrow> billing_db \<Rightarrow> billing_db \<Rightarrow> bool" where
  "silent env = (silent_write env)\<^sup>*\<^sup>*"

definition quiet :: "billing_env \<Rightarrow> billing_db \<Rightarrow> billing_db \<Rightarrow> bool" where
  "quiet env = (quiet_write env)\<^sup>*\<^sup>*"

lemma quiet_refl [simp, intro]: "quiet env db db" "silent env db db"
  by (simp_all add: quiet_def silent_def)

lemma quiet_trans [trans]: "quiet env a b \<Longrightarrow> quiet env b c \<Longrightarrow> quiet env a c"
  by (simp add: quiet_def)

lemma silent_trans [trans]: "silent env a b \<Longrightarrow> silent env b c \<Longrightarrow> silent env a c"
  by (simp add: silent_def)

lemma quiet_one: "quiet_write env a b \<Longrightarrow> quiet env a b"
  by (simp add: quiet_def)

lemma silent_one: "silent_write env a b \<Longrightarrow> silent env a b"
  by (simp add: silent_def)

lemma silent_quiet: "silent env a b \<Longrightarrow> quiet env a b"
  unfolding silent_def quiet_def by (erule mono_rtranclp[rule_format, rotated]) (rule silently)

lemma silent_id: "billing_new_id env p db = (i, db') \<Longrightarrow> silent env db db'"
  using silent_one[OF fresh_id] by (auto simp: billing_new_id_def usage_new_id_def)

lemmas quiet_id = silent_quiet[OF silent_id]

lemma silent_insert_outbox:
  assumes "insert_outbox env t a v db = Inr db'"
  shows "silent env db db'"
proof -
  obtain i db1 where 1: "billing_new_id env ''commercial-outbox'' db = (i, db1)" by force
  then obtain x where "db' = db1\<lparr>bl_outbox := bl_outbox db1 @ [x]\<rparr>"
    using assms by (auto simp: insert_outbox_def res_simps split: if_splits)
  then show ?thesis using silent_id[OF 1] silent_one[OF outbox] silent_trans by metis
qed

lemma silent_log_audit: "log_audit env act actor org target meta db = Inr db' \<Longrightarrow> silent env db db'"
  by (auto simp: log_audit_def split: option.splits intro!: silent_one audit)

lemma quiet_set_order: "(\<And>r. order_step r (f r)) \<Longrightarrow> quiet env db (set_order oid f db)"
  by (intro quiet_one order)

lemma quiet_upsert:
  assumes "upsert_activation env row f db = Inr db'" and "\<And>a. av_order (f a) = av_order a"
  shows "quiet env db db'"
proof -
  obtain i db1 where 1: "billing_new_id env ''subscription-activation'' db = (i, db1)" by force
  have "quiet env db1 db'"
  proof (cases "\<exists>a \<in> set (bl_activations db1). av_order a = av_order row")
    case True
    then have "db' = db1\<lparr>bl_activations := update_where (\<lambda>a. av_order a = av_order row) f (bl_activations db1)\<rparr>"
      using assms(1) 1 by (simp add: upsert_activation_def)
    then show ?thesis using quiet_one[OF activation[OF assms(2)]] by simp
  next
    case False
    then have "db' = db1\<lparr>bl_activations := bl_activations db1 @ [row\<lparr>av_id := i\<rparr>]\<rparr>"
      using assms(1) 1 by (simp add: upsert_activation_def split: if_splits)
    moreover have "av_order (row\<lparr>av_id := i\<rparr>) \<notin> av_order ` set (bl_activations db1)"
      using False by auto
    ultimately show ?thesis using quiet_one[OF new_activation] by simp
  qed
  with quiet_id[OF 1] show ?thesis by (rule quiet_trans)
qed

lemma order_step_simps [simp]:
  "order_step r (r\<lparr>bo_activation := s\<rparr>)" "order_step r (r\<lparr>bo_progress := v\<rparr>)"
  by (simp_all add: order_step_def)

lemma mark_review_Inr:
  assumes "mark_review env ord reason ev db = Inr (out, db')"
  shows "out = OutReview reason \<and> (\<exists>db1 f. upsert_activation env
        \<lparr>av_id = [], av_order = bo_id ord, av_state = ActReview, av_before = None, av_after = AfterEmpty,
         av_expected = None, av_applied = None, av_reason = py_prefix 200 reason\<rparr>
        (\<lambda>a. a\<lparr>av_state := ActReview, av_reason := py_prefix 200 reason\<rparr>) db = Inr db1
    \<and> (\<forall>a. f a = a \<or> (\<exists>t. f a = a\<lparr>av_after := AfterEvidence t\<rparr>))
    \<and> db' = set_order (bo_id ord) (\<lambda>r. r\<lparr>bo_activation := ActReview\<rparr>)
        (db1\<lparr>bl_activations := update_where (\<lambda>a. av_order a = bo_id ord) f (bl_activations db1)\<rparr>))"
proof -
  show ?thesis
  proof (cases "ev = None \<or> (\<exists>v. ev = Some v \<and> \<not> truthy v)")
    case True
    then show ?thesis using assms
      by (intro conjI) (auto simp: mark_review_def res_simps split: option.splits
        intro!: exI[of _ "\<lambda>a. a"] simp: update_where_def)
  next
    case False
    then obtain v where "ev = Some v" "truthy v" by (cases ev) auto
    then obtain db1 t where "upsert_activation env
        \<lparr>av_id = [], av_order = bo_id ord, av_state = ActReview, av_before = None, av_after = AfterEmpty,
         av_expected = None, av_applied = None, av_reason = py_prefix 200 reason\<rparr>
        (\<lambda>a. a\<lparr>av_state := ActReview, av_reason := py_prefix 200 reason\<rparr>) db = Inr db1"
      "out = OutReview reason"
      "db' = set_order (bo_id ord) (\<lambda>r. r\<lparr>bo_activation := ActReview\<rparr>)
        (db1\<lparr>bl_activations := update_where (\<lambda>a. av_order a = bo_id ord)
          (\<lambda>a. a\<lparr>av_after := AfterEvidence t\<rparr>) (bl_activations db1)\<rparr>)"
      using assms unfolding mark_review_def res_bind_eq_Inr by (auto simp: res_simps)
    then show ?thesis by (intro conjI exI[of _ db1] exI[of _ "\<lambda>a. a\<lparr>av_after := AfterEvidence t\<rparr>"]) auto
  qed
qed

lemma quiet_mark_review:
  assumes "mark_review env ord reason ev db = Inr (out, db')"
  shows "quiet env db db' \<and> out = OutReview reason"
proof -
  obtain row g db1 f where 1: "upsert_activation env row g db = Inr db1" "\<And>a. av_order (g a) = av_order a"
    and f: "\<forall>a. f a = a \<or> (\<exists>t. f a = a\<lparr>av_after := AfterEvidence t\<rparr>)"
    and db': "db' = set_order (bo_id ord) (\<lambda>r. r\<lparr>bo_activation := ActReview\<rparr>)
        (db1\<lparr>bl_activations := update_where (\<lambda>a. av_order a = bo_id ord) f (bl_activations db1)\<rparr>)"
    and out: "out = OutReview reason"
    using mark_review_Inr[OF assms] by (elim conjE exE) simp
  have "av_order (f a) = av_order a" for a using f[rule_format, of a] by auto
  then have "quiet env db1 (db1\<lparr>bl_activations := update_where (\<lambda>a. av_order a = bo_id ord) f (bl_activations db1)\<rparr>)"
    by (rule quiet_one[OF activation])
  with quiet_upsert[OF 1] have "quiet env db
      (db1\<lparr>bl_activations := update_where (\<lambda>a. av_order a = bo_id ord) f (bl_activations db1)\<rparr>)"
    by (rule quiet_trans)
  then show ?thesis unfolding db' out using quiet_set_order order_step_simps(1) quiet_trans by fast
qed

lemma silent_insert_invoice:
  assumes "insert_invoice env ord p v db = Inr db'"
  shows "silent env db db'"
proof -
  obtain i db1 where 1: "billing_new_id env ''invoice-request'' db = (i, db1)" by force
  note Q = silent_id[OF 1]
  show ?thesis
  proof (cases "\<exists>x \<in> set (bl_invoices db1). iv_order x = bo_id ord")
    case True
    then show ?thesis using assms 1 Q by (auto simp: insert_invoice_def res_simps)
  next
    case False
    then obtain x payload where x: "iv_order x = bo_id ord" and run: "insert_outbox env ''billing.invoice_requested'' (bo_id ord)
        payload (db1\<lparr>bl_invoices := bl_invoices db1 @ [x]\<rparr>) = Inr db'"
      using assms 1 by (force simp: insert_invoice_def res_simps split: if_splits)
    have "iv_order x \<notin> iv_order ` set (bl_invoices db1)" using False x by auto
    from silent_one[OF invoice[OF this]] silent_insert_outbox[OF run] Q show ?thesis
      by (meson silent_trans)
  qed
qed

lemma silent_request_invoice:
  "request_invoice_if_due env ord p applied db = Inr db' \<Longrightarrow> silent env db db'"
  by (auto simp: request_invoice_if_due_def res_simps Let_def split: if_splits intro: silent_insert_invoice)

lemma quiet_mark_applied:
  assumes "mark_applied env ord before after db = Inr (out, db')"
  shows "quiet env db db' \<and> out = OutApplied"
proof -
  obtain row g db1 db2 where 1: "upsert_activation env row g db = Inr db1" "\<And>a. av_order (g a) = av_order a"
    and db2: "db2 = set_order (bo_id ord) (\<lambda>r. r\<lparr>bo_activation := ActApplied\<rparr>) db1"
    and rest: "(case verified_payments db2 (bo_id ord) of
       [] \<Rightarrow> Inr (OutApplied, db2)
     | p # _ \<Rightarrow> res_bind (request_invoice_if_due env ord (py_id p) True db2) (\<lambda>db3. Inr (OutApplied, db3))) = Inr (out, db')"
    using assms unfolding mark_applied_def Let_def res_bind_eq_Inr by force
  have "quiet env db1 db2" by (simp add: db2 quiet_set_order)
  moreover have "quiet env db2 db' \<and> out = OutApplied"
    using rest by (auto simp: res_simps split: list.splits intro: silent_quiet silent_request_invoice)
  ultimately show ?thesis using quiet_upsert[OF 1] quiet_trans by blast
qed

text \<open>The progress of a checkout moves one column of the order.\<close>

definition progress_step :: "order_row \<Rightarrow> billing_db \<Rightarrow> billing_db \<Rightarrow> bool" where
  "progress_step ord db db' \<longleftrightarrow> db' = db \<or> (\<exists>v. db' = set_order (bo_id ord) (\<lambda>r. r\<lparr>bo_progress := v\<rparr>) db)"

lemma record_progress: "record_payment_progress env ord v db = Inr db' \<Longrightarrow> progress_step ord db db'"
  by (auto simp: record_payment_progress_def progress_step_def res_simps split: option.splits if_splits)

lemma progress_quiet: "progress_step ord db db' \<Longrightarrow> quiet env db db'"
  by (auto simp: progress_step_def intro!: quiet_set_order)

lemmas quiet_progress = progress_quiet[OF record_progress]

lemma silent_effects:
  "record_verified_payment_effects env ord p timing out db = Inr db' \<Longrightarrow> silent env db db'"
  unfolding record_verified_payment_effects_def Let_def res_bind_eq_Inr
  by (elim exE conjE) (meson silent_request_invoice silent_insert_outbox silent_log_audit silent_trans)

lemma quiet_schedule:
  assumes "schedule_renewal env ord cur item t0 t1 r q db = Inr (out, db')"
  shows "quiet env db db' \<and> (\<exists>a. out = OutScheduled a)"
proof -
  obtain row f db1 where 1: "upsert_activation env row f db = Inr db1" "\<And>a. av_order (f a) = av_order a"
    and 2: "db' = set_order (bo_id ord) (\<lambda>r. r\<lparr>bo_activation := ActPending\<rparr>) db1" "\<exists>a. out = OutScheduled a"
    using assms unfolding schedule_renewal_def Let_def res_bind_eq_Inr by force
  have "quiet env db1 db'" by (simp add: 2 quiet_set_order)
  with quiet_upsert[OF 1] 2(2) show ?thesis using quiet_trans by blast
qed

lemma silent_event_state: "silent env db (event_state env i s e db)"
  unfolding event_state_def by (rule silent_one[OF event]) (simp add: event_facts_def)

section \<open>Partial correctness of computations that may raise\<close>

text \<open>\<open>yields m P\<close>: whatever \<open>m\<close> returns satisfies \<open>P\<close>.\<close>

definition yields :: "'e + 'a \<Rightarrow> ('a \<Rightarrow> bool) \<Rightarrow> bool" where
  "yields m P \<longleftrightarrow> (\<forall>x. m = Inr x \<longrightarrow> P x)"

named_theorems yields_intros

lemma yieldsD: "yields m P \<Longrightarrow> m = Inr x \<Longrightarrow> P x"
  by (simp add: yields_def)

lemma yieldsI: "(\<And>x. m = Inr x \<Longrightarrow> P x) \<Longrightarrow> yields m P"
  by (simp add: yields_def)

lemma yields_Inl [yields_intros]: "yields (Inl e) P"
  by (simp add: yields_def)

lemma yields_if [yields_intros]:
  "(b \<Longrightarrow> yields m P) \<Longrightarrow> (\<not> b \<Longrightarrow> yields m' P) \<Longrightarrow> yields (if b then m else m') P"
  by simp

lemma yields_bind [yields_intros]:
  "(\<And>x. m = Inr x \<Longrightarrow> yields (f x) P) \<Longrightarrow> yields (res_bind m f) P"
  by (auto simp: yields_def res_simps)

lemma yields_option [yields_intros]:
  "(z = None \<Longrightarrow> yields m P) \<Longrightarrow> (\<And>y. z = Some y \<Longrightarrow> yields (g y) P) \<Longrightarrow>
    yields (case z of None \<Rightarrow> m | Some y \<Rightarrow> g y) P"
  by (cases z) auto

lemma yields_list [yields_intros]:
  "(xs = [] \<Longrightarrow> yields m P) \<Longrightarrow> (\<And>y ys. xs = y # ys \<Longrightarrow> yields (h y ys) P) \<Longrightarrow>
    yields (case xs of [] \<Rightarrow> m | y # ys \<Rightarrow> h y ys) P"
  by (cases xs) auto

lemma yields_prod [yields_intros]:
  "(\<And>x y. q = (x, y) \<Longrightarrow> yields (k x y) P) \<Longrightarrow> yields (case q of (x, y) \<Rightarrow> k x y) P"
  by (cases q) auto

lemma yields_sum [yields_intros]:
  "(\<And>x. s = Inl x \<Longrightarrow> yields (l x) P) \<Longrightarrow> (\<And>y. s = Inr y \<Longrightarrow> yields (r y) P) \<Longrightarrow>
    yields (case s of Inl x \<Rightarrow> l x | Inr y \<Rightarrow> r y) P"
  by (cases s) auto

lemma yields_let [yields_intros]: "yields (f v) P \<Longrightarrow> yields (let x = v in f x) P"
  by simp

lemma yields_Inr: "P x \<Longrightarrow> yields (Inr x) P"
  by (simp add: yields_def)

section \<open>What an activation changes\<close>

text \<open>
  The two kinds of paid effect: the credits of a pack, or the term of a plan with the credits it
  includes.  Everything after them is quiet and ends with the applied activation.
\<close>

definition order_grant ::
    "billing_env \<Rightarrow> order_row \<Rightarrow> item_row \<Rightarrow> string \<Rightarrow> billing_db \<Rightarrow> billing_db \<Rightarrow> bool" where
  "order_grant env ord item source db db' \<longleftrightarrow> (\<exists>ow n chk t0 t1. order_owner ord = Inr ow
     \<and> grant_for_order env ow n source ord chk t0 t1 (bi_id item) db = Inr db')"

definition order_term :: "order_row \<Rightarrow> billing_db \<Rightarrow> billing_db \<Rightarrow> bool" where
  "order_term ord db db' \<longleftrightarrow> (\<exists>ow s. order_owner ord = Inr ow \<and> write_subscription s db = Inr db'
     \<and> su_kind s = bo_kind ord \<and> su_owner s = uo_identifier ow \<and> su_source_order s = Some (bo_id ord)
     \<and> su_status s = ''active'')"

definition applied_mark :: "billing_env \<Rightarrow> order_row \<Rightarrow> billing_db \<Rightarrow> billing_db \<Rightarrow> bool" where
  "applied_mark env ord db db' \<longleftrightarrow> (\<exists>before after db1.
     mark_applied env ord before after db = Inr (OutApplied, db1) \<and> silent env db1 db')"

inductive paid_effect ::
    "billing_env \<Rightarrow> order_row \<Rightarrow> item_row \<Rightarrow> billing_db \<Rightarrow> billing_db \<Rightarrow> bool" for env ord item where
  pack: "order_grant env ord item ''purchase'' db db1 \<Longrightarrow> applied_mark env ord db1 db' \<Longrightarrow>
    paid_effect env ord item db db'"
| plan: "order_term ord db db1 \<Longrightarrow> db2 = db1 \<or> order_grant env ord item ''plan'' db1 db2 \<Longrightarrow>
    applied_mark env ord db2 db' \<Longrightarrow> paid_effect env ord item db db'"

text \<open>An activation either applies the paid effect, or is quiet and does not answer \<open>applied\<close>.\<close>

definition activation_effect ::
    "billing_env \<Rightarrow> order_row \<Rightarrow> item_row \<Rightarrow> billing_db \<Rightarrow> activation_outcome \<Rightarrow> billing_db \<Rightarrow> bool" where
  "activation_effect env ord item db out db' \<longleftrightarrow>
     (out = OutApplied \<and> paid_effect env ord item db db') \<or> (out \<noteq> OutApplied \<and> quiet env db db')"

abbreviation effectful ::
    "billing_env \<Rightarrow> order_row \<Rightarrow> item_row \<Rightarrow> billing_db \<Rightarrow> activation_outcome \<times> billing_db \<Rightarrow> bool" where
  "effectful env ord item db \<equiv> (\<lambda>(out, db'). activation_effect env ord item db out db')"

named_theorems effect_intros

lemma effect_review [effect_intros]: "yields (mark_review env ord reason ev db) (effectful env ord item db)"
  by (rule yieldsI) (auto simp: activation_effect_def dest: quiet_mark_review)

lemma effect_schedule [effect_intros]:
  "yields (schedule_renewal env ord cur item t0 t1 r q db) (effectful env ord item db)"
  by (rule yieldsI) (auto simp: activation_effect_def dest: quiet_schedule)

lemma effect_none [effect_intros]: "out \<noteq> OutApplied \<Longrightarrow> yields (Inr (out, db)) (effectful env ord item db)"
  by (simp add: yields_Inr activation_effect_def)

lemma effect_grant [effect_intros]:
  assumes "grant_for_order env ow n ''purchase'' ord chk t0 t1 (bi_id item) db = Inr db1"
    and "order_owner ord = Inr ow"
  shows "yields (mark_applied env ord before after db1) (effectful env ord item db)"
proof (rule yieldsI)
  fix x assume m: "mark_applied env ord before after db1 = Inr x"
  obtain out db' where x: "x = (out, db')" by force
  have out: "out = OutApplied" using quiet_mark_applied m x by blast
  have "applied_mark env ord db1 db'" using m by (auto simp: applied_mark_def x out)
  moreover have "order_grant env ord item ''purchase'' db db1" using assms by (auto simp: order_grant_def)
  ultimately show "effectful env ord item db x" by (auto simp: x out activation_effect_def intro: paid_effect.pack)
qed

lemma effect_pack [effect_intros]:
  "yields (apply_credit_pack env ord item benefits db) (effectful env ord item db)"
  unfolding apply_credit_pack_def Let_def by (intro yields_intros effect_intros) assumption+

lemma effect_term_tail:
  assumes made: "order_term ord db db1" and grant: "db2 = db1 \<or> order_grant env ord item ''plan'' db1 db2"
    and mark: "mark_applied env ord before after db2 = Inr (out, db3)" and rest: "silent env db3 db'"
  shows "effectful env ord item db (out, db')"
proof -
  have out: "out = OutApplied" using quiet_mark_applied[OF mark] by simp
  have "applied_mark env ord db2 db'" using mark rest out by (auto simp: applied_mark_def)
  then show ?thesis using out paid_effect.plan[OF made grant] by (simp add: activation_effect_def)
qed

lemma effect_term [effect_intros]:
  assumes ow: "order_owner ord = Inr ow"
  shows "yields (apply_term env ord item plan package benefits ow cur t0 t1 sched db) (effectful env ord item db)"
  unfolding apply_term_def
proof (intro yields_intros)
  fix members db1 included db2 p out db3
  assume 1: "write_subscription
        \<lparr>su_kind = bo_kind ord, su_owner = uo_identifier ow, su_package = package, su_plan = bi_plan item,
         su_source_order = Some (bo_id ord), su_status = ''active'', su_starts = t0,
         su_expires = Some t1, su_members = members, su_revision = 1\<rparr> db = Inr db1"
    and 2: "(if included \<le> 0 then Inr db1
       else grant_for_order env ow included ''plan'' ord
         (py_str (let c = dget (bi_snapshot item) ''releaseChecksum'' in
           if truthy c then c else dget (bo_decision ord) ''releaseChecksum'')) t0 t1 (bi_id item) db1) = Inr db2"
    and 3: "mark_applied env ord cur (AfterTerm t0 t1 (bi_plan item)) db2 = Inr p" "p = (out, db3)"
  have made: "order_term ord db db1"
    unfolding order_term_def by (intro exI conjI, rule ow, rule 1) simp_all
  have grant: "db2 = db1 \<or> order_grant env ord item ''plan'' db1 db2"
    using 2 ow by (auto simp: order_grant_def split: if_splits)
  note tail = effect_term_tail[OF made grant 3(1)[unfolded 3(2)]]
  show "yields (Inr (out, db3)) (effectful env ord item db)"
    by (rule yields_Inr, rule tail) simp
  fix db4 db5
  assume "insert_outbox env ''billing.activation_applied'' (bo_id ord)
       (PDict [(''publicId'', PStr (bo_public ord)), (''startsAt'', PInt t0), (''expiresAt'', PInt t1)]) db3 = Inr db4"
    "log_audit env ''billing.activation_applied'' (bo_actor ord) (bo_org ord) (bo_id ord)
       [(''startsAt'', PInt t0), (''expiresAt'', PInt t1)] db4 = Inr db5"
  then show "yields (Inr (out, db5)) (effectful env ord item db)"
    by (intro yields_Inr tail) (rule silent_trans[OF silent_insert_outbox silent_log_audit])
qed

lemma effect_renew [effect_intros]:
  assumes ow: "order_owner ord = Inr ow"
  shows "yields (renew_term env ord item plan package benefits policy ow days cur db) (effectful env ord item db)"
  unfolding renew_term_def Let_def by (intro yields_intros effect_intros ow)

lemma effect_base_plan [effect_intros]:
  "yields (apply_base_plan env ord item benefits cur waiting db) (effectful env ord item db)"
  unfolding apply_base_plan_def Let_def by (intro yields_intros effect_intros) (assumption | simp)+

lemma effect_item [effect_intros]:
  "yields (activate_item env ord existing item db) (effectful env ord item db)"
  unfolding activate_item_def Let_def by (intro yields_intros effect_intros) simp_all

text \<open>What an order must be for its activation to take effect.\<close>

definition may_activate :: "billing_db \<Rightarrow> order_row \<Rightarrow> bool" where
  "may_activate db ord \<longleftrightarrow> bo_activation ord \<noteq> ActReversed \<and> \<not> refund_state (bo_payment ord)
     \<and> bo_id ord \<notin> set (bl_pending_refunds db) \<and> owner_is_active db ord
     \<and> (\<forall>a. find_activation db (bo_id ord) = Some a \<longrightarrow> av_state a \<noteq> ActApplied)"

definition first_item :: "billing_db \<Rightarrow> order_row \<Rightarrow> item_row option" where
  "first_item db ord = List.find (\<lambda>i. bi_order i = bo_id ord) (bl_items db)"

lemma activate_row_effect:
  assumes run: "activate_order_row env ord db = Inr (out, db')"
  shows "(\<exists>item. may_activate db ord \<and> first_item db ord = Some item \<and> out = OutApplied
      \<and> paid_effect env ord item db db') \<or> quiet env db db'
      \<and> (out = OutApplied \<longrightarrow> db' = db \<and> (\<exists>a. find_activation db (bo_id ord) = Some a \<and> av_state a = ActApplied))"
proof (cases "\<exists>item. may_activate db ord \<and> first_item db ord = Some item")
  case True
  then obtain item where 1: "may_activate db ord" "first_item db ord = Some item" by blast
  then have "activate_item env ord (find_activation db (bo_id ord)) item db = Inr (out, db')"
    using run by (auto simp: activate_order_row_def Let_def may_activate_def first_item_def split: option.splits)
  from yieldsD[OF effect_item this] 1 show ?thesis by (auto simp: activation_effect_def)
next
  case False
  then have "(db' = db \<and> (out \<noteq> OutApplied \<or> (\<exists>a. find_activation db (bo_id ord) = Some a \<and> av_state a = ActApplied)))
      \<or> (\<exists>r. mark_review env ord r None db = Inr (out, db'))"
    using run by (auto simp: activate_order_row_def may_activate_def first_item_def Let_def
      split: if_splits option.splits)
  then show ?thesis using quiet_mark_review by blast
qed

section \<open>The protocol of a call\<close>

text \<open>
  A recorded payment: a new row under a provider identity not seen before, or the row already
  there, of this order and for the full amount.
\<close>

definition payment_key :: "payment_row \<Rightarrow> ident \<times> string" where
  "payment_key p = (py_profile p, py_transaction p)"

definition full_payment :: "order_row \<Rightarrow> payment_row \<Rightarrow> bool" where
  "full_payment ord p \<longleftrightarrow> py_order p = bo_id ord \<and> py_status p = PayVerified \<and> py_amount p = bo_total ord"

definition payment_recorded ::
    "billing_env \<Rightarrow> order_row \<Rightarrow> payment_row \<Rightarrow> billing_db \<Rightarrow> billing_db \<Rightarrow> bool" where
  "payment_recorded env ord p db db' \<longleftrightarrow> (\<exists>db1. silent env db db1 \<and> full_payment ord p
     \<and> (db' = db1 \<and> p \<in> set (bl_payments db1)
       \<or> payment_key p \<notin> payment_key ` set (bl_payments db1) \<and> py_id p \<notin> py_id ` set (bl_payments db1)
         \<and> db' = db1\<lparr>bl_payments := bl_payments db1 @ [p]\<rparr>))"

inductive billing_protocol ::
    "billing_env \<Rightarrow> order_row \<Rightarrow> billing_db \<Rightarrow> activation_outcome \<Rightarrow> billing_db \<Rightarrow> bool" for env ord where
  unpaid: "quiet env db db' \<Longrightarrow> out \<noteq> OutApplied \<Longrightarrow> billing_protocol env ord db out db'"
| paid: "progress_step ord db db1 \<Longrightarrow> payment_recorded env ord p db1 db2 \<Longrightarrow>
    quiet env (set_verified (bo_id ord) db2) db' \<Longrightarrow>
    (out = OutApplied \<Longrightarrow> silent env (set_verified (bo_id ord) db2) db'
       \<and> (\<exists>a. find_activation db2 (bo_id ord) = Some a \<and> av_state a = ActApplied)) \<Longrightarrow>
    billing_protocol env ord db out db'"
| activated: "progress_step ord db db1 \<Longrightarrow> payment_recorded env ord p db1 db2 \<Longrightarrow>
    db3 = set_verified (bo_id ord) db2 \<Longrightarrow> may_activate db3 ord \<Longrightarrow> first_item db3 ord = Some item \<Longrightarrow>
    paid_effect env ord item db3 db4 \<Longrightarrow> silent env db4 db' \<Longrightarrow>
    billing_protocol env ord db OutApplied db'"
| retried: "bo_payment ord = VerifiedPaid \<Longrightarrow> may_activate db ord \<Longrightarrow> first_item db ord = Some item \<Longrightarrow>
    paid_effect env ord item db db1 \<Longrightarrow> silent env db1 db' \<Longrightarrow> billing_protocol env ord db OutApplied db'"
| already: "silent env db db' \<Longrightarrow> bo_activation ord = ActApplied
      \<or> (\<exists>a. find_activation db (bo_id ord) = Some a \<and> av_state a = ActApplied) \<Longrightarrow>
    billing_protocol env ord db OutApplied db'"

lemma insert_payment_recorded:
  assumes "insert_or_validate_payment env ord profile tx (bo_total ord) timing occurred ev db = Inr (found, db')"
  shows "(\<exists>reason. found = PaymentMismatch reason) \<and> quiet env db db'
    \<or> (\<forall>reason. found \<noteq> PaymentMismatch reason) \<and> (\<exists>p. payment_recorded env ord p db db')"
proof -
  obtain i db1 where 1: "billing_new_id env ''payment-tx'' db = (i, db1)" by force
  let ?same = "\<lambda>p. py_profile p = profile \<and> py_transaction p = tx"
  show ?thesis
  proof (cases "List.find ?same (bl_payments db1)")
    case None
    define p where "p = \<lparr>py_id = i, py_order = bo_id ord, py_profile = profile, py_transaction = tx,
      py_status = PayVerified, py_amount = bo_total ord,
      py_currency = (if bo_currency ord = [] then ''VND'' else bo_currency ord), py_timing = timing,
      py_occurred = occurred, py_evidence = (case canonical_json ev of Inr t \<Rightarrow> t | Inl _ \<Rightarrow> [])\<rparr>"
    have "db' = db1\<lparr>bl_payments := bl_payments db1 @ [p]\<rparr>" "i \<notin> py_id ` set (bl_payments db1)"
      "found = PaymentInserted i"
      using assms 1 None by (auto simp: insert_or_validate_payment_def res_simps p_def split: if_splits)
    moreover have "payment_key p \<notin> payment_key ` set (bl_payments db1)"
      using None by (auto simp: find_None_iff payment_key_def p_def)
    moreover have "full_payment ord p" "py_id p = i" by (simp_all add: full_payment_def p_def)
    ultimately have "payment_recorded env ord p db db'"
      unfolding payment_recorded_def using silent_id[OF 1] by blast
    then show ?thesis using \<open>found = PaymentInserted i\<close> by blast
  next
    case (Some p)
    have db': "db' = db1" and found: "(\<exists>reason. found = PaymentMismatch reason)
        \<or> found = PaymentKnown (py_id p) \<and> full_payment ord p"
      using assms 1 Some by (auto simp: insert_or_validate_payment_def res_simps full_payment_def split: if_splits)
    from found show ?thesis
    proof
      assume known: "found = PaymentKnown (py_id p) \<and> full_payment ord p"
      then have "payment_recorded env ord p db db'"
        unfolding payment_recorded_def db' using silent_id[OF 1] find_Some_iff_mem[OF Some] by blast
      then show ?thesis using known by blast
    qed (use quiet_id[OF 1] db' in blast)
  qed
qed

lemma quiet_settled:
  assumes run: "(if timing \<noteq> OnTime then mark_review env ord ''LATE_PAYMENT_REVIEW_REQUIRED'' None db2
            else activate_order_row env ord db2) = Inr (out, db3)"
  shows "(\<exists>item. timing = OnTime \<and> may_activate db2 ord \<and> first_item db2 ord = Some item \<and> out = OutApplied
      \<and> paid_effect env ord item db2 db3) \<or> quiet env db2 db3
      \<and> (out = OutApplied \<longrightarrow> db3 = db2 \<and> (\<exists>a. find_activation db2 (bo_id ord) = Some a \<and> av_state a = ActApplied))"
proof (cases "timing = OnTime")
  case True
  then show ?thesis using activate_row_effect[of env ord db2 out db3] run by simp
next
  case False
  then have "quiet env db2 db3 \<and> out = OutReview ''LATE_PAYMENT_REVIEW_REQUIRED''"
    using run by (intro quiet_mark_review) simp
  then show ?thesis by simp
qed

lemma find_activation_frame [simp]:
  "find_activation (set_order oid f db) i = find_activation db i"
  "find_activation (set_verified oid db) i = find_activation db i"
  by (simp_all add: find_activation_def set_order_def set_verified_def)

lemma settle_payment_protocol:
  assumes run: "settle_payment env ord profile tx (bo_total ord) occurred ev db = Inr (out, db')"
    and before: "progress_step ord db0 db"
  shows "billing_protocol env ord db0 out db'
    \<and> (payment_timing_of ord occurred \<noteq> OnTime \<longrightarrow> out \<noteq> OutApplied)"
proof -
  let ?timing = "payment_timing_of ord occurred"
  obtain found db1 where 1: "insert_or_validate_payment env ord profile tx (bo_total ord) ?timing occurred ev db = Inr (found, db1)"
    and rest: "(case found of PaymentMismatch reason \<Rightarrow> mark_review env ord reason None db1
      | _ \<Rightarrow> let db2 = set_verified (bo_id ord) db1 in
          res_bind (if ?timing \<noteq> OnTime then mark_review env ord ''LATE_PAYMENT_REVIEW_REQUIRED'' None db2
            else activate_order_row env ord db2) (\<lambda>(out, db3).
          (case found of
             PaymentInserted pid \<Rightarrow>
               res_bind (record_verified_payment_effects env ord pid ?timing out db3) (\<lambda>db4. Inr (out, db4))
           | _ \<Rightarrow> Inr (out, db3)))) = Inr (out, db')"
    using run unfolding settle_payment_def Let_def by (auto simp: res_bind_eq_Inr[of "insert_or_validate_payment _ _ _ _ _ _ _ _ _"])
  show ?thesis
  proof (cases "\<exists>reason. found = PaymentMismatch reason")
    case True
    then obtain reason where r: "found = PaymentMismatch reason" by blast
    then have m: "mark_review env ord reason None db1 = Inr (out, db')" using rest by simp
    have "quiet env db db1" using insert_payment_recorded[OF 1] r by blast
    then show ?thesis using quiet_mark_review[OF m] progress_quiet[OF before]
      by (auto intro!: billing_protocol.unpaid intro: quiet_trans)
  next
    case False
    then obtain p where p: "payment_recorded env ord p db db1" using insert_payment_recorded[OF 1] by blast
    define db2 where "db2 = set_verified (bo_id ord) db1"
    obtain db3 where act: "(if ?timing \<noteq> OnTime then mark_review env ord ''LATE_PAYMENT_REVIEW_REQUIRED'' None db2
            else activate_order_row env ord db2) = Inr (out, db3)" and tail: "silent env db3 db'"
      using rest False silent_effects unfolding db2_def Let_def
      by (cases found) (auto simp: res_bind_eq_Inr split: prod.splits)
    have late: "?timing \<noteq> OnTime \<longrightarrow> out \<noteq> OutApplied" using act quiet_mark_review by fastforce
    from quiet_settled[OF act] show ?thesis
    proof (elim disjE exE conjE)
      fix item assume "may_activate db2 ord" "first_item db2 ord = Some item" "out = OutApplied"
        "paid_effect env ord item db2 db3"
      then show ?thesis using billing_protocol.activated[OF before p db2_def _ _ _ tail] late by blast
    next
      assume q: "quiet env db2 db3" and applied: "out = OutApplied \<longrightarrow>
        db3 = db2 \<and> (\<exists>a. find_activation db2 (bo_id ord) = Some a \<and> av_state a = ActApplied)"
      have "quiet env db2 db'" using q silent_quiet[OF tail] by (rule quiet_trans)
      then have "billing_protocol env ord db0 out db'"
        using billing_protocol.paid[OF before p, of db' out] applied tail by (auto simp: db2_def)
      with late show ?thesis by blast
    qed
  qed
qed

text \<open>A provider answer that pays the order: paid status, the full amount, and on time.\<close>

definition paying_answer :: "billing_env \<Rightarrow> order_row \<Rightarrow> pval \<Rightarrow> pval \<Rightarrow> bool" where
  "paying_answer env ord answer status \<longleftrightarrow> (\<exists>result t. result_dict answer = Inr result
     \<and> py_upper (str_or_empty status) \<in> set paid_statuses \<and> result_amount result = Inr (bo_total ord)
     \<and> py_int (py_or (dget result ''orderCode'') (PInt (bo_code ord))) = Inr (bo_code ord)
     \<and> parse_provider_transaction_time env result = Inr (Inr t) \<and> payment_timing_of ord t = OnTime)"

definition protocol_result ::
    "billing_env \<Rightarrow> order_row \<Rightarrow> billing_db \<Rightarrow> bool \<Rightarrow> apply_result \<times> billing_db \<Rightarrow> bool" where
  "protocol_result env ord db pays = (\<lambda>(res, db'). \<exists>out. billing_protocol env ord db out db'
     \<and> (res = ResOutcome OutApplied \<longleftrightarrow> out = OutApplied) \<and> (out = OutApplied \<longrightarrow> pays))"

lemma protocol_quiet: "quiet env db db' \<Longrightarrow> res \<noteq> ResOutcome OutApplied \<Longrightarrow>
    yields (Inr (res, db')) (protocol_result env ord db pays)"
  by (rule yields_Inr)
    (auto simp: protocol_result_def intro!: exI[of _ "OutReview []"] billing_protocol.unpaid)

definition keeps_outcome ::
    "billing_env \<Rightarrow> (activation_outcome \<times> billing_db \<Rightarrow> billing_error + (apply_result \<times> billing_db)) \<Rightarrow> bool" where
  "keeps_outcome env wrap \<longleftrightarrow> (\<forall>out db'. \<exists>res db''. wrap (out, db') = Inr (res, db'')
     \<and> silent env db' db'' \<and> (res = ResOutcome OutApplied \<longleftrightarrow> out = OutApplied))"

lemma keeps_outcome_plain [simp]: "keeps_outcome env (\<lambda>(out, db'). Inr (ResOutcome out, db'))"
  by (simp add: keeps_outcome_def)

lemma keeps_outcome_event [simp]:
  "keeps_outcome env (\<lambda>(out, db'). Inr (ResOutcome out, event_state env eid (st out) (rs out) db'))"
  by (simp add: keeps_outcome_def silent_event_state)

lemma protocol_review:
  assumes "quiet env db db1" and "keeps_outcome env wrap"
  shows "yields (res_bind (mark_review env ord reason e db1) wrap) (protocol_result env ord db pays)"
proof (rule yieldsI)
  fix x assume "res_bind (mark_review env ord reason e db1) wrap = Inr x"
  then obtain out db2 where m: "mark_review env ord reason e db1 = Inr (out, db2)" and x: "wrap (out, db2) = Inr x"
    by (auto simp: res_simps)
  obtain res db3 where w: "x = (res, db3)" "silent env db2 db3" "res = ResOutcome OutApplied \<longleftrightarrow> out = OutApplied"
    using assms(2) x unfolding keeps_outcome_def by (metis Inr_inject)
  have q: "quiet env db db3" and out: "out \<noteq> OutApplied"
    using quiet_mark_review[OF m] assms(1) silent_quiet[OF w(2)] quiet_trans by blast+
  then show "protocol_result env ord db pays x"
    using w billing_protocol.unpaid[OF q out] by (auto simp: protocol_result_def)
qed

lemma protocol_silent:
  assumes "billing_protocol env ord db out db1" and "silent env db1 db2"
  shows "billing_protocol env ord db out db2"
  using assms
proof cases
  case unpaid
  then show ?thesis using silent_quiet[OF assms(2)] quiet_trans billing_protocol.unpaid by metis
next
  case (paid db3 p db4)
  show ?thesis
    by (rule billing_protocol.paid[OF paid(1,2)])
      (use paid(3,4) assms(2) silent_quiet[OF assms(2)] quiet_trans silent_trans in blast)+
next
  case (activated db3 p db4 db5 item db6)
  have "silent env db6 db2" using \<open>silent env db6 db1\<close> assms(2) by (rule silent_trans)
  with activated show ?thesis using billing_protocol.activated by blast
next
  case (retried item db3)
  have "silent env db3 db2" using \<open>silent env db3 db1\<close> assms(2) by (rule silent_trans)
  with retried show ?thesis using billing_protocol.retried by blast
next
  case already
  have "silent env db db2" using \<open>silent env db db1\<close> assms(2) by (rule silent_trans)
  with already show ?thesis using billing_protocol.already by blast
qed

lemma protocol_settle:
  assumes before: "progress_step ord db db1" and "amount = bo_total ord"
    and pays: "payment_timing_of ord t = OnTime \<Longrightarrow> pays"
    and wrap: "keeps_outcome env wrap"
  shows "yields (res_bind (settle_payment env ord profile tx amount t e db1) wrap)
    (protocol_result env ord db pays)"
proof (rule yieldsI)
  fix x assume "res_bind (settle_payment env ord profile tx amount t e db1) wrap = Inr x"
  then obtain out db2 where run: "settle_payment env ord profile tx (bo_total ord) t e db1 = Inr (out, db2)"
    and x: "wrap (out, db2) = Inr x" using assms(2) by (auto simp: res_simps)
  obtain res db3 where w: "x = (res, db3)" "silent env db2 db3" "res = ResOutcome OutApplied \<longleftrightarrow> out = OutApplied"
    using wrap x unfolding keeps_outcome_def by (metis Inr_inject)
  from settle_payment_protocol[OF run before]
  have "billing_protocol env ord db out db3" "out = OutApplied \<Longrightarrow> pays"
    using protocol_silent[OF _ w(2)] pays by blast+
  then show "protocol_result env ord db pays x" using w by (auto simp: protocol_result_def)
qed

lemma query_protocol:
  assumes ord: "find_order db oid = Some ord"
  shows "yields (apply_order_result env db oid v profile)
    (protocol_result env ord db (paying_answer env ord v (dget (or_empty v) ''status'')))"
  unfolding apply_order_result_def Let_def ord option.case
  by (intro protocol_review protocol_settle protocol_quiet yields_intros)
    (auto simp: paying_answer_def res_simps result_dict_def Let_def split: if_splits
      intro: quiet_progress record_progress)

lemma event_protocol:
  "yields (apply_to_order env eid ord (bo_code ord) signed v profile db)
    (protocol_result env ord db
      (paying_answer env ord v (py_or (dget (or_empty v) ''status'') (dget signed ''status''))))"
  unfolding apply_to_order_def review_event_def Let_def
  by (intro protocol_review protocol_settle protocol_quiet yields_intros)
    (auto simp: paying_answer_def res_simps result_dict_def Let_def split: if_splits
      intro: quiet_progress record_progress quiet_trans[OF quiet_progress silent_quiet[OF silent_event_state]])

section \<open>Calls\<close>

text \<open>
  The entry points as one step: a webhook event with the answer of the provider, a queried order,
  and the retry of the worker.
\<close>

datatype billing_call =
  EventCall ident pval ident
| QueryCall ident pval ident
| RetryCall ident

definition billing_step ::
    "billing_env \<Rightarrow> billing_call \<Rightarrow> billing_db \<Rightarrow> billing_error + (apply_result \<times> billing_db)" where
  "billing_step env c db = (case c of
     EventCall eid answer profile \<Rightarrow> apply_verified env db eid answer profile
   | QueryCall oid answer profile \<Rightarrow> apply_order_result env db oid answer profile
   | RetryCall oid \<Rightarrow> activate_order env db oid)"

definition call_order :: "billing_call \<Rightarrow> billing_db \<Rightarrow> order_row option" where
  "call_order c db = (case c of
     EventCall eid answer profile \<Rightarrow>
       (case List.find (\<lambda>e. we_id e = eid) (bl_events db) of
          None \<Rightarrow> None
        | Some e \<Rightarrow>
            if we_status e \<in> {EvProcessed, EvIgnored, EvDead} then None
            else (case res_bind (get_attr (we_signed e) ''orderCode'') (\<lambda>raw. py_int (py_or raw (PInt 0))) of
                Inl _ \<Rightarrow> None
              | Inr code \<Rightarrow> List.find (\<lambda>r. bo_profile r = profile \<and> bo_code r = code) (bl_orders db)))
   | QueryCall oid _ _ \<Rightarrow> find_order db oid
   | RetryCall oid \<Rightarrow> find_order db oid)"

text \<open>What makes an order applied: the answer pays it, or it was verified as paid before.\<close>

definition call_pays :: "billing_env \<Rightarrow> billing_call \<Rightarrow> billing_db \<Rightarrow> order_row \<Rightarrow> bool" where
  "call_pays env c db ord = (case c of
     EventCall eid answer _ \<Rightarrow> (\<exists>status. paying_answer env ord answer status)
   | QueryCall _ answer _ \<Rightarrow> paying_answer env ord answer (dget (or_empty answer) ''status'')
   | RetryCall _ \<Rightarrow> bo_activation ord = ActApplied \<or> bo_payment ord = VerifiedPaid)"

lemma retry_protocol:
  assumes ord: "find_order db oid = Some ord"
  shows "yields (activate_order env db oid)
    (protocol_result env ord db (bo_activation ord = ActApplied \<or> bo_payment ord = VerifiedPaid))"
proof (rule yieldsI)
  fix x assume run: "activate_order env db oid = Inr x"
  obtain res db' where x: "x = (res, db')" by force
  consider (applied) "bo_activation ord = ActApplied" "x = (ResOutcome OutApplied, db)"
    | (unpaid) r where "x = (ResOutcome (OutReview r), db)"
    | (row) out where "bo_payment ord = VerifiedPaid" "activate_order_row env ord db = Inr (out, db')" "res = ResOutcome out"
    using run by (auto simp: activate_order_def ord x res_simps split: if_splits)
  then show "protocol_result env ord db (bo_activation ord = ActApplied \<or> bo_payment ord = VerifiedPaid) x"
  proof cases
    case applied
    then show ?thesis by (auto simp: protocol_result_def intro: billing_protocol.already)
  next
    case unpaid
    then show ?thesis by (auto simp: protocol_result_def intro!: exI[of _ "OutReview []"] billing_protocol.unpaid)
  next
    case row
    have "billing_protocol env ord db out db'"
      using activate_row_effect[OF row(2)] row(1) billing_protocol.retried billing_protocol.already
        billing_protocol.unpaid quiet_refl by (cases "out = OutApplied") blast+
    then show ?thesis using row by (auto simp: protocol_result_def x)
  qed
qed

lemma step_protocol:
  assumes run: "billing_step env c db = Inr (res, db')"
  shows "(case call_order c db of
     None \<Rightarrow> silent env db db' \<and> res \<noteq> ResOutcome OutApplied
   | Some ord \<Rightarrow> protocol_result env ord db (call_pays env c db ord) (res, db'))"
proof (cases c)
  case (EventCall eid answer profile)
  note run' = run[unfolded billing_step_def EventCall billing_call.case apply_verified_def]
  show ?thesis
  proof (cases "call_order c db")
    case None
    then show ?thesis using run'
      by (auto simp: call_order_def EventCall res_simps silent_event_state split: option.splits if_splits sum.splits)
  next
    case (Some ord)
    then obtain e where e: "List.find (\<lambda>e. we_id e = eid) (bl_events db) = Some e"
        "we_status e \<notin> {EvProcessed, EvIgnored, EvDead}"
      and code: "res_bind (get_attr (we_signed e) ''orderCode'') (\<lambda>raw. py_int (py_or raw (PInt 0))) = Inr (bo_code ord)"
      and ord: "List.find (\<lambda>r. bo_profile r = profile \<and> bo_code r = bo_code ord) (bl_orders db) = Some ord"
      by (auto simp: call_order_def EventCall find_Some_iff split: option.splits if_splits sum.splits)
    have "apply_to_order env eid ord (bo_code ord) (we_signed e) answer profile db = Inr (res, db')"
      using run' e code ord by (auto simp: res_simps)
    from yieldsD[OF event_protocol this] have "protocol_result env ord db (call_pays env c db ord) (res, db')"
      by (auto simp: protocol_result_def call_pays_def EventCall)
    with Some show ?thesis by simp
  qed
next
  case (QueryCall oid answer profile)
  show ?thesis
  proof (cases "find_order db oid")
    case None
    then show ?thesis using run by (auto simp: call_order_def QueryCall billing_step_def apply_order_result_def)
  next
    case (Some ord)
    from yieldsD[OF query_protocol[OF Some]] run Some show ?thesis
      by (auto simp: call_order_def QueryCall billing_step_def call_pays_def)
  qed
next
  case (RetryCall oid)
  show ?thesis
  proof (cases "find_order db oid")
    case None
    then show ?thesis using run by (auto simp: call_order_def RetryCall billing_step_def activate_order_def)
  next
    case (Some ord)
    from yieldsD[OF retry_protocol[OF Some]] run Some show ?thesis
      by (auto simp: call_order_def RetryCall billing_step_def call_pays_def)
  qed
qed

end
