(* ===== verification/Billing_Safety.thy ===== *)
theory Billing_Safety
  imports Billing_Laws Transactions
begin

text \<open>
  The invariants of the billing tables, proved once for every single write, and what they give
  for the calls: facts of payments are append-only and identified, paid means paid in full, the
  books of the usage credits and the audit chain stay sound, and an activation takes effect only
  for a payment that is verified, full and on time.
\<close>

section \<open>Writes of a call\<close>

inductive billing_write :: "billing_env \<Rightarrow> order_row \<Rightarrow> billing_db \<Rightarrow> billing_db \<Rightarrow> bool" for env ord where
  write_quiet: "quiet_write env db db' \<Longrightarrow> billing_write env ord db db'"
| write_payment: "payment_key p \<notin> payment_key ` set (bl_payments db) \<Longrightarrow> py_id p \<notin> py_id ` set (bl_payments db) \<Longrightarrow>
    full_payment ord p \<Longrightarrow> billing_write env ord db (db\<lparr>bl_payments := bl_payments db @ [p]\<rparr>)"
| write_verified: "p \<in> set (bl_payments db) \<Longrightarrow> full_payment ord p \<Longrightarrow>
    billing_write env ord db (set_verified (bo_id ord) db)"
| write_term: "order_term ord db db' \<Longrightarrow> billing_write env ord db db'"
| write_grant: "order_grant env ord item source db db' \<Longrightarrow> billing_write env ord db db'"

inductive_cases billing_writeE: "billing_write env ord db db'"

definition writes :: "billing_env \<Rightarrow> order_row \<Rightarrow> billing_db \<Rightarrow> billing_db \<Rightarrow> bool" where
  "writes env ord = (billing_write env ord)\<^sup>*\<^sup>*"

lemma writes_trans [trans]: "writes env ord a b \<Longrightarrow> writes env ord b c \<Longrightarrow> writes env ord a c"
  by (simp add: writes_def)

lemma writes_one: "billing_write env ord a b \<Longrightarrow> writes env ord a b"
  by (simp add: writes_def)

lemma quiet_writes: "quiet env a b \<Longrightarrow> writes env ord a b"
  unfolding quiet_def writes_def by (erule mono_rtranclp[rule_format, rotated]) (rule write_quiet)

lemmas silent_writes = quiet_writes[OF silent_quiet]

lemma applied_mark_quiet: "applied_mark env ord db db' \<Longrightarrow> quiet env db db'"
  unfolding applied_mark_def using quiet_mark_applied silent_quiet quiet_trans by blast

lemma paid_effect_writes: "paid_effect env ord item db db' \<Longrightarrow> writes env ord db db'"
proof (induction rule: paid_effect.induct)
  case (pack db db1 db')
  then show ?case
    using writes_trans[OF writes_one[OF write_grant] quiet_writes[OF applied_mark_quiet]] by blast
next
  case (plan db db1 db2 db')
  have "writes env ord db db1" using plan(1) by (intro writes_one write_term)
  also have "writes env ord db1 db2"
    using plan(2) writes_one[OF write_grant] by (auto simp: writes_def)
  also have "writes env ord db2 db'" using plan(3) by (intro quiet_writes applied_mark_quiet)
  finally show ?case .
qed

lemma recorded_writes:
  assumes "payment_recorded env ord p db db'"
  shows "writes env ord db (set_verified (bo_id ord) db') \<and> writes env ord db db'"
proof -
  obtain db1 where 1: "silent env db db1" "full_payment ord p"
    and 2: "db' = db1 \<and> p \<in> set (bl_payments db1)
       \<or> payment_key p \<notin> payment_key ` set (bl_payments db1) \<and> py_id p \<notin> py_id ` set (bl_payments db1)
         \<and> db' = db1\<lparr>bl_payments := bl_payments db1 @ [p]\<rparr>"
    using assms by (auto simp: payment_recorded_def)
  have "writes env ord db1 db' \<and> p \<in> set (bl_payments db')"
    using 2 writes_one[OF write_payment[OF _ _ 1(2)]] by (auto simp: writes_def)
  then show ?thesis
    using writes_one[OF write_verified[OF _ 1(2)]] silent_writes[OF 1(1)] writes_trans by metis
qed

lemma protocol_writes: "billing_protocol env ord db out db' \<Longrightarrow> writes env ord db db'"
proof (induction rule: billing_protocol.induct)
  case (paid db db1 p db2 db' out)
  then show ?case using recorded_writes quiet_writes progress_quiet writes_trans by metis
next
  case (activated db db1 p db2 db3 item db4 db')
  have "writes env ord db db3"
    unfolding activated(3) using recorded_writes[OF activated(2)] quiet_writes[OF progress_quiet[OF activated(1)]]
    writes_trans by blast
  with paid_effect_writes[OF activated(6)] silent_writes[OF activated(7)] show ?case by (meson writes_trans)
next
  case (retried db item db1 db')
  then show ?case using paid_effect_writes silent_writes writes_trans by blast
qed (auto intro: quiet_writes silent_writes)

text \<open>A property of the tables that every write keeps is kept by every call.\<close>

lemma step_invariant:
  assumes run: "billing_step env c db = Inr (res, db')" and "P db"
    and quiet: "\<And>a b. quiet_write env a b \<Longrightarrow> P a \<Longrightarrow> P b"
    and kept: "\<And>ord a b. ord \<in> set (bl_orders db) \<Longrightarrow> billing_write env ord a b \<Longrightarrow> P a \<Longrightarrow> P b"
  shows "P db'"
proof (cases "call_order c db")
  case None
  then have "quiet env db db'" using step_protocol[OF run] silent_quiet by auto
  then have "(quiet_write env)\<^sup>*\<^sup>* db db'" by (simp add: quiet_def)
  then show ?thesis by induction (use assms quiet in blast)+
next
  case (Some ord)
  then have "ord \<in> set (bl_orders db)"
    by (auto simp: call_order_def find_order_def dest!: find_Some_iff_mem
      split: billing_call.splits option.splits if_splits sum.splits)
  moreover have "(billing_write env ord)\<^sup>*\<^sup>* db db'"
    using step_protocol[OF run] Some protocol_writes by (auto simp: protocol_result_def writes_def)
  then show ?thesis by induction (use assms kept calculation in blast)+
qed

section \<open>Frames\<close>

lemma set_order_frame [simp]:
  "bl_payments (set_order oid f db) = bl_payments db" "bl_subscriptions (set_order oid f db) = bl_subscriptions db"
  "bl_usage (set_order oid f db) = bl_usage db" "bl_audit (set_order oid f db) = bl_audit db"
  "bl_invoices (set_order oid f db) = bl_invoices db" "bl_activations (set_order oid f db) = bl_activations db"
  "bl_items (set_order oid f db) = bl_items db" "bl_outbox (set_order oid f db) = bl_outbox db"
  "bl_owner_status (set_order oid f db) = bl_owner_status db"
  "bl_pending_refunds (set_order oid f db) = bl_pending_refunds db" "bl_events (set_order oid f db) = bl_events db"
  by (simp_all add: set_order_def)

text \<open>What the usage tables hold, without the counter of ids.\<close>

definition usage_rows :: "billing_db \<Rightarrow> credit_grant list \<times> reservation list \<times> ledger_row list" where
  "usage_rows db = (ugrants (bl_usage db), ureservations (bl_usage db), uledger (bl_usage db))"

definition entitlements :: "billing_db \<Rightarrow> subscription_row list \<times> credit_grant list \<times> reservation list \<times> ledger_row list" where
  "entitlements db = (bl_subscriptions db, usage_rows db)"

lemma silent_write_frame:
  "silent_write env db db' \<Longrightarrow> entitlements db' = entitlements db \<and> bl_payments db' = bl_payments db
     \<and> bl_orders db' = bl_orders db \<and> bl_activations db' = bl_activations db \<and> bl_items db' = bl_items db"
  by (auto simp: entitlements_def usage_rows_def elim!: silent_write.cases)

lemma quiet_write_frame:
  "quiet_write env db db' \<Longrightarrow> entitlements db' = entitlements db \<and> bl_payments db' = bl_payments db
     \<and> bl_items db' = bl_items db"
  by (elim quiet_write.cases) (auto simp: entitlements_def usage_rows_def dest: silent_write_frame)

lemma silent_frame:
  "silent env db db' \<Longrightarrow> entitlements db' = entitlements db \<and> bl_payments db' = bl_payments db
     \<and> bl_orders db' = bl_orders db \<and> bl_activations db' = bl_activations db \<and> bl_items db' = bl_items db"
  unfolding silent_def by (induction rule: rtranclp_induct) (auto dest: silent_write_frame)

lemma quiet_frame:
  "quiet env db db' \<Longrightarrow> entitlements db' = entitlements db \<and> bl_payments db' = bl_payments db
     \<and> bl_items db' = bl_items db"
  unfolding quiet_def by (induction rule: rtranclp_induct) (auto dest: quiet_write_frame)

lemma set_verified_frame [simp]:
  "entitlements (set_verified oid db) = entitlements db" "bl_payments (set_verified oid db) = bl_payments db"
  by (simp_all add: set_verified_def entitlements_def usage_rows_def)

lemma recorded_entitlements: "payment_recorded env ord p db db' \<Longrightarrow> entitlements db' = entitlements db"
  by (auto simp: payment_recorded_def entitlements_def usage_rows_def dest!: silent_frame)

lemma order_grant_frame:
  assumes "order_grant env ord item source db db'"
  shows "\<exists>u. db' = db\<lparr>bl_usage := u\<rparr> \<and> (\<exists>ow n chk t0 t1 gid. order_owner ord = Inr ow
    \<and> grant_credits (be_usage env) (bl_usage db) ow n source (bo_release ord) chk t0 t1 (Some (bi_id item)) PNone
        = Inr (gid, u))"
  using assms by (fastforce simp: order_grant_def grant_for_order_def res_simps)

lemma order_term_frame:
  "order_term ord db db' \<Longrightarrow> \<exists>ss. db' = db\<lparr>bl_subscriptions := ss\<rparr>"
  by (auto simp: order_term_def write_subscription_def Let_def split: if_splits)

section \<open>Orders\<close>

definition order_terms :: "order_row \<Rightarrow> order_row" where
  "order_terms r = r\<lparr>bo_payment := Unverified, bo_activation := ActNotReady, bo_progress := PNone, bo_revision := 0\<rparr>"

definition order_kept :: "order_row \<Rightarrow> order_row \<Rightarrow> bool" where
  "order_kept r r' \<longleftrightarrow> order_terms r' = order_terms r \<and> bo_revision r \<le> bo_revision r'
     \<and> (bo_payment r' = bo_payment r \<or> \<not> refund_state (bo_payment r) \<and> bo_payment r' = VerifiedPaid)"

lemma refund_state_Verified [simp]: "\<not> refund_state VerifiedPaid"
  by (simp add: refund_state_def)

lemma order_kept_refl [simp]: "order_kept r r"
  by (simp add: order_kept_def)

lemma order_kept_trans: "order_kept a b \<Longrightarrow> order_kept b c \<Longrightarrow> order_kept a c"
  by (auto simp: order_kept_def)

lemma orders_kept_trans:
  "list_all2 order_kept a b \<Longrightarrow> list_all2 order_kept b c \<Longrightarrow> list_all2 order_kept a c"
  by (rule list_all2_trans[OF order_kept_trans])

lemma order_kept_terms:
  "order_kept r r' \<Longrightarrow> bo_id r' = bo_id r \<and> bo_total r' = bo_total r"
  by (cases r, cases r') (simp add: order_kept_def order_terms_def)

lemma order_step_kept:
  assumes "order_step r r'"
  shows "order_kept r (r'\<lparr>bo_revision := bo_revision r + 1\<rparr>)"
  using assms by (cases r, cases r') (auto simp: order_kept_def order_terms_def order_step_def)

lemma order_verified_kept:
  "order_kept r (r\<lparr>bo_payment := (if refund_state (bo_payment r) then bo_payment r else VerifiedPaid),
     bo_activation := a, bo_revision := bo_revision r + 1\<rparr>)"
  by (simp add: order_kept_def order_terms_def)

lemma list_all2_update:
  "(\<And>r. R r r) \<Longrightarrow> (\<And>r. R r (f r)) \<Longrightarrow> list_all2 R t (update_where p f t)"
  by (induction t) auto

lemma quiet_write_orders:
  "quiet_write env a b \<Longrightarrow> list_all2 order_kept (bl_orders a) (bl_orders b)"
  by (elim quiet_write.cases)
    (auto simp: set_order_def list_all2_refl dest: silent_write_frame
      intro!: list_all2_update order_step_kept)

lemma billing_write_orders:
  "billing_write env ord a b \<Longrightarrow> list_all2 order_kept (bl_orders a) (bl_orders b)"
proof (induction rule: billing_write.induct)
  case (write_quiet db db')
  then show ?case by (rule quiet_write_orders)
next
  case (write_verified p db)
  then show ?case
    unfolding set_verified_def set_order_def by (simp add: list_all2_update order_verified_kept)
next
  case (write_term db db')
  then show ?case using order_term_frame by (fastforce simp: list_all2_refl)
next
  case (write_grant item source db db')
  then show ?case using order_grant_frame by (fastforce simp: list_all2_refl)
qed (simp add: list_all2_refl)

lemma step_orders:
  assumes "billing_step env c db = Inr (res, db')"
  shows "list_all2 order_kept (bl_orders db) (bl_orders db')"
  using assms by (rule step_invariant[where P = "\<lambda>x. list_all2 order_kept (bl_orders db) (bl_orders x)"])
    (simp_all add: list_all2_refl orders_kept_trans quiet_write_orders billing_write_orders)

text \<open>What was signed of an event stays as it came in.\<close>

lemma event_facts_update:
  "(\<And>e. event_facts (f e) = event_facts e) \<Longrightarrow> map event_facts (update_where p f t) = map event_facts t"
  by (induction t) auto

lemma quiet_write_events: "quiet_write env a b \<Longrightarrow> map event_facts (bl_events b) = map event_facts (bl_events a)"
  by (elim quiet_write.cases silent_write.cases) (simp_all add: event_facts_update)

lemma billing_write_events: "billing_write env ord a b \<Longrightarrow> map event_facts (bl_events b) = map event_facts (bl_events a)"
proof (induction rule: billing_write.induct)
  case (write_quiet db db')
  then show ?case by (rule quiet_write_events)
next
  case (write_term db db')
  then show ?case by (auto simp: order_term_def write_subscription_def Let_def split: if_splits option.splits)
next
  case (write_grant item source db db')
  then show ?case by (auto simp: order_grant_def grant_for_order_def res_simps)
qed (simp_all add: set_verified_def)

lemma step_events:
  assumes "billing_step env c db = Inr (res, db')"
  shows "map event_facts (bl_events db') = map event_facts (bl_events db)"
  using assms by (rule step_invariant[where P = "\<lambda>x. map event_facts (bl_events x) = map event_facts (bl_events db)"])
    (simp_all add: quiet_write_events billing_write_events)

section \<open>Payments and the books of the other tables\<close>

definition billing_books :: "billing_env \<Rightarrow> billing_db \<Rightarrow> bool" where
  "billing_books env db \<longleftrightarrow> distinct (map payment_key (bl_payments db)) \<and> distinct (map py_id (bl_payments db))
     \<and> distinct (map iv_order (bl_invoices db)) \<and> distinct (map av_order (bl_activations db))
     \<and> credits_ok (bl_usage db) \<and> audit_ok (be_audit env) (bl_audit db)"

lemma credits_ok_rows:
  assumes "ugrants u = ugrants v" "ureservations u = ureservations v" "uledger u = uledger v"
  shows "credits_ok u = credits_ok v"
  using assms by (simp add: credits_ok_def usage_keys_def grant_ok_def held_count_def ledger_sum_def)

lemma silent_write_books: "silent_write env a b \<Longrightarrow> billing_books env a \<Longrightarrow> billing_books env b"
proof (induction rule: silent_write.induct)
  case (fresh_id db n)
  then show ?case by (auto simp: billing_books_def cong: credits_ok_rows)
next
  case (audit e db h a)
  then show ?case using insert_audit_row_ok by (auto simp: billing_books_def)
qed (auto simp: billing_books_def)

lemma quiet_write_books: "quiet_write env a b \<Longrightarrow> billing_books env a \<Longrightarrow> billing_books env b"
proof (induction rule: quiet_write.induct)
  case (silently db db')
  then show ?case using silent_write_books by blast
next
  case (activation f db oid)
  then show ?case by (simp add: billing_books_def map_update_where)
qed (auto simp: billing_books_def)

lemma billing_write_books: "billing_write env ord a b \<Longrightarrow> billing_books env a \<Longrightarrow> billing_books env b"
proof (induction rule: billing_write.induct)
  case (write_quiet db db')
  then show ?case using quiet_write_books by blast
next
  case (write_term db db')
  then show ?case using order_term_frame[of ord db db'] by (auto simp: billing_books_def)
next
  case (write_grant item source db db')
  then show ?case
    using order_grant_frame[of env ord item source db db'] grant_credits_ok by (fastforce simp: billing_books_def)
qed (auto simp: billing_books_def set_verified_def)

lemma step_books:
  assumes "billing_step env c db = Inr (res, db')" and "billing_books env db"
  shows "billing_books env db'"
  using assms by (rule step_invariant) (auto intro: quiet_write_books billing_write_books)

section \<open>Paid means paid in full\<close>

definition paid_in_full :: "billing_db \<Rightarrow> bool" where
  "paid_in_full db \<longleftrightarrow> distinct (map bo_id (bl_orders db))
     \<and> (\<forall>r \<in> set (bl_orders db). bo_payment r = VerifiedPaid \<longrightarrow> (\<exists>p \<in> set (bl_payments db). full_payment r p))"

lemma full_payment_kept: "order_kept r r' \<Longrightarrow> full_payment r' p = full_payment r p"
  using order_kept_terms[of r r'] by (simp add: full_payment_def)

lemma kept_origin:
  assumes "list_all2 order_kept rs ss" and "s \<in> set ss"
  shows "\<exists>r \<in> set rs. order_kept r s"
  using assms by (metis in_set_conv_nth list_all2_conv_all_nth)

lemma kept_image:
  assumes "list_all2 order_kept rs ss" and "r \<in> set rs"
  shows "\<exists>s \<in> set ss. order_kept r s"
  using assms by (metis in_set_conv_nth list_all2_conv_all_nth)

lemma kept_ids: "list_all2 order_kept rs ss \<Longrightarrow> map bo_id ss = map bo_id rs"
  by (induction rule: list_all2_induct) (auto dest: order_kept_terms)

lemma payments_grow: "billing_write env ord a b \<Longrightarrow> set (bl_payments a) \<subseteq> set (bl_payments b)"
  by (induction rule: billing_write.induct)
    (auto dest!: quiet_write_frame order_term_frame order_grant_frame)

lemma quiet_write_paid:
  assumes "quiet_write env a b" and "s \<in> set (bl_orders b)"
  shows "\<exists>r \<in> set (bl_orders a). order_kept r s \<and> bo_payment s = bo_payment r"
  using assms
proof (induction rule: quiet_write.induct)
  case (silently db db')
  then show ?case using silent_write_frame[OF silently(1)] by (intro bexI[of _ s]) simp_all
next
  case (order f db oid)
  then obtain r where r: "r \<in> set (bl_orders db)"
      "s = r \<or> s = (f r)\<lparr>bo_revision := bo_revision r + 1\<rparr>"
    by (auto simp: set_order_def table_simps split: if_splits)
  moreover have "bo_payment (f r) = bo_payment r"
    using order(1)[of r] by (cases r, cases "f r") (simp add: order_step_def)
  ultimately show ?case using order_step_kept[OF order(1)] by (intro bexI[of _ r]) auto
qed (auto intro!: bexI[of _ s])

lemma billing_write_paid:
  assumes "billing_write env ord a b" and "s \<in> set (bl_orders b)" and "bo_payment s = VerifiedPaid"
  shows "\<exists>r \<in> set (bl_orders a). order_kept r s
    \<and> (bo_payment r = VerifiedPaid \<or> bo_id s = bo_id ord \<and> (\<exists>p \<in> set (bl_payments a). full_payment ord p))"
  using assms
proof (induction rule: billing_write.induct)
  case (write_quiet db db')
  then show ?case using quiet_write_paid by metis
next
  case (write_verified p db)
  then obtain r where "r \<in> set (bl_orders db)" "s = r \<or> bo_id r = bo_id ord \<and> order_kept r s"
    using order_verified_kept by (auto simp: set_verified_def set_order_def table_simps split: if_splits)
  with write_verified show ?case using order_kept_terms by (metis order_kept_refl)
next
  case (write_term db db')
  then show ?case using order_term_frame[OF write_term(1)] by (intro bexI[of _ s]) auto
next
  case (write_grant item source db db')
  then show ?case using order_grant_frame[OF write_grant(1)] by (intro bexI[of _ s]) auto
qed (auto intro!: bexI[of _ s])

lemma paid_in_full_write:
  assumes w: "billing_write env ord a b" and ok: "paid_in_full a"
    and ord: "\<exists>r \<in> set (bl_orders a). order_kept ord r"
  shows "paid_in_full b"
proof -
  note kept = billing_write_orders[OF w]
  have "\<exists>p \<in> set (bl_payments b). full_payment s p"
    if s: "s \<in> set (bl_orders b)" "bo_payment s = VerifiedPaid" for s
  proof -
    obtain r where r: "r \<in> set (bl_orders a)" "order_kept r s"
      and why: "bo_payment r = VerifiedPaid \<or> bo_id s = bo_id ord \<and> (\<exists>p \<in> set (bl_payments a). full_payment ord p)"
      using billing_write_paid[OF w s] by blast
    have "\<exists>p \<in> set (bl_payments a). full_payment r p"
    proof (cases "bo_payment r = VerifiedPaid")
      case True
      then show ?thesis using ok r(1) by (auto simp: paid_in_full_def)
    next
      case False
      then have id: "bo_id s = bo_id ord" and p: "\<exists>p \<in> set (bl_payments a). full_payment ord p" using why by auto
      obtain r' where r': "r' \<in> set (bl_orders a)" "order_kept ord r'" using ord by blast
      then have "bo_id r' = bo_id r" using id order_kept_terms r(2) by metis
      then have "r' = r" using ok r(1) r'(1) by (auto simp: paid_in_full_def distinct_map inj_on_def)
      then show ?thesis using p full_payment_kept[OF r'(2)] by simp
    qed
    then show ?thesis using full_payment_kept[OF r(2)] payments_grow[OF w] by auto
  qed
  moreover have "distinct (map bo_id (bl_orders b))" using kept_ids[OF kept] ok by (simp add: paid_in_full_def)
  ultimately show ?thesis by (simp add: paid_in_full_def)
qed

lemma paid_in_full_quiet:
  assumes w: "quiet_write env a b" and ok: "paid_in_full a"
  shows "paid_in_full b"
proof -
  have "\<exists>p \<in> set (bl_payments b). full_payment s p"
    if s: "s \<in> set (bl_orders b)" "bo_payment s = VerifiedPaid" for s
  proof -
    obtain r where r: "r \<in> set (bl_orders a)" "order_kept r s" "bo_payment r = VerifiedPaid"
      using quiet_write_paid[OF w s(1)] s(2) by auto
    then obtain p where "p \<in> set (bl_payments a)" "full_payment r p" using ok by (auto simp: paid_in_full_def)
    then show ?thesis using quiet_write_frame[OF w] full_payment_kept[OF r(2)] by auto
  qed
  then show ?thesis using ok kept_ids[OF quiet_write_orders[OF w]] by (simp add: paid_in_full_def)
qed

lemma step_paid_in_full:
  assumes run: "billing_step env c db = Inr (res, db')" and ok: "paid_in_full db"
  shows "paid_in_full db'"
proof -
  let ?P = "\<lambda>x. paid_in_full x \<and> list_all2 order_kept (bl_orders db) (bl_orders x)"
  have "?P db'"
  proof (rule step_invariant[OF run])
    show "?P db" using ok by (simp add: list_all2_refl)
    show "?P b" if "quiet_write env a b" "?P a" for a b
      using that paid_in_full_quiet quiet_write_orders orders_kept_trans by blast
    show "?P b" if "ord \<in> set (bl_orders db)" "billing_write env ord a b" "?P a" for ord a b
      using that paid_in_full_write kept_image billing_write_orders orders_kept_trans by meson
  qed
  then show ?thesis by blast
qed

section \<open>Histories\<close>

text \<open>
  Calls come at any time, one transaction after another; a call that raises is rolled back.
\<close>

definition billing_at :: "billing_env \<Rightarrow> int \<Rightarrow> string \<Rightarrow> billing_env" where
  "billing_at env now stamp =
     env\<lparr>be_usage := (be_usage env)\<lparr>usage_now := now\<rparr>, be_audit := (be_audit env)\<lparr>au_now := stamp\<rparr>\<rparr>"

definition timed_step ::
    "billing_env \<Rightarrow> int \<times> string \<times> billing_call \<Rightarrow> billing_db \<Rightarrow> billing_error + (apply_result \<times> billing_db)" where
  "timed_step env = (\<lambda>(now, stamp, c) db. billing_step (billing_at env now stamp) c db)"

lemma billing_books_at [simp]: "billing_books (billing_at env now stamp) db = billing_books env db"
  by (simp add: billing_books_def billing_at_def audit_ok_def linked_now)

interpretation billing_tables: transactional "timed_step env" "billing_books env" for env
  by unfold_locales (auto simp: timed_step_def dest!: step_books)

interpretation billing_paid: transactional "timed_step env" paid_in_full for env
  by unfold_locales (auto simp: timed_step_def intro: step_paid_in_full)

interpretation billing_orders: growing "timed_step env"
    "\<lambda>db db'. list_all2 order_kept (bl_orders db) (bl_orders db')" for env
  by unfold_locales (auto simp: timed_step_def list_all2_refl intro: step_orders orders_kept_trans)

text \<open>
  C16: Every history of calls keeps the books: a provider transaction is recorded at most once, an
  order has at most one activation and at most one invoice request, the usage credits stay
  balanced, and the audit log stays a verifiable chain.
\<close>

theorem billing_keeps_books:
  "billing_books env db \<Longrightarrow> billing_books env (commit_all (timed_step env) calls db)"
  by (rule billing_tables.commit_all_ok)

text \<open>
  Paid means paid in full: in every state a history of calls reaches, an order whose payment
  state is verified-paid has a verified payment row of its own for exactly its total.
\<close>

lemma verified_orders_are_paid_in_full:
  "paid_in_full db \<Longrightarrow> paid_in_full (commit_all (timed_step env) calls db)"
  by (rule billing_paid.commit_all_ok)

text \<open>
  No history of calls changes what was ordered: every order keeps its owner, release, price,
  tax, total and provider code; its payment state moves only to verified-paid and never out of a
  refund state; and its revision never falls.
\<close>

lemma orders_keep_terms:
  "list_all2 order_kept (bl_orders db) (bl_orders (commit_all (timed_step env) calls db))"
  by (rule billing_orders.commit_all_grows)

end
