(* ===== verification/Billing_Once.thy ===== *)
theory Billing_Once
  imports Billing_Safety
begin

text \<open>
  When a call may change what an owner is entitled to, what it changes then, and why the same
  payment does not take effect twice while the activation stays applied.
\<close>

section \<open>The applied mark\<close>

lemma find_update_order:
  assumes "\<And>a. av_order (f a) = av_order a"
  shows "List.find (\<lambda>a. av_order a = i) (update_where (\<lambda>a. av_order a = i) f t)
    = map_option f (List.find (\<lambda>a. av_order a = i) t)"
  by (induction t) (auto simp: assms)

lemma upsert_found:
  assumes run: "upsert_activation env row f db = Inr db'" and f: "\<And>a. av_order (f a) = av_order a"
    and Q: "\<And>a. Q (f a)" "\<And>i. Q (row\<lparr>av_id := i\<rparr>)"
  shows "\<exists>a. find_activation db' (av_order row) = Some a \<and> Q a"
proof -
  obtain i db1 where 1: "billing_new_id env ''subscription-activation'' db = (i, db1)" by force
  show ?thesis
  proof (cases "\<exists>a \<in> set (bl_activations db1). av_order a = av_order row")
    case True
    then obtain a where "List.find (\<lambda>a. av_order a = av_order row) (bl_activations db1) = Some a"
      using find_exists[of _ "bl_activations db1" "\<lambda>a. av_order a = av_order row"] by blast
    moreover have "bl_activations db' = update_where (\<lambda>a. av_order a = av_order row) f (bl_activations db1)"
      using run 1 True by (auto simp: upsert_activation_def)
    ultimately show ?thesis using Q(1) by (simp add: find_activation_def find_update_order[OF f])
  next
    case False
    then have "bl_activations db' = bl_activations db1 @ [row\<lparr>av_id := i\<rparr>]"
      using run 1 by (auto simp: upsert_activation_def split: if_splits)
    moreover have "List.find (\<lambda>a. av_order a = av_order row) (bl_activations db1) = None"
      using False by (simp add: find_None_iff)
    ultimately show ?thesis using Q(2) by (simp add: find_activation_def find_append)
  qed
qed

definition is_applied :: "billing_db \<Rightarrow> ident \<Rightarrow> bool" where
  "is_applied db oid \<longleftrightarrow> (\<exists>a. find_activation db oid = Some a \<and> av_state a = ActApplied)"

lemma mark_applied_applied:
  assumes "mark_applied env ord before after db = Inr (out, db')"
  shows "is_applied db' (bo_id ord)"
proof -
  obtain db1 db2 where 1: "upsert_activation env
        \<lparr>av_id = [], av_order = bo_id ord, av_state = ActApplied, av_before = before, av_after = after,
         av_expected = bo_expected ord, av_applied = Some (bo_revision ord + 1), av_reason = ''APPLIED''\<rparr>
        (\<lambda>a. a\<lparr>av_state := ActApplied, av_before := before, av_after := after,
               av_applied := Some (bo_revision ord + 1), av_reason := ''APPLIED''\<rparr>) db = Inr db1"
      (is "upsert_activation env ?row ?f db = _")
    and db2: "db2 = set_order (bo_id ord) (\<lambda>r. r\<lparr>bo_activation := ActApplied\<rparr>) db1"
    and rest: "(case verified_payments db2 (bo_id ord) of
       [] \<Rightarrow> Inr (OutApplied, db2)
     | p # _ \<Rightarrow> res_bind (request_invoice_if_due env ord (py_id p) True db2) (\<lambda>db3. Inr (OutApplied, db3))) = Inr (out, db')"
    using assms unfolding mark_applied_def Let_def res_bind_eq_Inr by force
  have "\<exists>a. find_activation db1 (av_order ?row) = Some a \<and> av_state a = ActApplied"
    by (rule upsert_found[OF 1]) simp_all
  moreover have "silent env db2 db'"
    using rest by (auto simp: res_simps split: list.splits intro: silent_request_invoice)
  ultimately show ?thesis
    using silent_frame[of env db2 db'] by (simp add: is_applied_def find_activation_def db2)
qed

lemma applied_mark_applied: "applied_mark env ord db db' \<Longrightarrow> is_applied db' (bo_id ord)"
  unfolding applied_mark_def using mark_applied_applied silent_frame
  by (fastforce simp: is_applied_def find_activation_def)

lemma paid_effect_applied: "paid_effect env ord item db db' \<Longrightarrow> is_applied db' (bo_id ord)"
  by (induction rule: paid_effect.induct) (auto intro: applied_mark_applied)

lemma silent_applied: "silent env db db' \<Longrightarrow> is_applied db' oid = is_applied db oid"
  using silent_frame by (simp add: is_applied_def find_activation_def)

section \<open>What a paid effect changes\<close>

definition others :: "owner_kind \<Rightarrow> ident \<Rightarrow> subscription_row list \<Rightarrow> subscription_row list" where
  "others kind i = filter (\<lambda>s. \<not> (su_kind s = kind \<and> su_owner s = i))"

definition new_credit :: "usage_owner \<Rightarrow> item_row \<Rightarrow> credit_grant \<Rightarrow> bool" where
  "new_credit ow item g \<longleftrightarrow> ug_order_item g = Some (bi_id item) \<and> 0 < ug_total g
     \<and> owned_by ow (ug_account g) (ug_org g) (ug_kind g)"

definition confined :: "order_row \<Rightarrow> item_row \<Rightarrow> billing_db \<Rightarrow> billing_db \<Rightarrow> bool" where
  "confined ord item db db' \<longleftrightarrow> (\<exists>ow. order_owner ord = Inr ow
     \<and> others (bo_kind ord) (uo_identifier ow) (bl_subscriptions db')
         = others (bo_kind ord) (uo_identifier ow) (bl_subscriptions db)
     \<and> ureservations (bl_usage db') = ureservations (bl_usage db)
     \<and> (ugrants (bl_usage db') = ugrants (bl_usage db)
        \<or> (\<exists>g. ugrants (bl_usage db') = ugrants (bl_usage db) @ [g] \<and> new_credit ow item g)))"

lemma grant_credits_frame:
  assumes "grant_credits env u ow n source rel chk t0 t1 item meta = Inr (gid, u')"
  shows "ureservations u' = ureservations u \<and> (\<exists>g. ugrants u' = ugrants u @ [g]
    \<and> ug_order_item g = item \<and> 0 < ug_total g \<and> owned_by ow (ug_account g) (ug_org g) (ug_kind g))"
proof -
  obtain ua ub src where n: "0 < n" and 1: "usage_new_id env ''usage-grant'' u = (gid, ua)"
    and 2: "insert_grant \<lparr>ug_id = gid, ug_account = account_user_id ow, ug_org = organization_id ow,
       ug_kind = uo_kind ow, ug_total = n, ug_remaining = n, ug_reserved = 0,
       ug_source = src, ug_order_item = item, ug_release = rel,
       ug_checksum = chk, ug_issued_at = t0, ug_expires_at = t1\<rparr> ua = Inr ub"
      (is "insert_grant ?g ua = _")
    and 3: "write_ledger env gid None EntryGrant n n (py_or meta (PDict [])) ub = Inr u'"
    using assms by (auto simp: grant_credits_def res_simps split: if_splits option.splits prod.splits)
  have "owned_by ow (ug_account ?g) (ug_org ?g) (ug_kind ?g)"
    by (cases "uo_kind ow") (simp_all add: owned_by_def account_user_id_def organization_id_def)
  with n usage_new_id_frame[OF 1] insert_grant_Inr[OF 2] write_ledger_Inr[OF 3] show ?thesis
    by (intro conjI exI[of _ ?g]) auto
qed

lemma order_owner_kind: "order_owner ord = Inr ow \<Longrightarrow> uo_kind ow = bo_kind ord"
  by (cases "bo_kind ord") (auto simp: order_owner_def make_owner_def kind_text_def res_simps)

lemma grant_confined:
  assumes "order_grant env ord item source db db'"
  shows "confined ord item db db'"
proof -
  obtain ow n chk t0 t1 where ow: "order_owner ord = Inr ow"
    and run: "grant_for_order env ow n source ord chk t0 t1 (bi_id item) db = Inr db'"
    using assms by (auto simp: order_grant_def)
  from run obtain gid u where "grant_credits (be_usage env) (bl_usage db) ow n source (bo_release ord)
      chk t0 t1 (Some (bi_id item)) PNone = Inr (gid, u)" "db' = db\<lparr>bl_usage := u\<rparr>"
    by (auto simp: grant_for_order_def res_simps)
  with grant_credits_frame[OF this(1)] ow show ?thesis by (auto simp: confined_def new_credit_def)
qed

lemma others_update:
  "(\<And>s. su_kind (f s) = kind \<and> su_owner (f s) = i) \<Longrightarrow>
   others kind i (update_where (\<lambda>s. su_kind s = kind \<and> su_owner s = i) f t) = others kind i t"
  by (induction t) (auto simp: others_def)

lemma term_confined:
  assumes "order_term ord db db'"
  shows "confined ord item db db' \<and> bl_usage db' = bl_usage db"
proof -
  obtain ow s where ow: "order_owner ord = Inr ow" and run: "write_subscription s db = Inr db'"
    and s: "su_kind s = bo_kind ord" "su_owner s = uo_identifier ow"
    using assms by (auto simp: order_term_def)
  have "others (bo_kind ord) (uo_identifier ow) (bl_subscriptions db') = others (bo_kind ord) (uo_identifier ow) (bl_subscriptions db)
      \<and> bl_usage db' = bl_usage db"
    using run by (auto simp: write_subscription_def Let_def s others_update split: if_splits) (simp add: others_def s)
  then show ?thesis using ow by (auto simp: confined_def)
qed

lemma confined_entitlements:
  assumes "confined ord item a b" and "entitlements a' = entitlements a" and "entitlements b' = entitlements b"
  shows "confined ord item a' b'"
  using assms by (simp add: confined_def entitlements_def usage_rows_def)

lemma confined_trans:
  "confined ord item a b \<Longrightarrow> bl_usage b = bl_usage a \<Longrightarrow> confined ord item b c \<Longrightarrow> confined ord item a c"
  by (auto simp: confined_def)

lemma applied_mark_entitlements: "applied_mark env ord db db' \<Longrightarrow> entitlements db' = entitlements db"
  using quiet_frame[OF applied_mark_quiet] by blast

lemma paid_effect_confined: "paid_effect env ord item db db' \<Longrightarrow> confined ord item db db'"
proof (induction rule: paid_effect.induct)
  case (pack db db1 db')
  then show ?case using confined_entitlements[OF grant_confined] applied_mark_entitlements by blast
next
  case (plan db db1 db2 db')
  have "confined ord item db db2"
    using term_confined[OF plan(1)] plan(2) grant_confined confined_trans by blast
  then show ?case using confined_entitlements applied_mark_entitlements[OF plan(3)] by blast
qed

section \<open>When entitlements change\<close>

text \<open>The tables the guards of an activation read.\<close>

definition guard_tables where
  "guard_tables db = (bl_activations db, bl_owner_status db, bl_pending_refunds db, bl_items db)"

lemma guard_tables_may:
  "guard_tables a = guard_tables b \<Longrightarrow> may_activate a ord = may_activate b ord \<and> first_item a ord = first_item b ord"
  by (auto simp: guard_tables_def may_activate_def first_item_def owner_is_active_def find_activation_def
      split: option.splits)

lemma silent_guards: "silent env db db' \<Longrightarrow> guard_tables db' = guard_tables db"
  unfolding silent_def
  by (induction rule: rtranclp_induct) (auto simp: guard_tables_def elim!: silent_write.cases)

lemma set_order_guards [simp]: "guard_tables (set_order oid f db) = guard_tables db"
  by (simp add: guard_tables_def)

lemma set_verified_guards [simp]: "guard_tables (set_verified oid db) = guard_tables db"
  by (simp add: set_verified_def)

lemma recorded_guards: "payment_recorded env ord p db db' \<Longrightarrow> guard_tables db' = guard_tables db"
  by (auto simp: payment_recorded_def guard_tables_def dest!: silent_guards)

lemma recorded_payment: "payment_recorded env ord p db db' \<Longrightarrow> full_payment ord p \<and> p \<in> set (bl_payments db')"
  by (auto simp: payment_recorded_def)

lemma progress_guards: "progress_step ord db db' \<Longrightarrow> guard_tables db' = guard_tables db"
  by (auto simp: progress_step_def)

lemma settled_guards:
  assumes "progress_step ord db db1" and "payment_recorded env ord p db1 db2"
  shows "guard_tables (set_verified (bo_id ord) db2) = guard_tables db"
    and "entitlements (set_verified (bo_id ord) db2) = entitlements db"
  using progress_guards[OF assms(1)] recorded_guards[OF assms(2)] recorded_entitlements[OF assms(2)]
    quiet_frame[OF progress_quiet[OF assms(1)]] by (simp_all add: set_verified_guards)

lemma paid_effect_payments: "paid_effect env ord item db db' \<Longrightarrow> bl_payments db' = bl_payments db"
proof (induction rule: paid_effect.induct)
  case (pack db db1 db')
  then show ?case using order_grant_frame[OF pack(1)] quiet_frame[OF applied_mark_quiet[OF pack(2)]] by auto
next
  case (plan db db1 db2 db')
  then show ?case using order_term_frame[OF plan(1)] order_grant_frame quiet_frame[OF applied_mark_quiet[OF plan(3)]]
    by fastforce
qed

lemma protocol_entitled:
  assumes "billing_protocol env ord db out db'" and changed: "entitlements db' \<noteq> entitlements db"
  shows "out = OutApplied \<and> may_activate db ord \<and> is_applied db' (bo_id ord)
    \<and> (\<exists>item. first_item db ord = Some item \<and> confined ord item db db')
    \<and> (bo_payment ord = VerifiedPaid \<or> (\<exists>p \<in> set (bl_payments db'). full_payment ord p))"
  using assms(1)
proof cases
  case unpaid
  then show ?thesis using changed quiet_frame by blast
next
  case (paid db1 p db2)
  then show ?thesis using changed quiet_frame settled_guards by metis
next
  case (activated db1 p db2 db3 item db4)
  have same: "guard_tables db3 = guard_tables db" "entitlements db3 = entitlements db"
    using settled_guards[OF activated(2,3)] activated(4) by simp_all
  have "is_applied db' (bo_id ord)"
    using paid_effect_applied[OF activated(7)] silent_applied[OF activated(8)] by simp
  moreover have "confined ord item db db'"
    using confined_entitlements[OF paid_effect_confined[OF activated(7)]] same silent_frame[OF activated(8)] by simp
  moreover have "p \<in> set (bl_payments db')" "full_payment ord p"
    using recorded_payment[OF activated(3)] paid_effect_payments[OF activated(7)] silent_frame[OF activated(8)]
      activated(4) by auto
  ultimately show ?thesis using activated(1,5,6) guard_tables_may[OF same(1)] by auto
next
  case (retried item db1)
  have "is_applied db' (bo_id ord)"
    using paid_effect_applied[OF retried(5)] silent_applied[OF retried(6)] by simp
  moreover have "confined ord item db db'"
    using confined_entitlements[OF paid_effect_confined[OF retried(5)]] silent_frame[OF retried(6)] by simp
  ultimately show ?thesis using retried by auto
next
  case already
  then show ?thesis using changed silent_frame by blast
qed


text \<open>
  C15: The effect stays with the owner who paid: at most one grant of credits is added, for the
  first item of the order and to the owner of the order; no reservation moves; and no subscription
  of another owner is touched.
\<close>

theorem activation_confined_to_owner:
  assumes run: "billing_step env c db = Inr (res, db')" and changed: "entitlements db' \<noteq> entitlements db"
  shows "\<exists>ord item. call_order c db = Some ord \<and> first_item db ord = Some item \<and> confined ord item db db'"
proof (cases "call_order c db")
  case None
  then show ?thesis using step_protocol[OF run] changed silent_frame by force
next
  case (Some ord)
  then show ?thesis using step_protocol[OF run] protocol_entitled changed
    by (fastforce simp: protocol_result_def)
qed

text \<open>
  While the activation of an order is applied, nothing about the order takes effect again:
  replayed webhooks, repeated queries and retries leave every subscription, grant, reservation and
  ledger row as it is.
\<close>

lemma applied_order_is_settled:
  assumes run: "billing_step env c db = Inr (res, db')"
    and "\<forall>ord. call_order c db = Some ord \<longrightarrow> is_applied db (bo_id ord)"
  shows "entitlements db' = entitlements db"
proof (rule ccontr)
  assume changed: "entitlements db' \<noteq> entitlements db"
  show False
  proof (cases "call_order c db")
    case None
    then show ?thesis using step_protocol[OF run] changed silent_frame by force
  next
    case (Some ord)
    then have "may_activate db ord"
      using step_protocol[OF run] protocol_entitled changed by (fastforce simp: protocol_result_def)
    then show ?thesis using assms(2) Some by (auto simp: may_activate_def is_applied_def)
  qed
qed

end
