(* ===== verification/Billing_Terms.thy ===== *)
theory Billing_Terms
  imports Billing_Once
begin

text \<open>
  The terms a renewal gets, the progress of a checkout over repeated observations, and the times
  that are accepted from a provider.
\<close>

section \<open>Renewals\<close>

lemma chain_renewals_max:
  "chain_renewals qs s r p = Inr (s', r', p') \<Longrightarrow>
     s' = fold max (map qr_expires qs) s \<and> p' = (if qs = [] then p else Some (last qs))
     \<and> (\<forall>q \<in> set qs. \<exists>e. qr_expected q = Some e \<and> e < r') \<and> r \<le> r'"
  by (induction qs arbitrary: s r p) (fastforce split: option.splits if_splits simp: max.commute)+

lemma fold_max_bounds:
  "(x::int) \<le> fold max xs x \<and> (\<forall>y \<in> set xs. y \<le> fold max xs x) \<and> fold max xs x \<in> insert x (set xs)"
proof (induction xs arbitrary: x)
  case (Cons a xs)
  from Cons.IH[of "max a x"] show ?case by (auto simp: max_def split: if_splits)
qed simp

lemma schedule_pending:
  assumes "schedule_renewal env ord cur item t0 t1 e q db = Inr (out, db')"
  shows "\<exists>plan src a. out = OutScheduled (AfterScheduled t0 t1 (bi_plan item) plan src)
    \<and> find_activation db' (bo_id ord) = Some a \<and> av_state a = ActPending \<and> av_expected a = Some e
    \<and> av_after a = AfterScheduled t0 t1 (bi_plan item) plan src"
proof -
  let ?plan = "case q of Some q \<Rightarrow> qr_plan q | None \<Rightarrow> su_plan cur"
    and ?src = "case q of Some q \<Rightarrow> Some (qr_order q) | None \<Rightarrow> su_source_order cur"
  let ?after = "AfterScheduled t0 t1 (bi_plan item) ?plan ?src"
  obtain db1 where 1: "upsert_activation env
         \<lparr>av_id = [], av_order = bo_id ord, av_state = ActPending, av_before = Some cur, av_after = ?after,
          av_expected = Some e, av_applied = None, av_reason = ''RENEWAL_SCHEDULED''\<rparr>
         (\<lambda>a. a\<lparr>av_state := ActPending, av_before := Some cur, av_after := ?after,
                av_expected := Some e, av_reason := ''RENEWAL_SCHEDULED''\<rparr>) db = Inr db1"
      (is "upsert_activation env ?row ?f db = _")
    and 2: "out = OutScheduled ?after" "db' = set_order (bo_id ord) (\<lambda>r. r\<lparr>bo_activation := ActPending\<rparr>) db1"
    using assms by (auto simp: schedule_renewal_def res_simps Let_def)
  have "\<exists>a. find_activation db1 (av_order ?row) = Some a
      \<and> (av_state a = ActPending \<and> av_expected a = Some e \<and> av_after a = ?after)"
    by (rule upsert_found[OF 1]) simp_all
  then show ?thesis using 2 by auto
qed

lemma applied_not_scheduled:
  assumes "order_owner ord = Inr ow"
  shows "yields (apply_term env ord item plan package benefits ow cur t0 t1 sched db)
    (\<lambda>(out, db'). \<forall>after. out \<noteq> OutScheduled after)"
proof (rule yieldsI)
  fix x assume run: "apply_term env ord item plan package benefits ow cur t0 t1 sched db = Inr x"
  obtain out db' where x: "x = (out, db')" by force
  show "(\<lambda>(out, db'). \<forall>after. out \<noteq> OutScheduled after) x"
    using run unfolding apply_term_def x
    by (auto simp: res_simps dest!: quiet_mark_applied split: if_splits)
qed


section \<open>Progress of a checkout\<close>

definition paid_so_far :: "pval \<Rightarrow> int" where
  "paid_so_far m = (case plain_int (dget m ''amountPaid'') of None \<Rightarrow> 0 | Some n \<Rightarrow> n)"

definition observed_amount :: "int \<Rightarrow> pval \<Rightarrow> int list" where
  "observed_amount due r = (case plain_int (dget r ''amountPaid'') of
     None \<Rightarrow> [] | Some n \<Rightarrow> if 0 \<le> n \<and> n \<le> due then [n] else [])"

definition observe_all :: "int \<Rightarrow> pval list \<Rightarrow> pval \<Rightarrow> pval" where
  "observe_all due rs m =
     fold (\<lambda>r m. case merge_payment_progress m r due of None \<Rightarrow> m | Some m' \<Rightarrow> m') rs m"

lemma dget_entries: "entries m \<noteq> [] \<Longrightarrow> dget (PDict (entries m)) k = dget m k"
  by (cases m) (simp_all add: dget_def dget_default_def)

lemma merge_payment_paid:
  assumes due: "0 < due"
  shows "paid_so_far (case merge_payment_progress m r due of None \<Rightarrow> m | Some m' \<Rightarrow> m')
    = fold max (observed_amount due r) (paid_so_far m)"
proof (cases "observed_amount due r")
  case Nil
  then have "merge_payment_progress m r due = (if entries m = [] then None else Some (PDict (entries m)))"
    using due by (auto simp: merge_payment_progress_def observed_amount_def Let_def split: option.splits if_splits)
  then show ?thesis using Nil by (simp add: paid_so_far_def dget_entries)
next
  case (Cons n ns)
  then have n: "plain_int (dget r ''amountPaid'') = Some n" "0 \<le> n" "n \<le> due" "ns = []"
    by (auto simp: observed_amount_def split: option.splits if_splits)
  let ?seen = "max n (paid_so_far m)"
  obtain d where "merge_payment_progress m r due = Some (PDict (AList.update ''amountRemaining'' (PInt (due - ?seen))
      (AList.update ''amountPaid'' (PInt ?seen) d)))"
    using n due by (simp add: merge_payment_progress_def paid_so_far_def Let_def)
  then show ?thesis using Cons n
    by (simp add: paid_so_far_def dget_def dget_default_def update_conv' max.commute)
qed

text \<open>
  The progress of a checkout is monotone: after any sequence of provider answers the recorded
  amount is the largest valid amount observed, so a late or replayed answer never lowers it;
  amounts that are not integers, negative or above the total are ignored.
\<close>

lemma payment_progress_monotone:
  assumes "0 < due"
  shows "paid_so_far (observe_all due rs m) = fold max (concat (map (observed_amount due) rs)) (paid_so_far m)"
proof (induction rs arbitrary: m)
  case (Cons r rs)
  then show ?case using merge_payment_paid[OF assms] by (simp add: observe_all_def)
qed (simp add: observe_all_def)

section \<open>Provider times\<close>

lemma time_in_range_Inr: "time_in_range i = Inr t \<longleftrightarrow> t = i \<and> 0 \<le> i \<and> i \<le> max_unix_seconds"
  by (auto simp: time_in_range_def)

lemma unix_seconds_range: "unix_seconds v = Inr t \<Longrightarrow> 0 \<le> t \<and> t \<le> max_unix_seconds"
  by (auto simp: unix_seconds_def time_in_range_Inr split: pval.splits option.splits if_splits pyfloat.splits)

text \<open>
  A time accepted from the provider is a second between the epoch and the end of the year 9999,
  taken from the transaction time alone: a missing time, a boolean and a text without a time zone
  are refused, an integer is taken as it is.
\<close>

lemma provider_time_bounded:
  assumes "parse_provider_transaction_time env payload = Inr (Inr t)"
  shows "0 \<le> t \<and> t \<le> max_unix_seconds
    \<and> (case dget payload ''transactionDateTime'' of
        PInt i \<Rightarrow> t = i
      | PStr s \<Rightarrow> integer_text (py_strip s) \<or> be_iso env (py_strip s) = IsoSeconds t
      | PFloat f _ \<Rightarrow> f = FFin (of_int t)
      | _ \<Rightarrow> False)"
proof -
  let ?v = "dget payload ''transactionDateTime''"
  have got: "(case ?v of
          PStr s \<Rightarrow>
            if integer_text (py_strip s) then unix_seconds ?v
            else (case be_iso env (py_strip s) of
                IsoInvalid \<Rightarrow> Inl ''PAYMENT_TIMESTAMP_INVALID''
              | IsoNaive \<Rightarrow> Inl ''PAYMENT_TIMESTAMP_TIMEZONE_REQUIRED''
              | IsoOverflow \<Rightarrow> Inl ''PAYMENT_TIMESTAMP_OUT_OF_RANGE''
              | IsoSeconds i \<Rightarrow> time_in_range i)
        | _ \<Rightarrow> unix_seconds ?v) = Inr t"
    using assms by (auto simp: parse_provider_transaction_time_def res_simps Let_def split: if_splits)
  have "0 \<le> t \<and> t \<le> max_unix_seconds"
    using got unix_seconds_range by (auto simp: time_in_range_Inr split: pval.splits if_splits iso_time.splits)
  moreover have "(case ?v of PInt i \<Rightarrow> t = i
      | PStr s \<Rightarrow> integer_text (py_strip s) \<or> be_iso env (py_strip s) = IsoSeconds t
      | PFloat f _ \<Rightarrow> f = FFin (of_int t) | _ \<Rightarrow> False)"
    using got by (auto simp: unix_seconds_def time_in_range_Inr
      split: pval.splits if_splits iso_time.splits pyfloat.splits)
  ultimately show ?thesis by blast
qed

end
