(* ===== verification/Billing_Examples.thy ===== *)
theory Billing_Examples
  imports Billing_Terms
begin

text \<open>
  An order of a credit pack by an account with a running subscription, the webhooks that pay it,
  a renewal that is paid early, and the witnesses of the theorems on billing.
\<close>

definition bx_env :: billing_env where
  "bx_env = \<lparr>be_usage = \<lparr>usage_hex = (\<lambda>n. replicate n CHR ''a''), usage_now = 10\<rparr>,
     be_audit = \<lparr>au_sha256 = (\<lambda>s. replicate 64 (s ! 89)), au_hmac = (\<lambda>_ _. ''f''), au_now = ''t''\<rparr>,
     be_health = HealthValid, be_iso = (\<lambda>_. IsoInvalid)\<rparr>"

definition bx_order :: order_row where
  "bx_order = \<lparr>bo_id = ''o'', bo_public = ''P'', bo_actor = ''u'', bo_kind = OwnerAccount,
     bo_account = Some ''u'', bo_org = None, bo_operation = ''purchase'', bo_release = ''r'',
     bo_profile = ''v'', bo_code = 7, bo_decision = PDict [], bo_subtotal = 5, bo_tax = 0, bo_total = 5,
     bo_currency = ''VND'', bo_checkout = ''open'', bo_payment = Unverified, bo_activation = ActNotReady,
     bo_progress = PNone, bo_checkout_expires = None, bo_expected = None, bo_revision = 1\<rparr>"

definition bx_item :: item_row where
  "bx_item = \<lparr>bi_id = ''i'', bi_order = ''o'', bi_plan = None, bi_quantity = 1,
     bi_snapshot = PDict [(''itemType'', PStr ''procurement_credit_pack''),
       (''releaseChecksum'', PStr (replicate 64 CHR ''c'')),
       (''benefits'', PDict [(''procurementCredits'', PInt 3), (''expiryPolicy'', PDict [(''days'', PInt 2)])])]\<rparr>"

definition bx_event :: "ident \<Rightarrow> event_row" where
  "bx_event e = \<lparr>we_id = e, we_profile = ''v'',
     we_signed = PDict [(''orderCode'', PInt 7), (''amount'', PInt 5), (''paymentLinkId'', PStr ''L'')],
     we_status = EvPending, we_error = None, we_locked_by = None, we_lease = None, we_processed_at = None\<rparr>"

definition bx_subscription :: subscription_row where
  "bx_subscription = \<lparr>su_kind = OwnerAccount, su_owner = ''u'', su_package = ''k'', su_plan = Some ''n'',
     su_source_order = None, su_status = ''active'', su_starts = 1, su_expires = Some 90,
     su_members = None, su_revision = 4\<rparr>"

definition bx_db :: billing_db where
  "bx_db = \<lparr>bl_orders = [bx_order], bl_items = [bx_item], bl_plans = [], bl_payments = [],
     bl_events = [bx_event ''1'', bx_event ''2'', bx_event ''3''], bl_activations = [], bl_invoices = [],
     bl_outbox = [], bl_subscriptions = [bx_subscription], bl_owner_status = [((OwnerAccount, ''u''), ''active'')],
     bl_pending_refunds = [], bl_usage = \<lparr>ugrants = [], ureservations = [], uledger = [], uid_counter = 0\<rparr>,
     bl_audit = fresh_audit_db (Some ''x'')\<rparr>"

text \<open>The answer of the provider, complete and without the time of the transaction.\<close>

definition bx_answer :: pval where
  "bx_answer = PDict [(''status'', PStr ''PAID''), (''amount'', PInt 5), (''id'', PStr ''L''),
     (''transactionDateTime'', PInt 5)]"

definition bx_untimed :: pval where
  "bx_untimed = PDict [(''status'', PStr ''PAID''), (''amount'', PInt 5), (''id'', PStr ''L'')]"

definition grant_items :: "billing_db \<Rightarrow> (ident option \<times> int) list" where
  "grant_items db = map (\<lambda>g. (ug_order_item g, ug_total g)) (ugrants (bl_usage db))"

definition settled_order :: "billing_call \<Rightarrow> billing_db \<Rightarrow> bool" where
  "settled_order c db = (case call_order c db of None \<Rightarrow> True
     | Some r \<Rightarrow> (case find_activation db (bo_id r) of None \<Rightarrow> False | Some a \<Rightarrow> av_state a = ActApplied))"

text \<open>Three webhooks of one order; the answer to the second has no time of the transaction.\<close>

definition bx_story where
  "bx_story =
     res_bind (billing_step bx_env (EventCall ''1'' bx_answer ''v'') bx_db) (\<lambda>(r1, db1).
     res_bind (billing_step bx_env (EventCall ''2'' bx_untimed ''v'') db1) (\<lambda>(r2, db2).
     res_bind (billing_step bx_env (EventCall ''3'' bx_answer ''v'') db2) (\<lambda>(r3, db3).
     Inr ((r1, grant_items db1, settled_order (EventCall ''2'' bx_untimed ''v'') db1), (r2, grant_items db2),
       (r3, grant_items db3, length (bl_payments db3))))))"

lemma bx_story_val:
  "bx_story = Inr ((ResOutcome OutApplied, [(Some ''i'', 3)], True),
     (ResOutcome (OutReview ''PAYMENT_OCCURRENCE_TIME_MISSING''), [(Some ''i'', 3)]),
     (ResOutcome OutApplied, [(Some ''i'', 3), (Some ''i'', 3)], 1))"
  by code_simp

lemma bx_story_steps:
  "\<exists>db1 db2 db3. billing_step bx_env (EventCall ''1'' bx_answer ''v'') bx_db = Inr (ResOutcome OutApplied, db1)
    \<and> billing_step bx_env (EventCall ''2'' bx_untimed ''v'') db1
        = Inr (ResOutcome (OutReview ''PAYMENT_OCCURRENCE_TIME_MISSING''), db2)
    \<and> billing_step bx_env (EventCall ''3'' bx_answer ''v'') db2 = Inr (ResOutcome OutApplied, db3)
    \<and> grant_items db1 = [(Some ''i'', 3)] \<and> grant_items db3 = [(Some ''i'', 3), (Some ''i'', 3)]
    \<and> length (bl_payments db3) = 1 \<and> settled_order (EventCall ''2'' bx_untimed ''v'') db1"
  using bx_story_val unfolding bx_story_def by (auto simp: res_simps)

lemma bx_db_books: "billing_books bx_env bx_db"
proof -
  have "credits_ok (bl_usage bx_db)" by code_simp
  then show ?thesis by (simp add: billing_books_def bx_db_def fresh_audit_ok)
qed

lemma bx_db_paid: "paid_in_full bx_db"
  by (simp add: paid_in_full_def bx_db_def bx_order_def)

lemma bx_db_grants: "grant_items bx_db = []"
  by (simp add: grant_items_def bx_db_def)

lemma grants_entitlements: "grant_items db' \<noteq> grant_items db \<Longrightarrow> entitlements db' \<noteq> entitlements db"
  by (auto simp: grant_items_def entitlements_def usage_rows_def)


section \<open>Witnesses\<close>

text \<open>The history of the three webhooks.\<close>

definition bx_calls :: "(int \<times> string \<times> billing_call) list" where
  "bx_calls = [(10, ''t'', EventCall ''1'' bx_answer ''v''), (10, ''t'', EventCall ''2'' bx_untimed ''v''),
     (10, ''t'', EventCall ''3'' bx_answer ''v'')]"

lemma bx_env_at: "billing_at bx_env 10 ''t'' = bx_env"
  by (simp add: billing_at_def bx_env_def)

lemma bx_calls_paid: "length (bl_payments (commit_all (timed_step bx_env) bx_calls bx_db)) = 1"
proof -
  obtain db1 db2 db3 where "billing_step bx_env (EventCall ''1'' bx_answer ''v'') bx_db = Inr (ResOutcome OutApplied, db1)"
    "billing_step bx_env (EventCall ''2'' bx_untimed ''v'') db1
        = Inr (ResOutcome (OutReview ''PAYMENT_OCCURRENCE_TIME_MISSING''), db2)"
    "billing_step bx_env (EventCall ''3'' bx_answer ''v'') db2 = Inr (ResOutcome OutApplied, db3)"
    "length (bl_payments db3) = 1" using bx_story_steps by blast
  then show ?thesis by (simp add: commit_all_def commit_def timed_step_def bx_calls_def bx_env_at)
qed

theorem billing_keeps_books_witness:
  "billing_books bx_env bx_db \<and> length (bl_payments (commit_all (timed_step bx_env) bx_calls bx_db)) = 1
    \<and> billing_books bx_env (commit_all (timed_step bx_env) bx_calls bx_db)"
  using bx_db_books billing_keeps_books[OF bx_db_books] bx_calls_paid by simp

theorem verified_orders_are_paid_in_full_witness:
  "paid_in_full bx_db \<and> length (bl_payments (commit_all (timed_step bx_env) bx_calls bx_db)) = 1
    \<and> paid_in_full (commit_all (timed_step bx_env) bx_calls bx_db)"
  using bx_db_paid verified_orders_are_paid_in_full[OF bx_db_paid] bx_calls_paid by simp

lemma bx_first_changes:
  "\<exists>db'. billing_step bx_env (EventCall ''1'' bx_answer ''v'') bx_db = Inr (ResOutcome OutApplied, db')
    \<and> entitlements db' \<noteq> entitlements bx_db"
  using bx_story_steps grants_entitlements[of _ bx_db] unfolding bx_db_grants by fastforce


theorem activation_confined_to_owner_witness:
  "\<exists>db' ord item. billing_step bx_env (EventCall ''1'' bx_answer ''v'') bx_db = Inr (ResOutcome OutApplied, db')
    \<and> entitlements db' \<noteq> entitlements bx_db \<and> confined ord item bx_db db'"
  using bx_first_changes activation_confined_to_owner by blast

theorem applied_order_is_settled_witness:
  "\<exists>db1 db2. grant_items db1 = [(Some ''i'', 3)]
    \<and> billing_step bx_env (EventCall ''2'' bx_untimed ''v'') db1
        = Inr (ResOutcome (OutReview ''PAYMENT_OCCURRENCE_TIME_MISSING''), db2)
    \<and> entitlements db2 = entitlements db1"
proof -
  obtain db1 db2 where 1: "grant_items db1 = [(Some ''i'', 3)]"
    and 2: "billing_step bx_env (EventCall ''2'' bx_untimed ''v'') db1
        = Inr (ResOutcome (OutReview ''PAYMENT_OCCURRENCE_TIME_MISSING''), db2)"
    and 3: "settled_order (EventCall ''2'' bx_untimed ''v'') db1" using bx_story_steps by blast
  have "entitlements db2 = entitlements db1"
    using 3 by (intro applied_order_is_settled[OF 2])
      (auto simp: settled_order_def is_applied_def split: option.splits)
  with 1 2 show ?thesis by blast
qed

text \<open>A renewal paid at 5, in a term that ends at 90.\<close>

definition bx_renewal :: order_row where
  "bx_renewal = bx_order\<lparr>bo_operation := ''renew'', bo_payment := VerifiedPaid\<rparr>"

definition bx_plan :: plan_row where
  "bx_plan = \<lparr>pl_id = ''n'', pl_package = Some ''k'', pl_members = 1, pl_included = 0, pl_code = ''c'',
     pl_kind = OwnerAccount, pl_tier = ''pro'', pl_variant = ''connected''\<rparr>"

definition bx_plan_item :: item_row where
  "bx_plan_item = bx_item\<lparr>bi_plan := Some ''n''\<rparr>"

definition bx_payment :: payment_row where
  "bx_payment = \<lparr>py_id = ''q'', py_order = ''o'', py_profile = ''v'', py_transaction = ''w'',
     py_status = PayVerified, py_amount = 5, py_currency = ''VND'', py_timing = OnTime, py_occurred = 5,
     py_evidence = []\<rparr>"

definition bx_renewal_db :: billing_db where
  "bx_renewal_db = bx_db\<lparr>bl_orders := [bx_renewal], bl_plans := [bx_plan], bl_payments := [bx_payment]\<rparr>"

definition bx_policy :: pval where
  "bx_policy = PDict [(''renewalAnchor'', PDict [(''kind'', PStr ''end_of_term'')])]"

definition bx_user :: usage_owner where
  "bx_user = \<lparr>uo_kind = OwnerAccount, uo_identifier = ''u''\<rparr>"

lemma bx_renewal_owner: "order_owner bx_renewal = Inr bx_user"
  by code_simp

lemma bx_renewal_scheduled:
  "\<exists>db'. renew_term bx_env bx_renewal bx_plan_item (Some bx_plan) ''k'' (PDict []) bx_policy bx_user 2
      (Some bx_subscription) bx_renewal_db
    = Inr (OutScheduled (AfterScheduled 90 172890 (Some ''n'') (Some ''n'') None), db')"
proof -
  have "(case renew_term bx_env bx_renewal bx_plan_item (Some bx_plan) ''k'' (PDict []) bx_policy bx_user 2
      (Some bx_subscription) bx_renewal_db of Inl _ \<Rightarrow> False
    | Inr r \<Rightarrow> fst r = OutScheduled (AfterScheduled 90 172890 (Some ''n'') (Some ''n'') None))"
    by code_simp
  then show ?thesis by (auto split: sum.splits)
qed


theorem payment_progress_monotone_witness:
  "paid_so_far (observe_all 5 [PDict [(''amountPaid'', PInt 4)], PDict [(''amountPaid'', PInt 2)],
     PDict [(''amountPaid'', PInt 9)]] PNone) = 4"
  by (subst payment_progress_monotone) (simp_all add: observed_amount_def paid_so_far_def dget_def dget_default_def)

lemma bx_answer_time: "parse_provider_transaction_time bx_env bx_answer = Inr (Inr 5)"
  by code_simp

theorem provider_time_bounded_witness:
  "parse_provider_transaction_time bx_env bx_answer = Inr (Inr 5) \<and> (5::int) \<le> max_unix_seconds"
  using provider_time_bounded[OF bx_answer_time] bx_answer_time by simp

end
