(* ===== verification/Billing_Queue.thy ===== *)
theory Billing_Queue
  imports Billing_Apply
begin

text \<open>
  The queue of provider commands: \<open>ProviderCommandExecutor\<close> of \<open>src/backend/billing/service.py\<close>.
  A command is claimed in one transaction, answered by the provider outside any, and completed or
  failed in another; in between other workers run. The lease of a claim is a token that the
  settling transaction must still find in the row.
\<close>

section \<open>Rows\<close>

datatype command_type = CreateCheckout | CancelCheckout | QueryOrder

datatype command_status = CmdPending | CmdProcessing | CmdRetry | CmdCompleted | CmdDead

record command_row =
  pc_id :: ident
  pc_order :: ident
  pc_type :: command_type
  pc_request :: pval
  pc_status :: command_status
  pc_attempts :: int
  pc_available :: int
  pc_lease :: "int option"
  pc_locked_by :: "ident option"
  pc_error :: "string option"
  pc_created :: string

record profile_row =
  pf_id :: ident
  pf_max_attempts :: int
  pf_ttl :: int

text \<open>
  The delivery columns of \<open>payment_webhook_events\<close>, which only the worker uses; the others are the
  rows of \<^typ>\<open>billing_db\<close>. \<open>wd_urls\<close> is the column \<open>checkout_url\<close> of the orders.
\<close>

record delivery_row =
  dl_event :: ident
  dl_attempts :: int
  dl_available :: int
  dl_created :: string

record worker_db =
  wd_billing :: billing_db
  wd_commands :: "command_row list"
  wd_profiles :: "profile_row list"
  wd_urls :: "(ident \<times> pval) list"
  wd_deliveries :: "delivery_row list"

section \<open>Providers\<close>

record provider_error =
  pe_code :: string
  pe_unknown :: bool
  pe_retryable :: bool

datatype worker_exn = ProviderError provider_error | OtherError py_exn | MissingOrder | BillingFailure billing_error

text \<open>The adapter of a payment provider: every call answers or raises.\<close>

record provider =
  get_payment :: "pval \<Rightarrow> worker_exn + pval"
  cancel_payment :: "pval \<Rightarrow> pval \<Rightarrow> worker_exn + pval"
  create_payment :: "pval \<Rightarrow> worker_exn + pval"

record worker_env =
  wk_billing :: billing_env
  wk_id :: ident
  wk_resolve :: "ident \<Rightarrow> worker_exn + provider"
  wk_activation_setting :: "string option"
  wk_interval_setting :: "string option"

definition lift_worker :: "py_exn + 'a \<Rightarrow> worker_exn + 'a" where
  "lift_worker m = (case m of Inl e \<Rightarrow> Inl (OtherError e) | Inr x \<Rightarrow> Inr x)"

lemma lift_worker_eq_Inr [res_simps]: "lift_worker m = Inr x \<longleftrightarrow> m = Inr x"
  by (cases m) (auto simp: lift_worker_def)

definition worker_now :: "worker_env \<Rightarrow> int" where
  "worker_now env = billing_now (wk_billing env)"

definition reconciliation_interval :: "worker_env \<Rightarrow> worker_exn + int" where
  "reconciliation_interval env =
     (case wk_interval_setting env of
        None \<Rightarrow> Inr 60
      | Some text \<Rightarrow> (case parse_int text of
          None \<Rightarrow> Inl (OtherError ValueError) | Some n \<Rightarrow> Inr (max 10 (min 3600 n))))"

section \<open>Claiming\<close>

text \<open>A claim: the row as it was claimed, with the columns of its order and profile.\<close>

record claim =
  cl_command :: ident
  cl_order :: ident
  cl_type :: command_type
  cl_request :: pval
  cl_attempts :: int
  cl_token :: ident
  cl_profile :: ident
  cl_code :: int
  cl_total :: int
  cl_max_attempts :: int
  cl_ttl :: int

definition command_due :: "int \<Rightarrow> command_row \<Rightarrow> bool" where
  "command_due now c \<longleftrightarrow>
     (pc_status c = CmdPending \<or> pc_status c = CmdRetry) \<and> pc_available c \<le> now
     \<or> pc_status c = CmdProcessing \<and> (case pc_lease c of None \<Rightarrow> False | Some t \<Rightarrow> t \<le> now)"

text \<open>A cancellation waits until the creation of the checkout is over.\<close>

definition awaits_creation :: "worker_db \<Rightarrow> command_row \<Rightarrow> bool" where
  "awaits_creation st c \<longleftrightarrow> pc_type c = CancelCheckout
     \<and> list_ex (\<lambda>d. pc_order d = pc_order c \<and> pc_type d = CreateCheckout
          \<and> pc_status d \<in> {CmdPending, CmdProcessing, CmdRetry}) (wd_commands st)"

definition set_command :: "ident \<Rightarrow> (command_row \<Rightarrow> command_row) \<Rightarrow> worker_db \<Rightarrow> worker_db" where
  "set_command cid f st = st\<lparr>wd_commands := update_where (\<lambda>c. pc_id c = cid) f (wd_commands st)\<rparr>"

definition find_command :: "worker_db \<Rightarrow> ident \<Rightarrow> command_row option" where
  "find_command st cid = List.find (\<lambda>c. pc_id c = cid) (wd_commands st)"

definition find_profile :: "worker_db \<Rightarrow> ident \<Rightarrow> profile_row option" where
  "find_profile st i = List.find (\<lambda>p. pf_id p = i) (wd_profiles st)"

definition new_lease :: "worker_env \<Rightarrow> worker_db \<Rightarrow> ident \<times> worker_db" where
  "new_lease env st =
     (let (i, b) = billing_new_id (wk_billing env) ''billing-lease'' (wd_billing st)
      in (wk_id env @ CHR '':'' # i, st\<lparr>wd_billing := b\<rparr>))"

definition claim_of :: "command_row \<Rightarrow> order_row \<Rightarrow> profile_row \<Rightarrow> ident \<Rightarrow> claim" where
  "claim_of c ord p token =
     \<lparr>cl_command = pc_id c, cl_order = pc_order c, cl_type = pc_type c, cl_request = pc_request c,
      cl_attempts = pc_attempts c + 1, cl_token = token, cl_profile = bo_profile ord, cl_code = bo_code ord,
      cl_total = bo_total ord, cl_max_attempts = pf_max_attempts p, cl_ttl = pf_ttl p\<rparr>"

definition claim_command :: "worker_env \<Rightarrow> ident \<Rightarrow> worker_db \<Rightarrow> (claim \<times> worker_db) option" where
  "claim_command env cid st =
     (case find_command st cid of
        None \<Rightarrow> None
      | Some c \<Rightarrow>
          if \<not> command_due (worker_now env) c \<or> awaits_creation st c then None
          else (case find_order (wd_billing st) (pc_order c) of
              None \<Rightarrow> None
            | Some ord \<Rightarrow>
                (case find_profile st (bo_profile ord) of
                   None \<Rightarrow> None
                 | Some p \<Rightarrow>
                     let (token, st1) = new_lease env st in
                     Some (claim_of c ord p token,
                       set_command cid (\<lambda>d. d\<lparr>pc_status := CmdProcessing, pc_attempts := pc_attempts c + 1,
                         pc_locked_by := Some token, pc_lease := Some (worker_now env + 60)\<rparr>) st1))))"

section \<open>The checkout of an order\<close>

definition detail_fields :: "string list" where
  "detail_fields = [''qrCode'', ''bin'', ''accountNumber'', ''accountName'', ''description'']"

definition checkout_payment_snapshot :: "pval \<Rightarrow> (string \<times> pval) list option" where
  "checkout_payment_snapshot result =
     (case dget result ''qrCode'' of
        PStr qr \<Rightarrow>
          if qr = [] \<or> 2048 < length qr then None
          else
            let details = filter (\<lambda>e. is_str (snd e)) (map (\<lambda>f. (f, dget result f)) detail_fields)
            in if 8192 < length (json_plain (PDict details)) then None else Some details
      | _ \<Rightarrow> None)"

definition closed_checkout :: "string \<Rightarrow> bool" where
  "closed_checkout s \<longleftrightarrow> s = ''cancelled'' \<or> s = ''expired''"

definition result_status :: "pval \<Rightarrow> string" where
  "result_status result = py_upper (py_str (py_or (dget result ''status'') (PStr ''PENDING'')))"

definition next_checkout_state :: "command_type \<Rightarrow> string \<Rightarrow> string \<Rightarrow> string" where
  "next_checkout_state ty status current =
     (let state = (if current = [] then ''creating'' else current) in
      if status = ''CANCELLED'' then ''cancelled''
      else if status = ''EXPIRED'' then ''expired''
      else if ty = CreateCheckout \<and> \<not> closed_checkout state then ''open'' else state)"

definition next_deadline :: "int \<Rightarrow> claim \<Rightarrow> pval \<Rightarrow> int option \<Rightarrow> py_exn + int option" where
  "next_deadline now cl result expires =
     (if cl_type cl = CreateCheckout then
        let local_deadline = (case expires of Some e \<Rightarrow> e
              | None \<Rightarrow> now + max 60 (if cl_ttl cl = 0 then 900 else cl_ttl cl))
        in res_bind (py_int (py_or (dget result ''expiredAt'') (PInt local_deadline)))
             (\<lambda>provider_deadline. Inr (Some (min local_deadline provider_deadline)))
      else if dget result ''expiredAt'' = PNone then Inr expires
      else res_bind (py_int (dget result ''expiredAt''))
             (\<lambda>provider_deadline. Inr (Some (case expires of None \<Rightarrow> provider_deadline | Some e \<Rightarrow> min e provider_deadline))))"

definition set_url :: "ident \<Rightarrow> pval \<Rightarrow> worker_db \<Rightarrow> worker_db" where
  "set_url oid url st =
     (let previous = (case map_of (wd_urls st) oid of None \<Rightarrow> PNone | Some u \<Rightarrow> u)
      in st\<lparr>wd_urls := AList.update oid (if truthy url then url else previous) (wd_urls st)\<rparr>)"

definition on_billing :: "(billing_db \<Rightarrow> billing_db) \<Rightarrow> worker_db \<Rightarrow> worker_db" where
  "on_billing f st = st\<lparr>wd_billing := f (wd_billing st)\<rparr>"

text \<open>The progress column is written alone, without a new revision.\<close>

definition set_progress :: "ident \<Rightarrow> pval \<Rightarrow> billing_db \<Rightarrow> billing_db" where
  "set_progress oid v db = db\<lparr>bl_orders := update_where (\<lambda>r. bo_id r = oid) (\<lambda>r. r\<lparr>bo_progress := v\<rparr>) (bl_orders db)\<rparr>"

definition observed_progress :: "claim \<Rightarrow> pval \<Rightarrow> pval \<Rightarrow> pval option" where
  "observed_progress cl result current =
     (let metadata = PDict (entries current);
          details = checkout_payment_snapshot result;
          started = (case details of
            Some d \<Rightarrow> if cl_type cl = CreateCheckout \<and> checkout_payment_snapshot metadata = None
              then PDict (fold (\<lambda>(k, v). AList.update k v) d (entries metadata)) else metadata
          | None \<Rightarrow> metadata)
      in merge_payment_progress started result (cl_total cl))"

section \<open>Settling a claim\<close>

definition holds_lease :: "worker_db \<Rightarrow> claim \<Rightarrow> bool" where
  "holds_lease st cl = (case find_command st (cl_command cl) of
     None \<Rightarrow> False
   | Some c \<Rightarrow> pc_status c = CmdProcessing \<and> pc_locked_by c = Some (cl_token cl))"

definition activation_enabled :: "worker_env \<Rightarrow> bool" where
  "activation_enabled env \<longleftrightarrow>
     py_casefold (py_strip (case wk_activation_setting env of None \<Rightarrow> ''false'' | Some s \<Rightarrow> s)) = ''true''"

definition lift_billing :: "billing_error + 'a \<Rightarrow> worker_exn + 'a" where
  "lift_billing m = (case m of Inl e \<Rightarrow> Inl (BillingFailure e) | Inr x \<Rightarrow> Inr x)"

lemma lift_billing_eq_Inr [res_simps]: "lift_billing m = Inr x \<longleftrightarrow> m = Inr x"
  by (cases m) (auto simp: lift_billing_def)

definition record_checkout :: "worker_env \<Rightarrow> claim \<Rightarrow> pval \<Rightarrow> order_row \<Rightarrow> worker_db \<Rightarrow> worker_exn + (int option \<times> worker_db)" where
  "record_checkout env cl result ord st =
     res_bind (lift_worker (next_deadline (worker_now env) cl result (bo_checkout_expires ord))) (\<lambda>expires.
     let state = next_checkout_state (cl_type cl) (result_status result) (bo_checkout ord);
         st1 = set_url (cl_order cl) (dget result ''checkoutUrl'') (on_billing (set_order (cl_order cl)
           (\<lambda>r. r\<lparr>bo_checkout := state, bo_checkout_expires := expires\<rparr>)) st)
     in case observed_progress cl result (bo_progress ord) of
          None \<Rightarrow> Inr (expires, st1)
        | Some progress \<Rightarrow>
            if py_eq progress (bo_progress ord) then Inr (expires, st1)
            else res_bind (lift_worker (canonical_json progress)) (\<lambda>_.
              Inr (expires, on_billing (set_progress (cl_order cl) progress) st1)))"

definition activate_paid :: "worker_env \<Rightarrow> claim \<Rightarrow> pval \<Rightarrow> worker_db \<Rightarrow> worker_exn + worker_db" where
  "activate_paid env cl result st =
     (if activation_enabled env \<and> result_status result \<in> set paid_statuses
      then res_bind (lift_billing (apply_order_result (wk_billing env) (wd_billing st) (cl_order cl) result (cl_profile cl)))
        (\<lambda>(_, b). Inr (st\<lparr>wd_billing := b\<rparr>))
      else Inr st)"

definition keep_reconciling :: "worker_env \<Rightarrow> claim \<Rightarrow> pval \<Rightarrow> int option \<Rightarrow> bool" where
  "keep_reconciling env cl result expires \<longleftrightarrow> cl_type cl = QueryOrder
     \<and> result_status result \<in> {''PENDING'', ''PROCESSING'', ''UNDERPAID''}
     \<and> (case expires of None \<Rightarrow> True | Some e \<Rightarrow> worker_now env < e)"

definition finish_command :: "worker_env \<Rightarrow> claim \<Rightarrow> bool \<Rightarrow> worker_db \<Rightarrow> worker_exn + worker_db" where
  "finish_command env cl again st =
     (let settle = (\<lambda>status attempts available. set_command (cl_command cl)
         (\<lambda>c. c\<lparr>pc_status := status, pc_attempts := attempts, pc_available := available, pc_lease := None,
            pc_locked_by := None, pc_error := None\<rparr>) st)
      in if again then res_bind (reconciliation_interval env) (\<lambda>wait. Inr (settle CmdPending 0 (worker_now env + wait)))
         else Inr (settle CmdCompleted (cl_attempts cl) (worker_now env)))"

text \<open>The transaction of \<open>_complete\<close>; whatever it raises is rolled back and retried.\<close>

definition complete_transaction :: "worker_env \<Rightarrow> claim \<Rightarrow> pval \<Rightarrow> worker_db \<Rightarrow> worker_exn + worker_db" where
  "complete_transaction env cl result st =
     (case find_order (wd_billing st) (cl_order cl) of
        None \<Rightarrow> Inl MissingOrder
      | Some ord \<Rightarrow>
          if \<not> holds_lease st cl then Inr st
          else
            res_bind (lift_worker (get_attr result ''status'')) (\<lambda>_.
            res_bind (record_checkout env cl result ord st) (\<lambda>(expires, st1).
            res_bind (activate_paid env cl result st1) (\<lambda>st2.
            finish_command env cl (keep_reconciling env cl result expires) st2))))"

definition activation_retry :: provider_error where
  "activation_retry = \<lparr>pe_code = ''BILLING_ACTIVATION_RETRY'', pe_unknown = False, pe_retryable = True\<rparr>"

definition complete_command :: "worker_env \<Rightarrow> claim \<Rightarrow> pval \<Rightarrow> worker_db \<Rightarrow> provider_error + worker_db" where
  "complete_command env cl result st =
     (case complete_transaction env cl result st of
        Inl (ProviderError e) \<Rightarrow> Inl e | Inl _ \<Rightarrow> Inl activation_retry | Inr st' \<Rightarrow> Inr st')"

definition attempt_limit :: "claim \<Rightarrow> int" where
  "attempt_limit cl = max 1 (if cl_max_attempts cl = 0 then 3 else cl_max_attempts cl)"

definition failed_status :: "claim \<Rightarrow> provider_error \<Rightarrow> command_status" where
  "failed_status cl e =
     (if (pe_unknown e \<or> pe_retryable e) \<and> cl_attempts cl < attempt_limit cl then CmdRetry else CmdDead)"

definition fail_row :: "worker_env \<Rightarrow> claim \<Rightarrow> provider_error \<Rightarrow> worker_exn + (command_status \<times> int \<times> int)" where
  "fail_row env cl e =
     (if cl_type cl = QueryOrder \<and> failed_status cl e = CmdDead
      then res_bind (reconciliation_interval env) (\<lambda>wait. Inr (CmdPending, 0, worker_now env + wait))
      else Inr (failed_status cl e, cl_attempts cl, worker_now env + min 30 (2 ^ nat (cl_attempts cl))))"

definition fail_command :: "worker_env \<Rightarrow> claim \<Rightarrow> provider_error \<Rightarrow> worker_db \<Rightarrow> worker_exn + worker_db" where
  "fail_command env cl e st =
     (case find_order (wd_billing st) (cl_order cl) of
        None \<Rightarrow> Inl MissingOrder
      | Some ord \<Rightarrow>
          if \<not> holds_lease st cl then Inr st
          else res_bind (fail_row env cl e) (\<lambda>(status, attempts, available).
            let st1 = set_command (cl_command cl) (\<lambda>c. c\<lparr>pc_status := status, pc_attempts := attempts,
                  pc_available := available, pc_lease := None, pc_locked_by := None, pc_error := Some (pe_code e)\<rparr>) st
            in Inr (if status = CmdDead \<and> cl_type cl = CreateCheckout \<and> bo_checkout ord = ''creating''
              then on_billing (set_order (cl_order cl) (\<lambda>r. r\<lparr>bo_checkout := ''create_failed''\<rparr>)) st1 else st1)))"

section \<open>Executing a command\<close>

definition credential_error :: provider_error where
  "credential_error = \<lparr>pe_code = ''PROVIDER_CREDENTIAL_UNAVAILABLE'', pe_unknown = False, pe_retryable = True\<rparr>"

text \<open>What the provider is asked: after a first attempt whose outcome is unknown, only to read.\<close>

definition ask_provider :: "provider \<Rightarrow> claim \<Rightarrow> worker_exn + pval" where
  "ask_provider p cl =
     (let cancel = res_bind (lift_worker (get_item (cl_request cl) ''identifier'')) (\<lambda>i.
            res_bind (lift_worker (get_attr (cl_request cl) ''reason'')) (\<lambda>reason. cancel_payment p i reason))
      in case cl_type cl of
        CancelCheckout \<Rightarrow>
          if 1 < cl_attempts cl then
            res_bind (lift_worker (get_item (cl_request cl) ''identifier'')) (\<lambda>i.
            res_bind (get_payment p i) (\<lambda>result.
            res_bind (lift_worker (get_attr result ''status'')) (\<lambda>status.
            if py_upper (str_or_empty status) \<in> {''CANCELLED'', ''EXPIRED'', ''PAID''} then Inr result else cancel)))
          else cancel
      | QueryOrder \<Rightarrow> get_payment p (PInt (cl_code cl))
      | CreateCheckout \<Rightarrow>
          if 1 < cl_attempts cl then get_payment p (PInt (cl_code cl)) else create_payment p (cl_request cl))"

definition payment_mismatch :: provider_error where
  "payment_mismatch = \<lparr>pe_code = ''PAYMENT_MISMATCH'', pe_unknown = False, pe_retryable = False\<rparr>"

definition checkout_unavailable :: provider_error where
  "checkout_unavailable = \<lparr>pe_code = ''PROVIDER_CHECKOUT_UNAVAILABLE'', pe_unknown = False, pe_retryable = True\<rparr>"

definition check_created :: "claim \<Rightarrow> pval \<Rightarrow> worker_exn + pval" where
  "check_created cl result =
     (if cl_type cl \<noteq> CreateCheckout then Inr result
      else
        res_bind (lift_worker (get_attr result ''orderCode'')) (\<lambda>raw_code.
        res_bind (lift_worker (int_or_zero raw_code)) (\<lambda>code.
        res_bind (if code \<noteq> cl_code cl then Inr True
          else res_bind (lift_worker (int_or_zero (dget result ''amount''))) (\<lambda>amount. Inr (amount \<noteq> cl_total cl))) (\<lambda>mismatch.
        if mismatch then Inl (ProviderError payment_mismatch)
        else if result_status result \<in> {''PENDING'', ''PROCESSING'', ''UNDERPAID''}
          \<and> \<not> truthy (dget result ''checkoutUrl'') \<and> checkout_payment_snapshot result = None
        then Inl (ProviderError checkout_unavailable)
        else Inr result))))"

text \<open>
  The answer to a claim; resolving the adapter raises a credential error for what it refuses.
\<close>

definition answer_claim :: "worker_env \<Rightarrow> claim \<Rightarrow> worker_exn + pval" where
  "answer_claim env cl =
     (case wk_resolve env (cl_profile cl) of
        Inl (ProviderError e) \<Rightarrow> Inl (ProviderError e)
      | Inl (OtherError ValueError) \<Rightarrow> Inl (ProviderError credential_error)
      | Inl e \<Rightarrow> Inl e
      | Inr p \<Rightarrow> res_bind (ask_provider p cl) (check_created cl))"

text \<open>
  Settling: a payment error fails the claim, another exception leaves the command as it is until
  its lease runs out. The state is kept when an exception leaves the call.
\<close>

definition keep_on_raise :: "worker_db \<Rightarrow> worker_exn + worker_db \<Rightarrow> worker_exn option \<times> worker_db" where
  "keep_on_raise st m = (case m of Inl e \<Rightarrow> (Some e, st) | Inr st' \<Rightarrow> (None, st'))"

definition settle_claim :: "worker_env \<Rightarrow> claim \<Rightarrow> worker_exn + pval \<Rightarrow> worker_db \<Rightarrow> worker_exn option \<times> worker_db" where
  "settle_claim env cl answer st =
     (case answer of
        Inl (ProviderError e) \<Rightarrow> keep_on_raise st (fail_command env cl e st)
      | Inl e \<Rightarrow> (Some e, st)
      | Inr result \<Rightarrow>
          (case complete_command env cl result st of
             Inl e \<Rightarrow> keep_on_raise st (fail_command env cl e st)
           | Inr st' \<Rightarrow> (None, st')))"

definition execute_command :: "worker_env \<Rightarrow> ident \<Rightarrow> worker_db \<Rightarrow> worker_exn option \<times> worker_db" where
  "execute_command env cid st =
     (case claim_command env cid st of
        None \<Rightarrow> (None, st)
      | Some (cl, st1) \<Rightarrow> settle_claim env cl (answer_claim env cl) st1)"

end
