(* ===== verification/Billing_Worker.thy ===== *)
theory Billing_Worker
  imports Billing_Queue
begin

text \<open>
  \<open>src/backend/billing/worker.py\<close>: one poll of \<open>BillingWorkProcessor\<close>, which processes at most one
  row of the queues it drains, in the order webhooks, provider commands, paid orders that are not
  applied, checkouts to expire, orders to reconcile and usage reservations to release.
\<close>

section \<open>Webhooks\<close>

definition find_event :: "worker_db \<Rightarrow> ident \<Rightarrow> event_row option" where
  "find_event st eid = List.find (\<lambda>e. we_id e = eid) (bl_events (wd_billing st))"

definition event_due :: "int \<Rightarrow> delivery_row \<Rightarrow> event_row \<Rightarrow> bool" where
  "event_due now d e \<longleftrightarrow>
     (we_status e = EvPending \<or> we_status e = EvRetry) \<and> dl_available d \<le> now
     \<or> we_status e = EvProcessing \<and> (case we_lease e of None \<Rightarrow> False | Some t \<Rightarrow> t \<le> now)"

definition delivery_due :: "worker_db \<Rightarrow> int \<Rightarrow> delivery_row \<Rightarrow> bool" where
  "delivery_due st now d \<longleftrightarrow>
     (case find_event st (dl_event d) of
        None \<Rightarrow> False | Some e \<Rightarrow> event_due now d e \<and> find_profile st (we_profile e) \<noteq> None)"

definition next_delivery :: "worker_db \<Rightarrow> int \<Rightarrow> delivery_row option" where
  "next_delivery st now =
     (case sort_key (\<lambda>d. (dl_available d, dl_created d, dl_event d)) (filter (delivery_due st now) (wd_deliveries st)) of
        [] \<Rightarrow> None | d # _ \<Rightarrow> Some d)"

definition set_event :: "ident \<Rightarrow> (event_row \<Rightarrow> event_row) \<Rightarrow> worker_db \<Rightarrow> worker_db" where
  "set_event eid f = on_billing (\<lambda>b. b\<lparr>bl_events := update_where (\<lambda>e. we_id e = eid) f (bl_events b)\<rparr>)"

definition set_delivery :: "ident \<Rightarrow> (delivery_row \<Rightarrow> delivery_row) \<Rightarrow> worker_db \<Rightarrow> worker_db" where
  "set_delivery eid f st = st\<lparr>wd_deliveries := update_where (\<lambda>d. dl_event d = eid) f (wd_deliveries st)\<rparr>"

text \<open>A claimed event: the row as it was read, with the limit of its profile.\<close>

record event_claim =
  ec_event :: ident
  ec_profile :: ident
  ec_signed :: pval
  ec_attempts :: int
  ec_max_attempts :: int

definition WEBHOOK_LEASE_SECONDS :: int where
  "WEBHOOK_LEASE_SECONDS = 60"

definition claim_webhook :: "worker_env \<Rightarrow> worker_db \<Rightarrow> (event_claim \<times> worker_db) option" where
  "claim_webhook env st =
     (case next_delivery st (worker_now env) of
        None \<Rightarrow> None
      | Some d \<Rightarrow>
          (case find_event st (dl_event d) of
             None \<Rightarrow> None
           | Some e \<Rightarrow>
               (case find_profile st (we_profile e) of
                  None \<Rightarrow> None
                | Some p \<Rightarrow> Some
                    (\<lparr>ec_event = we_id e, ec_profile = we_profile e, ec_signed = we_signed e,
                      ec_attempts = dl_attempts d + 1, ec_max_attempts = pf_max_attempts p\<rparr>,
                     set_event (we_id e) (\<lambda>x. x\<lparr>we_status := EvProcessing, we_locked_by := Some (wk_id env),
                         we_lease := Some (worker_now env + WEBHOOK_LEASE_SECONDS), we_error := None\<rparr>)
                       (set_delivery (we_id e) (\<lambda>x. x\<lparr>dl_attempts := dl_attempts d + 1\<rparr>) st)))))"

definition webhook_status :: "event_claim \<Rightarrow> bool \<Rightarrow> event_status" where
  "webhook_status ec retryable =
     (if retryable \<and> ec_attempts ec < max 1 (if ec_max_attempts ec = 0 then 3 else ec_max_attempts ec)
      then EvRetry else EvDead)"

definition fail_webhook :: "worker_env \<Rightarrow> event_claim \<Rightarrow> string \<Rightarrow> bool \<Rightarrow> worker_db \<Rightarrow> worker_db" where
  "fail_webhook env ec code retryable st =
     (case find_event st (ec_event ec) of
        None \<Rightarrow> st
      | Some e \<Rightarrow>
          if we_status e = EvProcessing \<and> we_locked_by e = Some (wk_id env)
          then set_event (ec_event ec) (\<lambda>x. x\<lparr>we_status := webhook_status ec retryable, we_lease := None,
                  we_locked_by := None, we_error := Some (py_prefix 200 code)\<rparr>)
                (set_delivery (ec_event ec)
                  (\<lambda>x. x\<lparr>dl_available := worker_now env + min 300 (2 ^ nat (ec_attempts ec))\<rparr>) st)
          else st)"

definition answer_webhook :: "worker_env \<Rightarrow> event_claim \<Rightarrow> worker_exn + pval" where
  "answer_webhook env ec =
     res_bind (wk_resolve env (ec_profile ec)) (\<lambda>p.
     res_bind (lift_worker (get_attr (ec_signed ec) ''orderCode'')) (\<lambda>raw.
     res_bind (lift_worker (py_int (py_or raw (PInt 0)))) (\<lambda>code. get_payment p (PInt code))))"

definition process_webhook :: "worker_env \<Rightarrow> event_claim \<Rightarrow> worker_db \<Rightarrow> worker_db" where
  "process_webhook env ec st =
     (case res_bind (answer_webhook env ec) (\<lambda>result.
         lift_billing (apply_verified (wk_billing env) (wd_billing st) (ec_event ec) result (ec_profile ec))) of
        Inr (_, b) \<Rightarrow> st\<lparr>wd_billing := b\<rparr>
      | Inl (ProviderError e) \<Rightarrow> fail_webhook env ec (pe_code e) (pe_retryable e \<or> pe_unknown e) st
      | Inl _ \<Rightarrow> fail_webhook env ec ''WEBHOOK_PROCESSING_FAILED'' True st)"

section \<open>Provider commands\<close>

definition next_command_id :: "worker_db \<Rightarrow> int \<Rightarrow> ident option" where
  "next_command_id st now =
     (case sort_key (\<lambda>c. (pc_available c, pc_created c, pc_id c))
         (filter (\<lambda>c. command_due now c \<and> \<not> awaits_creation st c) (wd_commands st)) of
        [] \<Rightarrow> None | c # _ \<Rightarrow> Some (pc_id c))"

section \<open>Paid orders that are not applied\<close>

text \<open>When the activation of an order may be tried: at the start of a scheduled term, or at once.\<close>

definition retry_from :: "billing_db \<Rightarrow> ident \<Rightarrow> int" where
  "retry_from db oid =
     (case find_activation db oid of
        None \<Rightarrow> 0
      | Some a \<Rightarrow> (case av_after a of AfterScheduled starts _ _ _ _ \<Rightarrow> starts | _ \<Rightarrow> 0))"

definition retry_due :: "billing_db \<Rightarrow> int \<Rightarrow> order_row \<Rightarrow> bool" where
  "retry_due db now r \<longleftrightarrow> bo_payment r = VerifiedPaid \<and> (bo_activation r = ActPending \<or> bo_activation r = ActRetry)
     \<and> bo_id r \<notin> set (bl_pending_refunds db) \<and> retry_from db (bo_id r) \<le> now"

text \<open>\<open>updated\<close> is the column \<open>updated_at\<close> of the orders.\<close>

definition next_paid_not_applied :: "(billing_db \<Rightarrow> ident \<Rightarrow> string) \<Rightarrow> billing_db \<Rightarrow> int \<Rightarrow> ident option" where
  "next_paid_not_applied updated db now =
     (case sort_key (\<lambda>r. (retry_from db (bo_id r), updated db (bo_id r), bo_id r)) (filter (retry_due db now) (bl_orders db)) of
        [] \<Rightarrow> None | r # _ \<Rightarrow> Some (bo_id r))"

definition retry_activation :: "worker_env \<Rightarrow> ident \<Rightarrow> worker_db \<Rightarrow> worker_exn option \<times> worker_db" where
  "retry_activation env oid st =
     keep_on_raise st (res_bind (lift_billing (activate_order (wk_billing env) (wd_billing st) oid))
       (\<lambda>(_, b). Inr (st\<lparr>wd_billing := b\<rparr>)))"

section \<open>Checkouts and reservations\<close>

definition open_checkout :: "order_row \<Rightarrow> bool" where
  "open_checkout r \<longleftrightarrow> bo_payment r = Unverified \<and> bo_checkout r \<in> {''creating'', ''open''}"

definition overdue_checkout :: "int \<Rightarrow> order_row \<Rightarrow> bool" where
  "overdue_checkout now r \<longleftrightarrow> open_checkout r \<and> (case bo_checkout_expires r of None \<Rightarrow> False | Some e \<Rightarrow> e \<le> now)"

definition expire_local_checkout :: "worker_env \<Rightarrow> worker_db \<Rightarrow> worker_db option" where
  "expire_local_checkout env st =
     (case sort_key (\<lambda>r. (the (bo_checkout_expires r), bo_id r))
         (filter (overdue_checkout (worker_now env)) (bl_orders (wd_billing st))) of
        [] \<Rightarrow> None
      | r # _ \<Rightarrow> Some (on_billing (set_order (bo_id r) (\<lambda>x. x\<lparr>bo_checkout := ''expired''\<rparr>)) st))"

definition reconcilable :: "worker_db \<Rightarrow> order_row \<Rightarrow> bool" where
  "reconcilable st r \<longleftrightarrow> bo_payment r = Unverified \<and> bo_checkout r \<in> {''creating'', ''open'', ''expired''}
     \<and> \<not> list_ex (\<lambda>c. pc_order c = bo_id r
          \<and> (pc_status c \<in> {CmdPending, CmdRetry, CmdProcessing} \<or> pc_type c = QueryOrder)) (wd_commands st)"

definition query_command :: "ident \<Rightarrow> ident \<Rightarrow> int \<Rightarrow> string \<Rightarrow> command_row" where
  "query_command i oid now stamp =
     \<lparr>pc_id = i, pc_order = oid, pc_type = QueryOrder, pc_request = PDict [(''reconciliation'', PStr ''periodic'')],
      pc_status = CmdPending, pc_attempts = 0, pc_available = now, pc_lease = None, pc_locked_by = None,
      pc_error = None, pc_created = stamp\<rparr>"

definition schedule_reconciliation ::
    "worker_env \<Rightarrow> (billing_db \<Rightarrow> ident \<Rightarrow> string) \<Rightarrow> string \<Rightarrow> worker_db \<Rightarrow> (worker_exn + worker_db) option" where
  "schedule_reconciliation env updated stamp st =
     (case sort_key (\<lambda>r. (updated (wd_billing st) (bo_id r), bo_id r))
         (filter (reconcilable st) (bl_orders (wd_billing st))) of
        [] \<Rightarrow> None
      | r # _ \<Rightarrow>
          let (i, b) = billing_new_id (wk_billing env) ''billing-command'' (wd_billing st)
          in Some (if i \<in> pc_id ` set (wd_commands st) then Inl (BillingFailure BillingIntegrity)
             else Inr (st\<lparr>wd_billing := b,
               wd_commands := wd_commands st @ [query_command i (bo_id r) (worker_now env) stamp]\<rparr>)))"

text \<open>Reservations are released a hundred at a time; an error rolls all of them back.\<close>

definition release_expired_usage :: "worker_env \<Rightarrow> worker_db \<Rightarrow> worker_exn option \<times> bool \<times> worker_db" where
  "release_expired_usage env st =
     (case release_expired_reservations (be_usage (wk_billing env)) (bl_usage (wd_billing st)) 100 of
        Inl e \<Rightarrow> (Some (BillingFailure (BillingUsageError e)), False, st)
      | Inr (released, u) \<Rightarrow> (None, released \<noteq> [], on_billing (\<lambda>b. b\<lparr>bl_usage := u\<rparr>) st))"

section \<open>One poll\<close>

record worker_flags =
  wf_checkout :: bool
  wf_activation :: bool
  wf_enforcement :: bool

text \<open>
  A poll returns whether it processed a row, or the exception that left it; the database keeps
  what was committed before.
\<close>

definition process_next ::
    "worker_env \<Rightarrow> worker_flags \<Rightarrow> (billing_db \<Rightarrow> ident \<Rightarrow> string) \<Rightarrow> string \<Rightarrow> worker_db
      \<Rightarrow> (worker_exn + bool) \<times> worker_db" where
  "process_next env flags updated stamp st =
     (let done = (\<lambda>(raised, st'). (case raised of Some e \<Rightarrow> Inl e | None \<Rightarrow> Inr True, st'));
          now = worker_now env
      in case (if wf_activation flags then claim_webhook env st else None) of
        Some (ec, st1) \<Rightarrow> (Inr True, process_webhook env ec st1)
      | None \<Rightarrow>
      (case next_command_id st now of
        Some cid \<Rightarrow> done (execute_command env cid st)
      | None \<Rightarrow>
      (case (if wf_activation flags then next_paid_not_applied updated (wd_billing st) now else None) of
        Some oid \<Rightarrow> done (retry_activation env oid st)
      | None \<Rightarrow>
      (case (if wf_checkout flags \<or> wf_activation flags then expire_local_checkout env st else None) of
        Some st' \<Rightarrow> (Inr True, st')
      | None \<Rightarrow>
      (case (if wf_checkout flags \<or> wf_activation flags then schedule_reconciliation env updated stamp st else None) of
        Some m \<Rightarrow> done (keep_on_raise st m)
      | None \<Rightarrow>
          if wf_enforcement flags then
            (case release_expired_usage env st of
               (Some e, _, st') \<Rightarrow> (Inl e, st') | (None, released, st') \<Rightarrow> (Inr released, st'))
          else (Inr False, st))))))"

end
