(* ===== verification/Billing_Worker_Laws.thy ===== *)
theory Billing_Worker_Laws
  imports Billing_Worker Billing_Safety
begin

text \<open>
  What a poll of the worker may do to the billing tables, as a sequence of writes: billing calls,
  moves of a checkout, progress, events, identifiers and released credits. The invariants of
  billing and the laws of a checkout are proved for the writes.
\<close>

section \<open>Writes of a poll\<close>

definition checkout_only :: "(order_row \<Rightarrow> order_row) \<Rightarrow> bool" where
  "checkout_only f \<longleftrightarrow> (\<forall>r. (f r)\<lparr>bo_checkout := bo_checkout r, bo_checkout_expires := bo_checkout_expires r\<rparr> = r)"

text \<open>
  What was ordered stays, a checkout that was closed stays closed, and its deadline is never put
  off.
\<close>

definition ordered :: "order_row \<Rightarrow> order_row" where
  "ordered r = (order_terms r)\<lparr>bo_checkout := [], bo_checkout_expires := None\<rparr>"

definition checkout_order :: "order_row \<Rightarrow> order_row \<Rightarrow> bool" where
  "checkout_order r r' \<longleftrightarrow> ordered r' = ordered r
     \<and> (closed_checkout (bo_checkout r) \<longrightarrow> closed_checkout (bo_checkout r'))
     \<and> (case bo_checkout_expires r of None \<Rightarrow> True
        | Some d \<Rightarrow> (case bo_checkout_expires r' of None \<Rightarrow> False | Some d' \<Rightarrow> d' \<le> d))"

inductive worker_write :: "billing_env \<Rightarrow> billing_db \<Rightarrow> billing_db \<Rightarrow> bool" for env where
  called: "billing_step env c db = Inr (res, db') \<Longrightarrow> worker_write env db db'"
| new_id: "worker_write env db (db\<lparr>bl_usage := (bl_usage db)\<lparr>uid_counter := n\<rparr>\<rparr>)"
| events: "map event_facts es = map event_facts (bl_events db) \<Longrightarrow> worker_write env db (db\<lparr>bl_events := es\<rparr>)"
| progress: "worker_write env db (set_progress oid v db)"
| checkout: "find_order db oid = Some ord \<Longrightarrow> checkout_only f \<Longrightarrow> checkout_order ord (f ord) \<Longrightarrow>
    worker_write env db (set_order oid f db)"
| release: "release_expired_reservations (be_usage env) (bl_usage db) limit = Inr (vs, u) \<Longrightarrow>
    worker_write env db (db\<lparr>bl_usage := u\<rparr>)"

abbreviation worker_writes :: "billing_env \<Rightarrow> billing_db \<Rightarrow> billing_db \<Rightarrow> bool" where
  "worker_writes env \<equiv> (worker_write env)\<^sup>*\<^sup>*"

lemma ordered_columns: "ordered r' = ordered r \<Longrightarrow> bo_id r' = bo_id r \<and> bo_profile r' = bo_profile r"
  by (cases r, cases r') (simp add: ordered_def order_terms_def)

lemma ordered_simps [simp]:
  "ordered (r\<lparr>bo_checkout := s\<rparr>) = ordered r" "ordered (r\<lparr>bo_checkout_expires := t\<rparr>) = ordered r"
  "ordered (r\<lparr>bo_progress := v\<rparr>) = ordered r" "ordered (r\<lparr>bo_revision := n\<rparr>) = ordered r"
  by (simp_all add: ordered_def order_terms_def)

lemma worker_id: "billing_new_id env p db = (i, db') \<Longrightarrow> worker_writes env db db'"
  using new_id by (auto simp: billing_new_id_def usage_new_id_def)

named_theorems worker_parts

lemma wd_billing_simps [simp]:
  "wd_billing (set_command cid f st) = wd_billing st" "wd_billing (set_url oid u st) = wd_billing st"
  "wd_billing (on_billing g st) = g (wd_billing st)" "wd_billing (set_delivery eid h st) = wd_billing st"
  "wd_billing (set_event eid k st) = (wd_billing st)\<lparr>bl_events := update_where (\<lambda>e. we_id e = eid) k (bl_events (wd_billing st))\<rparr>"
  by (simp_all add: set_command_def set_url_def on_billing_def set_delivery_def set_event_def Let_def)

lemma claim_writes [worker_parts]:
  assumes "claim_command env cid st = Some (cl, st')"
  shows "worker_writes (wk_billing env) (wd_billing st) (wd_billing st')"
proof -
  obtain i b where i: "billing_new_id (wk_billing env) ''billing-lease'' (wd_billing st) = (i, b)" by force
  then have "wd_billing st' = b"
    using assms by (auto simp: claim_command_def new_lease_def split: option.splits if_splits)
  then show ?thesis using worker_id[OF i] by simp
qed

lemma next_deadline_earlier:
  "next_deadline now cl result (Some d) = Inr t \<Longrightarrow> \<exists>d'. t = Some d' \<and> d' \<le> d"
  by (auto simp: next_deadline_def res_simps Let_def split: if_splits)

lemma next_state_closed: "closed_checkout s \<Longrightarrow> closed_checkout (next_checkout_state ty status s)"
  by (auto simp: next_checkout_state_def closed_checkout_def Let_def)

lemma record_writes:
  assumes "record_checkout env cl result ord st = Inr (t, st')" and ord: "find_order (wd_billing st) (cl_order cl) = Some ord"
  shows "worker_writes (wk_billing env) (wd_billing st) (wd_billing st')"
proof -
  define f :: "order_row \<Rightarrow> order_row" where "f = (\<lambda>r. r\<lparr>bo_checkout := next_checkout_state (cl_type cl) (result_status result) (bo_checkout ord),
    bo_checkout_expires := t\<rparr>)"
  have deadline: "next_deadline (worker_now env) cl result (bo_checkout_expires ord) = Inr t"
    using assms(1) by (cases "observed_progress cl result (bo_progress ord)")
      (auto simp: record_checkout_def res_simps Let_def split: if_splits)
  have "checkout_order ord (f ord)"
    using deadline next_state_closed
    by (auto simp: checkout_order_def f_def dest: next_deadline_earlier split: option.splits)
  moreover have "checkout_only f" by (simp add: checkout_only_def f_def)
  ultimately have "worker_write (wk_billing env) (wd_billing st) (set_order (cl_order cl) f (wd_billing st))"
    using ord checkout by blast
  moreover have "wd_billing st' = set_order (cl_order cl) f (wd_billing st)
      \<or> (\<exists>v. wd_billing st' = set_progress (cl_order cl) v (set_order (cl_order cl) f (wd_billing st)))"
    using assms(1) by (cases "observed_progress cl result (bo_progress ord)")
      (auto simp: record_checkout_def res_simps Let_def f_def split: if_splits)
  ultimately show ?thesis using progress by (metis converse_rtranclp_into_rtranclp r_into_rtranclp)
qed

lemma activate_writes:
  assumes "activate_paid env cl result st = Inr st'"
  shows "worker_writes (wk_billing env) (wd_billing st) (wd_billing st')"
  using assms called[of "wk_billing env" "QueryCall (cl_order cl) result (cl_profile cl)"]
  by (auto simp: activate_paid_def res_simps billing_step_def split: if_splits)

lemma finish_billing: "finish_command env cl again st = Inr st' \<Longrightarrow> wd_billing st' = wd_billing st"
  by (auto simp: finish_command_def res_simps Let_def split: if_splits)

lemma complete_writes [worker_parts]:
  assumes "complete_transaction env cl result st = Inr st'"
  shows "worker_writes (wk_billing env) (wd_billing st) (wd_billing st')"
proof (cases "find_order (wd_billing st) (cl_order cl)")
  case (Some ord)
  show ?thesis
  proof (cases "holds_lease st cl")
    case True
    then obtain t st1 st2 where "record_checkout env cl result ord st = Inr (t, st1)"
        "activate_paid env cl result st1 = Inr st2" "wd_billing st' = wd_billing st2"
      using assms Some finish_billing by (fastforce simp: complete_transaction_def res_simps)
    then show ?thesis using record_writes[OF _ Some] activate_writes by (metis rtranclp_trans)
  qed (use assms Some in \<open>auto simp: complete_transaction_def\<close>)
qed (use assms in \<open>simp add: complete_transaction_def\<close>)

lemma fail_writes [worker_parts]:
  assumes "fail_command env cl e st = Inr st'"
  shows "worker_writes (wk_billing env) (wd_billing st) (wd_billing st')"
proof (cases "find_order (wd_billing st) (cl_order cl)")
  case (Some ord)
  define f :: "order_row \<Rightarrow> order_row" where "f = (\<lambda>r. r\<lparr>bo_checkout := ''create_failed''\<rparr>)"
  have *: "worker_write (wk_billing env) (wd_billing st) (set_order (cl_order cl) f (wd_billing st))"
    if "bo_checkout ord = ''creating''"
    using checkout[OF Some, of f] that
    by (auto simp: f_def checkout_only_def checkout_order_def closed_checkout_def split: option.splits)
  have "wd_billing st' = wd_billing st \<or> bo_checkout ord = ''creating''
      \<and> wd_billing st' = set_order (cl_order cl) f (wd_billing st)"
    using assms Some by (auto simp: fail_command_def res_simps Let_def f_def split: if_splits)
  then show ?thesis using * by auto
qed (use assms in \<open>simp add: fail_command_def\<close>)

lemma settle_writes [worker_parts]:
  "worker_writes (wk_billing env) (wd_billing st) (wd_billing (snd (settle_claim env cl answer st)))"
  by (auto simp: settle_claim_def keep_on_raise_def complete_command_def
    dest: complete_writes fail_writes split: sum.splits worker_exn.splits)

lemma execute_writes [worker_parts]:
  "worker_writes (wk_billing env) (wd_billing st) (wd_billing (snd (execute_command env cid st)))"
  by (auto simp: execute_command_def split: option.splits
    intro: rtranclp_trans[OF claim_writes settle_writes])

lemma event_write:
  "(\<And>e. event_facts (k e) = event_facts e) \<Longrightarrow> worker_writes (wk_billing env) (wd_billing st) (wd_billing (set_event eid k st))"
  using events[of "update_where (\<lambda>e. we_id e = eid) k (bl_events (wd_billing st))"] by (simp add: event_facts_update r_into_rtranclp)

lemma set_delivery_billing: "worker_writes env (wd_billing (set_delivery i h st)) b \<Longrightarrow> worker_writes env (wd_billing st) b"
  by simp

lemma webhook_writes [worker_parts]:
  "claim_webhook env st = Some (ec, st') \<Longrightarrow> worker_writes (wk_billing env) (wd_billing st) (wd_billing st')"
  by (auto simp: claim_webhook_def event_facts_def simp del: wd_billing_simps split: option.splits
    intro!: set_delivery_billing[OF event_write])

lemma fail_webhook_writes: "worker_writes (wk_billing env) (wd_billing st) (wd_billing (fail_webhook env ec code retryable st))"
  by (auto simp: fail_webhook_def event_facts_def simp del: wd_billing_simps split: option.splits
    intro!: set_delivery_billing[OF event_write])

lemma process_webhook_writes [worker_parts]:
  "worker_writes (wk_billing env) (wd_billing st) (wd_billing (process_webhook env ec st))"
  using fail_webhook_writes called[of "wk_billing env" "EventCall (ec_event ec) _ (ec_profile ec)"]
  by (auto simp: process_webhook_def res_simps billing_step_def split: sum.splits worker_exn.splits)

lemma retry_writes [worker_parts]:
  "worker_writes (wk_billing env) (wd_billing st) (wd_billing (snd (retry_activation env oid st)))"
  using called[of "wk_billing env" "RetryCall oid"]
  by (auto simp: retry_activation_def keep_on_raise_def res_simps billing_step_def split: sum.splits)

lemma expire_writes [worker_parts]:
  assumes "expire_local_checkout env st = Some st'" and "distinct (map bo_id (bl_orders (wd_billing st)))"
  shows "worker_writes (wk_billing env) (wd_billing st) (wd_billing st')"
proof -
  define f :: "order_row \<Rightarrow> order_row" where "f = (\<lambda>r. r\<lparr>bo_checkout := ''expired''\<rparr>)"
  obtain r rs where "sort_key (\<lambda>r. (the (bo_checkout_expires r), bo_id r))
      (filter (overdue_checkout (worker_now env)) (bl_orders (wd_billing st))) = r # rs"
    and st': "st' = on_billing (set_order (bo_id r) f) st"
    using assms(1) by (auto simp: expire_local_checkout_def f_def split: list.splits)
  then have "r \<in> set (bl_orders (wd_billing st))"
    by (metis filter_is_subset list.set_intros(1) set_sort subsetD)
  then have "find_order (wd_billing st) (bo_id r) = Some r"
    using assms(2) by (simp add: find_order_def find_unique_key)
  then have "worker_write (wk_billing env) (wd_billing st) (set_order (bo_id r) f (wd_billing st))"
    by (rule checkout) (auto simp: f_def checkout_only_def checkout_order_def closed_checkout_def split: option.splits)
  then show ?thesis by (simp add: st')
qed

lemma schedule_writes [worker_parts]:
  assumes "schedule_reconciliation env updated stamp st = Some (Inr st')"
  shows "worker_writes (wk_billing env) (wd_billing st) (wd_billing st')"
  using assms worker_id[of "wk_billing env" "''billing-command''" "wd_billing st"]
  by (auto simp: schedule_reconciliation_def split: list.splits prod.splits if_splits)

lemma release_writes [worker_parts]:
  "release_expired_usage env st = (raised, released, st') \<Longrightarrow>
    worker_writes (wk_billing env) (wd_billing st) (wd_billing st')"
  using release[of "wk_billing env" "wd_billing st" 100]
  by (auto simp: release_expired_usage_def split: sum.splits)

lemma process_next_parts:
  assumes hook: "\<And>ec st1. claim_webhook env st = Some (ec, st1) \<Longrightarrow> P (process_webhook env ec st1)"
    and executed: "\<And>cid. P (snd (execute_command env cid st))" and retried: "\<And>oid. P (snd (retry_activation env oid st))"
    and expired: "\<And>st'. expire_local_checkout env st = Some st' \<Longrightarrow> P st'"
    and scheduled: "\<And>st'. schedule_reconciliation env updated stamp st = Some (Inr st') \<Longrightarrow> P st'"
    and released: "\<And>r b st'. release_expired_usage env st = (r, b, st') \<Longrightarrow> P st'" and idle: "P st"
  shows "P (snd (process_next env flags updated stamp st))"
proof (cases "if wf_activation flags then claim_webhook env st else None")
  case (Some x)
  obtain ec st1 where "x = (ec, st1)" by force
  with Some show ?thesis using hook[of ec st1] by (auto simp: process_next_def split: if_splits)
next
  case webhook: None
  show ?thesis
  proof (cases "next_command_id st (worker_now env)")
    case (Some cid)
    with webhook executed[of cid] show ?thesis
      by (cases "execute_command env cid st") (simp add: process_next_def)
  next
    case command: None
    show ?thesis
    proof (cases "if wf_activation flags then next_paid_not_applied updated (wd_billing st) (worker_now env) else None")
      case (Some oid)
      with webhook command retried[of oid] show ?thesis
        by (cases "retry_activation env oid st") (simp add: process_next_def)
    next
      case paid: None
      note earlier = webhook command paid
      show ?thesis
      proof (cases "if wf_checkout flags \<or> wf_activation flags then expire_local_checkout env st else None")
        case (Some st')
        with earlier expired[of st'] show ?thesis by (auto simp: process_next_def split: if_splits)
      next
        case overdue: None
        show ?thesis
        proof (cases "if wf_checkout flags \<or> wf_activation flags then schedule_reconciliation env updated stamp st else None")
          case (Some m)
          with earlier overdue scheduled idle show ?thesis
            by (cases m) (auto simp: process_next_def keep_on_raise_def split: if_splits)
        next
          case None
          obtain raised dn st' where "release_expired_usage env st = (raised, dn, st')"
            by (cases "release_expired_usage env st")
          with earlier overdue None released[of raised dn st'] idle show ?thesis
            by (auto simp: process_next_def split: option.splits)
        qed
      qed
    qed
  qed
qed

lemma process_next_writes:
  assumes "distinct (map bo_id (bl_orders (wd_billing st)))"
  shows "worker_writes (wk_billing env) (wd_billing st) (wd_billing (snd (process_next env flags updated stamp st)))"
  by (rule process_next_parts)
    (use expire_writes[OF _ assms] in
      \<open>auto intro: rtranclp_trans[OF webhook_writes process_webhook_writes] execute_writes retry_writes schedule_writes release_writes\<close>)

section \<open>What the writes keep\<close>

lemma checkout_only_terms:
  assumes "checkout_only f"
  shows "bo_id (f r) = bo_id r" "bo_total (f r) = bo_total r" "bo_payment (f r) = bo_payment r"
proof -
  have "(f r)\<lparr>bo_checkout := bo_checkout r, bo_checkout_expires := bo_checkout_expires r\<rparr> = r"
    using assms by (simp add: checkout_only_def)
  then show "bo_id (f r) = bo_id r" "bo_total (f r) = bo_total r" "bo_payment (f r) = bo_payment r"
    by (cases r, cases "f r", simp)+
qed

lemma paid_in_full_orders:
  assumes "paid_in_full db" and same: "\<And>r. bo_id (f r) = bo_id r" "\<And>r. bo_total (f r) = bo_total r"
    "\<And>r. bo_payment (f r) = bo_payment r" and "bl_payments db' = bl_payments db"
    and "bl_orders db' = update_where p f (bl_orders db)"
  shows "paid_in_full db'"
proof -
  have "full_payment (f r) = full_payment r" for r by (simp add: full_payment_def fun_eq_iff same)
  then show ?thesis using assms
    by (auto simp: paid_in_full_def distinct_map_update_where set_update_where split: if_splits)
qed

lemma worker_write_ok:
  assumes "worker_write env a b" and "billing_books env a \<and> paid_in_full a"
  shows "billing_books env b \<and> paid_in_full b"
  using assms
proof (induction rule: worker_write.induct)
  case (called c db res db')
  then show ?case using step_books step_paid_in_full by blast
next
  case (new_id db n)
  then show ?case by (auto simp: billing_books_def paid_in_full_def cong: credits_ok_rows)
next
  case (progress db oid v)
  then show ?case
    using paid_in_full_orders[of db "\<lambda>r. r\<lparr>bo_progress := v\<rparr>" "set_progress oid v db"]
    by (auto simp: billing_books_def set_progress_def)
next
  case (checkout db oid ord f)
  then show ?case
    using paid_in_full_orders[of db "\<lambda>r. (f r)\<lparr>bo_revision := bo_revision r + 1\<rparr>" "set_order oid f db"]
    by (auto simp: billing_books_def set_order_def checkout_only_terms)
next
  case (release db limit vs u)
  then show ?case using usage_step_ok[OF usage_step.expiring[OF release(1)]]
    by (auto simp: billing_books_def paid_in_full_def)
qed (auto simp: billing_books_def paid_in_full_def)

interpretation worker_tables: stepping "worker_write env" "\<lambda>db. billing_books env db \<and> paid_in_full db" for env
  by unfold_locales (rule worker_write_ok)

text \<open>The orders move only as a checkout may.\<close>

lemma checkout_order_refl [simp]: "checkout_order r r"
  by (auto simp: checkout_order_def split: option.splits)

lemma checkout_order_trans: "checkout_order a b \<Longrightarrow> checkout_order b c \<Longrightarrow> checkout_order a c"
  by (auto simp: checkout_order_def split: option.splits)

lemma checkout_orders_trans:
  "list_all2 checkout_order t u \<Longrightarrow> list_all2 checkout_order u v \<Longrightarrow> list_all2 checkout_order t v"
  by (rule list_all2_trans[OF checkout_order_trans])

lemma checkout_order_progress: "checkout_order r (r\<lparr>bo_progress := v\<rparr>)"
  by (auto simp: checkout_order_def split: option.splits)

lemma order_kept_checkout: "order_kept r r' \<Longrightarrow> checkout_order r r'"
  by (cases r, cases r') (auto simp: order_kept_def order_terms_def ordered_def checkout_order_def split: option.splits)

lemma list_all2_checkout:
  assumes "\<And>r. r \<in> set t \<Longrightarrow> p r \<Longrightarrow> checkout_order r (f r)"
  shows "list_all2 checkout_order t (update_where p f t)"
  using assms by (induction t) auto

lemma list_all2_ids: "list_all2 checkout_order t u \<Longrightarrow> map bo_id u = map bo_id t"
  by (induction rule: list_all2_induct) (auto simp: checkout_order_def dest: ordered_columns)

lemma list_all2_find:
  "list_all2 checkout_order t u \<Longrightarrow> List.find (\<lambda>r. bo_id r = i) t = Some r \<Longrightarrow>
    \<exists>r'. List.find (\<lambda>r. bo_id r = i) u = Some r' \<and> checkout_order r r'"
  by (induction rule: list_all2_induct) (auto simp: checkout_order_def dest: ordered_columns split: if_splits)

lemma worker_write_orders:
  assumes "worker_write env a b" and "distinct (map bo_id (bl_orders a))"
  shows "list_all2 checkout_order (bl_orders a) (bl_orders b)"
  using assms
proof (induction rule: worker_write.induct)
  case (called c db res db')
  show ?case using step_orders[OF called(1)] by (rule list_all2_mono) (rule order_kept_checkout)
next
  case (progress db oid v)
  show ?case by (simp add: set_progress_def list_all2_checkout checkout_order_progress)
next
  case (checkout db oid ord f)
  have "r = ord" if "r \<in> set (bl_orders db)" "bo_id r = oid" for r
    using checkout(1,4) that find_unique_key[of bo_id "bl_orders db" r] by (simp add: find_order_def)
  moreover have "checkout_order ord ((f ord)\<lparr>bo_revision := bo_revision ord + 1\<rparr>)"
    using checkout(3) by (auto simp: checkout_order_def split: option.splits)
  ultimately show ?case by (auto simp: set_order_def intro!: list_all2_checkout)
qed (simp_all add: list_all2_refl)

lemma worker_writes_orders:
  assumes "worker_writes env a b" and "distinct (map bo_id (bl_orders a))"
  shows "list_all2 checkout_order (bl_orders a) (bl_orders b)"
  using assms(1)
proof (induction rule: rtranclp_induct)
  case (step b c)
  have "distinct (map bo_id (bl_orders b))" using list_all2_ids[OF step.IH] assms(2) by simp
  from checkout_orders_trans[OF step.IH worker_write_orders[OF step.hyps(2) this]] show ?case .
qed (simp add: list_all2_refl)

text \<open>The signed facts of the events stay.\<close>

lemma worker_writes_events:
  "worker_writes env a b \<Longrightarrow> map event_facts (bl_events b) = map event_facts (bl_events a)"
proof (induction rule: rtranclp_induct)
  case (step b c)
  have "map event_facts (bl_events c) = map event_facts (bl_events b)"
    using step.hyps(2) by (induction rule: worker_write.induct) (auto simp: step_events set_progress_def set_order_def)
  then show ?case using step.IH by simp
qed simp

section \<open>Histories of polls\<close>

text \<open>
  A poll of some worker at some time: its identity, settings and the answers of its providers are
  its own, the tables and the secrets of the installation are shared.
\<close>

type_synonym poll = "int \<times> string \<times> worker_env \<times> worker_flags"

definition polled :: "billing_env \<Rightarrow> (billing_db \<Rightarrow> ident \<Rightarrow> string) \<Rightarrow> poll \<Rightarrow> worker_db \<Rightarrow> worker_db" where
  "polled env updated = (\<lambda>(now, stamp, worker, flags) st.
     snd (process_next (worker\<lparr>wk_billing := billing_at env now stamp\<rparr>) flags updated stamp st))"

definition run_polls :: "billing_env \<Rightarrow> (billing_db \<Rightarrow> ident \<Rightarrow> string) \<Rightarrow> poll list \<Rightarrow> worker_db \<Rightarrow> worker_db" where
  "run_polls env updated = fold (polled env updated)"

lemma polled_ok:
  assumes "billing_books env (wd_billing st) \<and> paid_in_full (wd_billing st)"
  shows "billing_books env (wd_billing (polled env updated p st)) \<and> paid_in_full (wd_billing (polled env updated p st))"
proof -
  obtain now stamp worker flags where p: "p = (now, stamp, worker, flags)" by (cases p)
  have "distinct (map bo_id (bl_orders (wd_billing st)))" using assms by (simp add: paid_in_full_def)
  from process_next_writes[OF this, of "worker\<lparr>wk_billing := billing_at env now stamp\<rparr>"]
  have "worker_writes (billing_at env now stamp) (wd_billing st) (wd_billing (polled env updated p st))"
    by (simp add: polled_def p)
  from worker_tables.steps_ok[OF this] assms show ?thesis by simp
qed

lemma run_polls_ok:
  "billing_books env (wd_billing st) \<and> paid_in_full (wd_billing st) \<Longrightarrow>
    billing_books env (wd_billing (run_polls env updated ps st)) \<and> paid_in_full (wd_billing (run_polls env updated ps st))"
  unfolding run_polls_def by (induction ps arbitrary: st) (auto simp: polled_ok)

text \<open>
  C28: the worker keeps the books of billing. After any polls of any workers, at any times and with
  whatever answers of the providers, a transaction is still recorded at most once, an order has at
  most one activation and invoice request, credits and audit chain are sound, and an order that is
  paid is paid in full.
\<close>

theorem worker_keeps_books:
  assumes "billing_books env (wd_billing st)" and "paid_in_full (wd_billing st)"
  shows "billing_books env (wd_billing (run_polls env updated ps st))
    \<and> paid_in_full (wd_billing (run_polls env updated ps st))"
  using assms run_polls_ok by blast

text \<open>
  C29: a checkout only closes. Along any polls of any workers, an order whose checkout is cancelled or
  expired stays in one of the two, late answers to its creation included; the deadline of a
  checkout is never put off; and owner, price, provider code and every other term of an order stay
  as they were ordered.
\<close>

theorem checkout_only_closes:
  assumes "distinct (map bo_id (bl_orders (wd_billing st)))"
  shows "list_all2 checkout_order (bl_orders (wd_billing st)) (bl_orders (wd_billing (run_polls env updated ps st)))"
  unfolding run_polls_def using assms
proof (induction ps arbitrary: st)
  case (Cons p ps)
  obtain now stamp worker flags where p: "p = (now, stamp, worker, flags)" by (cases p)
  have first: "list_all2 checkout_order (bl_orders (wd_billing st)) (bl_orders (wd_billing (polled env updated p st)))"
    using worker_writes_orders[OF process_next_writes[OF Cons.prems]] Cons.prems by (simp add: polled_def p)
  then have "distinct (map bo_id (bl_orders (wd_billing (polled env updated p st))))"
    using list_all2_ids Cons.prems by metis
  from checkout_orders_trans[OF first Cons.IH[OF this]] show ?case by simp
qed (simp add: list_all2_refl)

end
