(* ===== verification/Billing_Queue_Laws.thy ===== *)
theory Billing_Queue_Laws
  imports Billing_Worker Billing_Worker_Laws
begin

text \<open>
  The laws of the command queue: a late answer is fenced off by the token of its claim, a command
  that is executed often enough leaves the queue, and which errors it never leaves the queue for.
\<close>

section \<open>Rows\<close>

lemma find_set_command:
  assumes "\<And>c. pc_id (f c) = pc_id c"
  shows "find_command (set_command cid f st) i = map_option (\<lambda>c. if pc_id c = cid then f c else c) (find_command st i)"
proof -
  have "List.find (\<lambda>c. pc_id c = i) (update_where (\<lambda>c. pc_id c = cid) f t)
      = map_option (\<lambda>c. if pc_id c = cid then f c else c) (List.find (\<lambda>c. pc_id c = i) t)" for t
    by (induction t) (auto simp: assms)
  then show ?thesis by (simp add: find_command_def set_command_def)
qed

lemma find_command_id: "find_command st cid = Some c \<Longrightarrow> pc_id c = cid"
  by (auto simp: find_command_def dest: find_Some_iff_mem)

lemma wd_commands_simps [simp]:
  "wd_commands (set_url oid u st) = wd_commands st" "wd_commands (on_billing g st) = wd_commands st"
  "wd_profiles (set_url oid u st) = wd_profiles st" "wd_profiles (on_billing g st) = wd_profiles st"
  "wd_profiles (set_command cid f st) = wd_profiles st"
  by (simp_all add: set_url_def on_billing_def set_command_def Let_def)

lemma find_command_billing [simp]:
  "find_command (set_url oid u st) i = find_command st i" "find_command (on_billing g st) i = find_command st i"
  "find_command (st\<lparr>wd_billing := b\<rparr>) i = find_command st i"
  by (simp_all add: find_command_def)

lemma record_commands: "record_checkout env cl result ord st = Inr (t, st') \<Longrightarrow> wd_commands st' = wd_commands st \<and> wd_profiles st' = wd_profiles st"
  by (cases "observed_progress cl result (bo_progress ord)")
    (auto simp: record_checkout_def res_simps Let_def split: if_splits)

lemma activate_commands: "activate_paid env cl result st = Inr st' \<Longrightarrow> wd_commands st' = wd_commands st \<and> wd_profiles st' = wd_profiles st"
  by (auto simp: activate_paid_def res_simps split: if_splits)

text \<open>What settling writes into the row of the claimed command.\<close>

definition settled_row :: "worker_env \<Rightarrow> claim \<Rightarrow> command_row \<Rightarrow> bool" where
  "settled_row env cl c \<longleftrightarrow> pc_lease c = None \<and> pc_locked_by c = None \<and>
     (pc_status c = CmdCompleted \<and> pc_attempts c = cl_attempts cl
      \<or> cl_type cl = QueryOrder \<and> pc_status c = CmdPending \<and> pc_attempts c = 0
      \<or> pc_status c = CmdDead \<and> cl_type cl \<noteq> QueryOrder \<and> pc_attempts c = cl_attempts cl
      \<or> pc_status c = CmdRetry \<and> pc_attempts c = cl_attempts cl \<and> cl_attempts cl < attempt_limit cl
        \<and> pc_available c \<le> worker_now env + 30)"

definition settles :: "worker_env \<Rightarrow> claim \<Rightarrow> worker_db \<Rightarrow> worker_db \<Rightarrow> bool" where
  "settles env cl st st' \<longleftrightarrow> wd_profiles st' = wd_profiles st
     \<and> (\<exists>f. wd_commands st' = update_where (\<lambda>c. pc_id c = cl_command cl) f (wd_commands st)
       \<and> (\<forall>c. pc_id (f c) = pc_id c \<and> pc_type (f c) = pc_type c \<and> pc_order (f c) = pc_order c
           \<and> pc_request (f c) = pc_request c \<and> settled_row env cl (f c)))"

lemma complete_settles:
  assumes "complete_transaction env cl result st = Inr st'" and "holds_lease st cl"
  shows "settles env cl st st'"
proof -
  obtain ord t st1 st2 where 1: "record_checkout env cl result ord st = Inr (t, st1)" "activate_paid env cl result st1 = Inr st2"
    and 2: "finish_command env cl (keep_reconciling env cl result t) st2 = Inr st'"
    using assms by (auto simp: complete_transaction_def res_simps split: option.splits)
  have same: "wd_commands st2 = wd_commands st" "wd_profiles st2 = wd_profiles st"
    using record_commands[OF 1(1)] activate_commands[OF 1(2)] by simp_all
  show ?thesis
  proof (cases "keep_reconciling env cl result t")
    case True
    then have q: "cl_type cl = QueryOrder" by (simp add: keep_reconciling_def)
    from True 2 obtain wait where "st' = set_command (cl_command cl) (\<lambda>c. c\<lparr>pc_status := CmdPending, pc_attempts := 0,
        pc_available := worker_now env + wait, pc_lease := None, pc_locked_by := None, pc_error := None\<rparr>) st2"
      by (auto simp: finish_command_def res_simps)
    with q same show ?thesis by (auto simp: settles_def set_command_def settled_row_def)
  next
    case False
    with 2 have "st' = set_command (cl_command cl) (\<lambda>c. c\<lparr>pc_status := CmdCompleted, pc_attempts := cl_attempts cl,
        pc_available := worker_now env, pc_lease := None, pc_locked_by := None, pc_error := None\<rparr>) st2"
      by (auto simp: finish_command_def)
    with same show ?thesis by (auto simp: settles_def set_command_def settled_row_def)
  qed
qed

lemma fail_settles:
  assumes "fail_command env cl e st = Inr st'" and "holds_lease st cl"
  shows "settles env cl st st'"
proof -
  obtain status attempts available where row: "fail_row env cl e = Inr (status, attempts, available)"
    and "wd_commands st' = update_where (\<lambda>c. pc_id c = cl_command cl) (\<lambda>c. c\<lparr>pc_status := status,
        pc_attempts := attempts, pc_available := available, pc_lease := None, pc_locked_by := None,
        pc_error := Some (pe_code e)\<rparr>) (wd_commands st)"
    and "wd_profiles st' = wd_profiles st"
    using assms by (auto simp: fail_command_def res_simps set_command_def Let_def split: option.splits if_splits)
  moreover have "settled_row env cl (c\<lparr>pc_status := status, pc_attempts := attempts, pc_available := available,
      pc_lease := None, pc_locked_by := None, pc_error := x\<rparr>)" for c x
    using row by (auto simp: fail_row_def settled_row_def failed_status_def res_simps split: if_splits)
  ultimately show ?thesis by (auto simp: settles_def)
qed

lemma settle_claim_cases:
  obtains "snd (settle_claim env cl answer st) = st" "fst (settle_claim env cl answer st) = None \<Longrightarrow> \<not> holds_lease st cl"
  | "holds_lease st cl" "settles env cl st (snd (settle_claim env cl answer st))"
proof (cases "holds_lease st cl")
  case True
  have "snd (settle_claim env cl answer st) = st \<and> fst (settle_claim env cl answer st) \<noteq> None
      \<or> settles env cl st (snd (settle_claim env cl answer st))"
    using complete_settles[OF _ True] fail_settles[OF _ True]
    by (auto simp: settle_claim_def keep_on_raise_def complete_command_def split: sum.splits worker_exn.splits)
  then show ?thesis by (metis that True)
next
  case False
  have "complete_transaction env cl result st = Inr st' \<Longrightarrow> st' = st"
      "fail_command env cl e st = Inr st' \<Longrightarrow> st' = st" for st' result e
    using False by (auto simp: complete_transaction_def fail_command_def split: option.splits)
  then have "snd (settle_claim env cl answer st) = st"
    by (auto simp: settle_claim_def keep_on_raise_def complete_command_def split: sum.splits worker_exn.splits)
  then show ?thesis using that False by blast
qed

section \<open>Late answers are fenced off\<close>

text \<open>
  The commands as the workers move them, with every claim ever made: a worker may claim a command,
  settle any claim with any answer at any time, or write anything but commands; the worker's
  schedule adds commands. A new lease token is not an old one.
\<close>

inductive queue_step :: "worker_db \<times> claim set \<Rightarrow> worker_db \<times> claim set \<Rightarrow> bool" where
  claiming: "claim_command env cid st = Some (cl, st') \<Longrightarrow> cl_token cl \<notin> cl_token ` claims \<Longrightarrow>
    queue_step (st, claims) (st', insert cl claims)"
| settling: "cl \<in> claims \<Longrightarrow> queue_step (st, claims) (snd (settle_claim env cl answer st), claims)"
| scheduling: "schedule_reconciliation env updated stamp st = Some (Inr st') \<Longrightarrow> queue_step (st, claims) (st', claims)"
| elsewhere: "wd_commands st' = wd_commands st \<Longrightarrow> queue_step (st, claims) (st', claims)"

inductive_cases queue_stepE: "queue_step (st, claims) (st', claims')"

lemma claim_locks:
  assumes "claim_command env cid st = Some (cl, st')"
  shows "\<exists>f. wd_commands st' = update_where (\<lambda>c. pc_id c = cid) f (wd_commands st)
    \<and> (\<forall>c. pc_id (f c) = pc_id c \<and> pc_locked_by (f c) = Some (cl_token cl))"
  using assms
  by (auto simp: claim_command_def new_lease_def set_command_def claim_of_def Let_def
    split: option.splits if_splits prod.splits)

lemma not_locked_update:
  assumes "\<not> holds_lease st cl" and "wd_commands st' = update_where (\<lambda>c. pc_id c = i) f (wd_commands st)"
    and "\<And>c. pc_id (f c) = pc_id c" and "\<And>c. pc_locked_by (f c) \<noteq> Some (cl_token cl)"
  shows "\<not> holds_lease st' cl"
proof -
  have "find_command st' j = map_option (\<lambda>c. if pc_id c = i then f c else c) (find_command st j)" for j
    using find_set_command[of f i st j] assms(2,3) by (simp add: find_command_def set_command_def)
  then show ?thesis using assms(1,4) by (auto simp: holds_lease_def split: option.splits)
qed

lemma settles_frees:
  assumes "settles env cl' st st'" and "cl_command cl' = cl_command cl \<or> \<not> holds_lease st cl"
  shows "\<not> holds_lease st' cl"
proof -
  obtain f where st': "wd_commands st' = update_where (\<lambda>c. pc_id c = cl_command cl') f (wd_commands st)"
    and f: "\<And>c. pc_id (f c) = pc_id c" "\<And>c. pc_locked_by (f c) = None"
    using assms(1) by (auto simp: settles_def settled_row_def)
  have find: "find_command st' j = map_option (\<lambda>c. if pc_id c = cl_command cl' then f c else c) (find_command st j)" for j
    using find_set_command[of f "cl_command cl'" st j] st' f by (simp add: find_command_def set_command_def)
  show ?thesis
    using assms(2) f find[of "cl_command cl"]
    by (auto simp: holds_lease_def dest: find_command_id split: option.splits if_splits)
qed

lemma queue_step_fenced:
  assumes "queue_step (st, claims) (st', claims')" and "cl \<in> claims" and "\<not> holds_lease st cl"
  shows "cl \<in> claims' \<and> \<not> holds_lease st' cl"
proof -
  consider (claiming) env cid cl' where "claims' = insert cl' claims" "claim_command env cid st = Some (cl', st')"
      "cl_token cl' \<notin> cl_token ` claims"
    | (settling) cl' env answer where "claims' = claims" "st' = snd (settle_claim env cl' answer st)"
    | (scheduling) env updated stamp where "claims' = claims" "schedule_reconciliation env updated stamp st = Some (Inr st')"
    | (elsewhere) "claims' = claims" "wd_commands st' = wd_commands st"
    using assms(1) by (auto elim: queue_stepE)
  then show ?thesis
  proof cases
    case claiming
    obtain f where "wd_commands st' = update_where (\<lambda>c. pc_id c = cid) f (wd_commands st)"
        "\<And>c. pc_id (f c) = pc_id c" "\<And>c. pc_locked_by (f c) = Some (cl_token cl')"
      using claim_locks[OF claiming(2)] by blast
    moreover have "cl_token cl' \<noteq> cl_token cl" using claiming(3) assms(2) by auto
    ultimately show ?thesis using not_locked_update[OF assms(3)] claiming(1) assms(2) by simp
  next
    case settling
    show ?thesis
      using settle_claim_cases[of env cl' answer st] settles_frees assms(2,3) settling by metis
  next
    case scheduling
    obtain c where "wd_commands st' = wd_commands st @ [c]" "pc_locked_by c = None"
      using scheduling(2) by (auto simp: schedule_reconciliation_def query_command_def split: list.splits prod.splits if_splits)
    then have "\<not> holds_lease st' cl" using assms(3)
      by (auto simp: holds_lease_def find_command_def find_append split: option.splits if_splits)
    then show ?thesis using scheduling(1) assms(2) by simp
  next
    case elsewhere
    then show ?thesis using assms(2,3) by (simp add: holds_lease_def find_command_def)
  qed
qed

lemma queue_steps_fenced:
  assumes "queue_step\<^sup>*\<^sup>* (st, claims) (st', claims')" and "cl \<in> claims" and "\<not> holds_lease st cl"
  shows "\<not> holds_lease st' cl"
proof -
  have "cl \<in> snd x \<and> \<not> holds_lease (fst x) cl" if "queue_step\<^sup>*\<^sup>* (st, claims) x" for x
    using that
  proof (induction rule: rtranclp_induct)
    case (step y z)
    then show ?case using queue_step_fenced[of "fst y" "snd y" "fst z" "snd z"] by simp
  qed (use assms in simp)
  from this[OF assms(1)] show ?thesis by simp
qed

text \<open>
  C30: an answer of a provider takes effect at most once and never late. Once a claim was settled, or
  its command was claimed again after the lease ran out, no further answer to the claim changes
  anything, however the other workers claim and settle meanwhile.
\<close>

theorem late_answers_are_fenced:
  assumes "cl \<in> claims"
    and "settle_claim env cl answer st = (None, st1)
      \<or> (\<exists>cl'. claim_command env (cl_command cl) st = Some (cl', st1) \<and> cl_token cl' \<notin> cl_token ` claims)"
    and "queue_step\<^sup>*\<^sup>* (st1, claims) (st2, claims2)"
  shows "snd (settle_claim env' cl answer' st2) = st2"
proof -
  have "\<not> holds_lease st1 cl"
    using assms(2)
  proof (elim disjE exE conjE)
    assume run: "settle_claim env cl answer st = (None, st1)"
    then show ?thesis using settle_claim_cases[of env cl answer st] settles_frees[of env cl st st1 cl] by auto
  next
    fix cl' assume claim: "claim_command env (cl_command cl) st = Some (cl', st1)" "cl_token cl' \<notin> cl_token ` claims"
    obtain f where st1: "wd_commands st1 = update_where (\<lambda>c. pc_id c = cl_command cl) f (wd_commands st)"
        and f: "\<And>c. pc_id (f c) = pc_id c" "\<And>c. pc_locked_by (f c) = Some (cl_token cl')"
      using claim_locks[OF claim(1)] by blast
    have "find_command st1 j = map_option (\<lambda>c. if pc_id c = cl_command cl then f c else c) (find_command st j)" for j
      using find_set_command[of f "cl_command cl" st j] st1 f by (simp add: find_command_def set_command_def)
    moreover have "cl_token cl' \<noteq> cl_token cl" using claim(2) assms(1) by auto
    ultimately show ?thesis using f by (auto simp: holds_lease_def dest: find_command_id split: option.splits if_splits)
  qed
  from queue_steps_fenced[OF assms(3,1) this] show ?thesis
    using settle_claim_cases[of env' cl answer' st2] by blast
qed

section \<open>A command that is executed often enough is over\<close>

text \<open>
  A command that can be claimed: it and the order it is about exist once, the profile has the limit
  of attempts, and no creation holds it up.
\<close>

definition ready_command :: "worker_db \<Rightarrow> ident \<Rightarrow> command_row \<Rightarrow> int \<Rightarrow> bool" where
  "ready_command st cid c limit \<longleftrightarrow> find_command st cid = Some c \<and> \<not> awaits_creation st c
     \<and> distinct (map pc_id (wd_commands st)) \<and> distinct (map bo_id (bl_orders (wd_billing st)))
     \<and> (case find_order (wd_billing st) (pc_order c) of
          None \<Rightarrow> False
        | Some ord \<Rightarrow> (case find_profile st (bo_profile ord) of
            None \<Rightarrow> False
          | Some p \<Rightarrow> limit = max 1 (if pf_max_attempts p = 0 then 3 else pf_max_attempts p)))"

definition claim_for :: "command_row \<Rightarrow> claim \<Rightarrow> bool" where
  "claim_for c cl \<longleftrightarrow> cl_type cl = pc_type c \<and> cl_request cl = pc_request c"

definition same_command :: "command_row \<Rightarrow> command_row \<Rightarrow> bool" where
  "same_command c c' \<longleftrightarrow> pc_id c' = pc_id c \<and> pc_type c' = pc_type c \<and> pc_order c' = pc_order c \<and> pc_request c' = pc_request c"

lemma ready_update:
  assumes "ready_command st cid c limit" and "wd_profiles st' = wd_profiles st"
    and "worker_writes env (wd_billing st) (wd_billing st')"
    and "wd_commands st' = update_where (\<lambda>c. pc_id c = cid) f (wd_commands st)" and "\<And>c. same_command c (f c)"
  shows "ready_command st' cid (f c) limit"
proof -
  have c: "find_command st cid = Some c" "pc_id c = cid" using assms(1) find_command_id by (auto simp: ready_command_def)
  have f: "\<And>c. pc_id (f c) = pc_id c" using assms(5) by (simp add: same_command_def)
  have same: "pc_type (f c) = pc_type c" "pc_order (f c) = pc_order c" using assms(5) by (simp_all add: same_command_def)
  have "find_command st' cid = Some (f c)"
    using find_set_command[of f cid st cid] f c assms(4) by (simp add: find_command_def set_command_def)
  moreover have "\<not> awaits_creation st' (f c)"
  proof
    assume wait: "awaits_creation st' (f c)"
    then obtain d where d: "d \<in> set (wd_commands st')" "pc_order d = pc_order c" "pc_type d = CreateCheckout"
        "pc_status d \<in> {CmdPending, CmdProcessing, CmdRetry}" and ty: "pc_type c = CancelCheckout"
      using same by (auto simp: awaits_creation_def list_ex_iff)
    then obtain e where e: "e \<in> set (wd_commands st)" "d = (if pc_id e = cid then f e else e)"
      using assms(4) by (auto simp: set_update_where)
    have "e \<noteq> c" using e d(3) ty c(2) same by auto
    then have "pc_id e \<noteq> cid"
      using e(1) c assms(1) find_unique_key[of pc_id "wd_commands st" e] by (auto simp: ready_command_def find_command_def)
    then have "awaits_creation st c" using e d ty by (auto simp: awaits_creation_def list_ex_iff)
    then show False using assms(1) by (simp add: ready_command_def)
  qed
  moreover have orders: "list_all2 checkout_order (bl_orders (wd_billing st)) (bl_orders (wd_billing st'))"
    using assms(1,3) worker_writes_orders by (auto simp: ready_command_def)
  moreover have "distinct (map bo_id (bl_orders (wd_billing st')))"
    using list_all2_ids[OF orders] assms(1) by (simp add: ready_command_def)
  moreover have "distinct (map pc_id (wd_commands st'))"
    using assms(1,4) f by (simp add: ready_command_def distinct_map_update_where)
  moreover obtain ord p where ord: "find_order (wd_billing st) (pc_order c) = Some ord" "find_profile st (bo_profile ord) = Some p"
      "limit = max 1 (if pf_max_attempts p = 0 then 3 else pf_max_attempts p)"
    using assms(1) by (auto simp: ready_command_def split: option.splits)
  moreover obtain ord' where ord': "find_order (wd_billing st') (pc_order c) = Some ord'" "checkout_order ord ord'"
    using list_all2_find[OF orders, of "pc_order c" ord] ord(1) unfolding find_order_def by blast
  moreover have "bo_profile ord' = bo_profile ord" using ord'(2) ordered_columns[of ord' ord] by (simp add: checkout_order_def)
  ultimately show ?thesis using same assms(2) by (simp add: ready_command_def find_profile_def)
qed

lemma claim_ready:
  assumes ready: "ready_command st cid c limit" and due: "command_due (worker_now env) c"
  shows "\<exists>cl st'. claim_command env cid st = Some (cl, st') \<and> cl_command cl = cid \<and> cl_order cl = pc_order c
    \<and> claim_for c cl \<and> cl_attempts cl = pc_attempts c + 1 \<and> attempt_limit cl = limit \<and> holds_lease st' cl
    \<and> (\<exists>c'. ready_command st' cid c' limit \<and> same_command c c' \<and> pc_status c' = CmdProcessing
        \<and> pc_attempts c' = pc_attempts c + 1 \<and> pc_lease c' = Some (worker_now env + 60))"
proof -
  obtain ord p where ord: "find_order (wd_billing st) (pc_order c) = Some ord" "find_profile st (bo_profile ord) = Some p"
      and limit: "limit = max 1 (if pf_max_attempts p = 0 then 3 else pf_max_attempts p)"
    using ready by (auto simp: ready_command_def split: option.splits)
  have c: "find_command st cid = Some c" "pc_id c = cid" using ready find_command_id by (auto simp: ready_command_def)
  obtain token st1 where lease: "new_lease env st = (token, st1)" by force
  then have st1: "wd_commands st1 = wd_commands st" "wd_profiles st1 = wd_profiles st"
    by (auto simp: new_lease_def split: prod.splits)
  define f where "f = (\<lambda>d :: command_row. d\<lparr>pc_status := CmdProcessing, pc_attempts := pc_attempts c + 1,
    pc_locked_by := Some token, pc_lease := Some (worker_now env + 60)\<rparr>)"
  have claim: "claim_command env cid st = Some (claim_of c ord p token, set_command cid f st1)"
    using c ord due ready lease by (simp add: claim_command_def f_def ready_command_def)
  have "ready_command (set_command cid f st1) cid (f c) limit"
    by (rule ready_update[OF ready _ claim_writes[OF claim]])
      (simp_all add: set_command_def st1 f_def same_command_def)
  moreover have "find_command (set_command cid f st1) cid = Some (f c)"
    using find_set_command[of f cid st1 cid] c st1 by (simp add: f_def find_command_def)
  then have "holds_lease (set_command cid f st1) (claim_of c ord p token)"
    using c by (simp add: holds_lease_def claim_of_def f_def)
  moreover have "cl_command (claim_of c ord p token) = cid \<and> cl_order (claim_of c ord p token) = pc_order c
      \<and> claim_for c (claim_of c ord p token) \<and> cl_attempts (claim_of c ord p token) = pc_attempts c + 1
      \<and> attempt_limit (claim_of c ord p token) = limit"
    using c limit by (simp add: claim_of_def claim_for_def attempt_limit_def)
  moreover have "same_command c (f c) \<and> pc_status (f c) = CmdProcessing \<and> pc_attempts (f c) = pc_attempts c + 1
      \<and> pc_lease (f c) = Some (worker_now env + 60)"
    by (simp add: same_command_def f_def)
  ultimately show ?thesis using claim by blast
qed

text \<open>The provider answers or refuses with one of its own errors.\<close>

definition payment_errors_only :: "worker_env \<Rightarrow> command_row \<Rightarrow> bool" where
  "payment_errors_only env c \<longleftrightarrow> (\<forall>cl. claim_for c cl \<longrightarrow>
     (case answer_claim env cl of Inl (ProviderError e) \<Rightarrow> True | Inl _ \<Rightarrow> False | Inr _ \<Rightarrow> True))"

lemma settle_returns:
  assumes "find_order (wd_billing st) (cl_order cl) \<noteq> None" and "cl_type cl \<noteq> QueryOrder"
    and "case answer of Inl (ProviderError e) \<Rightarrow> True | Inl _ \<Rightarrow> False | Inr _ \<Rightarrow> True"
  shows "fst (settle_claim env cl answer st) = None"
proof -
  have "fail_command env cl e st \<noteq> Inl x" for e x
    using assms(1,2) by (auto simp: fail_command_def fail_row_def res_bind_eq_Inl Let_def split: option.splits)
  then show ?thesis using assms(3)
    by (auto simp: settle_claim_def keep_on_raise_def split: sum.splits worker_exn.splits)
qed

lemma execute_once:
  assumes ready: "ready_command st cid c limit" and due: "command_due (worker_now env) c"
    and "pc_type c \<noteq> QueryOrder" and "payment_errors_only env c"
  shows "\<exists>c'. ready_command (snd (execute_command env cid st)) cid c' limit \<and> same_command c c'
    \<and> pc_attempts c' = pc_attempts c + 1 \<and> (pc_status c' = CmdCompleted \<or> pc_status c' = CmdDead
      \<or> pc_status c' = CmdRetry \<and> pc_attempts c' < limit \<and> pc_available c' \<le> worker_now env + 30)"
proof -
  obtain cl st1 c1 where claim: "claim_command env cid st = Some (cl, st1)" "cl_command cl = cid" "cl_order cl = pc_order c"
      "claim_for c cl" "cl_attempts cl = pc_attempts c + 1" "attempt_limit cl = limit" "holds_lease st1 cl"
    and c1: "ready_command st1 cid c1 limit" "same_command c c1"
    using claim_ready[OF ready due] by blast
  let ?answer = "answer_claim env cl"
  have st': "snd (execute_command env cid st) = snd (settle_claim env cl ?answer st1)"
    by (simp add: execute_command_def claim(1))
  have ty: "cl_type cl \<noteq> QueryOrder" using assms(3) claim(4) by (simp add: claim_for_def)
  have "case ?answer of Inl (ProviderError e) \<Rightarrow> True | Inl _ \<Rightarrow> False | Inr _ \<Rightarrow> True"
    using assms(4) claim(4) by (simp add: payment_errors_only_def)
  moreover have "find_order (wd_billing st1) (cl_order cl) \<noteq> None"
    using c1 claim(3) by (auto simp: ready_command_def same_command_def split: option.splits)
  ultimately have "fst (settle_claim env cl ?answer st1) = None" using ty by (intro settle_returns)
  then have "settles env cl st1 (snd (settle_claim env cl ?answer st1))"
    using settle_claim_cases[of env cl ?answer st1] claim(7) by metis
  then obtain f where f: "wd_commands (snd (settle_claim env cl ?answer st1)) = update_where (\<lambda>c. pc_id c = cid) f (wd_commands st1)"
      "\<And>c. same_command c (f c)" "\<And>c. settled_row env cl (f c)"
      and profiles: "wd_profiles (snd (settle_claim env cl ?answer st1)) = wd_profiles st1"
    unfolding settles_def claim(2) same_command_def by blast
  have "ready_command (snd (settle_claim env cl ?answer st1)) cid (f c1) limit"
    by (rule ready_update[OF c1(1) profiles settle_writes f(1,2)])
  moreover have "same_command c (f c1)" using c1(2) f(2)[of c1] by (simp add: same_command_def)
  ultimately show ?thesis
    unfolding st' using f(3)[of c1] claim(5,6) ty by (auto simp: settled_row_def)
qed

lemma not_due_unchanged:
  "find_command st cid = Some c \<Longrightarrow> \<not> command_due (worker_now env) c \<Longrightarrow> execute_command env cid st = (None, st)"
  by (simp add: execute_command_def claim_command_def)

definition execute_all :: "ident \<Rightarrow> worker_env list \<Rightarrow> worker_db \<Rightarrow> worker_db" where
  "execute_all cid = fold (\<lambda>env st. snd (execute_command env cid st))"

lemma execute_all_over:
  "find_command st cid = Some c \<Longrightarrow> pc_status c = CmdCompleted \<or> pc_status c = CmdDead \<Longrightarrow> execute_all cid es st = st"
  unfolding execute_all_def
  by (induction es) (auto simp: not_due_unchanged command_due_def)


section \<open>Errors a command does not end for\<close>

text \<open>
  C32: an error that is not one of the provider is retried without end. A command whose answer keeps
  raising another exception (an amount that is no number, say) is claimed again whenever its lease
  runs out; its attempts count up past any limit and it never becomes dead.
\<close>

theorem unexpected_error_never_ends:
  assumes "ready_command st cid c limit" and "command_due (worker_now (hd es)) c"
    and "successively (\<lambda>e e'. worker_now e + 60 \<le> worker_now e') es"
    and "list_all (\<lambda>env. \<forall>cl. claim_for c cl \<longrightarrow> (\<exists>x. answer_claim env cl = Inl (OtherError x))) es"
  shows "\<exists>c'. find_command (execute_all cid es st) cid = Some c'
    \<and> pc_attempts c' = pc_attempts c + int (length es) \<and> (es \<noteq> [] \<longrightarrow> pc_status c' = CmdProcessing)"
  using assms
proof (induction es arbitrary: st c)
  case Nil
  then show ?case by (auto simp: execute_all_def ready_command_def)
next
  case (Cons env es)
  obtain cl st1 c1 where claim: "claim_command env cid st = Some (cl, st1)" "claim_for c cl"
    and c1: "ready_command st1 cid c1 limit" "same_command c c1" "pc_status c1 = CmdProcessing"
      "pc_attempts c1 = pc_attempts c + 1" "pc_lease c1 = Some (worker_now env + 60)"
    using claim_ready[OF Cons.prems(1)] Cons.prems(2) by (metis list.sel(1))
  have "snd (execute_command env cid st) = st1"
    using claim Cons.prems(4) by (auto simp: execute_command_def settle_claim_def)
  then have run: "execute_all cid (env # es) st = execute_all cid es st1" by (simp add: execute_all_def)
  show ?case
  proof (cases "es = []")
    case True
    moreover have "find_command st1 cid = Some c1" using c1(1) by (simp add: ready_command_def)
    ultimately show ?thesis unfolding run using c1(3,4) by (simp add: execute_all_def)
  next
    case False
    have "command_due (worker_now (hd es)) c1"
      using Cons.prems(3) False c1(3,5) by (cases es) (auto simp: command_due_def)
    moreover have "successively (\<lambda>e e'. worker_now e + 60 \<le> worker_now e') es"
      using Cons.prems(3) by (cases es) auto
    moreover have "claim_for c1 = claim_for c" using c1(2) by (auto simp: claim_for_def same_command_def fun_eq_iff)
    ultimately show ?thesis unfolding run using Cons.IH[OF c1(1)] Cons.prems(4) False c1(4) by auto
  qed
qed

end
