(* ===== verification/Billing_Retry_Laws.thy ===== *)
theory Billing_Retry_Laws
  imports Billing_Worker_Laws Billing_Once
begin

text \<open>
  The retry of paid orders that are not applied: an activation that returns takes its order out of
  the queue, and one that raises keeps it at the head, before everything that comes later.
\<close>

section \<open>An activation that returns\<close>

text \<open>The order is not to be retried now: it waits for nothing, or for a later start.\<close>

definition out_of_queue :: "int \<Rightarrow> ident \<Rightarrow> billing_db \<Rightarrow> bool" where
  "out_of_queue now oid db \<longleftrightarrow>
     (\<forall>r \<in> set (bl_orders db). bo_id r = oid \<longrightarrow> bo_activation r \<noteq> ActPending \<and> bo_activation r \<noteq> ActRetry)
     \<or> now < retry_from db oid"

lemma out_of_queue_not_due:
  "out_of_queue now oid db \<Longrightarrow> r \<in> set (bl_orders db) \<Longrightarrow> bo_id r = oid \<Longrightarrow> \<not> retry_due db now r"
  by (auto simp: out_of_queue_def retry_due_def)

lemma out_of_queue_silent: "silent env db db' \<Longrightarrow> out_of_queue now oid db \<Longrightarrow> out_of_queue now oid db'"
  using silent_frame[of env db db'] by (simp add: out_of_queue_def retry_from_def find_activation_def)

lemma in_update_where: "r \<in> set (update_where p f t) \<Longrightarrow> \<exists>s \<in> set t. r = (if p s then f s else s)"
  by (auto simp: update_where_def)

lemma out_of_queue_set:
  assumes "a \<noteq> ActPending" and "a \<noteq> ActRetry"
  shows "out_of_queue now oid (set_order oid (\<lambda>r. r\<lparr>bo_activation := a\<rparr>) db)"
proof -
  define f :: "order_row \<Rightarrow> order_row" where "f = (\<lambda>r. r\<lparr>bo_activation := a\<rparr>)"
  define g :: "order_row \<Rightarrow> order_row" where "g = (\<lambda>r. (f r)\<lparr>bo_revision := bo_revision r + 1\<rparr>)"
  have g: "bo_activation (g r) = a" for r by (simp add: g_def f_def)
  have "bl_orders (set_order oid f db) = update_where (\<lambda>r. bo_id r = oid) g (bl_orders db)"
    by (simp add: set_order_def g_def)
  then have "bo_activation r = a" if "r \<in> set (bl_orders (set_order oid f db))" "bo_id r = oid" for r
    using in_update_where[of r "\<lambda>r. bo_id r = oid" g] that g by (metis (mono_tags, lifting))
  then have "out_of_queue now oid (set_order oid f db)" using assms by (simp add: out_of_queue_def)
  then show ?thesis unfolding f_def .
qed

abbreviation leaves :: "billing_env \<Rightarrow> order_row \<Rightarrow> activation_outcome \<times> billing_db \<Rightarrow> bool" where
  "leaves env ord \<equiv> (\<lambda>(out, db'). out_of_queue (billing_now env) (bo_id ord) db')"

named_theorems leave_intros

lemma leave_review [leave_intros]: "yields (mark_review env ord reason ev db) (leaves env ord)"
proof (rule yieldsI)
  fix x assume run: "mark_review env ord reason ev db = Inr x"
  obtain out db' where x: "x = (out, db')" by force
  obtain db1 where "db' = set_order (bo_id ord) (\<lambda>r. r\<lparr>bo_activation := ActReview\<rparr>) db1"
    using mark_review_Inr[OF run[unfolded x]] by blast
  then show "leaves env ord x" by (simp add: x out_of_queue_set)
qed

lemma leave_applied [leave_intros]: "yields (mark_applied env ord before after db) (leaves env ord)"
proof (rule yieldsI)
  fix x assume run: "mark_applied env ord before after db = Inr x"
  obtain out db' where x: "x = (out, db')" by force
  obtain db1 db2 where db2: "db2 = set_order (bo_id ord) (\<lambda>r. r\<lparr>bo_activation := ActApplied\<rparr>) db1"
    and rest: "(case verified_payments db2 (bo_id ord) of
       [] \<Rightarrow> Inr (OutApplied, db2)
     | p # _ \<Rightarrow> res_bind (request_invoice_if_due env ord (py_id p) True db2) (\<lambda>db3. Inr (OutApplied, db3))) = Inr (out, db')"
    using run unfolding x mark_applied_def Let_def res_bind_eq_Inr by force
  have "silent env db2 db'"
    using rest by (auto simp: res_simps split: list.splits intro: silent_request_invoice)
  moreover have "out_of_queue (billing_now env) (bo_id ord) db2" by (simp add: db2 out_of_queue_set)
  ultimately show "leaves env ord x" using out_of_queue_silent by (simp add: x)
qed

lemma leave_schedule [leave_intros]:
  assumes "billing_now env < starts"
  shows "yields (schedule_renewal env ord cur item starts expires revision q db) (leaves env ord)"
proof (rule yieldsI)
  fix x assume run: "schedule_renewal env ord cur item starts expires revision q db = Inr x"
  then obtain row f db1 where 1: "upsert_activation env row f db = Inr db1" "av_order row = bo_id ord"
      "\<And>a. av_order (f a) = av_order a" "\<And>a. \<exists>y z w. av_after (f a) = AfterScheduled starts expires y z w"
      "\<And>i. \<exists>y z w. av_after (row\<lparr>av_id := i\<rparr>) = AfterScheduled starts expires y z w"
    and x: "snd x = set_order (bo_id ord) (\<lambda>r. r\<lparr>bo_activation := ActPending\<rparr>) db1"
    unfolding schedule_renewal_def Let_def res_bind_eq_Inr by force
  obtain a where "find_activation db1 (bo_id ord) = Some a" "\<exists>y z w. av_after a = AfterScheduled starts expires y z w"
    using upsert_found[OF 1(1,3), of "\<lambda>a. \<exists>y z w. av_after a = AfterScheduled starts expires y z w"] 1(2,4,5) by auto
  then have "retry_from (snd x) (bo_id ord) = starts"
    by (auto simp: retry_from_def find_activation_def x)
  then show "leaves env ord x" using assms by (cases x) (simp add: out_of_queue_def)
qed

lemma leave_term [leave_intros]:
  "yields (apply_term env ord item plan package benefits ow cur t0 t1 sched db) (leaves env ord)"
  unfolding apply_term_def
proof (intro yields_intros)
  fix db2 p out db3
  assume mark: "mark_applied env ord cur (AfterTerm t0 t1 (bi_plan item)) db2 = Inr p" "p = (out, db3)"
  have left: "out_of_queue (billing_now env) (bo_id ord) db3"
    using yieldsD[OF leave_applied mark(1)] mark(2) by simp
  then show "yields (Inr (out, db3)) (leaves env ord)" by (simp add: yields_Inr)
  fix db4 db5
  assume "insert_outbox env ''billing.activation_applied'' (bo_id ord)
       (PDict [(''publicId'', PStr (bo_public ord)), (''startsAt'', PInt t0), (''expiresAt'', PInt t1)]) db3 = Inr db4"
    "log_audit env ''billing.activation_applied'' (bo_actor ord) (bo_org ord) (bo_id ord)
       [(''startsAt'', PInt t0), (''expiresAt'', PInt t1)] db4 = Inr db5"
  then have "silent env db3 db5" by (rule silent_trans[OF silent_insert_outbox silent_log_audit])
  then show "yields (Inr (out, db5)) (leaves env ord)" using left out_of_queue_silent by (simp add: yields_Inr)
qed

lemma leave_pack [leave_intros]: "yields (apply_credit_pack env ord item benefits db) (leaves env ord)"
  unfolding apply_credit_pack_def Let_def by (intro yields_intros leave_intros)

lemma leave_renew [leave_intros]:
  "yields (renew_term env ord item plan package benefits policy ow days cur db) (leaves env ord)"
  unfolding renew_term_def Let_def by (intro yields_intros leave_intros) assumption+

text \<open>A scheduled term that has started is not waited for any more.\<close>

lemma leave_base_plan [leave_intros]:
  assumes "\<And>starts expires x y a. waiting = Some (starts, expires, x, y, a) \<Longrightarrow> starts \<le> billing_now env"
  shows "yields (apply_base_plan env ord item benefits cur waiting db) (leaves env ord)"
  unfolding apply_base_plan_def Let_def
  by (intro yields_intros leave_intros) (auto dest: assms intro: yields_intros leave_intros)

lemma scheduled_term_from:
  "scheduled_term (find_activation db oid) = Some (starts, expires, x, y, a) \<Longrightarrow> retry_from db oid = starts"
  by (auto simp: scheduled_term_def retry_from_def split: option.splits activation_state.splits after_state.splits)

lemma leave_item:
  assumes "retry_from db (bo_id ord) \<le> billing_now env"
  shows "yields (activate_item env ord (find_activation db (bo_id ord)) item db) (leaves env ord)"
proof -
  have from_now: "\<And>starts expires x y a. scheduled_term (find_activation db (bo_id ord)) = Some (starts, expires, x, y, a)
      \<Longrightarrow> starts \<le> billing_now env"
    using scheduled_term_from assms by auto
  show ?thesis unfolding activate_item_def Let_def
    by (intro yields_intros leave_intros) (fastforce dest: from_now)+
qed

lemma sort_key_first: "sort_key k xs = x # rest \<Longrightarrow> x \<in> set xs \<and> (\<forall>y \<in> set xs. k x \<le> k y)"
  by (metis list.set_intros(1) order_refl set_ConsD set_sort sorted_simps(2) sorted_sort_key list.simps(9) imageI list.set_map)

abbreviation retry_key :: "(billing_db \<Rightarrow> ident \<Rightarrow> string) \<Rightarrow> billing_db \<Rightarrow> order_row \<Rightarrow> int \<times> string \<times> ident" where
  "retry_key updated db \<equiv> (\<lambda>r. (retry_from db (bo_id r), updated db (bo_id r), bo_id r))"

lemma next_paid_first:
  assumes "next_paid_not_applied updated db now = Some oid"
  obtains r where "r \<in> set (bl_orders db)" and "retry_due db now r" and "bo_id r = oid"
    and "\<And>s. s \<in> set (bl_orders db) \<Longrightarrow> retry_due db now s \<Longrightarrow> retry_key updated db r \<le> retry_key updated db s"
proof -
  define k where "k = retry_key updated db"
  define xs where "xs = filter (retry_due db now) (bl_orders db)"
  have "(case sort_key k xs of [] \<Rightarrow> None | r # _ \<Rightarrow> Some (bo_id r)) = Some oid"
    using assms unfolding next_paid_not_applied_def k_def xs_def .
  then obtain r rest where r: "sort_key k xs = r # rest" "bo_id r = oid" by (cases "sort_key k xs") simp_all
  have "r \<in> set xs" "\<forall>s \<in> set xs. k r \<le> k s" using sort_key_first[OF r(1)] by blast+
  then have "r \<in> set (bl_orders db)" "retry_due db now r"
    and "\<And>s. s \<in> set (bl_orders db) \<Longrightarrow> retry_due db now s \<Longrightarrow> k r \<le> k s"
    by (simp_all add: xs_def)
  then show ?thesis unfolding k_def by (rule that[OF _ _ r(2)])
qed


section \<open>An activation that raises\<close>

lemma sort_key_head:
  assumes "x \<in> set xs" and "\<And>y. y \<in> set xs \<Longrightarrow> k x \<le> k y" and "inj_on k (set xs)"
  shows "\<exists>rest. sort_key k xs = x # rest"
proof -
  have "set (sort_key k xs) = set xs" by simp
  then obtain y rest where y: "sort_key k xs = y # rest" "x \<in> set (y # rest)"
    using assms(1) by (cases "sort_key k xs") auto
  have "sorted (map k (y # rest))" by (metis sorted_sort_key y(1))
  then have "k y \<le> k x" using y(2) by auto
  moreover have "y \<in> set xs" by (metis list.set_intros(1) set_sort y(1))
  ultimately have "y = x" using assms by (metis inj_onD order_antisym)
  with y(1) show ?thesis by blast
qed

lemma head_stays:
  assumes "next_paid_not_applied updated db now = Some oid" and "now \<le> now'" and "distinct (map bo_id (bl_orders db))"
  shows "next_paid_not_applied updated db now' = Some oid"
proof -
  define k where "k = retry_key updated db"
  define xs where "xs = filter (retry_due db now') (bl_orders db)"
  obtain r where mem: "r \<in> set (bl_orders db)" "retry_due db now r" and r: "bo_id r = oid"
    and least: "\<And>s. s \<in> set (bl_orders db) \<Longrightarrow> retry_due db now s \<Longrightarrow> k r \<le> k s"
    unfolding k_def by (rule next_paid_first[OF assms(1)]) blast
  have "k r \<le> k s" if "s \<in> set xs" for s
  proof (cases "retry_due db now s")
    case True
    then show ?thesis using least that by (simp add: xs_def)
  next
    case False
    then have "retry_from db (bo_id r) < retry_from db (bo_id s)"
      using that mem(2) by (simp add: retry_due_def xs_def) linarith
    then show ?thesis by (simp add: k_def less_eq_prod_def)
  qed
  moreover have "r \<in> set xs" using mem assms(2) by (simp add: retry_due_def xs_def)
  moreover have "inj_on k (set xs)" using assms(3) by (simp add: inj_on_def distinct_map k_def xs_def)
  ultimately obtain rest where "sort_key k xs = r # rest" using sort_key_head[of r xs k] by blast
  then show ?thesis using r unfolding next_paid_not_applied_def k_def xs_def by simp
qed

lemma raising_poll:
  assumes "next_paid_not_applied updated (wd_billing st) (worker_now env) = Some oid"
    and "wd_deliveries st = []" and "wd_commands st = []" and "wf_activation flags"
    and "activate_order (wk_billing env) (wd_billing st) oid = Inl e"
  shows "process_next env flags updated stamp st = (Inl (BillingFailure e), st)"
  using assms
  by (simp add: process_next_def claim_webhook_def next_delivery_def next_command_id_def retry_activation_def
    lift_billing_def keep_on_raise_def)


end
