(* ===== verification/Billing_Worker_Examples.thy ===== *)
theory Billing_Worker_Examples
  imports Billing_Queue_Laws Billing_Retry_Laws Billing_Examples
begin

text \<open>
  Polls of a worker over the order of \<open>Billing_Examples\<close>: the creation of its checkout, a webhook that
  pays it, and the retry of its activation; with the witnesses of the theorems on the worker.
\<close>

section \<open>Providers\<close>

definition refusing :: "worker_exn \<Rightarrow> provider" where
  "refusing e = \<lparr>get_payment = (\<lambda>_. Inl e), cancel_payment = (\<lambda>_ _. Inl e), create_payment = (\<lambda>_. Inl e)\<rparr>"

definition bw_busy :: worker_exn where
  "bw_busy = ProviderError \<lparr>pe_code = ''BUSY'', pe_unknown = False, pe_retryable = True\<rparr>"

definition bw_paying :: provider where
  "bw_paying = (refusing bw_busy)\<lparr>get_payment := (\<lambda>_. Inr bx_answer)\<rparr>"

definition bw_worker :: "provider \<Rightarrow> int \<Rightarrow> worker_env" where
  "bw_worker p now = \<lparr>wk_billing = billing_at bx_env now ''t'', wk_id = ''w'', wk_resolve = (\<lambda>_. Inr p),
     wk_activation_setting = Some ''true'', wk_interval_setting = None\<rparr>"

definition bw_flags :: worker_flags where
  "bw_flags = \<lparr>wf_checkout = True, wf_activation = True, wf_enforcement = False\<rparr>"

definition bw_poll :: "provider \<Rightarrow> int \<Rightarrow> poll" where
  "bw_poll p now = (now, ''t'', bw_worker p now, bw_flags)"

section \<open>Tables\<close>

definition bw_create :: command_row where
  "bw_create = \<lparr>pc_id = ''c'', pc_order = ''o'', pc_type = CreateCheckout, pc_request = PDict [],
     pc_status = CmdPending, pc_attempts = 0, pc_available = 0, pc_lease = None, pc_locked_by = None,
     pc_error = None, pc_created = ''s''\<rparr>"

definition bw_profile :: profile_row where
  "bw_profile = \<lparr>pf_id = ''v'', pf_max_attempts = 2, pf_ttl = 900\<rparr>"

definition bw_tables :: "billing_db \<Rightarrow> worker_db" where
  "bw_tables db = \<lparr>wd_billing = db, wd_commands = [], wd_profiles = [bw_profile], wd_urls = [], wd_deliveries = []\<rparr>"

definition bw_queue :: worker_db where
  "bw_queue = (bw_tables bx_db)\<lparr>wd_commands := [bw_create]\<rparr>"

definition bw_mail :: worker_db where
  "bw_mail = (bw_tables bx_db)\<lparr>wd_deliveries := [\<lparr>dl_event = ''1'', dl_attempts = 0, dl_available = 0, dl_created = ''s''\<rparr>]\<rparr>"

definition bw_late :: worker_db where
  "bw_late = bw_tables (bx_db\<lparr>bl_orders := [bx_order\<lparr>bo_checkout_expires := Some 9\<rparr>]\<rparr>)"

definition bw_paid :: worker_db where
  "bw_paid = bw_tables (bx_db\<lparr>bl_orders := [bx_order\<lparr>bo_payment := VerifiedPaid, bo_activation := ActRetry\<rparr>],
     bl_payments := [bx_payment]\<rparr>)"

text \<open>The same with a credit pack whose expiry policy is no dictionary.\<close>

definition bw_broken :: worker_db where
  "bw_broken = on_billing (\<lambda>db. db\<lparr>bl_items := [bx_item\<lparr>bi_snapshot := PDict [(''itemType'', PStr ''procurement_credit_pack''),
     (''benefits'', PDict [(''procurementCredits'', PInt 3), (''expiryPolicy'', PStr ''2d'')])]\<rparr>]\<rparr>) bw_paid"

definition bw_updated :: "billing_db \<Rightarrow> ident \<Rightarrow> string" where
  "bw_updated = (\<lambda>_ _. ''s'')"

section \<open>Witnesses\<close>

lemma bw_mail_paid: "length (bl_payments (wd_billing (run_polls bx_env bw_updated [bw_poll bw_paying 10] bw_mail))) = 1"
  by code_simp

theorem worker_keeps_books_witness:
  "length (bl_payments (wd_billing (run_polls bx_env bw_updated [bw_poll bw_paying 10] bw_mail))) = 1
    \<and> billing_books bx_env (wd_billing (run_polls bx_env bw_updated [bw_poll bw_paying 10] bw_mail))
    \<and> paid_in_full (wd_billing (run_polls bx_env bw_updated [bw_poll bw_paying 10] bw_mail))"
  using worker_keeps_books[of bx_env bw_mail bw_updated "[bw_poll bw_paying 10]"] bx_db_books bx_db_paid bw_mail_paid
  by (simp add: bw_mail_def bw_tables_def)

lemma bw_late_expires: "map bo_checkout (bl_orders (wd_billing (run_polls bx_env bw_updated [bw_poll bw_paying 10] bw_late))) = [''expired'']"
  by code_simp

theorem checkout_only_closes_witness:
  "map bo_checkout (bl_orders (wd_billing (run_polls bx_env bw_updated [bw_poll bw_paying 10] bw_late))) = [''expired'']
    \<and> list_all2 checkout_order (bl_orders (wd_billing bw_late))
        (bl_orders (wd_billing (run_polls bx_env bw_updated [bw_poll bw_paying 10] bw_late)))"
  using checkout_only_closes[of bw_late bx_env bw_updated "[bw_poll bw_paying 10]"] bw_late_expires
  by (simp add: bw_late_def bw_tables_def)

lemma bw_ready: "ready_command bw_queue ''c'' bw_create 2"
  by code_simp

lemma bw_worker_now: "worker_now (bw_worker p now) = now"
  by (simp add: worker_now_def bw_worker_def billing_now_def billing_at_def)

lemma bw_refuses: "payment_errors_only (bw_worker (refusing bw_busy) now) bw_create"
  by (auto simp: payment_errors_only_def answer_claim_def bw_worker_def claim_for_def bw_create_def ask_provider_def
    refusing_def bw_busy_def)


lemma bw_claimed:
  "\<exists>cl st st1. claim_command (bw_worker bw_paying 10) ''c'' bw_queue = Some (cl, st)
    \<and> settle_claim (bw_worker bw_paying 10) cl (Inl bw_busy) st = (None, st1) \<and> \<not> holds_lease st1 cl \<and> holds_lease st cl"
proof -
  have "(case claim_command (bw_worker bw_paying 10) ''c'' bw_queue of None \<Rightarrow> False
    | Some (cl, st) \<Rightarrow> holds_lease st cl \<and> (case settle_claim (bw_worker bw_paying 10) cl (Inl bw_busy) st of
        (e, st1) \<Rightarrow> e = None \<and> \<not> holds_lease st1 cl))" by code_simp
  then show ?thesis by (auto split: option.splits prod.splits)
qed

theorem late_answers_are_fenced_witness:
  "\<exists>cl st st1. claim_command (bw_worker bw_paying 10) ''c'' bw_queue = Some (cl, st) \<and> holds_lease st cl
    \<and> settle_claim (bw_worker bw_paying 10) cl (Inl bw_busy) st = (None, st1)
    \<and> snd (settle_claim (bw_worker bw_paying 20) cl (Inr bx_answer) st1) = st1"
proof -
  obtain cl st st1 where 1: "claim_command (bw_worker bw_paying 10) ''c'' bw_queue = Some (cl, st)"
    "settle_claim (bw_worker bw_paying 10) cl (Inl bw_busy) st = (None, st1)" "holds_lease st cl" using bw_claimed by blast
  have "snd (settle_claim (bw_worker bw_paying 20) cl (Inr bx_answer) st1) = st1"
    by (rule late_answers_are_fenced[of cl "{cl}" "bw_worker bw_paying 10" "Inl bw_busy" st st1 st1 "{cl}"]) (simp_all add: 1(2))
  with 1 show ?thesis by blast
qed

lemma bw_paid_head: "next_paid_not_applied bw_updated (wd_billing bw_paid) 10 = Some ''o''"
  by code_simp

lemma bw_paid_retried: "fst (retry_activation (bw_worker bw_paying 10) ''o'' bw_paid) = None"
  by code_simp


lemma bw_broken_head: "next_paid_not_applied bw_updated (wd_billing bw_broken) 10 = Some ''o''"
  by code_simp

lemma bw_broken_raises:
  "activate_order (billing_at bx_env 10 ''t'') (wd_billing bw_broken) ''o'' = Inl (BillingException AttributeError)"
  "activate_order (billing_at bx_env 20 ''t'') (wd_billing bw_broken) ''o'' = Inl (BillingException AttributeError)"
  by code_simp+


end
