(* ===== verification/Billing_Desk.thy ===== *)
theory Billing_Desk
  imports Billing_Worker
begin

text \<open>
  What a buyer or an administrator asks of a placed order: \<open>get_order_for_actor\<close>, \<open>request_cancel\<close> and
  \<open>create_manual_refund_intent\<close> of \<open>src/backend/billing/service.py\<close>.
\<close>

section \<open>Rows\<close>

datatype intent_state = RfPending | RfSucceeded | RfFailed | RfCancelled

record refund_row =
  rf_id :: ident
  rf_order :: ident
  rf_key :: string
  rf_amount :: int
  rf_reason :: string
  rf_actor :: ident
  rf_state :: intent_state
  rf_revision :: int

text \<open>The members of organizations with their status, and the owners of organizations.\<close>

record desk =
  dk_tables :: worker_db
  dk_refunds :: "refund_row list"
  dk_org_owners :: "(ident \<times> ident) list"
  dk_members :: "(ident \<times> ident \<times> string option) list"

record desk_actor =
  da_user :: ident
  da_organization :: ident
  da_role :: "string option"
  da_platform :: "string option"

datatype desk_error = PolicyError string int | DeskFailure billing_error

definition lift_desk :: "billing_error + 'a \<Rightarrow> desk_error + 'a" where
  "lift_desk m = (case m of Inl e \<Rightarrow> Inl (DeskFailure e) | Inr x \<Rightarrow> Inr x)"

lemma lift_desk_eq_Inr [res_simps]: "lift_desk m = Inr x \<longleftrightarrow> m = Inr x"
  by (cases m) (auto simp: lift_desk_def)

abbreviation dk_billing :: "desk \<Rightarrow> billing_db" where
  "dk_billing d \<equiv> wd_billing (dk_tables d)"

definition on_desk :: "(billing_db \<Rightarrow> billing_db) \<Rightarrow> desk \<Rightarrow> desk" where
  "on_desk f d = d\<lparr>dk_tables := on_billing f (dk_tables d)\<rparr>"

section \<open>Who sees an order\<close>

text \<open>Only the workspace the session selected counts; a role is not a grant.\<close>

definition order_actor_scope :: "desk_actor \<Rightarrow> (owner_kind \<times> ident) option" where
  "order_actor_scope a =
     (if da_organization a \<noteq> [] then
        (if da_role a \<in> {Some ''employee'', Some ''manager'', Some ''super_admin''}
         then Some (OwnerOrganization, da_organization a) else None)
      else Some (OwnerAccount, da_user a))"

definition lock_order_owner :: "desk \<Rightarrow> desk_actor \<Rightarrow> bool" where
  "lock_order_owner d a \<longleftrightarrow>
     (case order_actor_scope a of None \<Rightarrow> False | Some owner \<Rightarrow> map_of (bl_owner_status (dk_billing d)) owner \<noteq> None)"

definition active_desk_member :: "desk \<Rightarrow> ident \<Rightarrow> ident \<Rightarrow> bool" where
  "active_desk_member d org user \<longleftrightarrow>
     list_ex (\<lambda>(o', u, s). o' = org \<and> u = user \<and> (s = None \<or> s = Some ''active'')) (dk_members d)"

definition order_visible :: "desk \<Rightarrow> desk_actor \<Rightarrow> order_row \<Rightarrow> bool" where
  "order_visible d a r \<longleftrightarrow>
     (case order_actor_scope a of
        None \<Rightarrow> False
      | Some (OwnerOrganization, org) \<Rightarrow>
          bo_kind r = OwnerOrganization \<and> bo_org r = Some org \<and> bo_account r = None
          \<and> map_of (bl_owner_status (dk_billing d)) (OwnerOrganization, org) = Some ''active''
          \<and> (da_platform a = Some ''super_admin''
             \<or> (bo_actor r = da_user a \<or> map_of (dk_org_owners d) org = Some (da_user a)) \<and> active_desk_member d org (da_user a))
      | Some (OwnerAccount, user) \<Rightarrow> bo_kind r = OwnerAccount \<and> bo_account r = Some user \<and> bo_org r = None)"

definition get_order_for_actor :: "desk \<Rightarrow> ident \<Rightarrow> desk_actor \<Rightarrow> order_row option" where
  "get_order_for_actor d public_id a =
     List.find (\<lambda>r. bo_public r = public_id \<and> order_visible d a r) (bl_orders (dk_billing d))"

section \<open>Cancelling a checkout\<close>

text \<open>The reason that is given when there is none, in UTF-8\<close>

definition default_cancel_reason :: string where
  "default_cancel_reason = ''Ng'' @ [CHR 0xC6, CHR 0xB0, CHR 0xE1, CHR 0xBB, CHR 0x9D] @ ''i mua h''
     @ [CHR 0xE1, CHR 0xBB, CHR 0xA7] @ ''y checkout''"

definition not_cancellable :: desk_error where
  "not_cancellable = PolicyError ''TRANSITION_NOT_ALLOWED'' 409"

definition cancel_command :: "billing_env \<Rightarrow> string \<Rightarrow> ident \<Rightarrow> order_row \<Rightarrow> pval \<Rightarrow> command_row" where
  "cancel_command env stamp i ord reason =
     \<lparr>pc_id = i, pc_order = bo_id ord, pc_type = CancelCheckout,
      pc_request = PDict [(''identifier'', PInt (bo_code ord)),
        (''reason'', PStr (py_prefix 500 (py_str (py_or reason (PStr default_cancel_reason)))))],
      pc_status = CmdPending, pc_attempts = 0, pc_available = billing_now env, pc_lease = None, pc_locked_by = None,
      pc_error = None, pc_created = stamp\<rparr>"

text \<open>A dead cancellation is asked for again with the attempts it had.\<close>

definition revive_command :: "billing_env \<Rightarrow> command_row \<Rightarrow> command_row" where
  "revive_command env c = (if pc_status c = CmdDead
     then c\<lparr>pc_status := CmdPending, pc_available := billing_now env, pc_lease := None, pc_locked_by := None, pc_error := None\<rparr>
     else c)"

definition request_cancel ::
    "billing_env \<Rightarrow> string \<Rightarrow> desk \<Rightarrow> ident \<Rightarrow> desk_actor \<Rightarrow> pval
      \<Rightarrow> desk_error + ((order_row \<times> ident \<times> bool) option \<times> desk)" where
  "request_cancel env stamp d public_id a reason =
     (if \<not> lock_order_owner d a then Inr (None, d)
      else case get_order_for_actor d public_id a of
        None \<Rightarrow> Inr (None, d)
      | Some ord \<Rightarrow>
          if bo_payment ord \<noteq> Unverified then Inl not_cancellable
          else case List.find (\<lambda>c. pc_order c = bo_id ord \<and> pc_type c = CancelCheckout) (wd_commands (dk_tables d)) of
            Some c \<Rightarrow>
              Inr (Some (ord, pc_id c, True),
                if pc_status c = CmdDead \<and> bo_checkout ord \<in> {''creating'', ''open''}
                then d\<lparr>dk_tables := set_command (pc_id c) (revive_command env) (dk_tables d)\<rparr> else d)
          | None \<Rightarrow>
              if bo_checkout ord \<notin> {''creating'', ''open''} then Inl not_cancellable
              else
                let (i, b) = billing_new_id env ''billing-command'' (dk_billing d) in
                if i \<in> pc_id ` set (wd_commands (dk_tables d)) then Inl (DeskFailure BillingIntegrity)
                else
                  res_bind (lift_desk (insert_outbox env ''billing.checkout_cancel_requested'' (bo_id ord)
                    (PDict [(''publicId'', PStr (bo_public ord)), (''commandId'', PStr i)]) b)) (\<lambda>b'.
                  Inr (Some (ord, i, False), d\<lparr>dk_tables := (dk_tables d)\<lparr>wd_billing := b',
                    wd_commands := wd_commands (dk_tables d) @ [cancel_command env stamp i ord reason]\<rparr>\<rparr>)))"

section \<open>Refunds\<close>

definition refund_forbidden :: "order_row \<Rightarrow> bool" where
  "refund_forbidden ord \<longleftrightarrow> dget (dget (dget (bo_decision ord) ''policySnapshot'') ''refund'') ''kind'' = PStr ''no_refunds''"

definition paid_amount :: "billing_db \<Rightarrow> ident \<Rightarrow> int" where
  "paid_amount db oid = sum_list (map py_amount
     (filter (\<lambda>p. py_order p = oid \<and> (py_status p = PayVerified \<or> py_status p = PaySettled)) (bl_payments db)))"

definition refunded_amount :: "refund_row list \<Rightarrow> ident \<Rightarrow> int" where
  "refunded_amount rs oid = sum_list (map rf_amount
     (filter (\<lambda>r. rf_order r = oid \<and> (rf_state r = RfPending \<or> rf_state r = RfSucceeded)) rs))"

definition amount_invalid :: "int \<Rightarrow> desk_error" where
  "amount_invalid status = PolicyError ''REFUND_AMOUNT_INVALID'' status"

definition trim_len :: "string \<Rightarrow> int" where
  "trim_len s = py_len (rev (dropWhile (\<lambda>c. c = CHR '' '') (rev (dropWhile (\<lambda>c. c = CHR '' '') s))))"

text \<open>The checks of the table on a new row\<close>

definition intent_checks :: "refund_row \<Rightarrow> bool" where
  "intent_checks r \<longleftrightarrow> 3 \<le> trim_len (rf_reason r) \<and> trim_len (rf_reason r) \<le> 2000 \<and> 0 < rf_revision r"

definition add_refund :: "billing_env \<Rightarrow> order_row \<Rightarrow> ident \<Rightarrow> int \<Rightarrow> string \<Rightarrow> string \<Rightarrow> desk
    \<Rightarrow> desk_error + ((refund_row \<times> bool) option \<times> desk)" where
  "add_refund env ord actor n text k d =
     (let (i, b) = billing_new_id env ''refund-intent'' (dk_billing d);
          row = \<lparr>rf_id = i, rf_order = bo_id ord, rf_key = k, rf_amount = n, rf_reason = text, rf_actor = actor,
            rf_state = RfPending, rf_revision = bo_revision ord\<rparr>
      in if i \<in> rf_id ` set (dk_refunds d) \<or> \<not> intent_checks row then Inl (DeskFailure BillingIntegrity)
         else Inr (Some (row, False),
           (on_desk (\<lambda>_. b\<lparr>bl_pending_refunds := bl_pending_refunds b @ [bo_id ord]\<rparr>) d)\<lparr>dk_refunds := dk_refunds d @ [row]\<rparr>))"

definition create_manual_refund_intent ::
    "billing_env \<Rightarrow> desk \<Rightarrow> ident \<Rightarrow> ident \<Rightarrow> pval \<Rightarrow> pval \<Rightarrow> pval
      \<Rightarrow> desk_error + ((refund_row \<times> bool) option \<times> desk)" where
  "create_manual_refund_intent env d public_id actor amount reason idempotency_key =
     (case List.find (\<lambda>r. bo_public r = public_id) (bl_orders (dk_billing d)) of
        None \<Rightarrow> Inr (None, d)
      | Some ord \<Rightarrow>
          (case py_int amount of
             Inl _ \<Rightarrow> Inl (amount_invalid 400)
           | Inr n \<Rightarrow>
               let k = py_strip (str_or_empty idempotency_key); text = py_prefix 2000 (str_or_empty reason) in
               if n \<le> 0 then Inl (amount_invalid 400)
               else if py_len k < 8 \<or> 128 < py_len k then Inl (PolicyError ''INVALID_IDEMPOTENCY_KEY'' 400)
               else case List.find (\<lambda>r. rf_order r = bo_id ord \<and> rf_key r = k) (dk_refunds d) of
                 Some r \<Rightarrow>
                   if rf_amount r \<noteq> n \<or> rf_reason r \<noteq> text \<or> rf_actor r \<noteq> actor
                   then Inl (PolicyError ''IDEMPOTENCY_KEY_REUSED'' 409) else Inr (Some (r, True), d)
               | None \<Rightarrow>
                   if refund_forbidden ord then Inl (PolicyError ''REFUND_DISABLED_BY_POLICY'' 409)
                   else if bo_payment ord \<noteq> VerifiedPaid \<and> bo_payment ord \<noteq> PartiallyRefunded
                   then Inl (PolicyError ''PAYMENT_NOT_REFUNDABLE'' 409)
                   else if paid_amount (dk_billing d) (bo_id ord) < refunded_amount (dk_refunds d) (bo_id ord) + n
                   then Inl (amount_invalid 409)
                   else add_refund env ord actor n text k d))"

end
