(* ===== verification/Billing_Desk_Laws.thy ===== *)
theory Billing_Desk_Laws
  imports Billing_Desk Billing_Worker_Laws
begin

text \<open>
  Refunds and cancellations among the polls of the workers: what is refunded of an order never
  exceeds what was paid for it, and a refund that was asked for twice is recorded once.
\<close>

section \<open>Payments only grow\<close>

definition totals_ok :: "billing_db \<Rightarrow> bool" where
  "totals_ok db \<longleftrightarrow> list_all (\<lambda>r. 0 \<le> bo_total r) (bl_orders db)"

definition payments_added :: "billing_db \<Rightarrow> billing_db \<Rightarrow> bool" where
  "payments_added db db' \<longleftrightarrow> (\<exists>ps. bl_payments db' = bl_payments db @ ps \<and> list_all (\<lambda>p. 0 \<le> py_amount p) ps)"

lemma payments_added_same: "bl_payments db' = bl_payments db \<Longrightarrow> payments_added db db'"
  by (simp add: payments_added_def)

lemma payments_added_trans: "payments_added a b \<Longrightarrow> payments_added b c \<Longrightarrow> payments_added a c"
  by (auto simp: payments_added_def)

lemma write_payments_added:
  assumes "billing_write env ord a b" and "0 \<le> bo_total ord"
  shows "payments_added a b"
  using assms
proof (induction rule: billing_write.induct)
  case (write_quiet db db')
  then show ?case using quiet_write_frame[of env db db'] by (intro payments_added_same) simp
next
  case (write_term db db')
  then show ?case using order_term_frame[of ord db db'] by (intro payments_added_same) fastforce
next
  case (write_grant item source db db')
  then show ?case using order_grant_frame[of env ord item source db db'] by (intro payments_added_same) fastforce
qed (simp_all add: payments_added_def full_payment_def)

lemma step_payments:
  assumes run: "billing_step env c db = Inr (res, db')" and "totals_ok db"
  shows "payments_added db db'"
proof (rule step_invariant[OF run, where P = "payments_added db"])
  show "payments_added db db" by (simp add: payments_added_same)
  show "payments_added db b" if "quiet_write env a b" "payments_added db a" for a b
    using that payments_added_trans payments_added_same quiet_write_frame by metis
  show "payments_added db b" if "ord \<in> set (bl_orders db)" "billing_write env ord a b" "payments_added db a" for ord a b
    using that assms(2) write_payments_added payments_added_trans by (auto simp: totals_ok_def list_all_iff)
qed

lemma worker_write_payments:
  assumes "worker_write env a b" and "totals_ok a"
  shows "payments_added a b"
  using assms
proof (induction rule: worker_write.induct)
  case called
  then show ?case by (rule step_payments)
qed (simp_all add: payments_added_def set_progress_def set_order_def)

lemma checkout_order_total: "checkout_order r r' \<Longrightarrow> bo_total r' = bo_total r \<and> bo_public r' = bo_public r \<and> bo_id r' = bo_id r"
  by (cases r, cases r') (simp add: checkout_order_def ordered_def order_terms_def)

lemma totals_kept: "list_all2 checkout_order t u \<Longrightarrow> list_all (\<lambda>r. 0 \<le> bo_total r) t \<Longrightarrow> list_all (\<lambda>r. 0 \<le> bo_total r) u"
  by (induction rule: list_all2_induct) (auto dest: checkout_order_total)

lemma worker_writes_payments:
  assumes "worker_writes env a b" and "totals_ok a" and "distinct (map bo_id (bl_orders a))"
  shows "payments_added a b"
  using assms(1)
proof (induction rule: rtranclp_induct)
  case (step b c)
  have orders: "list_all2 checkout_order (bl_orders a) (bl_orders b)" by (rule worker_writes_orders[OF step.hyps(1) assms(3)])
  have "totals_ok b" using totals_kept[OF orders] assms(2) by (simp add: totals_ok_def)
  from payments_added_trans[OF step.IH worker_write_payments[OF step.hyps(2) this]] show ?case .
qed (simp add: payments_added_same)

section \<open>Histories\<close>

datatype desk_move =
  CancelMove int string ident desk_actor pval
| RefundMove int string ident ident pval pval pval
| PollMove poll

text \<open>An error rolls the request back.\<close>

fun desk_step :: "billing_env \<Rightarrow> (billing_db \<Rightarrow> ident \<Rightarrow> string) \<Rightarrow> desk_move \<Rightarrow> desk \<Rightarrow> desk" where
  "desk_step env updated (CancelMove now stamp public_id a reason) d =
     (case request_cancel (billing_at env now stamp) stamp d public_id a reason of Inl _ \<Rightarrow> d | Inr (_, d') \<Rightarrow> d')"
| "desk_step env updated (RefundMove now stamp public_id actor amount reason key) d =
     (case create_manual_refund_intent (billing_at env now stamp) d public_id actor amount reason key of
        Inl _ \<Rightarrow> d | Inr (_, d') \<Rightarrow> d')"
| "desk_step env updated (PollMove p) d = d\<lparr>dk_tables := polled env updated p (dk_tables d)\<rparr>"

definition run_desk :: "billing_env \<Rightarrow> (billing_db \<Rightarrow> ident \<Rightarrow> string) \<Rightarrow> desk_move list \<Rightarrow> desk \<Rightarrow> desk" where
  "run_desk env updated = fold (desk_step env updated)"

text \<open>What a move of the desk leaves of the payments and orders, and what it adds to the refunds.\<close>

lemma new_id_tables: "billing_new_id env s db = (i, db') \<Longrightarrow> bl_payments db' = bl_payments db \<and> bl_orders db' = bl_orders db"
  by (auto simp: billing_new_id_def usage_new_id_def)

lemma outbox_tables: "insert_outbox env t a v db = Inr db' \<Longrightarrow> bl_payments db' = bl_payments db \<and> bl_orders db' = bl_orders db"
  by (auto simp: insert_outbox_def res_simps Let_def dest: new_id_tables split: prod.splits if_splits)

lemma cancel_frame:
  assumes "request_cancel env stamp d public_id a reason = Inr (r, d')"
  shows "bl_payments (dk_billing d') = bl_payments (dk_billing d) \<and> bl_orders (dk_billing d') = bl_orders (dk_billing d)
    \<and> dk_refunds d' = dk_refunds d"
proof -
  obtain i b where new: "billing_new_id env ''billing-command'' (dk_billing d) = (i, b)" by force
  show ?thesis
    using assms new_id_tables[OF new] unfolding request_cancel_def new
    by (auto simp: res_simps Let_def split: if_splits option.splits dest!: outbox_tables)
qed

lemma refund_parts:
  assumes "create_manual_refund_intent env d public_id actor amount reason key = Inr (Some (row, replay), d')"
  obtains ord n where "List.find (\<lambda>r. bo_public r = public_id) (bl_orders (dk_billing d)) = Some ord" "py_int amount = Inr n" "0 < n"
    "8 \<le> py_len (py_strip (str_or_empty key))" "py_len (py_strip (str_or_empty key)) \<le> 128"
    "rf_order row = bo_id ord" "rf_key row = py_strip (str_or_empty key)" "rf_amount row = n"
    "rf_reason row = py_prefix 2000 (str_or_empty reason)" "rf_actor row = actor"
    "replay \<and> d' = d \<and> List.find (\<lambda>r. rf_order r = rf_order row \<and> rf_key r = rf_key row) (dk_refunds d) = Some row
     \<or> \<not> replay \<and> List.find (\<lambda>r. rf_order r = rf_order row \<and> rf_key r = rf_key row) (dk_refunds d) = None
       \<and> dk_refunds d' = dk_refunds d @ [row] \<and> refunded_amount (dk_refunds d) (bo_id ord) + n \<le> paid_amount (dk_billing d) (bo_id ord)"
    "bl_payments (dk_billing d') = bl_payments (dk_billing d)" "bl_orders (dk_billing d') = bl_orders (dk_billing d)"
proof -
  obtain ord where ord: "List.find (\<lambda>r. bo_public r = public_id) (bl_orders (dk_billing d)) = Some ord"
    using assms by (auto simp: create_manual_refund_intent_def split: option.splits)
  obtain n where n: "py_int amount = Inr n"
    using assms ord by (auto simp: create_manual_refund_intent_def split: sum.splits)
  define k where "k = py_strip (str_or_empty key)"
  define msg where "msg = py_prefix 2000 (str_or_empty reason)"
  obtain i b where new: "billing_new_id env ''refund-intent'' (dk_billing d) = (i, b)" by force
  note run = assms[unfolded create_manual_refund_intent_def ord option.case n sum.case Let_def k_def[symmetric] msg_def[symmetric]]
  show ?thesis
  proof (cases "List.find (\<lambda>r. rf_order r = bo_id ord \<and> rf_key r = k) (dk_refunds d)")
    case (Some r)
    then have "rf_order r = bo_id ord \<and> rf_key r = k" using find_Some_iff_mem by fastforce
    with Some show ?thesis using run
      by (intro that[OF ord n]) (auto simp: k_def[symmetric] msg_def[symmetric] split: if_splits)
  next
    case None
    define made where "made = \<lparr>rf_id = i, rf_order = bo_id ord, rf_key = k, rf_amount = n, rf_reason = msg, rf_actor = actor,
      rf_state = RfPending, rf_revision = bo_revision ord\<rparr>"
    define filed where "filed = (on_desk (\<lambda>_. b\<lparr>bl_pending_refunds := bl_pending_refunds b @ [bo_id ord]\<rparr>) d)\<lparr>dk_refunds := dk_refunds d @ [made]\<rparr>"
    have "row = made \<and> \<not> replay \<and> d' = filed \<and> 0 < n \<and> 8 \<le> py_len k \<and> py_len k \<le> 128
      \<and> refunded_amount (dk_refunds d) (bo_id ord) + n \<le> paid_amount (dk_billing d) (bo_id ord)"
      using run None unfolding add_refund_def new Let_def made_def[symmetric] by (auto simp: made_def[symmetric] filed_def split: if_splits)
    moreover have "bl_payments (dk_billing filed) = bl_payments (dk_billing d)" "bl_orders (dk_billing filed) = bl_orders (dk_billing d)"
        "dk_refunds filed = dk_refunds d @ [made]"
      using new_id_tables[OF new] by (simp_all add: filed_def on_desk_def on_billing_def)
    moreover have "rf_order made = bo_id ord" "rf_key made = k" "rf_amount made = n" "rf_reason made = msg" "rf_actor made = actor"
      by (simp_all add: made_def)
    ultimately show ?thesis using None by (intro that[OF ord n]) (simp_all add: k_def msg_def)
  qed
qed

lemma refund_none: "create_manual_refund_intent env d public_id actor amount reason key = Inr (None, d') \<Longrightarrow> d' = d"
  by (auto simp: create_manual_refund_intent_def add_refund_def Let_def split: option.splits sum.splits if_splits prod.splits)

section \<open>Refunds stay within what was paid\<close>

definition desk_ok :: "desk \<Rightarrow> bool" where
  "desk_ok d \<longleftrightarrow> totals_ok (dk_billing d) \<and> distinct (map bo_id (bl_orders (dk_billing d)))"

definition refunds_covered :: "desk \<Rightarrow> bool" where
  "refunds_covered d \<longleftrightarrow> (\<forall>oid. refunded_amount (dk_refunds d) oid \<le> paid_amount (dk_billing d) oid)"

lemma paid_grows: "payments_added db db' \<Longrightarrow> paid_amount db oid \<le> paid_amount db' oid"
proof -
  assume "payments_added db db'"
  then obtain ps where ps: "bl_payments db' = bl_payments db @ ps" "list_all (\<lambda>p. 0 \<le> py_amount p) ps"
    by (auto simp: payments_added_def)
  have "0 \<le> sum_list (map py_amount (filter P ps))" for P
    using ps(2) by (intro sum_list_nonneg) (auto simp: list_all_iff)
  then show ?thesis by (simp add: paid_amount_def ps(1))
qed

lemma polled_desk:
  assumes "desk_ok d"
  shows "payments_added (dk_billing d) (wd_billing (polled env updated p (dk_tables d)))"
    and "list_all2 checkout_order (bl_orders (dk_billing d)) (bl_orders (wd_billing (polled env updated p (dk_tables d))))"
proof -
  obtain now stamp worker flags where p: "p = (now, stamp, worker, flags)" by (cases p)
  have ids: "distinct (map bo_id (bl_orders (dk_billing d)))" using assms by (simp add: desk_ok_def)
  have writes: "worker_writes (billing_at env now stamp) (dk_billing d) (wd_billing (polled env updated p (dk_tables d)))"
    using process_next_writes[OF ids, of "worker\<lparr>wk_billing := billing_at env now stamp\<rparr>"] by (simp add: polled_def p)
  show "payments_added (dk_billing d) (wd_billing (polled env updated p (dk_tables d)))"
    using worker_writes_payments[OF writes _ ids] assms by (simp add: desk_ok_def)
  show "list_all2 checkout_order (bl_orders (dk_billing d)) (bl_orders (wd_billing (polled env updated p (dk_tables d))))"
    by (rule worker_writes_orders[OF writes ids])
qed

lemma desk_step_kept:
  assumes "desk_ok d" and "refunds_covered d"
  shows "desk_ok (desk_step env updated m d) \<and> refunds_covered (desk_step env updated m d)"
proof (cases m)
  case (CancelMove now stamp public_id a reason)
  then show ?thesis using assms
    by (auto simp: desk_ok_def totals_ok_def refunds_covered_def paid_amount_def dest!: cancel_frame split: sum.splits)
next
  case (RefundMove now stamp public_id actor amount reason key)
  show ?thesis
  proof (cases "create_manual_refund_intent (billing_at env now stamp) d public_id actor amount reason key")
    case (Inr x)
    obtain r d' where x: "x = (r, d')" by force
    show ?thesis
    proof (cases r)
      case None
      have "d' = d" by (rule refund_none[OF Inr[unfolded x None]])
      then show ?thesis using Inr x RefundMove assms by simp
    next
      case (Some y)
      obtain row replay where y: "y = (row, replay)" by force
      show ?thesis
      proof (cases replay)
        case False
        have 1: "dk_refunds d' = dk_refunds d @ [row]
            \<and> refunded_amount (dk_refunds d) (rf_order row) + rf_amount row \<le> paid_amount (dk_billing d) (rf_order row)
            \<and> bl_payments (dk_billing d') = bl_payments (dk_billing d) \<and> bl_orders (dk_billing d') = bl_orders (dk_billing d)"
          by (rule refund_parts[OF Inr[unfolded x Some y]]) (use False in auto)
        then have "refunds_covered d'" using assms(2) by (auto simp: refunds_covered_def refunded_amount_def paid_amount_def)
        then show ?thesis using 1 assms(1) Inr x RefundMove by (simp add: desk_ok_def totals_ok_def)
      next
        case True
        have "d' = d" by (rule refund_parts[OF Inr[unfolded x Some y]]) (use True in auto)
        then show ?thesis using assms Inr x RefundMove by simp
      qed
    qed
  qed (use assms RefundMove in simp)
next
  case (PollMove p)
  note kept = polled_desk[OF assms(1), of env updated p]
  have "desk_ok (desk_step env updated m d)"
    using totals_kept[OF kept(2)] list_all2_ids[OF kept(2)] assms(1) PollMove by (simp add: desk_ok_def totals_ok_def)
  moreover have "refunds_covered (desk_step env updated m d)"
    using paid_grows[OF kept(1)] assms(2) PollMove by (auto simp: refunds_covered_def intro: order_trans)
  ultimately show ?thesis by simp
qed

text \<open>
  C39: refunds stay within what was paid. Along any refund requests, cancellations and polls of workers,
  whatever amounts are asked for and however the requests are repeated, the refunds of an order
  that are pending or done never exceed its verified payments.
\<close>

theorem refunds_within_payments:
  assumes "totals_ok (dk_billing d)" and "distinct (map bo_id (bl_orders (dk_billing d)))" and "refunds_covered d"
  shows "refunds_covered (run_desk env updated ms d)"
proof -
  have "desk_ok d" using assms(1,2) by (simp add: desk_ok_def)
  then have "desk_ok (run_desk env updated ms d) \<and> refunds_covered (run_desk env updated ms d)"
    using assms(3) unfolding run_desk_def
  proof (induction ms arbitrary: d)
    case (Cons m ms)
    show ?case using Cons.IH desk_step_kept[OF Cons.prems, of env updated m] by simp
  qed simp
  then show ?thesis ..
qed

section \<open>Requests that come again\<close>

definition filed :: "refund_row \<Rightarrow> ident \<Rightarrow> desk \<Rightarrow> bool" where
  "filed row public_id d \<longleftrightarrow> map_option bo_id (List.find (\<lambda>r. bo_public r = public_id) (bl_orders (dk_billing d))) = Some (rf_order row)
     \<and> List.find (\<lambda>r. rf_order r = rf_order row \<and> rf_key r = rf_key row) (dk_refunds d) = Some row"

lemma find_public_kept:
  "list_all2 checkout_order t u \<Longrightarrow>
    map_option bo_id (List.find (\<lambda>r. bo_public r = i) u) = map_option bo_id (List.find (\<lambda>r. bo_public r = i) t)"
  by (induction rule: list_all2_induct) (auto dest: checkout_order_total)

lemma find_kept_append: "List.find P xs = Some x \<Longrightarrow> List.find P (xs @ ys) = Some x"
  by (simp add: find_append)

lemma refund_frame:
  assumes "create_manual_refund_intent env d public_id actor amount reason key = Inr (r, d')"
  shows "bl_orders (dk_billing d') = bl_orders (dk_billing d) \<and> (\<exists>rs. dk_refunds d' = dk_refunds d @ rs)"
proof (cases r)
  case None
  then show ?thesis using refund_none assms by fastforce
next
  case (Some x)
  obtain row replay where x: "x = (row, replay)" by force
  have run: "create_manual_refund_intent env d public_id actor amount reason key = Inr (Some (row, replay), d')"
    using assms Some x by simp
  show ?thesis by (rule refund_parts[OF run]) auto
qed

lemma desk_step_filed:
  assumes "desk_ok d" and "filed row public_id d"
  shows "desk_ok (desk_step env updated m d) \<and> filed row public_id (desk_step env updated m d)"
proof (cases m)
  case (CancelMove now stamp i a reason)
  then show ?thesis using assms
    by (auto simp: desk_ok_def totals_ok_def filed_def dest!: cancel_frame split: sum.splits)
next
  case (RefundMove now stamp i actor amount reason key)
  show ?thesis
  proof (cases "create_manual_refund_intent (billing_at env now stamp) d i actor amount reason key")
    case (Inr x)
    obtain r d' where x: "x = (r, d')" by force
    have 1: "bl_orders (dk_billing d') = bl_orders (dk_billing d)" and 2: "\<exists>rs. dk_refunds d' = dk_refunds d @ rs"
      using refund_frame Inr x by blast+
    have "filed row public_id d'" using assms(2) 1 2 find_kept_append by (force simp: filed_def)
    then show ?thesis using assms(1) 1 Inr x RefundMove by (simp add: desk_ok_def totals_ok_def)
  qed (use assms RefundMove in simp)
next
  case (PollMove p)
  note kept = polled_desk(2)[OF assms(1), of env updated p]
  show ?thesis
    using totals_kept[OF kept] list_all2_ids[OF kept] find_public_kept[OF kept] assms PollMove
    by (simp add: desk_ok_def totals_ok_def filed_def)
qed

text \<open>
  C40: a refund is recorded once. A request that was accepted is answered with the same refund, and
  changes nothing, whenever it is repeated with its key: after any other requests, cancellations
  and polls, payments and activations included.
\<close>

theorem refund_request_replays:
  assumes "totals_ok (dk_billing d)" and "distinct (map bo_id (bl_orders (dk_billing d)))"
    and "create_manual_refund_intent (billing_at env now stamp) d public_id actor amount reason key = Inr (Some (row, replay), d1)"
    and "d2 = run_desk env updated ms d1"
  shows "create_manual_refund_intent (billing_at env now' stamp') d2 public_id actor amount reason key = Inr (Some (row, True), d2)"
proof (rule refund_parts[OF assms(3)])
  fix ord n
  assume ord: "List.find (\<lambda>r. bo_public r = public_id) (bl_orders (dk_billing d)) = Some ord" and n: "py_int amount = Inr n" "0 < n"
    and key: "8 \<le> py_len (py_strip (str_or_empty key))" "py_len (py_strip (str_or_empty key)) \<le> 128"
    and row: "rf_order row = bo_id ord" "rf_key row = py_strip (str_or_empty key)" "rf_amount row = n"
      "rf_reason row = py_prefix 2000 (str_or_empty reason)" "rf_actor row = actor"
    and how: "replay \<and> d1 = d \<and> List.find (\<lambda>r. rf_order r = rf_order row \<and> rf_key r = rf_key row) (dk_refunds d) = Some row
     \<or> \<not> replay \<and> List.find (\<lambda>r. rf_order r = rf_order row \<and> rf_key r = rf_key row) (dk_refunds d) = None
       \<and> dk_refunds d1 = dk_refunds d @ [row] \<and> refunded_amount (dk_refunds d) (bo_id ord) + n \<le> paid_amount (dk_billing d) (bo_id ord)"
    and same: "bl_orders (dk_billing d1) = bl_orders (dk_billing d)"
  have "desk_ok d1" using assms(1,2) same by (simp add: desk_ok_def totals_ok_def)
  moreover have "filed row public_id d1" using how ord same row(1) by (auto simp: filed_def find_append)
  ultimately have "desk_ok d2 \<and> filed row public_id d2"
    unfolding assms(4) run_desk_def
  proof (induction ms arbitrary: d1)
    case (Cons m ms)
    show ?case using Cons.IH desk_step_filed[OF Cons.prems, of env updated m] by simp
  qed simp
  then obtain ord2 where "List.find (\<lambda>r. bo_public r = public_id) (bl_orders (dk_billing d2)) = Some ord2" "bo_id ord2 = rf_order row"
    and "List.find (\<lambda>r. rf_order r = bo_id ord2 \<and> rf_key r = py_strip (str_or_empty key)) (dk_refunds d2) = Some row"
    using row(2) by (auto simp: filed_def)
  then show ?thesis using n key row by (simp add: create_manual_refund_intent_def Let_def)
qed

end
