(* ===== verification/Billing_Desk_Examples.thy ===== *)
theory Billing_Desk_Examples
  imports Billing_Desk_Laws Billing_Worker_Examples
begin

text \<open>
  Two refunds of a paid order around a poll that retries its activation, with the witnesses of the
  theorems on refunds.
\<close>

definition dx_desk :: desk where
  "dx_desk = \<lparr>dk_tables = bw_paid, dk_refunds = [], dk_org_owners = [], dk_members = []\<rparr>"

definition dx_refund :: "int \<Rightarrow> string \<Rightarrow> desk_move" where
  "dx_refund n key = RefundMove 10 ''t'' ''P'' ''boss'' (PInt n) (PStr ''twice'') (PStr key)"

lemma dx_desk_ok: "totals_ok (dk_billing dx_desk)" "distinct (map bo_id (bl_orders (dk_billing dx_desk)))" "refunds_covered dx_desk"
  by (simp_all add: dx_desk_def bw_paid_def bw_tables_def totals_ok_def bx_order_def refunds_covered_def refunded_amount_def
    paid_amount_def bx_payment_def)

lemma dx_refunds:
  "map rf_amount (dk_refunds (run_desk bx_env bw_updated [dx_refund 3 ''12345678'', PollMove (bw_poll bw_paying 10), dx_refund 3 ''abcdefgh''] dx_desk)) = [3]"
  by code_simp

theorem refunds_within_payments_witness:
  "map rf_amount (dk_refunds (run_desk bx_env bw_updated [dx_refund 3 ''12345678'', PollMove (bw_poll bw_paying 10), dx_refund 3 ''abcdefgh''] dx_desk)) = [3]
    \<and> refunds_covered (run_desk bx_env bw_updated [dx_refund 3 ''12345678'', PollMove (bw_poll bw_paying 10), dx_refund 3 ''abcdefgh''] dx_desk)"
  using refunds_within_payments[OF dx_desk_ok] dx_refunds by blast

lemma dx_first:
  "\<exists>row d1. create_manual_refund_intent (billing_at bx_env 10 ''t'') dx_desk ''P'' ''boss'' (PInt 3) (PStr ''twice'') (PStr ''12345678'')
     = Inr (Some (row, False), d1)"
proof -
  have "(case create_manual_refund_intent (billing_at bx_env 10 ''t'') dx_desk ''P'' ''boss'' (PInt 3) (PStr ''twice'') (PStr ''12345678'') of
    Inl _ \<Rightarrow> True | Inr (r, _) \<Rightarrow> map_option snd r \<noteq> Some False) = False" by code_simp
  then show ?thesis by (auto split: sum.splits prod.splits)
qed

theorem refund_request_replays_witness:
  "\<exists>row d1 d2. create_manual_refund_intent (billing_at bx_env 10 ''t'') dx_desk ''P'' ''boss'' (PInt 3) (PStr ''twice'') (PStr ''12345678'')
       = Inr (Some (row, False), d1)
    \<and> d2 = run_desk bx_env bw_updated [dx_refund 2 ''abcdefgh'', PollMove (bw_poll bw_paying 10)] d1
    \<and> create_manual_refund_intent (billing_at bx_env 20 ''u'') d2 ''P'' ''boss'' (PInt 3) (PStr ''twice'') (PStr ''12345678'')
       = Inr (Some (row, True), d2)"
proof -
  obtain row d1 where first: "create_manual_refund_intent (billing_at bx_env 10 ''t'') dx_desk ''P'' ''boss'' (PInt 3) (PStr ''twice'') (PStr ''12345678'')
     = Inr (Some (row, False), d1)" using dx_first by blast
  show ?thesis
    by (intro exI conjI, rule first, rule refl, rule refund_request_replays[OF dx_desk_ok(1,2) first refl])
qed

end
