(* ===== verification/Url_Text.thy ===== *)
theory Url_Text
  imports Py_Objects Prelude
begin

text \<open>
  \<open>urllib.parse.urlsplit\<close> of the standard library, as far as the program uses it: scheme, authority,
  path, query and fragment, host, user and port of the authority, and the way back to a text.
\<close>

section \<open>Partitions\<close>

text \<open>\<open>s.partition(c)\<close> and \<open>s.rpartition(c)\<close>, with \<^term>\<open>None\<close> for the part that is not there.\<close>

definition py_partition :: "char \<Rightarrow> string \<Rightarrow> string \<times> string option" where
  "py_partition c s = (takeWhile (\<lambda>d. d \<noteq> c) s, (case dropWhile (\<lambda>d. d \<noteq> c) s of [] \<Rightarrow> None | _ # r \<Rightarrow> Some r))"

definition py_rpartition :: "char \<Rightarrow> string \<Rightarrow> string option \<times> string" where
  "py_rpartition c s = (let (a, b) = py_partition c (rev s) in (map_option rev b, rev a))"

definition or_blank :: "string option \<Rightarrow> string" where
  "or_blank v = (case v of None \<Rightarrow> [] | Some s \<Rightarrow> s)"

lemma partition_parts:
  assumes "py_partition c s = (a, m)"
  shows "c \<notin> set a" and "s = a @ (case m of None \<Rightarrow> [] | Some r \<Rightarrow> c # r)"
proof -
  have a: "a = takeWhile (\<lambda>d. d \<noteq> c) s" using assms by (simp add: py_partition_def)
  then show "c \<notin> set a" by (auto dest: set_takeWhileD)
  have s: "s = a @ dropWhile (\<lambda>d. d \<noteq> c) s" by (simp add: a)
  show "s = a @ (case m of None \<Rightarrow> [] | Some r \<Rightarrow> c # r)"
  proof (cases "dropWhile (\<lambda>d. d \<noteq> c) s")
    case Nil
    have "m = None" using assms unfolding py_partition_def Nil by simp
    moreover have "s = a" using s unfolding Nil by simp
    ultimately show ?thesis by simp
  next
    case (Cons d r)
    then have "d = c" using hd_dropWhile[of "\<lambda>d. d \<noteq> c" s] by simp
    then show ?thesis using s assms Cons by (auto simp: py_partition_def)
  qed
qed

lemma partition_absent: "c \<notin> set s \<Longrightarrow> py_partition c s = (s, None)"
  using partition_parts[of c s] by (cases "py_partition c s") (force split: option.splits)

lemma rpartition_None: "py_rpartition c s = (None, h) \<Longrightarrow> c \<notin> set s \<and> h = s"
  using partition_parts[of c "rev s"] by (auto simp: py_rpartition_def split: prod.splits)

section \<open>Splitting a URL\<close>

text \<open>
  What the splitting asks the tables of the installation: whether an authority outside ASCII changes
  its meaning under NFKC, and whether a text is an IPv6 address.
\<close>

record url_env =
  ur_nfkc_unsafe :: "string \<Rightarrow> bool"
  ur_ip6 :: "string \<Rightarrow> bool"

record url_parts =
  ur_scheme :: string
  ur_netloc :: string
  ur_path :: string
  ur_query :: string
  ur_fragment :: string

definition ascii_alpha :: "char \<Rightarrow> bool" where
  "ascii_alpha c = (let n = (of_char c :: int) in (65 \<le> n \<and> n \<le> 90) \<or> (97 \<le> n \<and> n \<le> 122))"

definition scheme_char :: "char \<Rightarrow> bool" where
  "scheme_char c \<longleftrightarrow> ascii_alpha c \<or> is_digit c \<or> c \<in> set ''+-.''"

definition split_scheme :: "string \<Rightarrow> string \<times> string" where
  "split_scheme u =
     (case py_partition (CHR '':'') u of
        (s, Some r) \<Rightarrow> if s \<noteq> [] \<and> ascii_alpha (hd s) \<and> list_all scheme_char s then (py_lower s, r) else ([], u)
      | (s, None) \<Rightarrow> ([], u))"

definition authority_end :: "char \<Rightarrow> bool" where
  "authority_end c \<longleftrightarrow> c \<in> set ''/?#''"

definition split_netloc :: "string \<Rightarrow> string \<times> string" where
  "split_netloc r =
     (if take 2 r = ''//''
      then (takeWhile (\<lambda>c. \<not> authority_end c) (drop 2 r), dropWhile (\<lambda>c. \<not> authority_end c) (drop 2 r))
      else ([], r))"

definition hex_char :: "char \<Rightarrow> bool" where
  "hex_char c = (let n = (of_char c :: int) in is_digit c \<or> (65 \<le> n \<and> n \<le> 70) \<or> (97 \<le> n \<and> n \<le> 102))"

text \<open>The pattern of a future address: \<open>v\<close>, hexadecimal digits, a dot and something on one line.\<close>

definition ip_future :: "string \<Rightarrow> bool" where
  "ip_future h = (case dropWhile hex_char (tl h) of
     c # rest \<Rightarrow> takeWhile hex_char (tl h) \<noteq> [] \<and> c = CHR ''.'' \<and> rest \<noteq> [] \<and> CHR 0x0A \<notin> set rest
   | [] \<Rightarrow> False)"

text \<open>\<open>_check_bracketed_netloc\<close>\<close>

definition bracketed_ok :: "url_env \<Rightarrow> string \<Rightarrow> bool" where
  "bracketed_ok env netloc =
     (let hostinfo = snd (py_rpartition (CHR ''@'') netloc)
      in case py_partition (CHR ''['') hostinfo of
           (before_bracket, Some bracketed) \<Rightarrow>
             let (host, after) = py_partition (CHR '']'') bracketed; p = or_blank after
             in before_bracket = [] \<and> (p = [] \<or> hd p = CHR '':'')
                \<and> (if take 1 host = ''v'' then ip_future host else ur_ip6 env host)
         | (_, None) \<Rightarrow>
             let host = fst (py_partition (CHR '':'') hostinfo)
             in if take 1 host = ''v'' then ip_future host else ur_ip6 env host)"

definition urlsplit :: "url_env \<Rightarrow> string \<Rightarrow> py_exn + url_parts" where
  "urlsplit env text =
     (let u = filter (\<lambda>c. c \<notin> {CHR 0x09, CHR 0x0D, CHR 0x0A}) (dropWhile (\<lambda>c. (of_char c :: int) \<le> 32) text);
          (scheme, r) = split_scheme u;
          (netloc, rest) = split_netloc r;
          (before_fragment, fragment) = py_partition (CHR ''#'') rest;
          (path, query) = py_partition (CHR ''?'') before_fragment
      in if (CHR ''['' \<in> set netloc) \<noteq> (CHR '']'' \<in> set netloc) then Inl ValueError
         else if CHR ''['' \<in> set netloc \<and> \<not> bracketed_ok env netloc then Inl ValueError
         else if \<not> ascii_text netloc \<and> ur_nfkc_unsafe env netloc then Inl ValueError
         else Inr \<lparr>ur_scheme = scheme, ur_netloc = netloc, ur_path = path, ur_query = or_blank query,
           ur_fragment = or_blank fragment\<rparr>)"

section \<open>The authority\<close>

definition url_username :: "url_parts \<Rightarrow> string option" where
  "url_username u = map_option (\<lambda>i. fst (py_partition (CHR '':'') i)) (fst (py_rpartition (CHR ''@'') (ur_netloc u)))"

definition url_password :: "url_parts \<Rightarrow> string option" where
  "url_password u = (case fst (py_rpartition (CHR ''@'') (ur_netloc u)) of
     None \<Rightarrow> None | Some i \<Rightarrow> snd (py_partition (CHR '':'') i))"

text \<open>\<open>_hostinfo\<close>: host and port, where an empty port is none.\<close>

definition host_info :: "url_parts \<Rightarrow> string \<times> string" where
  "host_info u =
     (let hostinfo = snd (py_rpartition (CHR ''@'') (ur_netloc u))
      in case py_partition (CHR ''['') hostinfo of
           (_, Some bracketed) \<Rightarrow>
             (let (host, after) = py_partition (CHR '']'') bracketed
              in (host, or_blank (snd (py_partition (CHR '':'') (or_blank after)))))
         | (_, None) \<Rightarrow> (let (host, port) = py_partition (CHR '':'') hostinfo in (host, or_blank port)))"

text \<open>The name is in lower case, up to the zone of an address.\<close>

definition url_hostname :: "url_parts \<Rightarrow> string option" where
  "url_hostname u =
     (let host = fst (host_info u)
      in if host = [] then None
         else case py_partition (CHR ''%'') host of
           (name, None) \<Rightarrow> Some (py_lower name)
         | (name, Some zone) \<Rightarrow> Some (py_lower name @ CHR ''%'' # zone))"

definition url_port :: "url_parts \<Rightarrow> py_exn + int option" where
  "url_port u =
     (let port = snd (host_info u)
      in if port = [] then Inr None
         else if \<not> list_all is_digit port then Inl ValueError
         else let n = int (decimal_value port) in if n \<le> 65535 then Inr (Some n) else Inl ValueError)"

text \<open>\<open>geturl\<close>, for a URL with an authority\<close>

definition url_text :: "url_parts \<Rightarrow> string" where
  "url_text u =
     (if ur_scheme u = [] then [] else ur_scheme u @ '':'') @ ''//'' @ ur_netloc u
     @ (if ur_path u \<noteq> [] \<and> take 1 (ur_path u) \<noteq> ''/'' then ''/'' else []) @ ur_path u
     @ (if ur_query u = [] then [] else ''?'' @ ur_query u)
     @ (if ur_fragment u = [] then [] else ''#'' @ ur_fragment u)"

section \<open>Where a URL leads\<close>

text \<open>
  A client that opens the text finds the host before the first of the characters that end an
  authority. The text names one of \<open>hosts\<close> when nothing but a standard port follows the host.
\<close>

definition leads_to :: "string list \<Rightarrow> int \<Rightarrow> string \<Rightarrow> bool" where
  "leads_to hosts std text \<longleftrightarrow> (\<exists>host port rest. text = ''https://'' @ host @ port @ rest
     \<and> py_lower host \<in> set hosts \<and> list_all (\<lambda>c. \<not> authority_end c) (host @ port)
     \<and> (port = [] \<or> port = '':'' \<or> (\<exists>ds. port = CHR '':'' # ds \<and> list_all is_digit ds \<and> int (decimal_value ds) = std))
     \<and> (rest = [] \<or> authority_end (hd rest)))"

lemma py_lower_append: "py_lower (a @ b) = py_lower a @ py_lower b"
  by (simp add: py_lower_def)

lemma ascii_lower_same: "\<not> ascii_alpha c \<Longrightarrow> ascii_lower_char c = c"
  by (auto simp: ascii_alpha_def ascii_lower_char_def Let_def)

lemma lower_keeps: "c \<in> set s \<Longrightarrow> \<not> ascii_alpha c \<Longrightarrow> c \<in> set (py_lower s)"
  using ascii_lower_same by (force simp: py_lower_def)

lemma split_netloc_end:
  assumes "split_netloc r = (netloc, rest)" and "netloc \<noteq> []"
  shows "list_all (\<lambda>c. \<not> authority_end c) netloc" and "rest = [] \<or> authority_end (hd rest)"
proof -
  have *: "netloc = takeWhile (\<lambda>c. \<not> authority_end c) (drop 2 r)" "rest = dropWhile (\<lambda>c. \<not> authority_end c) (drop 2 r)"
    using assms by (auto simp: split_netloc_def split: if_splits)
  show "list_all (\<lambda>c. \<not> authority_end c) netloc" by (auto simp: *(1) list_all_iff dest: set_takeWhileD)
  show "rest = [] \<or> authority_end (hd rest)" using hd_dropWhile[of "\<lambda>c. \<not> authority_end c" "drop 2 r"] *(2) by auto
qed

lemma path_starts:
  assumes "rest = [] \<or> authority_end (hd rest)" and "py_partition (CHR ''#'') rest = (bf, fragment)"
    and "py_partition (CHR ''?'') bf = (path, query)"
  shows "path = [] \<or> take 1 path = ''/''"
proof (cases path)
  case (Cons c cs)
  note bf = partition_parts[OF assms(2)] and path = partition_parts[OF assms(3)]
  have "c \<in> set bf" "hd rest = c" "rest \<noteq> []" using bf(2) path(2) Cons by auto
  moreover have "c \<noteq> CHR ''?''" using path(1) Cons by auto
  ultimately show ?thesis using assms(1) bf(1) Cons by (auto simp: authority_end_def)
qed simp

end
