(* ===== verification/Json_Read.thy ===== *)
theory Json_Read
  imports Json_Text
begin

text \<open>
  \<open>json.dumps(v, separators=(",", ":"), sort_keys=True)\<close> with its ASCII output, and
  \<open>json.loads\<close>: the reader of Python's standard library over UTF-8 text.  What is printed is
  read back.
\<close>

section \<open>Code points\<close>

definition utf8 :: "nat \<Rightarrow> string" where
  "utf8 n =
     (if n < 128 then [char_of n]
      else if n < 2048 then [char_of (192 + n div 64), char_of (128 + n mod 64)]
      else if n < 65536 then [char_of (224 + n div 4096), char_of (128 + n div 64 mod 64), char_of (128 + n mod 64)]
      else [char_of (240 + n div 262144), char_of (128 + n div 4096 mod 64), char_of (128 + n div 64 mod 64),
        char_of (128 + n mod 64)])"

definition low6 :: "char \<Rightarrow> nat" where
  "low6 c = of_char c mod 64"

text \<open>The first code point of a text and the rest of it.\<close>

fun next_point :: "char \<Rightarrow> string \<Rightarrow> nat \<times> string" where
  "next_point c cs =
     (let b = of_char c in
      if b < 192 then (b, cs)
      else if b < 224 then (case cs of d # r \<Rightarrow> ((b - 192) * 64 + low6 d, r) | _ \<Rightarrow> (b, cs))
      else if b < 240 then
        (case cs of d # e # r \<Rightarrow> ((b - 224) * 4096 + low6 d * 64 + low6 e, r) | _ \<Rightarrow> (b, cs))
      else (case cs of d # e # f # r \<Rightarrow> ((b - 240) * 262144 + low6 d * 4096 + low6 e * 64 + low6 f, r)
        | _ \<Rightarrow> (b, cs)))"

lemma next_point_shorter: "next_point c cs = (n, r) \<Longrightarrow> length r \<le> length cs"
  by (auto simp: Let_def split: if_splits list.splits)

declare next_point.simps [simp del]

definition code_point :: "nat \<Rightarrow> bool" where
  "code_point n \<longleftrightarrow> n < 1114112 \<and> \<not> (55296 \<le> n \<and> n < 57344)"

lemma of_char_nat_char [simp]: "(of_char (char_of n :: char) :: nat) = n mod 256"
  by simp

lemma low6_char: "m < 64 \<Longrightarrow> low6 (char_of (128 + m)) = m"
proof -
  assume m: "m < 64"
  have "(m + 2 * 64) mod 64 = m mod 64" by (rule mod_mult_self1)
  with m have "(128 + m) mod 64 = m" by (simp add: add.commute)
  moreover have "(128 + m) mod 256 = 128 + m" using m by (intro mod_less) linarith
  ultimately show ?thesis unfolding low6_def of_char_of by (simp only:)
qed

lemma next_point_lead:
  "k < 128 \<Longrightarrow> next_point (char_of k) r = (k, r)"
  "192 \<le> k \<Longrightarrow> k < 224 \<Longrightarrow> next_point (char_of k) (d # r) = ((k - 192) * 64 + low6 d, r)"
  "224 \<le> k \<Longrightarrow> k < 240 \<Longrightarrow> next_point (char_of k) (d # e # r) = ((k - 224) * 4096 + low6 d * 64 + low6 e, r)"
  "240 \<le> k \<Longrightarrow> k < 256 \<Longrightarrow> next_point (char_of k) (d # e # f # r)
     = ((k - 240) * 262144 + low6 d * 4096 + low6 e * 64 + low6 f, r)"
  by (simp_all add: next_point.simps Let_def)

lemma base64_digits:
  fixes n :: nat
  shows "n = n div 64 * 64 + n mod 64" "n div 64 = n div 4096 * 64 + n div 64 mod 64"
    "n div 4096 = n div 262144 * 64 + n div 4096 mod 64"
proof -
  have "n div 4096 = n div 64 div 64" "n div 262144 = n div 4096 div 64" by (simp_all flip: div_mult2_eq)
  then show "n = n div 64 * 64 + n mod 64" "n div 64 = n div 4096 * 64 + n div 64 mod 64"
    "n div 4096 = n div 262144 * 64 + n div 4096 mod 64"
    by (simp_all only: div_mult_mod_eq)
qed

lemma next_point_utf8:
  assumes "code_point n"
  shows "\<exists>c cs. utf8 n @ s = c # cs \<and> next_point c cs = (n, s)"
proof -
  have n: "n < 1114112" using assms by (simp add: code_point_def)
  note digits = base64_digits[of n]
  have low: "low6 (char_of (128 + n mod 64)) = n mod 64"
    "low6 (char_of (128 + n div 64 mod 64)) = n div 64 mod 64"
    "low6 (char_of (128 + n div 4096 mod 64)) = n div 4096 mod 64" by (rule low6_char; simp)+
  consider (one) "n < 128" | (two) "128 \<le> n" "n < 2048" | (three) "2048 \<le> n" "n < 65536" | (four) "65536 \<le> n"
    by linarith
  then show ?thesis
  proof cases
    case one
    then show ?thesis by (simp add: utf8_def next_point_lead)
  next
    case two
    then have "192 + n div 64 < 224" by (simp add: less_mult_imp_div_less)
    then have "next_point (char_of (192 + n div 64)) (char_of (128 + n mod 64) # s) = (n, s)"
      using low(1) digits(1) by (subst next_point_lead(2)) auto
    then show ?thesis using two by (simp add: utf8_def)
  next
    case three
    have sum: "n div 4096 * 4096 + n div 64 mod 64 * 64 + n mod 64 = n" using digits(1,2) by linarith
    from three have "224 + n div 4096 < 240" by (simp add: less_mult_imp_div_less)
    then have "next_point (char_of (224 + n div 4096)) (char_of (128 + n div 64 mod 64) # char_of (128 + n mod 64) # s) = (n, s)"
      using low(1,2) sum by (subst next_point_lead(3)) auto
    then show ?thesis using three by (simp add: utf8_def)
  next
    case four
    have sum: "n div 262144 * 262144 + n div 4096 mod 64 * 4096 + n div 64 mod 64 * 64 + n mod 64 = n"
      using digits by linarith
    from four have "240 + n div 262144 < 256" using n by (simp add: less_mult_imp_div_less)
    then have "next_point (char_of (240 + n div 262144)) (char_of (128 + n div 4096 mod 64)
        # char_of (128 + n div 64 mod 64) # char_of (128 + n mod 64) # s) = (n, s)"
      using low sum by (subst next_point_lead(4)) auto
    then show ?thesis using four by (simp add: utf8_def)
  qed
qed

section \<open>Printing\<close>

definition hex4 :: "nat \<Rightarrow> string" where
  "hex4 n = map (\<lambda>d. hex_digit (int d)) [n div 4096 mod 16, n div 256 mod 16, n div 16 mod 16, n mod 16]"

definition unicode_escape :: "nat \<Rightarrow> string" where
  "unicode_escape n = CHR 0x5C # CHR ''u'' # hex4 n"

definition ascii_escape :: "nat \<Rightarrow> string" where
  "ascii_escape n =
     (if n = 34 \<or> n = 92 then [CHR 0x5C, char_of n]
      else if n = 10 then [CHR 0x5C, CHR ''n'']
      else if n = 13 then [CHR 0x5C, CHR ''r'']
      else if n = 9 then [CHR 0x5C, CHR ''t'']
      else if n = 8 then [CHR 0x5C, CHR ''b'']
      else if n = 12 then [CHR 0x5C, CHR ''f'']
      else if 32 \<le> n \<and> n < 127 then [char_of n]
      else if n < 65536 then unicode_escape n
      else unicode_escape (55296 + (n - 65536) div 1024) @ unicode_escape (56320 + (n - 65536) mod 1024))"

function ascii_chars :: "string \<Rightarrow> string" where
  "ascii_chars [] = []"
| "ascii_chars (c # cs) = (let (n, r) = next_point c cs in ascii_escape n @ ascii_chars r)"
  by pat_completeness auto
termination
  by (relation "measure length") (auto intro: next_point_shorter[OF sym] simp: less_Suc_eq_le)

definition ascii_string :: "string \<Rightarrow> string" where
  "ascii_string s = CHR 0x22 # ascii_chars s @ [CHR 0x22]"

function json_ascii :: "pval \<Rightarrow> string" where
  "json_ascii PNone = ''null''"
| "json_ascii (PBool b) = (if b then ''true'' else ''false'')"
| "json_ascii (PInt i) = int_decimal i"
| "json_ascii (PFloat f text) = json_dumps (PFloat f text)"
| "json_ascii (PStr s) = ascii_string s"
| "json_ascii (PList xs) = ''['' @ py_join '','' (map json_ascii xs) @ '']''"
| "json_ascii (PDict d) =
     ''{'' @ py_join '','' (map (\<lambda>e. ascii_string (fst e) @ '':'' @ json_ascii (snd e)) (sort_key fst d)) @ ''}''"
  by pat_completeness auto
termination
  by (relation "measure size") (auto dest: size_pval_members)

section \<open>Reading strings\<close>

definition hex_read :: "char \<Rightarrow> nat option" where
  "hex_read c = (let n = of_char c :: nat in
     if 48 \<le> n \<and> n < 58 then Some (n - 48) else if 97 \<le> n \<and> n < 103 then Some (n - 87)
     else if 65 \<le> n \<and> n < 71 then Some (n - 55) else None)"

fun hex4_read :: "string \<Rightarrow> (nat \<times> string) option" where
  "hex4_read (a # b # c # d # r) =
     (case (hex_read a, hex_read b, hex_read c, hex_read d) of
        (Some p, Some q, Some s, Some t) \<Rightarrow> Some (p * 4096 + q * 256 + s * 16 + t, r)
      | _ \<Rightarrow> None)"
| "hex4_read _ = None"

lemma hex4_read_shorter: "hex4_read s = Some (n, r) \<Longrightarrow> length r < length s"
  by (induction s rule: hex4_read.induct) (auto split: option.splits)

text \<open>The code point after \<open>\\u\<close>: two escapes make one outside the basic plane.\<close>

definition unicode_read :: "string \<Rightarrow> (nat \<times> string) option" where
  "unicode_read s =
     (case hex4_read s of
        None \<Rightarrow> None
      | Some (n, r) \<Rightarrow>
          if 55296 \<le> n \<and> n < 56320 then
            (case r of
               b # u # t \<Rightarrow>
                 if b = CHR 0x5C \<and> u = CHR ''u'' then
                   (case hex4_read t of
                      None \<Rightarrow> None
                    | Some (m, r') \<Rightarrow>
                        if 56320 \<le> m \<and> m < 57344
                        then Some (65536 + (n - 55296) * 1024 + (m - 56320), r') else Some (n, r))
                 else Some (n, r)
             | _ \<Rightarrow> Some (n, r))
          else Some (n, r))"

lemma unicode_read_shorter: "unicode_read s = Some (n, r) \<Longrightarrow> length r < length s"
  by (auto simp: unicode_read_def dest!: hex4_read_shorter split: option.splits if_splits list.splits)

definition simple_escape :: "char \<Rightarrow> char option" where
  "simple_escape c =
     (if c = CHR 0x22 \<or> c = CHR 0x5C \<or> c = CHR ''/'' then Some c
      else if c = CHR ''n'' then Some (CHR 0x0A) else if c = CHR ''r'' then Some (CHR 0x0D)
      else if c = CHR ''t'' then Some (CHR 0x09) else if c = CHR ''b'' then Some (CHR 0x08)
      else if c = CHR ''f'' then Some (CHR 0x0C) else None)"

function json_chars :: "string \<Rightarrow> (string \<times> string) option" where
  "json_chars [] = None"
| "json_chars (c # cs) =
     (if c = CHR 0x22 then Some ([], cs)
      else if c = CHR 0x5C then
        (case cs of
           [] \<Rightarrow> None
         | d # ds \<Rightarrow>
             if d = CHR ''u'' then
               (case unicode_read ds of
                  None \<Rightarrow> None
                | Some (n, r) \<Rightarrow> map_option (apfst ((@) (utf8 n))) (json_chars r))
             else (case simple_escape d of
                  None \<Rightarrow> None
                | Some e \<Rightarrow> map_option (apfst ((#) e)) (json_chars ds)))
      else if (of_char c :: nat) < 32 then None
      else map_option (apfst ((#) c)) (json_chars cs))"
  by pat_completeness auto
termination
  by (relation "measure length") (auto dest: unicode_read_shorter)

lemma hex_digits_read: "list_all (\<lambda>n. hex_read (hex_digit (int n)) = Some n) [0..<16]"
  by code_simp

lemma hex_read_digit: "n < 16 \<Longrightarrow> hex_read (hex_digit (int n)) = Some n"
  using hex_digits_read by (simp add: list_all_iff)

lemma hex_digits:
  fixes n :: nat
  assumes "n < 65536"
  shows "n = n div 16 * 16 + n mod 16" "n div 16 = n div 256 * 16 + n div 16 mod 16"
    "n div 256 = n div 4096 * 16 + n div 256 mod 16" "n div 4096 mod 16 = n div 4096"
proof -
  have "n div 256 = n div 16 div 16" "n div 4096 = n div 256 div 16" by (simp_all flip: div_mult2_eq)
  then show "n = n div 16 * 16 + n mod 16" "n div 16 = n div 256 * 16 + n div 16 mod 16"
    "n div 256 = n div 4096 * 16 + n div 256 mod 16"
    by (simp_all only: div_mult_mod_eq)
  show "n div 4096 mod 16 = n div 4096" using assms by (simp add: less_mult_imp_div_less)
qed

lemma hex4_read_hex4: "n < 65536 \<Longrightarrow> hex4_read (hex4 n @ r) = Some (n, r)"
proof -
  assume n: "n < 65536"
  have "hex_read (hex_digit (int (m mod 16))) = Some (m mod 16)" for m :: nat
    by (rule hex_read_digit) simp
  then have "hex4_read (hex4 n @ r) = Some (n div 4096 mod 16 * 4096 + n div 256 mod 16 * 256 + n div 16 mod 16 * 16 + n mod 16, r)"
    by (simp only: hex4_def list.map append.simps hex4_read.simps option.case prod.case)
  also have "n div 4096 mod 16 * 4096 + n div 256 mod 16 * 256 + n div 16 mod 16 * 16 + n mod 16 = n"
    using hex_digits[OF n] by linarith
  finally show ?thesis .
qed

declare json_chars.simps [simp del]

lemma json_chars_quote: "json_chars (CHR 0x22 # s) = Some ([], s)"
  by (simp add: json_chars.simps)

lemma char_of_nat_eq: "n < 256 \<Longrightarrow> char_of n = c \<longleftrightarrow> n = (of_char c :: nat)"
  by (metis char_of_char of_char_of mod_less)

lemma json_chars_plain:
  fixes n :: nat
  assumes "32 \<le> n" "n < 127" "n \<noteq> 34" "n \<noteq> 92"
  shows "json_chars (char_of n # s) = map_option (apfst ((#) (char_of n))) (json_chars s)"
  using assms by (simp add: json_chars.simps char_of_nat_eq)

lemma json_chars_escape:
  "simple_escape d = Some e \<Longrightarrow> d \<noteq> CHR ''u'' \<Longrightarrow>
    json_chars (CHR 0x5C # d # s) = map_option (apfst ((#) e)) (json_chars s)"
  by (simp add: json_chars.simps)

lemma json_chars_unicode:
  "unicode_read s = Some (n, r) \<Longrightarrow>
    json_chars (CHR 0x5C # CHR ''u'' # s) = map_option (apfst ((@) (utf8 n))) (json_chars r)"
  by (simp add: json_chars.simps)

text \<open>Text that is the UTF-8 of some code points.\<close>

function utf8_ok :: "string \<Rightarrow> bool" where
  "utf8_ok [] = True"
| "utf8_ok (c # cs) = (let (n, r) = next_point c cs in code_point n \<and> utf8 n @ r = c # cs \<and> utf8_ok r)"
  by pat_completeness auto
termination
  by (relation "measure length") (auto intro: next_point_shorter[OF sym] simp: less_Suc_eq_le)

declare utf8_ok.simps(2) [simp del] ascii_chars.simps(2) [simp del]

lemma utf8_ok_ascii: "list_all (\<lambda>c. (of_char c :: int) < 128) s \<Longrightarrow> utf8_ok s"
proof (induction s)
  case (Cons c s)
  then have "(of_char c :: int) < int 128" by simp
  then have "int (of_char c) < int 128" by (simp only: of_nat_of_char)
  then have c: "(of_char c :: nat) < 128" by (simp only: of_nat_less_iff)
  then have "next_point c s = (of_char c, s)" "utf8 (of_char c) = [c]" "code_point (of_char c)"
    by (auto simp: next_point.simps utf8_def code_point_def Let_def)
  then show ?case using Cons by (simp add: utf8_ok.simps(2))
qed simp

lemma unicode_read_plain:
  assumes "code_point n" and "n < 65536"
  shows "unicode_read (hex4 n @ s) = Some (n, s)"
proof -
  have "\<not> (55296 \<le> n \<and> n < 56320)" using assms(1) by (auto simp: code_point_def)
  then show ?thesis using hex4_read_hex4[OF assms(2)] by (auto simp: unicode_read_def)
qed

lemma unicode_read_pair:
  assumes "code_point n" and "65536 \<le> n"
  shows "unicode_read (hex4 (55296 + (n - 65536) div 1024) @ unicode_escape (56320 + (n - 65536) mod 1024) @ s)
    = Some (n, s)"
proof -
  let ?h = "55296 + (n - 65536) div 1024" and ?l = "56320 + (n - 65536) mod 1024"
  have "n - 65536 < 1024 * 1024" using assms by (simp add: code_point_def)
  then have h: "(n - 65536) div 1024 < 1024" by (simp add: less_mult_imp_div_less)
  have l: "(n - 65536) mod 1024 < 1024" by simp
  have "65536 + (?h - 55296) * 1024 + (?l - 56320) = n" using assms(2) by simp
  moreover have "hex4_read (hex4 ?h @ t) = Some (?h, t)" "hex4_read (hex4 ?l @ t) = Some (?l, t)" for t
    using h l by (intro hex4_read_hex4; linarith)+
  ultimately show ?thesis using h l by (simp add: unicode_read_def unicode_escape_def)
qed

lemma append_single: "(@) [c] = (#) c"
  by (rule ext) simp

lemma json_chars_ascii_escape:
  assumes "code_point n"
  shows "json_chars (ascii_escape n @ s) = map_option (apfst ((@) (utf8 n))) (json_chars s)"
proof -
  consider (short) "n \<in> {34, 92, 10, 13, 9, 8, 12}"
    | (plain) "32 \<le> n" "n < 127" "n \<noteq> 34" "n \<noteq> 92"
    | (bmp) "n \<notin> {34, 92, 10, 13, 9, 8, 12}" "\<not> (32 \<le> n \<and> n < 127)" "n < 65536"
    | (wide) "65536 \<le> n" by force
  then show ?thesis
  proof cases
    case short
    have "char_of (34::nat) = CHR 0x22" "char_of (92::nat) = CHR 0x5C" "char_of (10::nat) = CHR 0x0A"
      "char_of (13::nat) = CHR 0x0D" "char_of (9::nat) = CHR 0x09" "char_of (8::nat) = CHR 0x08"
      "char_of (12::nat) = CHR 0x0C" by code_simp+
    with short show ?thesis
      by (auto simp: ascii_escape_def json_chars_escape simple_escape_def utf8_def append_single)
  next
    case plain
    then have "ascii_escape n = [char_of n]" "utf8 n = [char_of n]" by (auto simp: ascii_escape_def utf8_def)
    then show ?thesis using json_chars_plain[OF plain] by (simp add: append_single)
  next
    case bmp
    then have "ascii_escape n = unicode_escape n" by (auto simp: ascii_escape_def)
    then show ?thesis
      using json_chars_unicode[OF unicode_read_plain[OF assms bmp(3)]] by (simp add: unicode_escape_def)
  next
    case wide
    then have "ascii_escape n = unicode_escape (55296 + (n - 65536) div 1024) @ unicode_escape (56320 + (n - 65536) mod 1024)"
      by (auto simp: ascii_escape_def)
    then show ?thesis
      using json_chars_unicode[OF unicode_read_pair[OF assms wide]] by (simp add: unicode_escape_def)
  qed
qed

lemma json_chars_ascii:
  "utf8_ok s \<Longrightarrow> json_chars (ascii_chars s @ CHR 0x22 # r) = Some (s, r)"
proof (induction s rule: utf8_ok.induct)
  case (2 c cs)
  obtain n t where p: "next_point c cs = (n, t)" by force
  with 2 have ok: "code_point n" "utf8 n @ t = c # cs" "utf8_ok t" by (auto simp: utf8_ok.simps(2))
  have "json_chars (ascii_escape n @ (ascii_chars t @ CHR 0x22 # r)) = Some (utf8 n @ t, r)"
    using "2.IH" ok p by (simp add: json_chars_ascii_escape[OF ok(1)])
  then show ?case using ok(2) p by (simp add: ascii_chars.simps(2))
qed (simp add: json_chars_quote)

section \<open>Reading values\<close>

definition json_blank :: "char \<Rightarrow> bool" where
  "json_blank c \<longleftrightarrow> c = CHR '' '' \<or> c = CHR 0x09 \<or> c = CHR 0x0A \<or> c = CHR 0x0D"

definition skip_blank :: "string \<Rightarrow> string" where
  "skip_blank = dropWhile json_blank"

definition after_prefix :: "string \<Rightarrow> string \<Rightarrow> string option" where
  "after_prefix p s = (if take (length p) s = p then Some (drop (length p) s) else None)"

text \<open>The digits of a number: a zero stands alone.\<close>

definition number_digits :: "string \<Rightarrow> string" where
  "number_digits s = (case s of [] \<Rightarrow> [] | c # _ \<Rightarrow> if c = CHR ''0'' then [c] else takeWhile is_digit s)"

definition fraction_part :: "string \<Rightarrow> string" where
  "fraction_part s = (case s of [] \<Rightarrow> []
     | c # cs \<Rightarrow> if c = CHR ''.'' \<and> takeWhile is_digit cs \<noteq> [] then c # takeWhile is_digit cs else [])"

definition exponent_part :: "string \<Rightarrow> string" where
  "exponent_part s = (case s of [] \<Rightarrow> []
     | c # cs \<Rightarrow>
         if c \<noteq> CHR ''e'' \<and> c \<noteq> CHR ''E'' then []
         else
           let sign = (case cs of [] \<Rightarrow> [] | d # _ \<Rightarrow> if d = CHR ''+'' \<or> d = CHR ''-'' then [d] else []);
               ds = takeWhile is_digit (drop (length sign) cs)
           in if ds = [] then [] else c # sign @ ds)"

text \<open>A number; \<open>flt\<close> is \<open>float(text)\<close>, the rounding to a double.\<close>

definition json_number :: "(string \<Rightarrow> pval) \<Rightarrow> string \<Rightarrow> (pval \<times> string) option" where
  "json_number flt s =
     (let sign = (case s of [] \<Rightarrow> [] | c # _ \<Rightarrow> if c = CHR ''-'' then [c] else []);
          ds = number_digits (drop (length sign) s);
          r = drop (length sign + length ds) s;
          frac = fraction_part r; ex = exponent_part (drop (length frac) r)
      in if ds = [] then None
         else if frac = [] \<and> ex = []
         then Some (PInt (if sign = [] then int (decimal_value ds) else - int (decimal_value ds)), r)
         else Some (flt (sign @ ds @ frac @ ex), drop (length frac + length ex) r))"

fun json_words :: "(string \<times> pval) list \<Rightarrow> string \<Rightarrow> (pval \<times> string) option" where
  "json_words [] s = None"
| "json_words ((w, v) # ws) s = (case after_prefix w s of Some r \<Rightarrow> Some (v, r) | None \<Rightarrow> json_words ws s)"

definition json_constants :: "(string \<times> pval) list" where
  "json_constants = [(''null'', PNone), (''true'', PBool True), (''false'', PBool False),
     (''NaN'', PFloat FNaN ''nan''), (''Infinity'', PFloat FPosInf ''inf''), (''-Infinity'', PFloat FNegInf ''-inf'')]"

definition dict_of :: "('k \<times> 'v) list \<Rightarrow> ('k \<times> 'v) list" where
  "dict_of kvs = fold (\<lambda>(k, v). AList.update k v) kvs []"

text \<open>
  The fuel bounds the nesting: a value, an item and a member each take at least one character, so
  twice the length of the text is enough.
\<close>

fun json_value :: "(string \<Rightarrow> pval) \<Rightarrow> nat \<Rightarrow> string \<Rightarrow> (pval \<times> string) option"
  and json_items :: "(string \<Rightarrow> pval) \<Rightarrow> nat \<Rightarrow> string \<Rightarrow> (pval list \<times> string) option"
  and json_members :: "(string \<Rightarrow> pval) \<Rightarrow> nat \<Rightarrow> string \<Rightarrow> ((string \<times> pval) list \<times> string) option" where
  "json_value flt 0 s = None"
| "json_value flt (Suc k) s =
     (case s of
        [] \<Rightarrow> None
      | c # cs \<Rightarrow>
          if c = CHR 0x22 then map_option (apfst PStr) (json_chars cs)
          else if c = CHR ''['' then
            (case skip_blank cs of
               [] \<Rightarrow> None
             | d # ds \<Rightarrow> if d = CHR '']'' then Some (PList [], ds)
                 else map_option (apfst PList) (json_items flt k (d # ds)))
          else if c = CHR ''{'' then
            (case skip_blank cs of
               [] \<Rightarrow> None
             | d # ds \<Rightarrow> if d = CHR ''}'' then Some (PDict [], ds)
                 else map_option (apfst (\<lambda>kvs. PDict (dict_of kvs))) (json_members flt k (d # ds)))
          else (case json_words json_constants s of Some x \<Rightarrow> Some x | None \<Rightarrow> json_number flt s))"
| "json_items flt 0 s = None"
| "json_items flt (Suc k) s =
     (case json_value flt k s of
        None \<Rightarrow> None
      | Some (v, r) \<Rightarrow>
          (case skip_blank r of
             [] \<Rightarrow> None
           | d # ds \<Rightarrow>
               if d = CHR '']'' then Some ([v], ds)
               else if d = CHR '','' then map_option (apfst ((#) v)) (json_items flt k (skip_blank ds))
               else None))"
| "json_members flt 0 s = None"
| "json_members flt (Suc k) s =
     (case s of
        [] \<Rightarrow> None
      | c # cs \<Rightarrow>
          if c \<noteq> CHR 0x22 then None
          else case json_chars cs of
            None \<Rightarrow> None
          | Some (key, r) \<Rightarrow>
              (case skip_blank r of
                 [] \<Rightarrow> None
               | d # ds \<Rightarrow>
                   if d \<noteq> CHR '':'' then None
                   else case json_value flt k (skip_blank ds) of
                     None \<Rightarrow> None
                   | Some (v, r') \<Rightarrow>
                       (case skip_blank r' of
                          [] \<Rightarrow> None
                        | e # es \<Rightarrow>
                            if e = CHR ''}'' then Some ([(key, v)], es)
                            else if e = CHR '','' then map_option (apfst ((#) (key, v))) (json_members flt k (skip_blank es))
                            else None)))"

definition json_loads :: "(string \<Rightarrow> pval) \<Rightarrow> string \<Rightarrow> pval option" where
  "json_loads flt s =
     (case json_value flt (2 * length s) (skip_blank s) of
        None \<Rightarrow> None
      | Some (v, r) \<Rightarrow> if skip_blank r = [] then Some v else None)"

text \<open>\<open>json.loads\<close> of bytes: UTF-8 text.\<close>

definition json_loads_bytes :: "(string \<Rightarrow> pval) \<Rightarrow> string \<Rightarrow> pval option" where
  "json_loads_bytes flt bs = (if utf8_ok bs then json_loads flt bs else None)"

section \<open>What is printed is read back\<close>

text \<open>Values without floats, over UTF-8 text, with the keys of every object in order.\<close>

fun json_ok :: "pval \<Rightarrow> bool" where
  "json_ok (PFloat _ _) = False"
| "json_ok (PStr s) = utf8_ok s"
| "json_ok (PList xs) = list_all json_ok xs"
| "json_ok (PDict d) = (sorted (map fst d) \<and> distinct (map fst d) \<and> list_all (\<lambda>(k, v). utf8_ok k \<and> json_ok v) d)"
| "json_ok _ = True"

text \<open>What may follow a number.\<close>

definition delimited :: "string \<Rightarrow> bool" where
  "delimited r \<longleftrightarrow> (case r of [] \<Rightarrow> True | c # _ \<Rightarrow> c \<in> {CHR '','', CHR '']'', CHR ''}''})"

function json_need :: "pval \<Rightarrow> nat" where
  "json_need (PList xs) = 1 + sum_list (map (\<lambda>x. json_need x + 1) xs)"
| "json_need (PDict d) = 1 + sum_list (map (\<lambda>e. json_need (snd e) + 1) d)"
| "json_need PNone = 1" | "json_need (PBool b) = 1" | "json_need (PInt i) = 1"
| "json_need (PFloat f t) = 1" | "json_need (PStr s) = 1"
  by pat_completeness auto
termination
  by (relation "measure size") (auto dest: size_pval_members)

lemma skip_blank_simps [simp]:
  "\<not> json_blank c \<Longrightarrow> skip_blank (c # cs) = c # cs" "skip_blank [] = []"
  by (simp_all add: skip_blank_def)

lemma json_blank_simps [simp]:
  "\<not> json_blank (CHR '','')" "\<not> json_blank (CHR '']'')" "\<not> json_blank (CHR ''}'')" "\<not> json_blank (CHR '':'')"
  "\<not> json_blank (CHR 0x22)" "\<not> json_blank (CHR ''['')" "\<not> json_blank (CHR ''{'')"
  by (simp_all add: json_blank_def)

lemma delimited_simps [simp]:
  "delimited (CHR '','' # r)" "delimited (CHR '']'' # r)" "delimited (CHR ''}'' # r)" "delimited []"
  by (simp_all add: delimited_def)

text \<open>A number starts with a digit or a minus, and ends where its digits end.\<close>

lemma digit_not_special:
  "is_digit c \<Longrightarrow> \<not> json_blank c \<and> c \<noteq> CHR 0x22 \<and> c \<noteq> CHR ''['' \<and> c \<noteq> CHR ''{'' \<and> c \<noteq> CHR '']''
     \<and> c \<noteq> CHR ''}'' \<and> c \<noteq> CHR ''-'' \<and> c \<noteq> CHR ''n'' \<and> c \<noteq> CHR ''t'' \<and> c \<noteq> CHR ''f'' \<and> c \<noteq> CHR ''N'' \<and> c \<noteq> CHR ''I''"
  by (auto simp: json_blank_def is_digit_def Let_def)

lemma nat_decimal_zero: "nat_decimal n = CHR ''0'' # cs \<Longrightarrow> n = 0 \<and> cs = []"
proof (induction n arbitrary: cs rule: nat_decimal.induct)
  case (1 n)
  show ?case
  proof (cases "n < 10")
    case True
    then have "n \<in> set [0..<10]" by simp
    moreover have "list_all (\<lambda>n. digit_char n = CHR ''0'' \<longrightarrow> n = 0) [0..<10]" by code_simp
    ultimately show ?thesis using 1(2) True by (subst (asm) nat_decimal.simps) (auto simp: list_all_iff)
  next
    case False
    then have "nat_decimal (n div 10) @ [digit_char (n mod 10)] = CHR ''0'' # cs"
      using 1(2) by (subst (asm) nat_decimal.simps) simp
    then obtain ds where "nat_decimal (n div 10) = CHR ''0'' # ds"
      using nat_decimal_ne[of "n div 10"] by (cases "nat_decimal (n div 10)") auto
    then have "n div 10 = 0" using 1(1) False by blast
    with False show ?thesis by simp
  qed
qed

lemma number_digits_nat:
  assumes "delimited r"
  shows "number_digits (nat_decimal n @ r) = nat_decimal n"
proof -
  have r: "takeWhile is_digit r = []"
    using assms by (cases r) (auto simp: delimited_def is_digit_def Let_def)
  have all: "takeWhile is_digit (nat_decimal n @ r) = nat_decimal n"
    using r by (subst takeWhile_append2) (auto dest: nat_decimal_digits)
  obtain c cs where c: "nat_decimal n = c # cs" by (cases "nat_decimal n") auto
  show ?thesis
  proof (cases "c = CHR ''0''")
    case True
    then show ?thesis using nat_decimal_zero c by (auto simp: number_digits_def)
  next
    case False
    then show ?thesis using all c by (simp add: number_digits_def)
  qed
qed

lemma delimited_parts: "delimited r \<Longrightarrow> fraction_part r = [] \<and> exponent_part r = []"
  by (cases r) (auto simp: delimited_def fraction_part_def exponent_part_def)

lemma nat_decimal_head: "\<exists>c cs. nat_decimal n = c # cs \<and> is_digit c"
  using nat_decimal_digits[of _ n] by (cases "nat_decimal n") auto

lemma json_number_int:
  assumes "delimited r"
  shows "json_number flt (int_decimal i @ r) = Some (PInt i, r)"
proof (cases "i < 0")
  case True
  then show ?thesis using assms delimited_parts[OF assms]
    by (simp add: json_number_def int_decimal_def number_digits_nat Let_def)
next
  case False
  obtain c cs where c: "nat_decimal (nat i) = c # cs" "is_digit c" using nat_decimal_head by blast
  have "number_digits (c # cs @ r) = c # cs" using number_digits_nat[OF assms, of "nat i"] c by simp
  moreover have "decimal_value (c # cs) = nat i" using decimal_value_nat_decimal[of "nat i"] c by simp
  ultimately show ?thesis using assms delimited_parts[OF assms] False c digit_not_special[OF c(2)]
    by (simp add: json_number_def int_decimal_def Let_def)
qed

lemma json_words_int: "json_words json_constants (int_decimal i @ r) = None"
proof (cases "i < 0")
  case True
  obtain c cs where c: "nat_decimal (nat (- i)) = c # cs" "is_digit c" using nat_decimal_head by blast
  then show ?thesis using digit_not_special[OF c(2)] True
    by (simp add: json_constants_def after_prefix_def int_decimal_def)
next
  case False
  obtain c cs where c: "nat_decimal (nat i) = c # cs" "is_digit c" using nat_decimal_head by blast
  then show ?thesis using digit_not_special[OF c(2)] False
    by (simp add: json_constants_def after_prefix_def int_decimal_def)
qed

lemma int_decimal_head:
  "\<exists>c cs. int_decimal i = c # cs \<and> \<not> json_blank c \<and> c \<noteq> CHR 0x22 \<and> c \<noteq> CHR ''['' \<and> c \<noteq> CHR ''{'' \<and> c \<noteq> CHR '']''
     \<and> c \<noteq> CHR ''}''"
proof (cases "i < 0")
  case True
  then show ?thesis by (simp add: int_decimal_def json_blank_def)
next
  case False
  obtain c cs where "nat_decimal (nat i) = c # cs" "is_digit c" using nat_decimal_head by blast
  then show ?thesis using False digit_not_special[of c] by (simp add: int_decimal_def)
qed

lemma json_ascii_head:
  assumes "json_ok v"
  shows "\<exists>c cs. json_ascii v = c # cs \<and> \<not> json_blank c \<and> c \<noteq> CHR '']'' \<and> c \<noteq> CHR ''}''"
proof (cases v)
  case (PInt i)
  then show ?thesis using int_decimal_head[of i] by auto
qed (use assms in \<open>auto simp: ascii_string_def json_blank_def\<close>)

lemma skip_blank_ascii: "json_ok v \<Longrightarrow> skip_blank (json_ascii v @ r) = json_ascii v @ r"
  using json_ascii_head[of v] by auto

definition reads_back :: "(string \<Rightarrow> pval) \<Rightarrow> pval \<Rightarrow> bool" where
  "reads_back flt v \<longleftrightarrow> (\<forall>r k. delimited r \<longrightarrow> json_need v \<le> k \<longrightarrow> json_value flt k (json_ascii v @ r) = Some (v, r))"

lemma reads_backD:
  "reads_back flt v \<Longrightarrow> delimited r \<Longrightarrow> json_need v \<le> k \<Longrightarrow> json_value flt k (json_ascii v @ r) = Some (v, r)"
  by (simp add: reads_back_def)

lemma json_items_ascii:
  "list_all (reads_back flt) (x # xs) \<Longrightarrow> list_all json_ok (x # xs) \<Longrightarrow>
    sum_list (map (\<lambda>x. json_need x + 1) (x # xs)) \<le> k \<Longrightarrow>
    json_items flt k (py_join '','' (map json_ascii (x # xs)) @ CHR '']'' # r) = Some (x # xs, r)"
proof (induction xs arbitrary: x k)
  case Nil
  then obtain k' where k: "k = Suc k'" "json_need x \<le> k'" by (cases k) auto
  show ?case using reads_backD[of flt x "CHR '']'' # r" k'] Nil k by simp
next
  case (Cons y ys)
  then obtain k' where k: "k = Suc k'" "json_need x \<le> k'" "sum_list (map (\<lambda>x. json_need x + 1) (y # ys)) \<le> k'"
    by (cases k) auto
  have "json_items flt k' (py_join '','' (map json_ascii (y # ys)) @ CHR '']'' # r) = Some (y # ys, r)"
    using Cons k(3) by (intro Cons.IH) simp_all
  moreover have "skip_blank (py_join '','' (map json_ascii (y # ys)) @ CHR '']'' # r)
      = py_join '','' (map json_ascii (y # ys)) @ CHR '']'' # r"
    using skip_blank_ascii[of y] Cons.prems(2) by (cases ys) simp_all
  ultimately show ?case
    using reads_backD[of flt x "CHR '','' # py_join '','' (map json_ascii (y # ys)) @ CHR '']'' # r" k'] Cons.prems k(1,2)
    by simp
qed

definition member_text :: "string \<times> pval \<Rightarrow> string" where
  "member_text e = ascii_string (fst e) @ '':'' @ json_ascii (snd e)"

lemma json_members_ascii:
  "list_all (\<lambda>e. reads_back flt (snd e) \<and> utf8_ok (fst e) \<and> json_ok (snd e)) (x # xs) \<Longrightarrow>
    sum_list (map (\<lambda>e. json_need (snd e) + 1) (x # xs)) \<le> k \<Longrightarrow>
    json_members flt k (py_join '','' (map member_text (x # xs)) @ CHR ''}'' # r) = Some (x # xs, r)"
proof (induction xs arbitrary: x k)
  case Nil
  then obtain k' where k: "k = Suc k'" "json_need (snd x) \<le> k'" by (cases k) auto
  show ?case
    using reads_backD[of flt "snd x" "CHR ''}'' # r" k'] Nil k skip_blank_ascii[of "snd x"]
      json_chars_ascii[of "fst x" "CHR '':'' # json_ascii (snd x) @ CHR ''}'' # r"]
    by (simp add: member_text_def ascii_string_def)
next
  case (Cons y ys)
  let ?rest = "py_join '','' (map member_text (y # ys)) @ CHR ''}'' # r"
  obtain k' where k: "k = Suc k'" "json_need (snd x) \<le> k'" "sum_list (map (\<lambda>e. json_need (snd e) + 1) (y # ys)) \<le> k'"
    using Cons.prems(2) by (cases k) auto
  have "json_members flt k' ?rest = Some (y # ys, r)"
    using Cons k(3) by (intro Cons.IH) simp_all
  moreover have "skip_blank ?rest = ?rest"
    by (cases ys) (simp_all add: member_text_def ascii_string_def)
  ultimately show ?case
    using reads_backD[of flt "snd x" "CHR '','' # ?rest" k'] Cons.prems k skip_blank_ascii[of "snd x" "CHR '','' # ?rest"]
      json_chars_ascii[of "fst x" "CHR '':'' # json_ascii (snd x) @ CHR '','' # ?rest"]
    by (simp add: member_text_def[of x] ascii_string_def)
qed

lemma update_absent: "k \<notin> fst ` set acc \<Longrightarrow> AList.update k v acc = acc @ [(k, v)]"
  by (induction acc) auto

lemma dict_of_append:
  "distinct (map fst (acc @ d)) \<Longrightarrow> fold (\<lambda>(k, v). AList.update k v) d acc = acc @ d"
proof (induction d arbitrary: acc)
  case (Cons e d)
  obtain k v where e: "e = (k, v)" by force
  have "AList.update k v acc = acc @ [(k, v)]"
    using Cons.prems e by (intro update_absent) auto
  then show ?case using Cons.IH[of "acc @ [(k, v)]"] Cons.prems e by simp
qed simp

lemma dict_of_distinct: "distinct (map fst d) \<Longrightarrow> dict_of d = d"
  using dict_of_append[of "[]" d] by (simp add: dict_of_def)

lemma json_ascii_dict:
  "sorted (map fst d) \<Longrightarrow> json_ascii (PDict d) = ''{'' @ py_join '','' (map member_text d) @ ''}''"
  by (simp add: sort_key_id_if_sorted member_text_def cong: map_cong)

lemma json_ascii_reads_back: "json_ok v \<Longrightarrow> reads_back flt v"
proof (induction v rule: json_need.induct)
  case (1 xs)
  show ?case unfolding reads_back_def
  proof (intro allI impI)
    fix r k assume r: "delimited r" and k: "json_need (PList xs) \<le> k"
    then obtain k' where k': "k = Suc k'" by (cases k) auto
    show "json_value flt k (json_ascii (PList xs) @ r) = Some (PList xs, r)"
    proof (cases xs)
      case Nil
      then show ?thesis using k' by simp
    next
      case (Cons y ys)
      have "list_all (reads_back flt) xs" using 1 by (auto simp: list_all_iff)
      then have items: "json_items flt k' (py_join '','' (map json_ascii xs) @ CHR '']'' # r) = Some (xs, r)"
        using k k' 1(2) unfolding Cons by (intro json_items_ascii) simp_all
      obtain c cs where "py_join '','' (map json_ascii xs) @ CHR '']'' # r = c # cs" "\<not> json_blank c" "c \<noteq> CHR '']''"
        using json_ascii_head[of y] 1(2) Cons by (cases ys) auto
      then show ?thesis using items k' by simp
    qed
  qed
next
  case (2 d)
  show ?case unfolding reads_back_def
  proof (intro allI impI)
    fix r k assume r: "delimited r" and k: "json_need (PDict d) \<le> k"
    then obtain k' where k': "k = Suc k'" by (cases k) auto
    have d: "sorted (map fst d)" "distinct (map fst d)" using 2(2) by auto
    show "json_value flt k (json_ascii (PDict d) @ r) = Some (PDict d, r)"
    proof (cases d)
      case Nil
      then show ?thesis using k' by simp
    next
      case (Cons y ys)
      have "list_all (\<lambda>e. reads_back flt (snd e) \<and> utf8_ok (fst e) \<and> json_ok (snd e)) d"
        using 2 by (fastforce simp: list_all_iff)
      then have items: "json_members flt k' (py_join '','' (map member_text d) @ CHR ''}'' # r) = Some (d, r)"
        using k k' unfolding Cons by (intro json_members_ascii) simp_all
      obtain cs where cs: "py_join '','' (map member_text d) @ CHR ''}'' # r = CHR 0x22 # cs"
        unfolding Cons by (cases ys) (simp_all add: member_text_def ascii_string_def)
      show ?thesis unfolding json_ascii_dict[OF d(1)] k'
        using items dict_of_distinct[OF d(2)] by (simp add: cs)
    qed
  qed
next
  case (5 i)
  obtain c cs where c: "int_decimal i = c # cs" "c \<noteq> CHR 0x22" "c \<noteq> CHR ''[''" "c \<noteq> CHR ''{''"
    using int_decimal_head[of i] by blast
  show ?case unfolding reads_back_def
  proof (intro allI impI)
    fix r k assume r: "delimited r" and k: "json_need (PInt i) \<le> k"
    then obtain k' where "k = Suc k'" by (cases k) auto
    then show "json_value flt k (json_ascii (PInt i) @ r) = Some (PInt i, r)"
      using c json_number_int[OF r, of flt i] json_words_int[of i r] by simp
  qed
next
  case (7 s)
  show ?case unfolding reads_back_def
  proof (intro allI impI)
    fix r k assume r: "delimited r" and k: "json_need (PStr s) \<le> k"
    then obtain k' where "k = Suc k'" by (cases k) auto
    then show "json_value flt k (json_ascii (PStr s) @ r) = Some (PStr s, r)"
      using 7 json_chars_ascii[of s r] by (simp add: ascii_string_def)
  qed
qed (auto simp: reads_back_def json_constants_def after_prefix_def Suc_le_eq gr0_conv_Suc)

lemma length_py_join: "xs \<noteq> [] \<Longrightarrow> length (py_join '','' xs) + 1 = sum_list (map (\<lambda>x. length x + 1) xs)"
proof (induction xs)
  case (Cons x xs)
  then show ?case by (cases xs) auto
qed simp

lemma json_need_bound: "json_ok v \<Longrightarrow> json_need v \<le> 2 * length (json_ascii v)"
proof (induction v rule: json_need.induct)
  case (1 xs)
  have "sum_list (map (\<lambda>x. json_need x + 1) xs) \<le> sum_list (map (\<lambda>x. 2 * (length (json_ascii x) + 1)) xs)"
    using 1 by (intro sum_list_mono) (force simp: list_all_iff)
  also have "\<dots> = 2 * sum_list (map (\<lambda>x. length x + 1) (map json_ascii xs))"
    by (simp only: sum_list_const_mult list.map_comp o_def)
  finally show ?case using length_py_join[of "map json_ascii xs"] by (cases "xs = []") auto
next
  case (2 d)
  have d: "sorted (map fst d)" using 2(2) by auto
  have "sum_list (map (\<lambda>e. json_need (snd e) + 1) d) \<le> sum_list (map (\<lambda>e. 2 * (length (member_text e) + 1)) d)"
    using 2 by (intro sum_list_mono) (fastforce simp: list_all_iff member_text_def)
  also have "\<dots> = 2 * sum_list (map (\<lambda>x. length x + 1) (map member_text d))"
    by (simp only: sum_list_const_mult list.map_comp o_def)
  finally show ?case unfolding json_ascii_dict[OF d]
    using length_py_join[of "map member_text d"] by (cases "d = []") auto
next
  case (5 i)
  then show ?case using int_decimal_head[of i] by auto
qed (auto simp: ascii_string_def)

theorem json_loads_ascii: "json_ok v \<Longrightarrow> json_loads flt (json_ascii v) = Some v"
  using reads_backD[of flt v "[]" "2 * length (json_ascii v)"] json_ascii_reads_back[of v flt]
    json_need_bound[of v] skip_blank_ascii[of v "[]"]
  by (simp add: json_loads_def)

text \<open>The printed text is ASCII, so it is read back from bytes, too.\<close>

lemma digit_char_ascii: "d < 10 \<Longrightarrow> (of_char (digit_char d) :: int) < 128"
  by (simp add: digit_char_def)

lemma hex_digit_ascii: "d < 16 \<Longrightarrow> (of_char (hex_digit (int d)) :: int) < 128"
  by (simp add: hex_digit_def)

lemma list_all_ascii_parts:
  "list_all (\<lambda>c. (of_char c :: int) < 128) (hex4 n)" "list_all (\<lambda>c. (of_char c :: int) < 128) (ascii_escape n)"
proof -
  show hex: "list_all (\<lambda>c. (of_char c :: int) < 128) (hex4 n)" for n
    by (simp add: hex4_def hex_digit_ascii del: of_char_of)
  have plain: "n < 128 \<Longrightarrow> (of_char (char_of n :: char) :: int) < 128"
    by (metis of_nat_of_char of_char_nat_char mod_less_eq_dividend le_less_trans of_nat_less_numeral_iff)
  show "list_all (\<lambda>c. (of_char c :: int) < 128) (ascii_escape n)"
    unfolding ascii_escape_def unicode_escape_def using hex plain by (auto simp del: of_char_of)
qed

lemma ascii_chars_ascii: "list_all (\<lambda>c. (of_char c :: int) < 128) (ascii_chars s)"
  by (induction s rule: ascii_chars.induct) (auto simp: ascii_chars.simps(2) list_all_ascii_parts split: prod.splits)

lemma int_decimal_ascii: "list_all (\<lambda>c. (of_char c :: int) < 128) (int_decimal i)"
  using nat_decimal_digits by (fastforce simp: int_decimal_def list_all_iff is_digit_def Let_def)

lemma py_join_ascii:
  "list_all (list_all (\<lambda>c. (of_char c :: int) < 128)) xs \<Longrightarrow> list_all (\<lambda>c. (of_char c :: int) < 128) (py_join '','' xs)"
  by (induction "'',''" xs rule: py_join.induct) auto

lemma member_text_ascii:
  "list_all (\<lambda>c. (of_char c :: int) < 128) (json_ascii (snd e)) \<Longrightarrow> list_all (\<lambda>c. (of_char c :: int) < 128) (member_text e)"
  using ascii_chars_ascii by (simp add: member_text_def ascii_string_def)

lemma json_ascii_ascii: "json_ok v \<Longrightarrow> list_all (\<lambda>c. (of_char c :: int) < 128) (json_ascii v)"
proof (induction v rule: json_need.induct)
  case (1 xs)
  then have "list_all (list_all (\<lambda>c. (of_char c :: int) < 128)) (map json_ascii xs)"
    by (simp add: list_all_iff)
  then show ?case using py_join_ascii by simp
next
  case (2 d)
  have "list_all (\<lambda>c. (of_char c :: int) < 128) (json_ascii (snd e))" if "e \<in> set d" for e
    using that "2.IH"[OF that] "2.prems" by (cases e) (auto simp: list_all_iff)
  then have "list_all (list_all (\<lambda>c. (of_char c :: int) < 128)) (map member_text d)"
    by (simp add: list_all_iff[of _ "map member_text d"] member_text_ascii)
  moreover have "sorted (map fst d)" using "2.prems" by simp
  ultimately show ?case using py_join_ascii[of "map member_text d"] by (simp only: json_ascii_dict) simp
qed (simp_all add: int_decimal_ascii ascii_string_def ascii_chars_ascii)

lemma json_loads_bytes_ascii: "json_ok v \<Longrightarrow> json_loads_bytes flt (json_ascii v) = Some v"
  by (simp add: json_loads_bytes_def utf8_ok_ascii json_ascii_ascii json_loads_ascii)

end
