(* ===== verification/Payos.thy ===== *)
theory Payos
  imports Url_Text Billing_Queue Json_Read
begin

text \<open>
  The adapter of payOS: \<open>src/backend/billing/providers/payos.py\<close>. Requests are signed, every answer is
  verified against its signature before anything of it is used, and the checkout page must be one
  of payOS.
\<close>

section \<open>Signed data\<close>

definition scalar_text :: "pval \<Rightarrow> string" where
  "scalar_text v =
     (if v = PNone \<or> v = PStr ''null'' \<or> v = PStr ''undefined'' then []
      else if v = PBool True then ''true''
      else if v = PBool False then ''false''
      else py_str v)"

text \<open>\<open>_normalized_json\<close> with \<open>json.dumps(..., separators=(",", ":"))\<close>: keys in order at every depth.\<close>

function normalized_json :: "pval \<Rightarrow> pval" where
  "normalized_json (PDict d) = PDict (map (\<lambda>e. (fst e, normalized_json (snd e))) (sort_key fst d))"
| "normalized_json (PList xs) = PList (map normalized_json xs)"
| "normalized_json PNone = PNone"
| "normalized_json (PBool b) = PBool b"
| "normalized_json (PInt i) = PInt i"
| "normalized_json (PFloat f t) = PFloat f t"
| "normalized_json (PStr s) = PStr s"
  by pat_completeness auto
termination
  by (relation "measure size") (auto dest: size_pval_members)

function json_compact :: "pval \<Rightarrow> string" where
  "json_compact (PList xs) = ''['' @ py_join '','' (map json_compact xs) @ '']''"
| "json_compact (PDict d) =
     ''{'' @ py_join '','' (map (\<lambda>e. json_string (fst e) @ '':'' @ json_compact (snd e)) d) @ ''}''"
| "json_compact PNone = json_dumps PNone"
| "json_compact (PBool b) = json_dumps (PBool b)"
| "json_compact (PInt i) = json_dumps (PInt i)"
| "json_compact (PFloat f t) = json_dumps (PFloat f t)"
| "json_compact (PStr s) = json_dumps (PStr s)"
  by pat_completeness auto
termination
  by (relation "measure size") (auto dest: size_pval_members)

definition signed_pair :: "string \<times> pval \<Rightarrow> string" where
  "signed_pair e = fst e @ CHR ''='' #
     (if is_dict (snd e) \<or> is_list (snd e) then json_compact (normalized_json (snd e)) else scalar_text (snd e))"

definition canonicalize_signed_data :: "pval \<Rightarrow> py_exn + string" where
  "canonicalize_signed_data data =
     (if is_dict data then Inr (py_join ''&'' (map signed_pair (sort_key fst (entries data)))) else Inl ValueError)"

text \<open>
  The adapter: its credentials, the transport, which answers with a status and a body or raises,
  HMAC-SHA-256 in hexadecimal, the folding of case and the reading of decimals and URLs.
\<close>

record payos_env =
  po_client_id :: string
  po_api_key :: string
  po_checksum_key :: string
  po_transport :: "string \<Rightarrow> string \<Rightarrow> (string \<times> string) list \<Rightarrow> pval \<Rightarrow> worker_exn + (int \<times> string)"
  po_hmac :: "string \<Rightarrow> string \<Rightarrow> string"
  po_casefold :: "string \<Rightarrow> string"
  po_float :: "string \<Rightarrow> pval"
  po_url :: url_env

definition PAYOS_API_ORIGIN :: string where
  "PAYOS_API_ORIGIN = ''https://api-merchant.payos.vn''"

definition PAYOS_CHECKOUT_HOSTS :: "string list" where
  "PAYOS_CHECKOUT_HOSTS = [''pay.payos.vn'', ''next.pay.payos.vn'']"

definition PAYOS_STATUSES :: "string list" where
  "PAYOS_STATUSES = [''PENDING'', ''CANCELLED'', ''UNDERPAID'', ''PAID'', ''EXPIRED'', ''PROCESSING'', ''FAILED'']"

definition sign_signed_data :: "payos_env \<Rightarrow> pval \<Rightarrow> py_exn + string" where
  "sign_signed_data env data =
     res_bind (canonicalize_signed_data data) (\<lambda>text. Inr (po_hmac env (po_checksum_key env) text))"

definition sign_create_request :: "payos_env \<Rightarrow> pval \<Rightarrow> py_exn + string" where
  "sign_create_request env payload =
     res_bind (res_bind (get_item payload ''amount'') py_int) (\<lambda>amount.
     res_bind (get_item payload ''cancelUrl'') (\<lambda>cancel_url.
     res_bind (get_item payload ''description'') (\<lambda>description.
     res_bind (res_bind (get_item payload ''orderCode'') py_int) (\<lambda>order_code.
     res_bind (get_item payload ''returnUrl'') (\<lambda>return_url.
     Inr (po_hmac env (po_checksum_key env)
       (''amount='' @ int_decimal amount @ ''&cancelUrl='' @ py_str cancel_url @ ''&description='' @ py_str description
        @ ''&orderCode='' @ int_decimal order_code @ ''&returnUrl='' @ py_str return_url)))))))"

definition verify_signed_data :: "payos_env \<Rightarrow> pval \<Rightarrow> pval \<Rightarrow> py_exn + bool" where
  "verify_signed_data env data signature =
     res_bind (sign_signed_data env data) (\<lambda>expected.
     compare_digest expected (po_casefold env (py_strip (str_or_empty signature))))"

section \<open>URLs\<close>

definition payos_error :: "string \<Rightarrow> worker_exn" where
  "payos_error code = ProviderError \<lparr>pe_code = code, pe_unknown = False, pe_retryable = False\<rparr>"

definition validate_checkout_url :: "payos_env \<Rightarrow> pval \<Rightarrow> worker_exn + string" where
  "validate_checkout_url env v =
     (case res_bind (urlsplit (po_url env) (str_or_empty v)) (\<lambda>parsed.
         if ur_scheme parsed \<noteq> ''https''
           \<or> \<not> (case url_hostname parsed of None \<Rightarrow> False | Some h \<Rightarrow> h \<in> set PAYOS_CHECKOUT_HOSTS)
           \<or> url_username parsed \<noteq> None \<or> url_password parsed \<noteq> None
         then Inr (True, parsed)
         else res_bind (url_port parsed) (\<lambda>port. Inr (port \<noteq> None \<and> port \<noteq> Some 443, parsed))) of
        Inl e \<Rightarrow> if e = ValueError then Inl (payos_error ''PROVIDER_CHECKOUT_URL_INVALID'') else Inl (OtherError e)
      | Inr (invalid, parsed) \<Rightarrow>
          if invalid then Inl (payos_error ''PROVIDER_CHECKOUT_URL_INVALID'') else Inr (url_text parsed))"

definition validate_callback_url :: "payos_env \<Rightarrow> pval \<Rightarrow> py_exn + string" where
  "validate_callback_url env v =
     res_bind (urlsplit (po_url env) (str_or_empty v)) (\<lambda>parsed.
     if ur_scheme parsed \<noteq> ''https'' \<or> url_hostname parsed = None \<or> or_blank (url_username parsed) \<noteq> []
       \<or> or_blank (url_password parsed) \<noteq> []
     then Inl ValueError else Inr (url_text parsed))"

section \<open>A call\<close>

text \<open>After a change was asked for, a failure of the transport leaves its outcome open.\<close>

definition mark_unknown :: "bool \<Rightarrow> worker_exn + 'a \<Rightarrow> worker_exn + 'a" where
  "mark_unknown mutation m =
     (case m of Inl (ProviderError e) \<Rightarrow> Inl (ProviderError (if mutation then e\<lparr>pe_unknown := True\<rparr> else e)) | _ \<Rightarrow> m)"

definition request_failed :: "bool \<Rightarrow> int \<Rightarrow> worker_exn" where
  "request_failed mutation status =
     ProviderError \<lparr>pe_code = ''PROVIDER_REQUEST_FAILED'', pe_unknown = mutation \<and> 500 \<le> status,
       pe_retryable = (status = 408 \<or> status = 429 \<or> 500 \<le> status)\<rparr>"

definition call_headers :: "payos_env \<Rightarrow> (string \<times> string) list" where
  "call_headers env = [(''x-client-id'', po_client_id env), (''x-api-key'', po_api_key env),
     (''Content-Type'', ''application/json; charset=utf-8''), (''User-Agent'', ''BiddingFlow-Payments/1.0'')]"

text \<open>The envelope of an answer, checked before its data are used.\<close>

definition open_envelope :: "payos_env \<Rightarrow> bool \<Rightarrow> int \<Rightarrow> pval \<Rightarrow> worker_exn + pval" where
  "open_envelope env mutation status envelope =
     (if status < 200 \<or> 300 \<le> status then Inl (request_failed mutation status)
      else
        res_bind (lift_worker (get_attr envelope ''code'')) (\<lambda>code.
        if code \<noteq> PStr ''00'' then Inl (request_failed mutation status)
        else
          let data = dget envelope ''data'' in
          if \<not> is_dict data then Inl (payos_error ''PROVIDER_RESPONSE_UNVERIFIED'')
          else
            res_bind (lift_worker (verify_signed_data env data (dget envelope ''signature''))) (\<lambda>verified.
            if \<not> verified then Inl (payos_error ''PROVIDER_RESPONSE_UNVERIFIED'') else Inr data)))"

definition with_checkout_url :: "payos_env \<Rightarrow> pval \<Rightarrow> worker_exn + pval" where
  "with_checkout_url env data =
     (if dget data ''checkoutUrl'' = PNone \<or> dget data ''checkoutUrl'' = PStr [] then Inr data
      else res_bind (validate_checkout_url env (dget data ''checkoutUrl''))
        (\<lambda>url. Inr (set_item ''checkoutUrl'' (PStr url) data)))"

definition payos_call :: "payos_env \<Rightarrow> string \<Rightarrow> string \<Rightarrow> pval \<Rightarrow> bool \<Rightarrow> worker_exn + pval" where
  "payos_call env verb path body mutation =
     res_bind (mark_unknown mutation (po_transport env verb (PAYOS_API_ORIGIN @ path) (call_headers env) body)) (\<lambda>(status, raw).
     case json_loads_bytes (po_float env) raw of
       None \<Rightarrow> Inl (payos_error ''PROVIDER_RESPONSE_INVALID'')
     | Some envelope \<Rightarrow> res_bind (open_envelope env mutation status envelope) (with_checkout_url env))"

section \<open>The operations\<close>

definition identifier_char :: "char \<Rightarrow> bool" where
  "identifier_char c \<longleftrightarrow> ascii_alpha c \<or> is_digit c \<or> c = CHR ''-'' \<or> c = CHR ''_''"

definition payment_identifier :: "pval \<Rightarrow> py_exn + string" where
  "payment_identifier v =
     (let text = py_strip (str_or_empty v)
      in if text = [] \<or> 128 < py_len text \<or> \<not> list_all identifier_char text then Inl ValueError else Inr text)"

definition validate_status :: "pval \<Rightarrow> worker_exn + unit" where
  "validate_status data =
     (if py_upper (str_or_empty (dget data ''status'')) \<in> set PAYOS_STATUSES then Inr ()
      else Inl (payos_error ''PROVIDER_SCHEMA_INVALID''))"

definition match_order :: "pval \<Rightarrow> int \<Rightarrow> int \<Rightarrow> worker_exn + unit" where
  "match_order data order_code amount =
     res_bind (lift_worker (int_or_zero (dget data ''orderCode''))) (\<lambda>code.
     if code \<noteq> order_code then Inl (payos_error ''PAYMENT_MISMATCH'')
     else res_bind (lift_worker (int_or_zero (dget data ''amount''))) (\<lambda>n.
       if n \<noteq> amount then Inl (payos_error ''PAYMENT_MISMATCH'') else Inr ()))"

definition optional_fields :: "string list" where
  "optional_fields = [''buyerName'', ''buyerEmail'', ''buyerPhone'', ''buyerAddress'', ''items'', ''expiredAt'']"

definition create_payload :: "payos_env \<Rightarrow> pval \<Rightarrow> py_exn + pval" where
  "create_payload env request =
     res_bind (res_bind (get_item request ''orderCode'') py_int) (\<lambda>order_code.
     res_bind (res_bind (get_item request ''amount'') py_int) (\<lambda>amount.
     res_bind (get_item request ''description'') (\<lambda>description.
     res_bind (res_bind (get_item request ''cancelUrl'') (validate_callback_url env)) (\<lambda>cancel_url.
     res_bind (res_bind (get_item request ''returnUrl'') (validate_callback_url env)) (\<lambda>return_url.
     if order_code \<le> 0 \<or> amount \<le> 0 then Inl ValueError
     else
       let payload = PDict ([(''orderCode'', PInt order_code), (''amount'', PInt amount), (''description'', PStr (py_str description)),
             (''cancelUrl'', PStr cancel_url), (''returnUrl'', PStr return_url)]
             @ filter (\<lambda>e. snd e \<noteq> PNone) (map (\<lambda>k. (k, dget request k)) optional_fields))
       in res_bind (sign_create_request env payload) (\<lambda>signature. Inr (set_item ''signature'' (PStr signature) payload)))))))"

definition payos_create :: "payos_env \<Rightarrow> pval \<Rightarrow> worker_exn + pval" where
  "payos_create env request =
     res_bind (lift_worker (create_payload env request)) (\<lambda>payload.
     res_bind (payos_call env ''POST'' ''/v2/payment-requests'' payload True) (\<lambda>data.
     res_bind (validate_checkout_url env (dget data ''checkoutUrl'')) (\<lambda>url.
     res_bind (lift_worker (py_int (dget payload ''orderCode''))) (\<lambda>order_code.
     res_bind (lift_worker (py_int (dget payload ''amount''))) (\<lambda>amount.
     res_bind (match_order data order_code amount) (\<lambda>_.
     Inr (set_item ''checkoutUrl'' (PStr url) data)))))))"

text \<open>A link is named by 32 hexadecimal digits; then its page is known.\<close>

definition recover_link :: "payos_env \<Rightarrow> pval \<Rightarrow> worker_exn + pval" where
  "recover_link env data =
     (let data1 = (if truthy (dget data ''id'') \<and> \<not> truthy (dget data ''paymentLinkId'')
          then set_item ''paymentLinkId'' (PStr (py_str (dget data ''id''))) data else data);
          link_id = str_or_empty (dget data1 ''paymentLinkId'')
      in if \<not> truthy (dget data1 ''checkoutUrl'')
           \<and> py_upper (str_or_empty (dget data1 ''status'')) \<in> {''PENDING'', ''PROCESSING'', ''UNDERPAID''}
           \<and> length link_id = 32 \<and> list_all hex_char link_id
         then res_bind (validate_checkout_url env (PStr (''https://pay.payos.vn/web/'' @ link_id)))
           (\<lambda>url. Inr (set_item ''checkoutUrl'' (PStr url) data1))
         else Inr data1)"

definition check_transactions :: "pval \<Rightarrow> worker_exn + pval" where
  "check_transactions data =
     (case dget data ''transactions'' of
        PDict [] \<Rightarrow> Inr (set_item ''transactions'' (PList []) data)
      | PList xs \<Rightarrow> Inr data
      | _ \<Rightarrow> Inl (payos_error ''PROVIDER_SCHEMA_INVALID''))"

definition occurrence_ok :: "pval \<Rightarrow> bool" where
  "occurrence_ok v = (case v of PStr s \<Rightarrow> s \<noteq> [] | PInt _ \<Rightarrow> True | PFloat _ _ \<Rightarrow> True | _ \<Rightarrow> False)"

text \<open>One transaction that pays the whole amount gives its reference and its time.\<close>

definition project_evidence :: "pval \<Rightarrow> pval" where
  "project_evidence data =
     (case (py_upper (str_or_empty (dget data ''status'')) = ''PAID'', dget data ''transactions'') of
        (True, PList [PDict t]) \<Rightarrow>
          (case (plain_int (dget data ''amount''), plain_int (dget data ''amountPaid''), plain_int (dget (PDict t) ''amount'')) of
             (Some amount, Some paid, Some n) \<Rightarrow>
               if 0 < amount \<and> amount = paid \<and> paid = n then
                 (case dget (PDict t) ''reference'' of
                    PStr reference \<Rightarrow>
                      if py_strip reference \<noteq> [] \<and> occurrence_ok (dget (PDict t) ''transactionDateTime'') then
                        let data1 = (if truthy (dget data ''reference'') then data else set_item ''reference'' (PStr reference) data)
                        in if dget data1 ''transactionDateTime'' = PNone \<or> dget data1 ''transactionDateTime'' = PStr []
                           then set_item ''transactionDateTime'' (dget (PDict t) ''transactionDateTime'') data1 else data1
                      else data
                  | _ \<Rightarrow> data)
               else data
           | _ \<Rightarrow> data)
      | _ \<Rightarrow> data)"

definition payos_get :: "payos_env \<Rightarrow> pval \<Rightarrow> worker_exn + pval" where
  "payos_get env identifier =
     res_bind (lift_worker (payment_identifier identifier)) (\<lambda>name.
     res_bind (payos_call env ''GET'' (''/v2/payment-requests/'' @ name) PNone False) (\<lambda>data.
     res_bind (validate_status data) (\<lambda>_.
     res_bind (recover_link env data) (\<lambda>data1.
     res_bind (check_transactions data1) (\<lambda>data2.
     Inr (project_evidence data2))))))"

definition payos_cancel :: "payos_env \<Rightarrow> pval \<Rightarrow> pval \<Rightarrow> worker_exn + pval" where
  "payos_cancel env identifier reason =
     res_bind (lift_worker (payment_identifier identifier)) (\<lambda>name.
     let body = PDict (if truthy reason then [(''cancellationReason'', PStr (py_prefix 500 (py_str reason)))] else [])
     in res_bind (payos_call env ''POST'' (''/v2/payment-requests/'' @ name @ ''/cancel'') body True) (\<lambda>data.
        res_bind (validate_status data) (\<lambda>_. Inr data)))"

definition payos_provider :: "payos_env \<Rightarrow> provider" where
  "payos_provider env =
     \<lparr>get_payment = payos_get env, cancel_payment = payos_cancel env, create_payment = payos_create env\<rparr>"

definition verify_webhook :: "payos_env \<Rightarrow> pval \<Rightarrow> worker_exn + pval" where
  "verify_webhook env envelope =
     (if \<not> is_dict envelope \<or> \<not> is_dict (dget envelope ''data'') then Inl (payos_error ''PROVIDER_EVENT_SCHEMA_INVALID'')
      else res_bind (lift_worker (verify_signed_data env (dget envelope ''data'') (dget envelope ''signature''))) (\<lambda>verified.
        if \<not> verified then Inl (payos_error ''PROVIDER_EVENT_UNVERIFIED'') else Inr (dget envelope ''data'')))"

end
