(* ===== verification/Payos_Laws.thy ===== *)
theory Payos_Laws
  imports Payos Billing_Worker_Laws
begin

text \<open>
  What the adapter of payOS answers is signed by payOS, and where its checkout pages lead; through the
  command queue and the worker, where a buyer is sent.
\<close>

section \<open>Errors and dictionaries\<close>

lemma lift_worker_Inl [simp]: "lift_worker (Inl e) = Inl (OtherError e)" "lift_worker (Inr x) = Inr x"
  by (simp_all add: lift_worker_def)

lemma mark_unknown_Inr [res_simps]: "mark_unknown b m = Inr x \<longleftrightarrow> m = Inr x"
  by (cases m) (auto simp: mark_unknown_def split: worker_exn.splits)

section \<open>Answers are signed\<close>

lemma open_envelope_Inr:
  assumes "open_envelope env b status envelope = Inr data"
  shows "200 \<le> status" "status < 300" "data = dget envelope ''data''" "is_dict data"
    and "verify_signed_data env data (dget envelope ''signature'') = Inr True"
  using assms by (auto simp: open_envelope_def res_simps Let_def split: if_splits)

text \<open>
  The fields an order is paid by, which the adapter never changes, and an answer that has them from a
  message of the transport whose signature was verified.
\<close>

definition payment_fields :: "string set" where
  "payment_fields = {''status'', ''amount'', ''amountPaid'', ''orderCode'', ''id''}"

definition signed_answer :: "payos_env \<Rightarrow> pval \<Rightarrow> bool" where
  "signed_answer env answer \<longleftrightarrow> (\<exists>verb path body status raw envelope.
     po_transport env verb (PAYOS_API_ORIGIN @ path) (call_headers env) body = Inr (status, raw) \<and> 200 \<le> status \<and> status < 300
     \<and> json_loads_bytes (po_float env) raw = Some envelope
     \<and> verify_signed_data env (dget envelope ''data'') (dget envelope ''signature'') = Inr True
     \<and> (\<forall>k \<in> payment_fields. dget answer k = dget (dget envelope ''data'') k))"

lemma checkout_url_fields:
  "with_checkout_url env data = Inr data' \<Longrightarrow> k \<noteq> ''checkoutUrl'' \<Longrightarrow> dget data' k = dget data k"
  by (auto simp: with_checkout_url_def res_simps split: if_splits)

lemma call_signed:
  assumes "payos_call env verb path body b = Inr data"
  shows "signed_answer env data"
proof -
  obtain status raw envelope data0 where "po_transport env verb (PAYOS_API_ORIGIN @ path) (call_headers env) body = Inr (status, raw)"
      "json_loads_bytes (po_float env) raw = Some envelope"
    and opened: "open_envelope env b status envelope = Inr data0" and url: "with_checkout_url env data0 = Inr data"
    using assms by (auto simp: payos_call_def res_simps split: option.splits)
  moreover have "dget data k = dget (dget envelope ''data'') k" if "k \<in> payment_fields" for k
    using checkout_url_fields[OF url, of k] that open_envelope_Inr(3)[OF opened] by (auto simp: payment_fields_def)
  ultimately show ?thesis unfolding signed_answer_def using open_envelope_Inr[OF opened] by metis
qed

lemma signed_answer_cong:
  "signed_answer env data \<Longrightarrow> \<forall>k \<in> payment_fields. dget data' k = dget data k \<Longrightarrow> signed_answer env data'"
  unfolding signed_answer_def by (metis (no_types, lifting))

lemma recover_link_fields:
  "recover_link env data = Inr data' \<Longrightarrow> k \<noteq> ''checkoutUrl'' \<Longrightarrow> k \<noteq> ''paymentLinkId'' \<Longrightarrow> dget data' k = dget data k"
  by (auto simp: recover_link_def res_simps Let_def split: if_splits)

lemma check_transactions_fields:
  "check_transactions data = Inr data' \<Longrightarrow> k \<noteq> ''transactions'' \<Longrightarrow> dget data' k = dget data k"
  by (auto simp: check_transactions_def split: pval.splits list.splits)

lemma evidence_fields:
  "k \<noteq> ''reference'' \<Longrightarrow> k \<noteq> ''transactionDateTime'' \<Longrightarrow> dget (project_evidence data) k = dget data k"
  by (simp add: project_evidence_def Let_def split: pval.splits list.splits option.splits bool.splits)

lemma get_parts:
  assumes "payos_get env i = Inr answer"
  obtains name data data1 data2 where "payos_call env ''GET'' (''/v2/payment-requests/'' @ name) PNone False = Inr data"
    "recover_link env data = Inr data1" "check_transactions data1 = Inr data2" "answer = project_evidence data2"
  using assms by (auto simp: payos_get_def res_simps)

lemma create_parts:
  assumes "payos_create env request = Inr answer"
  obtains payload data url where "payos_call env ''POST'' ''/v2/payment-requests'' payload True = Inr data"
    "validate_checkout_url env (dget data ''checkoutUrl'') = Inr url" "answer = set_item ''checkoutUrl'' (PStr url) data"
  using assms by (auto simp: payos_create_def res_simps)

lemma cancel_parts:
  assumes "payos_cancel env i reason = Inr answer"
  obtains path body where "payos_call env ''POST'' path body True = Inr answer"
  using assms by (auto simp: payos_cancel_def res_simps Let_def)

definition answered_by :: "provider \<Rightarrow> pval \<Rightarrow> bool" where
  "answered_by p answer \<longleftrightarrow> (\<exists>i. get_payment p i = Inr answer) \<or> (\<exists>i reason. cancel_payment p i reason = Inr answer)
     \<or> (\<exists>request. create_payment p request = Inr answer)"

lemma payos_answered:
  assumes "answered_by (payos_provider env) answer"
  obtains i where "payos_get env i = Inr answer" | i reason where "payos_cancel env i reason = Inr answer"
  | request where "payos_create env request = Inr answer"
  using assms by (auto simp: answered_by_def payos_provider_def)

text \<open>
  C36: what payOS answers is signed. Whatever an operation of the adapter returns, its status, amounts,
  order code and identifier stand in a message the transport delivered with a good status and whose
  signature under the checksum key of the merchant was verified.
\<close>

theorem payos_answers_are_signed:
  assumes "answered_by (payos_provider env) answer"
  shows "signed_answer env answer"
  using assms
proof (cases rule: payos_answered)
  case (1 i)
  obtain name data data1 data2 where get: "payos_call env ''GET'' (''/v2/payment-requests/'' @ name) PNone False = Inr data"
    "recover_link env data = Inr data1" "check_transactions data1 = Inr data2" "answer = project_evidence data2"
    by (rule get_parts[OF 1])
  have "dget answer k = dget data k" if "k \<in> payment_fields" for k
    using that recover_link_fields[OF get(2), of k] check_transactions_fields[OF get(3), of k] evidence_fields[of k data2]
    by (auto simp: payment_fields_def get(4))
  then show ?thesis using signed_answer_cong[OF call_signed[OF get(1)]] by blast
next
  case (2 i reason)
  then show ?thesis using call_signed by (metis cancel_parts)
next
  case (3 request)
  obtain payload data url where create: "payos_call env ''POST'' ''/v2/payment-requests'' payload True = Inr data"
    "answer = set_item ''checkoutUrl'' (PStr url) data" by (rule create_parts[OF 3])
  have "dget answer k = dget data k" if "k \<in> payment_fields" for k
    using that by (auto simp: payment_fields_def create(2))
  then show ?thesis using signed_answer_cong[OF call_signed[OF create(1)]] by blast
qed

section \<open>Where a checkout leads\<close>

definition ip6_has_colon :: "payos_env \<Rightarrow> bool" where
  "ip6_has_colon env \<longleftrightarrow> (\<forall>h. ur_ip6 (po_url env) h \<longrightarrow> CHR '':'' \<in> set h)"

lemma hosts_plain: "h \<in> set PAYOS_CHECKOUT_HOSTS \<Longrightarrow> CHR '':'' \<notin> set h \<and> CHR ''%'' \<notin> set h \<and> take 1 h \<noteq> ''v'' \<and> h \<noteq> []"
  by (auto simp: PAYOS_CHECKOUT_HOSTS_def)

lemma lower_take: "take 1 h = ''v'' \<Longrightarrow> take 1 (py_lower h) = ''v''"
proof -
  assume "take 1 h = ''v''"
  then obtain t where "h = CHR ''v'' # t" by (cases h) auto
  moreover have "ascii_lower_char (CHR ''v'') = CHR ''v''" by code_simp
  ultimately show ?thesis by (simp add: py_lower_def)
qed

lemma not_alpha: "\<not> ascii_alpha (CHR '':'')"
  by code_simp

lemma plain_hostname:
  assumes "url_hostname u = Some h" and "CHR ''%'' \<notin> set h"
  shows "h = py_lower (fst (host_info u))"
proof -
  obtain name m where p: "py_partition (CHR ''%'') (fst (host_info u)) = (name, m)" by force
  then have "m = None" "h = py_lower name" using assms by (auto simp: url_hostname_def Let_def split: if_splits option.splits)
  then show ?thesis using partition_parts(2)[OF p] by simp
qed

lemma netloc_of_host:
  assumes env: "ip6_has_colon env" and u: "urlsplit (po_url env) text = Inr u"
    and host: "url_hostname u = Some h" "h \<in> set PAYOS_CHECKOUT_HOSTS" and user: "url_username u = None"
    and port: "url_port u = Inr p" "p = None \<or> p = Some 443"
  shows "\<exists>name ps. ur_netloc u = name @ ps \<and> py_lower name = h
    \<and> (ps = [] \<or> ps = '':'' \<or> (\<exists>ds. ps = CHR '':'' # ds \<and> list_all is_digit ds \<and> int (decimal_value ds) = 443))"
proof -
  have h: "h = py_lower (fst (host_info u))" using plain_hostname[OF host(1)] hosts_plain[OF host(2)] by simp
  obtain a b where ab: "py_rpartition (CHR ''@'') (ur_netloc u) = (a, b)" by force
  then have "a = None" using user by (simp add: url_username_def)
  then have info: "snd (py_rpartition (CHR ''@'') (ur_netloc u)) = ur_netloc u" using rpartition_None ab by simp
  have "CHR ''['' \<notin> set (ur_netloc u)"
  proof
    assume bracket: "CHR ''['' \<in> set (ur_netloc u)"
    then have ok: "bracketed_ok (po_url env) (ur_netloc u)"
      using u by (auto simp: urlsplit_def Let_def split: prod.splits if_splits)
    obtain before m where m: "py_partition (CHR ''['') (ur_netloc u) = (before, m)" by force
    then obtain br where br: "m = Some br" using bracket partition_parts[OF m] by (cases m) auto
    obtain hst aft where hst: "py_partition (CHR '']'') br = (hst, aft)" by force
    have "fst (host_info u) = hst" unfolding host_info_def info Let_def m br by (simp add: hst)
    moreover have "take 1 hst = ''v'' \<or> ur_ip6 (po_url env) hst"
      using ok unfolding bracketed_ok_def info Let_def m br by (simp add: hst split: if_splits)
    ultimately have "take 1 h = ''v'' \<or> CHR '':'' \<in> set h"
      using env lower_take lower_keeps[OF _ not_alpha] unfolding h ip6_has_colon_def by metis
    then show False using hosts_plain[OF host(2)] by blast
  qed
  then have plain: "py_partition (CHR ''['') (ur_netloc u) = (ur_netloc u, None)" by (rule partition_absent)
  obtain name m where m: "py_partition (CHR '':'') (ur_netloc u) = (name, m)" by force
  then have hp: "host_info u = (name, or_blank m)" using plain info by (simp add: host_info_def)
  have "ur_netloc u = name @ (case m of None \<Rightarrow> [] | Some r \<Rightarrow> CHR '':'' # r)" by (rule partition_parts(2)[OF m])
  moreover have "(case m of None \<Rightarrow> [] | Some r \<Rightarrow> CHR '':'' # r) = [] \<or> (case m of None \<Rightarrow> [] | Some r \<Rightarrow> CHR '':'' # r) = '':''
      \<or> (\<exists>ds. (case m of None \<Rightarrow> [] | Some r \<Rightarrow> CHR '':'' # r) = CHR '':'' # ds \<and> list_all is_digit ds \<and> int (decimal_value ds) = 443)"
    using port hp by (cases m) (auto simp: url_port_def or_blank_def Let_def split: if_splits)
  ultimately show ?thesis using h hp by auto
qed

lemma split_text_parts:
  assumes "urlsplit env text = Inr u" and "ur_netloc u \<noteq> []"
  shows "list_all (\<lambda>c. \<not> authority_end c) (ur_netloc u)" and "ur_path u = [] \<or> take 1 (ur_path u) = ''/''"
proof -
  obtain scheme r rest bf frag path q where parts: "split_netloc r = (ur_netloc u, rest)"
      "py_partition (CHR ''#'') rest = (bf, frag)" "py_partition (CHR ''?'') bf = (ur_path u, q)"
    using assms(1) by (auto simp: urlsplit_def Let_def split: prod.splits if_splits)
  show "list_all (\<lambda>c. \<not> authority_end c) (ur_netloc u)" by (rule split_netloc_end(1)[OF parts(1) assms(2)])
  show "ur_path u = [] \<or> take 1 (ur_path u) = ''/''"
    by (rule path_starts[OF split_netloc_end(2)[OF parts(1) assms(2)] parts(2,3)])
qed

lemma validated_url_leads:
  assumes "ip6_has_colon env" and "validate_checkout_url env v = Inr url"
  shows "leads_to PAYOS_CHECKOUT_HOSTS 443 url"
proof -
  obtain u p h where u: "urlsplit (po_url env) (str_or_empty v) = Inr u" "url = url_text u" "ur_scheme u = ''https''"
      "url_hostname u = Some h" "h \<in> set PAYOS_CHECKOUT_HOSTS" "url_username u = None" "url_port u = Inr p" "p = None \<or> p = Some 443"
    using assms(2) by (auto simp: validate_checkout_url_def res_simps split: sum.splits if_splits option.splits)
  obtain name ps where net: "ur_netloc u = name @ ps" "py_lower name = h"
      "ps = [] \<or> ps = '':'' \<or> (\<exists>ds. ps = CHR '':'' # ds \<and> list_all is_digit ds \<and> int (decimal_value ds) = 443)"
    using netloc_of_host[OF assms(1) u(1,4,5,6,7,8)] by blast
  have "ur_netloc u \<noteq> []" using net(1,2) hosts_plain[OF u(5)] by (auto simp: py_lower_def)
  note parts = split_text_parts[OF u(1) this]
  define rest where "rest = (if ur_path u \<noteq> [] \<and> take 1 (ur_path u) \<noteq> ''/'' then ''/'' else []) @ ur_path u
     @ (if ur_query u = [] then [] else ''?'' @ ur_query u) @ (if ur_fragment u = [] then [] else ''#'' @ ur_fragment u)"
  have "url = ''https://'' @ name @ ps @ rest" using u(2,3) net(1) by (simp add: url_text_def rest_def)
  moreover have "rest = [] \<or> authority_end (hd rest)"
    using parts(2) by (cases "ur_path u") (auto simp: rest_def authority_end_def)
  moreover have "list_all (\<lambda>c. \<not> authority_end c) (name @ ps)" using parts(1) net(1) by simp
  moreover have "py_lower name \<in> set PAYOS_CHECKOUT_HOSTS" using net(2) u(5) by simp
  ultimately show ?thesis unfolding leads_to_def using net(3)
    by - (intro exI[of _ name] exI[of _ ps] exI[of _ rest] conjI; assumption)
qed

definition checkout_ok :: "pval \<Rightarrow> bool" where
  "checkout_ok v \<longleftrightarrow> (truthy v \<longrightarrow> (\<exists>url. v = PStr url \<and> leads_to PAYOS_CHECKOUT_HOSTS 443 url))"

lemma call_checkout:
  assumes "ip6_has_colon env" and "payos_call env verb path body b = Inr data"
  shows "checkout_ok (dget data ''checkoutUrl'')"
proof -
  obtain data0 where "with_checkout_url env data0 = Inr data"
    using assms(2) by (auto simp: payos_call_def res_simps split: option.splits)
  then show ?thesis
    using validated_url_leads[OF assms(1)] by (auto simp: with_checkout_url_def res_simps checkout_ok_def split: if_splits)
qed

lemma payos_checkout:
  assumes "ip6_has_colon env" and "answered_by (payos_provider env) answer"
  shows "checkout_ok (dget answer ''checkoutUrl'')"
  using assms(2)
proof (cases rule: payos_answered)
  case (1 i)
  obtain name data data1 data2 where get: "payos_call env ''GET'' (''/v2/payment-requests/'' @ name) PNone False = Inr data"
    "recover_link env data = Inr data1" "check_transactions data1 = Inr data2" "answer = project_evidence data2"
    by (rule get_parts[OF 1])
  have "checkout_ok (dget data1 ''checkoutUrl'')"
    using get(2) call_checkout[OF assms(1) get(1)] validated_url_leads[OF assms(1)]
    by (auto simp: recover_link_def res_simps Let_def checkout_ok_def split: if_splits)
  then show ?thesis using check_transactions_fields[OF get(3)] evidence_fields[of _ data2] by (simp add: get(4))
next
  case (2 i reason)
  then show ?thesis using call_checkout[OF assms(1)] by (metis cancel_parts)
next
  case (3 request)
  then show ?thesis using validated_url_leads[OF assms(1)] by (elim create_parts) (simp add: checkout_ok_def)
qed

end
