(* ===== verification/Payos_Checkout.thy ===== *)
theory Payos_Checkout
  imports Payos_Laws
begin

text \<open>
  The checkout page an order shows, through the command queue and the worker: it is written only from
  the answer of an adapter, so with the adapter of payOS a buyer is sent to payOS or nowhere.
\<close>

section \<open>Where the column is written\<close>

definition urls_ok :: "worker_db \<Rightarrow> bool" where
  "urls_ok st \<longleftrightarrow> (\<forall>oid u. map_of (wd_urls st) oid = Some u \<longrightarrow> checkout_ok u)"

lemma urls_ok_cong: "wd_urls st' = wd_urls st \<Longrightarrow> urls_ok st' = urls_ok st"
  by (simp add: urls_ok_def)

lemma wd_urls_simps [simp]:
  "wd_urls (on_billing g st) = wd_urls st" "wd_urls (set_command cid f st) = wd_urls st"
  "wd_urls (set_event eid k st) = wd_urls st" "wd_urls (set_delivery eid h st) = wd_urls st"
  by (simp_all add: on_billing_def set_command_def set_event_def set_delivery_def)

lemma checkout_ok_None [simp]: "checkout_ok PNone"
  by (simp add: checkout_ok_def)

lemma urls_ok_set: "urls_ok st \<Longrightarrow> checkout_ok url \<Longrightarrow> urls_ok (set_url oid url st)"
  by (auto simp: urls_ok_def set_url_def AList.update_conv' Let_def split: option.splits)

lemma record_urls:
  assumes "record_checkout env cl result ord st = Inr (t, st')" and "urls_ok st" and "checkout_ok (dget result ''checkoutUrl'')"
  shows "urls_ok st'"
proof -
  have "urls_ok (set_url oid (dget result ''checkoutUrl'') (on_billing g st))" for oid g
    by (rule urls_ok_set) (use assms urls_ok_cong[of "on_billing g st" st] in simp_all)
  then show ?thesis using assms(1)
    by (cases "observed_progress cl result (bo_progress ord)")
      (auto simp: record_checkout_def res_simps Let_def urls_ok_def split: if_splits)
qed

lemma activate_urls: "activate_paid env cl result st = Inr st' \<Longrightarrow> wd_urls st' = wd_urls st"
  by (auto simp: activate_paid_def res_simps split: if_splits)

lemma finish_urls: "finish_command env cl again st = Inr st' \<Longrightarrow> wd_urls st' = wd_urls st"
  by (auto simp: finish_command_def res_simps Let_def split: if_splits)

lemma complete_urls:
  assumes "complete_transaction env cl result st = Inr st'" and "urls_ok st" and "checkout_ok (dget result ''checkoutUrl'')"
  shows "urls_ok st'"
proof -
  have "st' = st \<or> (\<exists>ord t st1 st2. record_checkout env cl result ord st = Inr (t, st1)
      \<and> activate_paid env cl result st1 = Inr st2 \<and> wd_urls st' = wd_urls st2)"
    using assms(1) finish_urls by (fastforce simp: complete_transaction_def res_simps split: option.splits if_splits)
  then show ?thesis
  proof (elim disjE exE conjE)
    fix ord t st1 st2
    assume 1: "record_checkout env cl result ord st = Inr (t, st1)" "activate_paid env cl result st1 = Inr st2"
      "wd_urls st' = wd_urls st2"
    have "urls_ok st1" by (rule record_urls[OF 1(1) assms(2,3)])
    then show ?thesis using activate_urls[OF 1(2)] 1(3) by (simp add: urls_ok_def)
  qed (use assms in simp)
qed

lemma fail_urls: "fail_command env cl e st = Inr st' \<Longrightarrow> wd_urls st' = wd_urls st"
  by (auto simp: fail_command_def res_simps Let_def split: option.splits if_splits)

section \<open>The worker\<close>

lemma claim_urls: "claim_command env cid st = Some (cl, st') \<Longrightarrow> wd_urls st' = wd_urls st"
  by (auto simp: claim_command_def new_lease_def Let_def split: option.splits if_splits prod.splits)

lemma claimed_answer:
  assumes "answer_claim env cl = Inr result"
  shows "\<exists>p. wk_resolve env (cl_profile cl) = Inr p \<and> answered_by p result"
proof -
  obtain p where p: "wk_resolve env (cl_profile cl) = Inr p"
    and run: "res_bind (ask_provider p cl) (check_created cl) = Inr result"
    using assms by (auto simp: answer_claim_def split: sum.splits worker_exn.splits py_exn.splits)
  obtain r where r: "ask_provider p cl = Inr r" "check_created cl r = Inr result"
    using run by (auto simp: res_simps)
  have "result = r" using r(2) by (auto simp: check_created_def res_simps split: if_splits)
  moreover have "answered_by p r"
    using r(1) by (auto simp: ask_provider_def answered_by_def res_simps Let_def split: command_type.splits if_splits)
  ultimately show ?thesis using p by blast
qed

definition payos_only :: "worker_env \<Rightarrow> bool" where
  "payos_only env \<longleftrightarrow> (\<forall>i p. wk_resolve env i = Inr p \<longrightarrow> (\<exists>pe. ip6_has_colon pe \<and> p = payos_provider pe))"

lemma execute_urls:
  assumes "payos_only env" and "urls_ok st"
  shows "urls_ok (snd (execute_command env cid st))"
proof (cases "claim_command env cid st")
  case (Some x)
  obtain cl st1 where x: "x = (cl, st1)" by force
  have st1: "urls_ok st1" using claim_urls[of env cid st cl st1] assms(2) Some x by (simp add: urls_ok_def)
  have fails: "urls_ok (snd (keep_on_raise st1 (fail_command env cl e st1)))" for e
    using fail_urls[of env cl e st1] st1 by (cases "fail_command env cl e st1") (simp_all add: keep_on_raise_def urls_ok_def)
  have "urls_ok (snd (settle_claim env cl (answer_claim env cl) st1))"
  proof (cases "answer_claim env cl")
    case (Inl e)
    then show ?thesis using fails st1 by (cases e) (simp_all add: settle_claim_def)
  next
    case (Inr result)
    then have "checkout_ok (dget result ''checkoutUrl'')"
      using claimed_answer[OF Inr] assms(1) payos_checkout by (fastforce simp: payos_only_def)
    then have "urls_ok st2" if "complete_command env cl result st1 = Inr st2" for st2
      using that complete_urls[OF _ st1] by (auto simp: complete_command_def split: sum.splits worker_exn.splits)
    then show ?thesis using Inr fails by (cases "complete_command env cl result st1") (simp_all add: settle_claim_def)
  qed
  then show ?thesis using Some x by (simp add: execute_command_def)
qed (use assms in \<open>simp add: execute_command_def\<close>)

lemma webhook_urls:
  "claim_webhook env st = Some (ec, st') \<Longrightarrow> wd_urls (process_webhook env ec st') = wd_urls st"
proof -
  assume claim: "claim_webhook env st = Some (ec, st')"
  have "wd_urls (fail_webhook env ec code r st') = wd_urls st'" for code r
    by (simp add: fail_webhook_def split: option.splits)
  then have "wd_urls (process_webhook env ec st') = wd_urls st'"
    by (auto simp: process_webhook_def split: sum.splits worker_exn.splits)
  moreover have "wd_urls st' = wd_urls st" using claim by (auto simp: claim_webhook_def split: option.splits)
  ultimately show ?thesis by simp
qed

lemma retry_urls: "wd_urls (snd (retry_activation env oid st)) = wd_urls st"
  by (auto simp: retry_activation_def keep_on_raise_def res_simps split: sum.splits)

lemma expire_urls: "expire_local_checkout env st = Some st' \<Longrightarrow> wd_urls st' = wd_urls st"
  by (auto simp: expire_local_checkout_def split: list.splits)

lemma schedule_urls: "schedule_reconciliation env updated stamp st = Some (Inr st') \<Longrightarrow> wd_urls st' = wd_urls st"
  by (auto simp: schedule_reconciliation_def split: list.splits prod.splits if_splits)

lemma release_urls: "release_expired_usage env st = (raised, released, st') \<Longrightarrow> wd_urls st' = wd_urls st"
  by (auto simp: release_expired_usage_def split: sum.splits)

text \<open>
  C35: a buyer is sent to payOS. With the adapter of payOS, along any polls of any workers and whatever
  the transport delivers, the checkout page of an order is absent or an HTTPS page on a host of
  payOS at the standard port.
\<close>

theorem buyers_are_sent_to_payos:
  assumes "urls_ok st" and "list_all (\<lambda>(t, stamp, worker, flags). payos_only worker) ps"
  shows "urls_ok (run_polls env updated ps st)"
  using assms unfolding run_polls_def
proof (induction ps arbitrary: st)
  case (Cons p ps)
  obtain t stamp worker flags where p: "p = (t, stamp, worker, flags)" by (cases p)
  let ?w = "worker\<lparr>wk_billing := billing_at env t stamp\<rparr>"
  have "payos_only ?w" using Cons.prems p by (simp add: payos_only_def)
  have "urls_ok (snd (process_next ?w flags updated stamp st))"
    by (rule process_next_parts)
      (use Cons.prems(1) execute_urls[OF \<open>payos_only ?w\<close> Cons.prems(1)] webhook_urls retry_urls expire_urls schedule_urls
        release_urls urls_ok_cong in \<open>metis+\<close>)
  then have "urls_ok (polled env updated p st)" by (simp add: polled_def p)
  then show ?case using Cons by simp
qed simp

end
