(* ===== verification/Webhook_Inbox.thy ===== *)
theory Webhook_Inbox
  imports Payos Billing_Worker
begin

text \<open>
  The inbox of payment webhooks: \<open>src/backend/billing/webhook.py\<close>. A message is verified, stored once and
  acknowledged; the worker applies it later.
\<close>

section \<open>Rows and replies\<close>

text \<open>
  The columns of \<open>payment_webhook_events\<close> that identify a message; the other columns are in the tables of
  the worker. \<open>ix_providers\<close> is the column \<open>provider\<close> of the profiles.
\<close>

record inbox_key =
  ik_event :: ident
  ik_profile :: ident
  ik_dedupe :: string
  ik_hash :: string

record inbox =
  ix_tables :: worker_db
  ix_keys :: "inbox_key list"
  ix_providers :: "(ident \<times> string) list"

text \<open>The clock, SHA-256, and the verification by the adapter of a profile, which may not resolve.\<close>

record inbox_env =
  ix_now :: int
  ix_stamp :: string
  ix_sha256 :: "string \<Rightarrow> string"
  ix_verify :: "ident \<Rightarrow> pval \<Rightarrow> worker_exn + pval"
  ix_casefold :: "string \<Rightarrow> string"
  ix_float :: "string \<Rightarrow> pval"

text \<open>An accepted message is a duplicate or not, and under review or not; a refusal has a status and a code.\<close>

datatype inbox_reply = Accepted bool bool | Refused int string

definition MAX_WEBHOOK_BYTES :: nat where
  "MAX_WEBHOOK_BYTES = 262144"

definition webhook_event_id :: "inbox_env \<Rightarrow> ident \<Rightarrow> string \<Rightarrow> ident" where
  "webhook_event_id env profile_id payload_hash =
     ''payment-event-'' @ take 32 (ix_sha256 env (profile_id @ CHR ''|'' # payload_hash))"

definition webhook_dedupe_key :: "pval \<Rightarrow> string" where
  "webhook_dedupe_key signed = py_prefix 500 (py_join ''|'' [str_or_empty (dget signed ''orderCode''),
     str_or_empty (dget signed ''paymentLinkId''), str_or_empty (dget signed ''reference'')])"

text \<open>The checks of the table on a new row\<close>

definition event_checks :: "inbox_env \<Rightarrow> string \<Rightarrow> string \<Rightarrow> pval \<Rightarrow> bool" where
  "event_checks env dedupe payload_hash signed \<longleftrightarrow> list_ex (\<lambda>c. c \<noteq> CHR '' '') dedupe
     \<and> py_len payload_hash = 64 \<and> 2 \<le> py_len (json_compact signed) \<and> py_len (json_compact signed) \<le> 32768 \<and> 0 < ix_now env"

definition same_identity :: "ident \<Rightarrow> string \<Rightarrow> inbox_key \<Rightarrow> bool" where
  "same_identity profile_id dedupe k \<longleftrightarrow> ik_profile k = profile_id \<and> ik_dedupe k = dedupe"

definition new_event :: "ident \<Rightarrow> ident \<Rightarrow> pval \<Rightarrow> bool \<Rightarrow> event_row" where
  "new_event eid profile_id signed conflicting =
     \<lparr>we_id = eid, we_profile = profile_id, we_signed = signed,
      we_status = (if conflicting then EvReview else EvPending),
      we_error = (if conflicting then Some ''WEBHOOK_DEDUPE_PAYLOAD_MISMATCH'' else None),
      we_locked_by = None, we_lease = None, we_processed_at = None\<rparr>"

definition add_event :: "inbox_env \<Rightarrow> inbox_key \<Rightarrow> event_row \<Rightarrow> inbox \<Rightarrow> inbox" where
  "add_event env k e ib =
     (let st = on_billing (\<lambda>db. db\<lparr>bl_events := bl_events db @ [e]\<rparr>) (ix_tables ib)
      in ib\<lparr>ix_keys := ix_keys ib @ [k],
            ix_tables := st\<lparr>wd_deliveries := wd_deliveries st @ [\<lparr>dl_event = we_id e, dl_attempts = 0,
              dl_available = ix_now env, dl_created = ix_stamp env\<rparr>]\<rparr>\<rparr>)"

definition webhook_failed :: inbox_reply where
  "webhook_failed = Refused 500 ''WEBHOOK_FAILED''"

text \<open>\<open>INSERT ... ON CONFLICT(provider_profile_id, dedupe_key, payload_hash) DO NOTHING\<close>\<close>

definition store_event :: "inbox_env \<Rightarrow> ident \<Rightarrow> pval \<Rightarrow> string \<Rightarrow> inbox \<Rightarrow> inbox_reply \<times> inbox" where
  "store_event env profile_id signed raw ib =
     (let payload_hash = ix_sha256 env raw; dedupe = webhook_dedupe_key signed;
          eid = webhook_event_id env profile_id payload_hash;
          rivals = filter (same_identity profile_id dedupe) (ix_keys ib);
          conflicting = list_ex (\<lambda>k. ik_hash k \<noteq> payload_hash) rivals
      in if list_all (\<lambda>c. c = CHR ''|'') dedupe then (Refused 400 ''WEBHOOK_INVALID'', ib)
         else if \<not> event_checks env dedupe payload_hash signed then (webhook_failed, ib)
         else if list_ex (\<lambda>k. ik_hash k = payload_hash) rivals then (Accepted True conflicting, ib)
         else if eid \<in> we_id ` set (bl_events (wd_billing (ix_tables ib))) then (webhook_failed, ib)
         else (Accepted False conflicting,
           add_event env \<lparr>ik_event = eid, ik_profile = profile_id, ik_dedupe = dedupe, ik_hash = payload_hash\<rparr>
             (new_event eid profile_id signed conflicting) ib))"

definition payment_webhook_sync :: "inbox_env \<Rightarrow> ident \<Rightarrow> pval \<Rightarrow> string \<Rightarrow> inbox \<Rightarrow> inbox_reply \<times> inbox" where
  "payment_webhook_sync env profile_id envelope raw ib =
     (case map_of (ix_providers ib) profile_id of
        None \<Rightarrow> (Refused 404 ''NOT_FOUND'', ib)
      | Some name \<Rightarrow>
          if ix_casefold env (py_strip name) = ''fake'' then (Refused 400 ''PROVIDER_EVENT_UNVERIFIED'', ib)
          else (case ix_verify env profile_id envelope of
              Inl (ProviderError e) \<Rightarrow>
                (Refused (if pe_code e = ''PROVIDER_CREDENTIAL_UNAVAILABLE'' then 503 else 400) (pe_code e), ib)
            | Inl _ \<Rightarrow> (webhook_failed, ib)
            | Inr signed \<Rightarrow>
                if is_dict signed then store_event env profile_id signed raw ib else (webhook_failed, ib)))"

definition payment_webhook_api :: "inbox_env \<Rightarrow> string \<Rightarrow> string \<Rightarrow> inbox \<Rightarrow> inbox_reply \<times> inbox" where
  "payment_webhook_api env profile_id raw ib =
     (if MAX_WEBHOOK_BYTES < length raw then (Refused 413 ''WEBHOOK_TOO_LARGE'', ib)
      else (case json_loads_bytes (ix_float env) raw of
          None \<Rightarrow> (Refused 400 ''WEBHOOK_INVALID'', ib)
        | Some envelope \<Rightarrow> payment_webhook_sync env (py_strip profile_id) envelope raw ib))"

end
