(* ===== verification/Webhook_Laws.thy ===== *)
theory Webhook_Laws
  imports Webhook_Inbox Payos_Laws
begin

text \<open>
  The inbox and the worker together: only verified messages are ever stored or applied, and a message
  that comes again changes nothing.
\<close>

section \<open>Traffic\<close>

text \<open>Messages that arrive and polls of workers, in any order.\<close>

datatype traffic = Arrives int string string string | Polls poll

definition inbox_at :: "inbox_env \<Rightarrow> int \<Rightarrow> string \<Rightarrow> inbox_env" where
  "inbox_at ienv now stamp = ienv\<lparr>ix_now := now, ix_stamp := stamp\<rparr>"

fun inbox_step :: "inbox_env \<Rightarrow> billing_env \<Rightarrow> (billing_db \<Rightarrow> ident \<Rightarrow> string) \<Rightarrow> traffic \<Rightarrow> inbox \<Rightarrow> inbox" where
  "inbox_step ienv env updated (Arrives now stamp profile_id raw) ib =
     snd (payment_webhook_api (inbox_at ienv now stamp) profile_id raw ib)"
| "inbox_step ienv env updated (Polls p) ib = ib\<lparr>ix_tables := polled env updated p (ix_tables ib)\<rparr>"

definition run_traffic ::
    "inbox_env \<Rightarrow> billing_env \<Rightarrow> (billing_db \<Rightarrow> ident \<Rightarrow> string) \<Rightarrow> traffic list \<Rightarrow> inbox \<Rightarrow> inbox" where
  "run_traffic ienv env updated = fold (inbox_step ienv env updated)"

lemma inbox_at_simps [simp]:
  "ix_sha256 (inbox_at ienv now stamp) = ix_sha256 ienv" "ix_verify (inbox_at ienv now stamp) = ix_verify ienv"
  "ix_casefold (inbox_at ienv now stamp) = ix_casefold ienv" "ix_float (inbox_at ienv now stamp) = ix_float ienv"
  "ix_now (inbox_at ienv now stamp) = now"
  by (simp_all add: inbox_at_def)

text \<open>What an arrival may do: nothing, or add one message that its adapter verified.\<close>

lemma arrival_cases:
  assumes "payment_webhook_api env profile_id raw ib = (reply, ib')"
  obtains "ib' = ib"
  | envelope signed eid conflicting where "ix_verify env (py_strip profile_id) envelope = Inr signed"
    "reply = Accepted False conflicting"
    "ib' = add_event env \<lparr>ik_event = eid, ik_profile = py_strip profile_id, ik_dedupe = webhook_dedupe_key signed,
       ik_hash = ix_sha256 env raw\<rparr> (new_event eid (py_strip profile_id) signed conflicting) ib"
    "eid \<notin> we_id ` set (bl_events (wd_billing (ix_tables ib)))"
proof (cases "ib' = ib")
  case False
  obtain envelope where "payment_webhook_sync env (py_strip profile_id) envelope raw ib = (reply, ib')"
    using assms False by (auto simp: payment_webhook_api_def split: if_splits option.splits)
  then obtain signed where verified: "ix_verify env (py_strip profile_id) envelope = Inr signed"
    and stored: "store_event env (py_strip profile_id) signed raw ib = (reply, ib')"
    using False by (auto simp: payment_webhook_sync_def split: option.splits if_splits sum.splits worker_exn.splits)
  define eid where "eid = webhook_event_id env (py_strip profile_id) (ix_sha256 env raw)"
  have "\<exists>conflicting. reply = Accepted False conflicting \<and> eid \<notin> we_id ` set (bl_events (wd_billing (ix_tables ib)))
    \<and> ib' = add_event env \<lparr>ik_event = eid, ik_profile = py_strip profile_id, ik_dedupe = webhook_dedupe_key signed,
       ik_hash = ix_sha256 env raw\<rparr> (new_event eid (py_strip profile_id) signed conflicting) ib"
    using stored False unfolding store_event_def Let_def eid_def[symmetric] by (simp split: if_splits) blast
  then show ?thesis using that(2)[OF verified] by blast
qed (rule that)

section \<open>Only verified messages\<close>

text \<open>The fields of an event are data whose signature some adapter of its profile verified.\<close>

definition signed_event :: "(ident \<Rightarrow> payos_env) \<Rightarrow> ident \<times> ident \<times> pval \<Rightarrow> bool" where
  "signed_event adapters = (\<lambda>(eid, profile_id, signed).
     \<exists>signature. verify_signed_data (adapters profile_id) signed signature = Inr True)"

lemma verify_webhook_Inr:
  assumes "verify_webhook env envelope = Inr signed"
  shows "is_dict signed" and "verify_signed_data env signed (dget envelope ''signature'') = Inr True"
  using assms by (auto simp: verify_webhook_def res_simps split: if_splits)

definition inbox_facts :: "inbox \<Rightarrow> (ident \<times> ident \<times> pval) list" where
  "inbox_facts ib = map event_facts (bl_events (wd_billing (ix_tables ib)))"

lemma add_event_facts: "inbox_facts (add_event env k e ib) = inbox_facts ib @ [event_facts e]"
  by (simp add: inbox_facts_def add_event_def on_billing_def Let_def)

lemma polled_facts:
  assumes "distinct (map bo_id (bl_orders (wd_billing st)))"
  shows "map event_facts (bl_events (wd_billing (polled env updated p st))) = map event_facts (bl_events (wd_billing st))"
    and "map bo_id (bl_orders (wd_billing (polled env updated p st))) = map bo_id (bl_orders (wd_billing st))"
proof -
  obtain now stamp worker flags where p: "p = (now, stamp, worker, flags)" by (cases p)
  have writes: "worker_writes (billing_at env now stamp) (wd_billing st) (wd_billing (polled env updated p st))"
    using process_next_writes[OF assms, of "worker\<lparr>wk_billing := billing_at env now stamp\<rparr>"] by (simp add: polled_def p)
  show "map event_facts (bl_events (wd_billing (polled env updated p st))) = map event_facts (bl_events (wd_billing st))"
    by (rule worker_writes_events[OF writes])
  show "map bo_id (bl_orders (wd_billing (polled env updated p st))) = map bo_id (bl_orders (wd_billing st))"
    by (rule list_all2_ids[OF worker_writes_orders[OF writes assms]])
qed

definition order_ids :: "inbox \<Rightarrow> ident list" where
  "order_ids ib = map bo_id (bl_orders (wd_billing (ix_tables ib)))"

lemma step_facts:
  assumes "ix_verify ienv = (\<lambda>i. verify_webhook (adapters i))" and "distinct (order_ids ib)"
    and "list_all (signed_event adapters) (inbox_facts ib)"
  shows "distinct (order_ids (inbox_step ienv env updated tr ib))
    \<and> list_all (signed_event adapters) (inbox_facts (inbox_step ienv env updated tr ib))"
proof (cases tr)
  case (Arrives now stamp profile_id raw)
  obtain reply ib' where run: "payment_webhook_api (inbox_at ienv now stamp) profile_id raw ib = (reply, ib')" by force
  show ?thesis
  proof (cases rule: arrival_cases[OF run])
    case (2 envelope signed eid conflicting)
    have "verify_signed_data (adapters (py_strip profile_id)) signed (dget envelope ''signature'') = Inr True"
      using verify_webhook_Inr(2) 2(1) assms(1) by simp
    then have "signed_event adapters (event_facts (new_event eid (py_strip profile_id) signed conflicting))"
      by (auto simp: signed_event_def event_facts_def new_event_def)
    then show ?thesis using assms(2,3) Arrives run 2(3)
      by (simp add: add_event_facts) (simp add: order_ids_def add_event_def on_billing_def Let_def)
  qed (use assms Arrives run in simp)
next
  case (Polls p)
  then show ?thesis using assms(2,3) polled_facts[of "ix_tables ib" env updated p]
    by (simp add: inbox_facts_def order_ids_def)
qed


section \<open>Messages that come again\<close>

definition known :: "inbox_key \<Rightarrow> inbox \<Rightarrow> bool" where
  "known k ib \<longleftrightarrow> list_ex (\<lambda>j. same_identity (ik_profile k) (ik_dedupe k) j \<and> ik_hash j = ik_hash k) (ix_keys ib)"

lemma step_known:
  "known k ib \<Longrightarrow> known k (inbox_step ienv env updated tr ib) \<and> ix_providers (inbox_step ienv env updated tr ib) = ix_providers ib"
proof (cases tr)
  case (Arrives now stamp profile_id raw)
  obtain reply ib' where run: "payment_webhook_api (inbox_at ienv now stamp) profile_id raw ib = (reply, ib')" by force
  assume "known k ib"
  then show ?thesis
    by (cases rule: arrival_cases[OF run]) (use Arrives run in \<open>auto simp: known_def add_event_def Let_def\<close>)
qed (simp add: known_def)

lemma traffic_known:
  "known k ib \<Longrightarrow> known k (run_traffic ienv env updated trs ib) \<and> ix_providers (run_traffic ienv env updated trs ib) = ix_providers ib"
  unfolding run_traffic_def
proof (induction trs arbitrary: ib)
  case (Cons tr trs)
  show ?case using Cons.IH step_known[OF Cons.prems, of ienv env updated tr] by simp
qed simp

lemma accepted_parts:
  assumes "payment_webhook_api env profile_id raw ib = (Accepted dup review, ib')"
  obtains envelope name signed where "length raw \<le> MAX_WEBHOOK_BYTES" "json_loads_bytes (ix_float env) raw = Some envelope"
    "map_of (ix_providers ib) (py_strip profile_id) = Some name" "ix_casefold env (py_strip name) \<noteq> ''fake''"
    "ix_verify env (py_strip profile_id) envelope = Inr signed" "is_dict signed"
    "store_event env (py_strip profile_id) signed raw ib = (Accepted dup review, ib')"
  using assms by (auto simp: payment_webhook_api_def payment_webhook_sync_def webhook_failed_def
    split: if_splits option.splits sum.splits worker_exn.splits)

text \<open>
  C38: a message is taken in once. When a message was accepted, the same bytes for the same profile are
  answered as a duplicate at any later time, whatever arrived and was processed in between, and
  change nothing.
\<close>

theorem redelivery_changes_nothing:
  assumes "payment_webhook_api (inbox_at ienv now stamp) profile_id raw ib = (Accepted dup review, ib1)" and "0 < now'"
    and "ib2 = run_traffic ienv env updated trs ib1"
  shows "\<exists>review'. payment_webhook_api (inbox_at ienv now' stamp') profile_id raw ib2 = (Accepted True review', ib2)"
proof -
  obtain envelope name signed where parts: "length raw \<le> MAX_WEBHOOK_BYTES" "json_loads_bytes (ix_float ienv) raw = Some envelope"
    "map_of (ix_providers ib) (py_strip profile_id) = Some name" "ix_casefold ienv (py_strip name) \<noteq> ''fake''"
    "ix_verify ienv (py_strip profile_id) envelope = Inr signed" "is_dict signed"
    and stored: "store_event (inbox_at ienv now stamp) (py_strip profile_id) signed raw ib = (Accepted dup review, ib1)"
    using accepted_parts[OF assms(1)] by (metis inbox_at_simps(2-4))
  define k where "k = \<lparr>ik_event = [], ik_profile = py_strip profile_id, ik_dedupe = webhook_dedupe_key signed, ik_hash = ix_sha256 ienv raw\<rparr>"
  have good: "\<not> list_all (\<lambda>c. c = CHR ''|'') (webhook_dedupe_key signed)"
      "event_checks (inbox_at ienv now stamp) (webhook_dedupe_key signed) (ix_sha256 ienv raw) signed"
    using stored by (auto simp: store_event_def webhook_failed_def Let_def split: if_splits)
  have k: "known k ib1" "ix_providers ib1 = ix_providers ib"
    using stored by (auto simp: store_event_def webhook_failed_def Let_def known_def k_def list_ex_iff same_identity_def
      add_event_def split: if_splits)
  have "known k ib2" "ix_providers ib2 = ix_providers ib" using traffic_known[OF k(1)] k(2) assms(3) by simp_all
  moreover have "event_checks (inbox_at ienv now' stamp') (webhook_dedupe_key signed) (ix_sha256 ienv raw) signed"
    using good(2) assms(2) by (simp add: event_checks_def)
  ultimately have "\<exists>review'. store_event (inbox_at ienv now' stamp') (py_strip profile_id) signed raw ib2 = (Accepted True review', ib2)"
    using good(1) by (auto simp: store_event_def Let_def known_def k_def list_ex_iff)
  then show ?thesis using parts \<open>ix_providers ib2 = ix_providers ib\<close>
    by (simp add: payment_webhook_api_def payment_webhook_sync_def)
qed

end
