(* ===== verification/Payos_Examples.thy ===== *)
theory Payos_Examples
  imports Payos_Checkout Webhook_Laws Billing_Worker_Examples
begin

text \<open>
  The adapter of payOS over a transport that always delivers one message, an order that is queried
  through it, and a webhook that arrives twice; with the witnesses of the theorems on them.
\<close>

definition px_env :: "string \<Rightarrow> payos_env" where
  "px_env message = \<lparr>po_client_id = ''i'', po_api_key = ''k'', po_checksum_key = ''c'',
     po_transport = (\<lambda>_ _ _ _. Inr (200, message)), po_hmac = (\<lambda>_ _. ''f''), po_casefold = py_lower,
     po_float = (\<lambda>_. PNone),
     po_url = \<lparr>ur_nfkc_unsafe = (\<lambda>_. False), ur_ip6 = (\<lambda>h. CHR '':'' \<in> set h)\<rparr>\<rparr>"

definition px_page :: string where
  "px_page = ''https://pay.payos.vn/w''"

definition px_data :: pval where
  "px_data = PDict [(''checkoutUrl'', PStr px_page), (''status'', PStr ''PENDING''), (''transactions'', PList [])]"

definition px_envelope :: pval where
  "px_envelope = PDict [(''code'', PStr ''00''), (''data'', px_data), (''signature'', PStr ''F'')]"

definition px_message :: string where
  "px_message = json_ascii px_envelope"

lemma px_call:
  assumes "json_ok v"
  shows "payos_call (px_env (json_ascii v)) verb path body b
    = res_bind (open_envelope (px_env m) b 200 v) (with_checkout_url (px_env m))"
proof -
  have "verify_signed_data (px_env (json_ascii v)) = verify_signed_data (px_env m)" "validate_checkout_url (px_env (json_ascii v)) = validate_checkout_url (px_env m)"
    by (simp_all add: fun_eq_iff verify_signed_data_def sign_signed_data_def validate_checkout_url_def px_env_def)
  then have "open_envelope (px_env (json_ascii v)) b 200 v = open_envelope (px_env m) b 200 v" "with_checkout_url (px_env (json_ascii v)) = with_checkout_url (px_env m)"
    unfolding open_envelope_def with_checkout_url_def fun_eq_iff by metis+
  moreover have "po_transport (px_env (json_ascii v)) verb path' headers body = Inr (200, json_ascii v)"
      "po_float (px_env (json_ascii v)) = (\<lambda>_. PNone)" for path' headers
    by (simp_all add: px_env_def)
  ultimately show ?thesis by (simp add: payos_call_def mark_unknown_def json_loads_bytes_ascii[OF assms])
qed

lemma px_envelope_ok: "json_ok px_envelope"
proof -
  have "sorted [''code'', ''data'', ''signature'']" "sorted [''checkoutUrl'', ''status'', ''transactions'']" by code_simp+
  then show ?thesis by (simp add: px_envelope_def px_data_def px_page_def utf8_ok_ascii)
qed

lemma px_parts:
  "open_envelope (px_env []) b 200 px_envelope = Inr px_data" "with_checkout_url (px_env []) px_data = Inr px_data"
  "payment_identifier (PInt 7) = Inr ''7''" "validate_status px_data = Inr ()" "check_transactions px_data = Inr px_data"
  "recover_link env px_data = Inr px_data" "project_evidence px_data = px_data"
  by code_simp+

lemma px_colon: "ip6_has_colon (px_env message)"
  by (simp add: ip6_has_colon_def px_env_def)

lemma px_answer: "payos_get (px_env px_message) (PInt 7) = Inr px_data"
  by (simp add: payos_get_def px_message_def px_call[OF px_envelope_ok, of _ _ _ _ "[]"] px_parts)

theorem payos_answers_are_signed_witness:
  "payos_get (px_env px_message) (PInt 7) = Inr px_data \<and> signed_answer (px_env px_message) px_data"
proof -
  have "answered_by (payos_provider (px_env px_message)) px_data"
    using px_answer by (auto simp: answered_by_def payos_provider_def)
  from payos_answers_are_signed[OF this] px_answer show ?thesis by simp
qed

section \<open>A queried order\<close>

definition px_queue :: worker_db where
  "px_queue = bw_queue\<lparr>wd_commands := [bw_create\<lparr>pc_type := QueryOrder\<rparr>], wd_urls := [(''o'', PStr px_page)]\<rparr>"

definition px_poll :: poll where
  "px_poll = bw_poll (payos_provider (px_env px_message)) 10"

lemma px_leads: "leads_to PAYOS_CHECKOUT_HOSTS 443 px_page"
proof -
  have "validate_checkout_url (px_env []) (PStr px_page) = Inr px_page" by code_simp
  from validated_url_leads[OF px_colon this] show ?thesis .
qed

theorem buyers_are_sent_to_payos_witness:
  "wd_urls px_queue = [(''o'', PStr px_page)] \<and> urls_ok px_queue
    \<and> urls_ok (run_polls bx_env bw_updated [px_poll, px_poll] px_queue)"
proof -
  have urls: "wd_urls px_queue = [(''o'', PStr px_page)]" by (simp add: px_queue_def)
  then have "urls_ok px_queue" using px_leads by (simp add: urls_ok_def checkout_ok_def split: if_splits)
  moreover have "list_all (\<lambda>(t, stamp, worker, flags). payos_only worker) [px_poll, px_poll]"
    using px_colon by (auto simp: px_poll_def bw_poll_def payos_only_def bw_worker_def)
  ultimately show ?thesis using buyers_are_sent_to_payos urls by blast
qed

section \<open>An answer that is no object\<close>

text \<open>
  The transport delivers a JSON list with a good status: the adapter does not refuse it as a payment
  error but raises \<open>AttributeError\<close>, so the command it answers is never given up.
\<close>

lemma no_object_raises: "\<exists>x. payos_get (px_env (json_ascii (PList []))) i = Inl (OtherError x)"
proof (cases "payment_identifier i")
  case (Inr name)
  have "json_ok (PList [])" by simp
  from px_call[OF this, of _ _ _ _ "[]"]
  have "payos_call (px_env (json_ascii (PList []))) ''GET'' (''/v2/payment-requests/'' @ name) PNone False = Inl (OtherError AttributeError)"
    by (simp add: open_envelope_def get_attr_def del: json_ascii.simps)
  with Inr show ?thesis by (simp add: payos_get_def del: json_ascii.simps)
qed (simp add: payos_get_def)

lemma px_ready: "ready_command px_queue ''c'' (bw_create\<lparr>pc_type := QueryOrder\<rparr>) 2"
  by code_simp

lemma px_raises:
  assumes "claim_for (bw_create\<lparr>pc_type := QueryOrder\<rparr>) cl"
  shows "\<exists>x. answer_claim (bw_worker (payos_provider (px_env (json_ascii (PList [])))) now) cl = Inl (OtherError x)"
proof -
  obtain x where "payos_get (px_env (json_ascii (PList []))) (PInt (cl_code cl)) = Inl (OtherError x)" using no_object_raises by blast
  then show ?thesis using assms
    by (simp add: answer_claim_def bw_worker_def claim_for_def bw_create_def ask_provider_def payos_provider_def)
qed

theorem unexpected_error_never_ends_witness:
  "\<exists>c'. find_command (execute_all ''c'' (map (bw_worker (payos_provider (px_env (json_ascii (PList []))))) [10, 70, 130]) px_queue) ''c'' = Some c'
    \<and> pc_attempts c' = 3 \<and> pc_status c' = CmdProcessing"
proof -
  have "command_due 10 (bw_create\<lparr>pc_type := QueryOrder\<rparr>)" by code_simp
  then show ?thesis
    using unexpected_error_never_ends[OF px_ready, of "map (bw_worker (payos_provider (px_env (json_ascii (PList []))))) [10, 70, 130]"] px_raises
    by (simp add: bw_worker_now) (simp add: bw_create_def)
qed

section \<open>A webhook\<close>

definition px_signed :: pval where
  "px_signed = PDict [(''orderCode'', PInt 7)]"

definition px_hook :: string where
  "px_hook = json_ascii (PDict [(''data'', px_signed), (''signature'', PStr ''F'')])"

definition px_ienv :: inbox_env where
  "px_ienv = \<lparr>ix_now = 10, ix_stamp = ''t'', ix_sha256 = (\<lambda>_. replicate 64 CHR ''a''),
     ix_verify = (\<lambda>_. verify_webhook (px_env [])), ix_casefold = py_lower, ix_float = (\<lambda>_. PNone)\<rparr>"

definition px_inbox :: inbox where
  "px_inbox = \<lparr>ix_tables = bw_tables (bx_db\<lparr>bl_events := []\<rparr>), ix_keys = [], ix_providers = [(''v'', ''payos'')]\<rparr>"

lemma ascii_chars_len: "length (ascii_chars s) \<le> 12 * length s"
proof (induction s rule: ascii_chars.induct)
  case (2 c cs)
  obtain n r where r: "next_point c cs = (n, r)" by force
  have "length (ascii_escape n) \<le> 12" by (simp add: ascii_escape_def unicode_escape_def hex4_def)
  moreover have "length r \<le> length cs" using next_point_shorter[OF r] by simp
  ultimately show ?case using 2[OF r[symmetric] refl] r by (simp add: ascii_chars.simps(2))
qed simp

lemma px_hook_small: "length px_hook \<le> MAX_WEBHOOK_BYTES"
proof -
  have "length (ascii_string s) \<le> 12 * length s + 2" for s using ascii_chars_len[of s] by (simp add: ascii_string_def)
  from this[of "''data''"] this[of "''signature''"] this[of "''orderCode''"] this[of "''F''"]
  have "length (ascii_string ''data'') + length (ascii_string ''signature'') + length (ascii_string ''orderCode'')
      + length (ascii_string ''F'') \<le> 1000" by simp
  moreover have "sort_key fst [(''data'', px_signed), (''signature'', PStr ''F'')] = [(''data'', px_signed), (''signature'', PStr ''F'')]"
    by code_simp
  moreover have "sort_key fst [(''orderCode'', PInt 7)] = [(''orderCode'', PInt 7)]" by code_simp
  moreover have "length (int_decimal 7) = 1" by code_simp
  ultimately show ?thesis by (simp add: px_hook_def px_signed_def MAX_WEBHOOK_BYTES_def del: sort_key_simps)
qed

lemma px_hook_read: "json_loads_bytes (\<lambda>_. PNone) px_hook = Some (PDict [(''data'', px_signed), (''signature'', PStr ''F'')])"
proof -
  have "sorted [''data'', ''signature'']" by code_simp
  then have "json_ok (PDict [(''data'', px_signed), (''signature'', PStr ''F'')])" by (simp add: px_signed_def utf8_ok_ascii)
  then show ?thesis unfolding px_hook_def by (rule json_loads_bytes_ascii)
qed

lemma px_stores:
  "fst (payment_webhook_sync (inbox_at px_ienv 10 ''t'') ''v'' (PDict [(''data'', px_signed), (''signature'', PStr ''F'')]) raw px_inbox)
    = Accepted False False"
  by code_simp

lemma px_kept:
  "inbox_facts (snd (payment_webhook_sync (inbox_at px_ienv 10 ''t'') ''v'' (PDict [(''data'', px_signed), (''signature'', PStr ''F'')]) raw px_inbox)) \<noteq> []"
  by code_simp

lemma px_strip: "py_strip ''v'' = ''v''"
  by code_simp

lemma px_float: "ix_float px_ienv = (\<lambda>_. PNone)"
  by (simp add: px_ienv_def)

lemma px_arrives: "fst (payment_webhook_api (inbox_at px_ienv 10 ''t'') ''v'' px_hook px_inbox) = Accepted False False"
  using px_hook_small px_stores by (simp add: payment_webhook_api_def px_hook_read px_strip px_float)


theorem redelivery_changes_nothing_witness:
  "\<exists>ib1 ib2 review. payment_webhook_api (inbox_at px_ienv 10 ''t'') ''v'' px_hook px_inbox = (Accepted False False, ib1)
    \<and> ib2 = run_traffic px_ienv bx_env bw_updated [Polls px_poll] ib1
    \<and> payment_webhook_api (inbox_at px_ienv 20 ''u'') ''v'' px_hook ib2 = (Accepted True review, ib2)"
proof -
  obtain ib1 where 1: "payment_webhook_api (inbox_at px_ienv 10 ''t'') ''v'' px_hook px_inbox = (Accepted False False, ib1)"
    using px_arrives by (metis prod.collapse)
  from redelivery_changes_nothing[OF 1, of 20 _ bx_env bw_updated "[Polls px_poll]" "''u''"] 1 show ?thesis by auto
qed

end
