(* ===== verification/Billing_Protocol.thy ===== *)
theory Billing_Protocol
  imports Billing_Safety
begin

text \<open>
  The abstract specification of billing: a call is a protocol move of the order it names, and a
  history of calls, each committed or rolled back, is a run of such moves.
\<close>

text \<open>
  A move of a call on the tables: nothing at all (the transaction was rolled back); only silent
  writes when the call names no order; and otherwise a move of the protocol of that order, which
  applies it only when the call carries a payment for it.
\<close>

inductive protocol_move :: "billing_env \<Rightarrow> billing_call \<Rightarrow> billing_db \<Rightarrow> billing_db \<Rightarrow> bool" for env c db where
  rolled_back: "protocol_move env c db db"
| no_order: "call_order c db = None \<Longrightarrow> silent env db db' \<Longrightarrow> protocol_move env c db db'"
| order_move: "call_order c db = Some ord \<Longrightarrow> billing_protocol env ord db out db' \<Longrightarrow>
    (out = OutApplied \<Longrightarrow> call_pays env c db ord) \<Longrightarrow> protocol_move env c db db'"

inductive_cases protocol_moveE: "protocol_move env c db db'"

inductive protocol_run :: "billing_env \<Rightarrow> (int \<times> string \<times> billing_call) list \<Rightarrow> billing_db \<Rightarrow> billing_db \<Rightarrow> bool" for env where
  run_end: "protocol_run env [] db db"
| run_move: "protocol_move (billing_at env now stamp) c db db1 \<Longrightarrow> protocol_run env calls db1 db' \<Longrightarrow>
    protocol_run env ((now, stamp, c) # calls) db db'"

lemma commit_moves: "protocol_move env c db (commit (billing_step env) c db)"
proof (cases "billing_step env c db")
  case (Inl e)
  then show ?thesis by (simp add: commit_def protocol_move.rolled_back)
next
  case (Inr x)
  obtain res db' where x: "x = (res, db')" by force
  have "protocol_move env c db db'"
    using step_protocol[OF Inr[unfolded x]]
    by (cases "call_order c db") (auto simp: protocol_result_def intro: protocol_move.intros)
  with Inr x show ?thesis by (simp add: commit_def)
qed


end
