(* ===== verification/Base64_Text.thy ===== *)
theory Base64_Text
  imports Py_Objects
begin

text \<open>
  \<open>base64.urlsafe_b64encode\<close> and \<open>base64.urlsafe_b64decode\<close> of Python's standard library, which
  the cursors of the synchronisation pages are printed with: the encoder pads to groups of four
  characters; the decoder is the lenient state machine of \<open>binascii.a2b_base64\<close>, which skips what
  is not in the alphabet, stops at the padding and fails on an incomplete group.
\<close>

section \<open>Encoding\<close>

definition b64_char :: "nat \<Rightarrow> char" where
  "b64_char n = ''ABCDEFGHIJKLMNOPQRSTUVWXYZabcdefghijklmnopqrstuvwxyz0123456789-_'' ! n"

abbreviation byte :: "char \<Rightarrow> nat" where
  "byte c \<equiv> of_char c"

fun urlsafe_b64encode :: "string \<Rightarrow> string" where
  "urlsafe_b64encode [] = []"
| "urlsafe_b64encode [a] = [b64_char (byte a div 4), b64_char (byte a mod 4 * 16), CHR ''='', CHR ''='']"
| "urlsafe_b64encode [a, b] =
     [b64_char (byte a div 4), b64_char (byte a mod 4 * 16 + byte b div 16), b64_char (byte b mod 16 * 4), CHR ''='']"
| "urlsafe_b64encode (a # b # c # r) =
     [b64_char (byte a div 4), b64_char (byte a mod 4 * 16 + byte b div 16),
      b64_char (byte b mod 16 * 4 + byte c div 64), b64_char (byte c mod 64)] @ urlsafe_b64encode r"

definition rstrip_char :: "char \<Rightarrow> string \<Rightarrow> string" where
  "rstrip_char c s = rev (dropWhile (\<lambda>d. d = c) (rev s))"

section \<open>Decoding\<close>

definition b64_value :: "char \<Rightarrow> nat option" where
  "b64_value c =
     (let n = (of_char c :: int) in
      if 65 \<le> n \<and> n < 91 then Some (nat (n - 65)) else if 97 \<le> n \<and> n < 123 then Some (nat (n - 71))
      else if 48 \<le> n \<and> n < 58 then Some (nat (n + 4)) else if c = CHR ''+'' then Some 62
      else if c = CHR ''/'' then Some 63 else None)"

text \<open>The position in the group, the bits left over and the padding seen.\<close>

fun a2b_base64 :: "nat \<Rightarrow> nat \<Rightarrow> nat \<Rightarrow> string \<Rightarrow> string option" where
  "a2b_base64 quad left pads [] = (if quad = 0 then Some [] else None)"
| "a2b_base64 quad left pads (c # cs) =
     (if c = CHR ''='' then
        (if 2 \<le> quad then (if 4 \<le> quad + Suc pads then Some [] else a2b_base64 quad left (Suc pads) cs)
         else a2b_base64 quad left pads cs)
      else case b64_value c of
        None \<Rightarrow> a2b_base64 quad left pads cs
      | Some v \<Rightarrow>
          if quad = 0 then a2b_base64 1 v 0 cs
          else if quad = 1 then map_option ((#) (char_of (left * 4 + v div 16))) (a2b_base64 2 (v mod 16) 0 cs)
          else if quad = 2 then map_option ((#) (char_of (left * 16 + v div 4))) (a2b_base64 3 (v mod 4) 0 cs)
          else map_option ((#) (char_of (left * 64 + v))) (a2b_base64 0 0 0 cs))"

definition urlsafe_char :: "char \<Rightarrow> char" where
  "urlsafe_char c = (if c = CHR ''-'' then CHR ''+'' else if c = CHR ''_'' then CHR ''/'' else c)"

definition urlsafe_b64decode :: "string \<Rightarrow> string option" where
  "urlsafe_b64decode s = (if ascii_text s then a2b_base64 0 0 0 (map urlsafe_char s) else None)"

section \<open>Decoding what was encoded\<close>

lemma byte_less [simp]: "byte c < 256"
  by (metis of_char_mod_256 mod_less_divisor zero_less_numeral)

lemma b64_alphabet:
  "list_all (\<lambda>n. b64_value (urlsafe_char (b64_char n)) = Some n \<and> b64_char n \<noteq> CHR ''=''
     \<and> urlsafe_char (b64_char n) \<noteq> CHR ''='' \<and> b64_char n \<noteq> CHR ''.'' \<and> (of_char (b64_char n) :: int) < 128) [0..<64]"
  by code_simp

lemma b64_char:
  assumes "n < 64"
  shows "b64_value (urlsafe_char (b64_char n)) = Some n" "b64_char n \<noteq> CHR ''=''"
    "urlsafe_char (b64_char n) \<noteq> CHR ''=''" "b64_char n \<noteq> CHR ''.''" "(of_char (b64_char n) :: int) < 128"
  using b64_alphabet assms by (auto simp: list_all_iff)

lemma b64_not_blank: "list_all (\<lambda>n. \<not> py_space (b64_char n)) [0..<64]"
  by code_simp

lemma b64_char_not_blank: "n < 64 \<Longrightarrow> \<not> py_space (b64_char n)"
  using b64_not_blank by (auto simp: list_all_iff)

lemma byte_high: "byte c div 4 < 64" "byte c div 16 < 16" "byte c div 64 < 4"
  using byte_less[of c] by (simp_all add: less_mult_imp_div_less)

lemma digit_sum: "(a :: nat) < k \<Longrightarrow> b < m \<Longrightarrow> a * m + b < k * m"
proof -
  assume "a < k" "b < m"
  then have "a * m + b < Suc a * m" by simp
  also have "\<dots> \<le> k * m" using \<open>a < k\<close> by (intro mult_le_mono1) simp
  finally show ?thesis .
qed

lemma byte_parts:
  "byte c div 4 < 64" "byte c mod 4 * 16 < 64" "byte d mod 4 * 16 + byte c div 16 < 64"
  "byte c mod 16 * 4 < 64" "byte d mod 16 * 4 + byte c div 64 < 64" "byte c mod 64 < 64"
  using byte_high[of c] digit_sum[of "byte d mod 4" 4 "byte c div 16" 16] digit_sum[of "byte c mod 4" 4 0 16]
    digit_sum[of "byte d mod 16" 16 "byte c div 64" 4] digit_sum[of "byte c mod 16" 16 0 4]
  by simp_all

text \<open>The three bytes of a group from its four digits.\<close>

lemma div_in_sum: "(b :: nat) < m \<Longrightarrow> (a * m + b) div m = a" "b < m \<Longrightarrow> (a * m + b) mod m = b"
  by (simp_all add: div_add1_eq)

lemma byte_split:
  "byte c = byte c div 4 * 4 + byte c mod 4" "byte c = byte c div 16 * 16 + byte c mod 16"
  "byte c = byte c div 64 * 64 + byte c mod 64"
  by simp_all

lemma byte_joined:
  "char_of (byte c div 4 * 4 + (byte c mod 4 * 16) div 16) = c"
  "char_of (byte c div 4 * 4 + (byte c mod 4 * 16 + byte d div 16) div 16) = c"
  "char_of ((byte e mod 4 * 16 + byte c div 16) mod 16 * 16 + (byte c mod 16 * 4) div 4) = c"
  "char_of ((byte e mod 4 * 16 + byte c div 16) mod 16 * 16 + (byte c mod 16 * 4 + byte d div 64) div 4) = c"
  "char_of ((byte e mod 16 * 4 + byte c div 64) mod 4 * 64 + byte c mod 64) = c"
  using div_in_sum(1)[of 0 16 "byte c mod 4"] div_in_sum(1)[of 0 4 "byte c mod 16"]
  by (simp_all only: div_in_sum byte_high add_0_right zero_less_numeral flip: byte_split)
    simp_all

text \<open>The encoding without its padding.\<close>

fun b64_bare :: "string \<Rightarrow> string" where
  "b64_bare [] = []"
| "b64_bare [a] = [b64_char (byte a div 4), b64_char (byte a mod 4 * 16)]"
| "b64_bare [a, b] = [b64_char (byte a div 4), b64_char (byte a mod 4 * 16 + byte b div 16), b64_char (byte b mod 16 * 4)]"
| "b64_bare (a # b # c # r) =
     [b64_char (byte a div 4), b64_char (byte a mod 4 * 16 + byte b div 16),
      b64_char (byte b mod 16 * 4 + byte c div 64), b64_char (byte c mod 64)] @ b64_bare r"

definition b64_pads :: "nat \<Rightarrow> string" where
  "b64_pads n = replicate ((4 - n mod 4) mod 4) (CHR ''='')"

lemma b64_bare_chars: "c \<in> set (b64_bare s) \<Longrightarrow> c \<noteq> CHR ''='' \<and> c \<noteq> CHR ''.'' \<and> (of_char c :: int) < 128"
  by (induction s rule: b64_bare.induct) (auto simp: b64_char byte_parts)

lemma b64_bare_not_blank: "c \<in> set (b64_bare s) \<Longrightarrow> \<not> py_space c"
  by (induction s rule: b64_bare.induct) (auto simp: b64_char_not_blank byte_parts)

lemma b64_pads_group: "b64_pads (Suc (Suc (Suc (Suc n)))) = b64_pads n"
proof -
  have "Suc (Suc (Suc (Suc n))) = n + 4" by simp
  then show ?thesis by (simp only: b64_pads_def mod_add_self2)
qed

lemma b64_pads_rest: "b64_pads 0 = []" "b64_pads (Suc (Suc 0)) = ''==''" "b64_pads (Suc (Suc (Suc 0))) = ''=''"
  by code_simp+

lemma urlsafe_b64encode_bare: "urlsafe_b64encode s = b64_bare s @ b64_pads (length (b64_bare s))"
  by (induction s rule: b64_bare.induct) (simp_all add: b64_pads_group b64_pads_rest)

lemma rstrip_char_append:
  assumes "c \<notin> set s"
  shows "rstrip_char c (s @ replicate n c) = s"
proof -
  have "dropWhile (\<lambda>d. d = c) (replicate n c @ rev s) = dropWhile (\<lambda>d. d = c) (rev s)"
    by (rule dropWhile_append2) simp
  also have "\<dots> = rev s" using assms by (cases "rev s") (auto simp: dropWhile_eq_self_iff)
  finally show ?thesis by (simp add: rstrip_char_def)
qed

lemma rstrip_b64: "rstrip_char (CHR ''='') (urlsafe_b64encode s) = b64_bare s"
  using b64_bare_chars[of "CHR ''=''" s] unfolding urlsafe_b64encode_bare b64_pads_def
  by (intro rstrip_char_append) blast

lemma a2b_digit:
  assumes "n < 64"
  shows "a2b_base64 0 l p (urlsafe_char (b64_char n) # cs) = a2b_base64 1 n 0 cs"
    "a2b_base64 1 l p (urlsafe_char (b64_char n) # cs)
       = map_option ((#) (char_of (l * 4 + n div 16))) (a2b_base64 2 (n mod 16) 0 cs)"
    "a2b_base64 2 l p (urlsafe_char (b64_char n) # cs)
       = map_option ((#) (char_of (l * 16 + n div 4))) (a2b_base64 3 (n mod 4) 0 cs)"
    "a2b_base64 3 l p (urlsafe_char (b64_char n) # cs) = map_option ((#) (char_of (l * 64 + n))) (a2b_base64 0 0 0 cs)"
  using b64_char[OF assms] by simp_all

lemma a2b_stop:
  "a2b_base64 0 l p [] = Some []" "a2b_base64 2 l 0 [CHR ''='', CHR ''=''] = Some []" "a2b_base64 3 l 0 [CHR ''=''] = Some []"
  by simp_all

lemma urlsafe_pad: "urlsafe_char (CHR ''='') = CHR ''=''"
  by (simp add: urlsafe_char_def)

lemma a2b_base64_encode: "a2b_base64 0 l p (map urlsafe_char (urlsafe_b64encode s)) = Some s"
proof (induction s arbitrary: l p rule: b64_bare.induct)
  case (4 a b c r)
  then show ?case
    by (simp only: urlsafe_b64encode.simps append.simps list.map a2b_digit[OF byte_parts(1)] a2b_digit[OF byte_parts(3)]
        a2b_digit[OF byte_parts(5)] a2b_digit[OF byte_parts(6)] byte_joined option.map)
qed (simp_all only: urlsafe_b64encode.simps list.map a2b_digit[OF byte_parts(1)] a2b_digit[OF byte_parts(2)]
    a2b_digit[OF byte_parts(3)] a2b_digit[OF byte_parts(4)] urlsafe_pad a2b_stop byte_joined option.map)

theorem urlsafe_b64decode_encode: "urlsafe_b64decode (urlsafe_b64encode s) = Some s"
proof -
  have "ascii_text (urlsafe_b64encode s)" using b64_bare_chars
    by (auto simp: ascii_text_def urlsafe_b64encode_bare b64_pads_def list_all_iff)
  then show ?thesis using a2b_base64_encode by (simp add: urlsafe_b64decode_def)
qed

end
