(* ===== verification/Delta_Cursor.thy ===== *)
theory Delta_Cursor
  imports Py_Objects Json_Read Base64_Text
begin

text \<open>
  The continuation cursors of \<open>src/backend/sync/delta_paging.py\<close>: what a page hands to the client
  to fetch the next one.  A cursor is the base64 of a JSON object, signed with the session token
  and bound to the user and the organization; reading it back checks the signature before
  anything of its content is looked at.

  SHA-256, HMAC-SHA-256 and the rounding of a decimal text to a double are parameters.
\<close>

section \<open>Encoding and decoding\<close>

record cursor_env =
  ce_sha256 :: "string \<Rightarrow> string"
  ce_hmac :: "string \<Rightarrow> string \<Rightarrow> string"
  ce_float :: "string \<Rightarrow> pval"

datatype cursor_error = CURSOR_TAMPERED | CURSOR_BINDING_INVALID | CURSOR_EXPIRED | CURSOR_INVALID

type_synonym marker = "int \<times> string \<times> string \<times> string"

definition CURSOR_VERSION :: int where
  "CURSOR_VERSION = 1"

definition b64encode :: "string \<Rightarrow> string" where
  "b64encode v = rstrip_char (CHR ''='') (urlsafe_b64encode v)"

definition b64decode :: "string \<Rightarrow> string option" where
  "b64decode v = urlsafe_b64decode (v @ replicate (nat ((- py_len v) mod 4)) (CHR ''=''))"

definition cursor_binding :: "cursor_env \<Rightarrow> ident \<Rightarrow> ident \<Rightarrow> string" where
  "cursor_binding env organization_id user_id = ce_sha256 env (organization_id @ CHR 0x0A # user_id)"

record delta_state =
  ds_after :: int
  ds_through :: int
  ds_marker :: marker
  ds_visibility :: string

definition marker_value :: "marker \<Rightarrow> pval" where
  "marker_value mk = (case mk of (version, kind, table_key, record_id) \<Rightarrow>
     PList [PInt version, PStr kind, PStr table_key, PStr record_id])"

definition cursor_payload :: "cursor_env \<Rightarrow> ident \<Rightarrow> ident \<Rightarrow> int \<Rightarrow> delta_state \<Rightarrow> pval" where
  "cursor_payload env organization_id user_id expires_at st = PDict
     [(''v'', PInt CURSOR_VERSION),
      (''bind'', PStr (cursor_binding env organization_id user_id)),
      (''after'', PInt (ds_after st)),
      (''through'', PInt (ds_through st)),
      (''marker'', marker_value (ds_marker st)),
      (''exp'', PInt expires_at),
      (''visibility'', PStr (ds_visibility st))]"

definition cursor_body :: "cursor_env \<Rightarrow> ident \<Rightarrow> ident \<Rightarrow> int \<Rightarrow> delta_state \<Rightarrow> string" where
  "cursor_body env organization_id user_id expires_at st =
     b64encode (json_ascii (cursor_payload env organization_id user_id expires_at st))"

definition signed_text :: "cursor_env \<Rightarrow> string \<Rightarrow> string \<Rightarrow> string" where
  "signed_text env signing_key encoded = encoded @ CHR ''.'' # b64encode (ce_hmac env signing_key encoded)"

definition encode_delta_cursor ::
    "cursor_env \<Rightarrow> string \<Rightarrow> ident \<Rightarrow> ident \<Rightarrow> int \<Rightarrow> delta_state \<Rightarrow> string" where
  "encode_delta_cursor env signing_key organization_id user_id expires_at st =
     signed_text env signing_key (cursor_body env organization_id user_id expires_at st)"

text \<open>\<open>text.split(".", 1)\<close>, unpacked to two names.\<close>

definition split_once :: "char \<Rightarrow> string \<Rightarrow> (string \<times> string) option" where
  "split_once c s = (case dropWhile (\<lambda>d. d \<noteq> c) s of [] \<Rightarrow> None | _ # r \<Rightarrow> Some (takeWhile (\<lambda>d. d \<noteq> c) s, r))"

text \<open>
  Every exception that is not a \<open>DeltaCursorError\<close> becomes \<open>CURSOR_INVALID\<close>.
\<close>

definition or_invalid :: "'e + 'a \<Rightarrow> cursor_error + 'a" where
  "or_invalid m = (case m of Inl _ \<Rightarrow> Inl CURSOR_INVALID | Inr x \<Rightarrow> Inr x)"

definition some_or_invalid :: "'a option \<Rightarrow> cursor_error + 'a" where
  "some_or_invalid m = (case m of None \<Rightarrow> Inl CURSOR_INVALID | Some x \<Rightarrow> Inr x)"

definition list_items :: "pval \<Rightarrow> pval list" where
  "list_items v = (case v of PList xs \<Rightarrow> xs | _ \<Rightarrow> [])"

definition decode_payload :: "cursor_env \<Rightarrow> ident \<Rightarrow> ident \<Rightarrow> int \<Rightarrow> pval \<Rightarrow> cursor_error + delta_state" where
  "decode_payload env organization_id user_id now payload =
     res_bind (or_invalid (get_item payload ''marker'')) (\<lambda>marker.
     res_bind (ensure (py_eq (dget payload ''v'') (PInt CURSOR_VERSION)
         \<and> py_eq (dget payload ''bind'') (PStr (cursor_binding env organization_id user_id))
         \<and> is_list marker \<and> length (list_items marker) = 4) CURSOR_BINDING_INVALID) (\<lambda>_.
     res_bind (or_invalid (res_bind (get_item payload ''exp'') py_int)) (\<lambda>expires.
     res_bind (ensure (\<not> expires < now) CURSOR_EXPIRED) (\<lambda>_.
     res_bind (or_invalid (py_int (list_items marker ! 0))) (\<lambda>version.
     res_bind (or_invalid (res_bind (get_item payload ''after'') py_int)) (\<lambda>after.
     res_bind (or_invalid (res_bind (get_item payload ''through'') py_int)) (\<lambda>through.
     Inr \<lparr>ds_after = after, ds_through = through,
          ds_marker = (version, py_str (list_items marker ! 1), py_str (list_items marker ! 2), py_str (list_items marker ! 3)),
          ds_visibility = str_or_empty (dget payload ''visibility'')\<rparr>)))))))"

definition decode_delta_cursor ::
    "cursor_env \<Rightarrow> string \<Rightarrow> ident \<Rightarrow> ident \<Rightarrow> int \<Rightarrow> string \<Rightarrow> cursor_error + delta_state" where
  "decode_delta_cursor env signing_key organization_id user_id now cursor_text =
     res_bind (some_or_invalid (split_once (CHR ''.'') cursor_text)) (\<lambda>(encoded, supplied_signature).
     res_bind (some_or_invalid (b64decode supplied_signature)) (\<lambda>supplied.
     res_bind (ensure (supplied = ce_hmac env signing_key encoded) CURSOR_TAMPERED) (\<lambda>_.
     res_bind (some_or_invalid (b64decode encoded)) (\<lambda>bs.
     res_bind (some_or_invalid (json_loads_bytes (ce_float env) bs)) (\<lambda>payload.
     decode_payload env organization_id user_id now payload)))))"

section \<open>Base64 and JSON of a cursor\<close>

lemma ascii_py_len: "list_all (\<lambda>c. (of_char c :: int) < 128) s \<Longrightarrow> py_len s = int (length s)"
  by (induction s) (auto simp: utf8_continuation_def Let_def)

lemma b64encode_bare: "b64encode s = b64_bare s"
  by (simp add: b64encode_def rstrip_b64)

lemma negative_mod: "nat ((- int n) mod 4) = (4 - n mod 4) mod 4"
proof -
  have "int n mod 4 = int (n mod 4)" by (simp add: zmod_int)
  moreover have "n mod 4 < 4" by simp
  ultimately show ?thesis by (cases "n mod 4 = 0") (simp_all add: zmod_zminus1_eq_if nat_diff_distrib)
qed

lemma b64decode_encode [simp]: "b64decode (b64encode s) = Some s"
proof -
  have "py_len (b64_bare s) = int (length (b64_bare s))"
    using b64_bare_chars by (intro ascii_py_len) (auto simp: list_all_iff)
  moreover have "nat ((- int n) mod 4) = (4 - n mod 4) mod 4" for n
    by (rule negative_mod)
  ultimately have "b64decode (b64encode s) = urlsafe_b64decode (urlsafe_b64encode s)"
    by (simp add: b64decode_def b64encode_bare urlsafe_b64encode_bare b64_pads_def)
  then show ?thesis by (simp add: urlsafe_b64decode_encode)
qed

lemma b64encode_inject [simp]: "b64encode s = b64encode t \<longleftrightarrow> s = t"
  by (metis b64decode_encode option.inject)

lemma b64encode_no_dot: "CHR ''.'' \<notin> set (b64encode s)"
  using b64_bare_chars by (auto simp: b64encode_bare)

lemma split_once_append: "c \<notin> set s \<Longrightarrow> split_once c (s @ c # r) = Some (s, r)"
proof -
  assume "c \<notin> set s"
  then have "\<And>d. d \<in> set s \<Longrightarrow> d \<noteq> c" by auto
  then show ?thesis by (simp add: split_once_def dropWhile_append2 takeWhile_append2)
qed

lemma split_once_Some:
  assumes "split_once c s = Some (l, r)"
  shows "s = l @ c # r" "c \<notin> set l"
proof -
  obtain d where d: "dropWhile (\<lambda>d. d \<noteq> c) s = d # r" "takeWhile (\<lambda>d. d \<noteq> c) s = l"
    using assms by (auto simp: split_once_def split: list.splits)
  then have "d = c" using hd_dropWhile[of "\<lambda>d. d \<noteq> c" s] by auto
  then show "s = l @ c # r" using d takeWhile_dropWhile_id[of "\<lambda>d. d \<noteq> c" s] by simp
  show "c \<notin> set l" using d(2) set_takeWhileD by fastforce
qed

lemma or_invalid_Inr [simp]: "or_invalid m = Inr x \<longleftrightarrow> m = Inr x" "or_invalid (Inr y) = Inr y"
  by (auto simp: or_invalid_def split: sum.splits)

lemma some_or_invalid_Inr [simp]: "some_or_invalid m = Inr x \<longleftrightarrow> m = Some x" "some_or_invalid (Some y) = Inr y"
  by (auto simp: some_or_invalid_def split: option.splits)

text \<open>The object that comes back has its keys in order.\<close>

definition sorted_payload :: "cursor_env \<Rightarrow> ident \<Rightarrow> ident \<Rightarrow> int \<Rightarrow> delta_state \<Rightarrow> (string \<times> pval) list" where
  "sorted_payload env organization_id user_id expires_at st =
     [(''after'', PInt (ds_after st)),
      (''bind'', PStr (cursor_binding env organization_id user_id)),
      (''exp'', PInt expires_at),
      (''marker'', marker_value (ds_marker st)),
      (''through'', PInt (ds_through st)),
      (''v'', PInt CURSOR_VERSION),
      (''visibility'', PStr (ds_visibility st))]"

lemma payload_keys:
  "sorted [''after'', ''bind'', ''exp'', ''marker'', ''through'', ''v'', ''visibility'']"
  "distinct [''after'', ''bind'', ''exp'', ''marker'', ''through'', ''v'', ''visibility'']"
  by code_simp+

lemma sorted_payload_keys:
  "map fst (sorted_payload env organization_id user_id expires_at st)
     = [''after'', ''bind'', ''exp'', ''marker'', ''through'', ''v'', ''visibility'']"
  by (simp add: sorted_payload_def)

lemma json_ascii_perm:
  assumes "set d = set d'" "distinct (map fst d)" "distinct (map fst d')"
  shows "json_ascii (PDict d) = json_ascii (PDict d')"
  using sort_key_fst_perm[OF assms] by simp

lemma json_ascii_payload:
  "json_ascii (cursor_payload env organization_id user_id expires_at st)
     = json_ascii (PDict (sorted_payload env organization_id user_id expires_at st))"
  unfolding cursor_payload_def by (rule json_ascii_perm) (auto simp: sorted_payload_def)

definition marker_ok :: "marker \<Rightarrow> bool" where
  "marker_ok mk = (case mk of (version, kind, table_key, record_id) \<Rightarrow>
     utf8_ok kind \<and> utf8_ok table_key \<and> utf8_ok record_id)"

definition state_ok :: "delta_state \<Rightarrow> bool" where
  "state_ok st \<longleftrightarrow> marker_ok (ds_marker st) \<and> utf8_ok (ds_visibility st)"

lemma sorted_payload_ok:
  assumes "state_ok st" "utf8_ok (cursor_binding env organization_id user_id)"
  shows "json_ok (PDict (sorted_payload env organization_id user_id expires_at st))"
proof -
  have "utf8_ok ''after'' \<and> utf8_ok ''bind'' \<and> utf8_ok ''exp'' \<and> utf8_ok ''marker'' \<and> utf8_ok ''through''
      \<and> utf8_ok ''v'' \<and> utf8_ok ''visibility''" by (simp add: utf8_ok_ascii)
  then have "list_all (\<lambda>(k, v). utf8_ok k \<and> json_ok v) (sorted_payload env organization_id user_id expires_at st)"
    using assms by (auto simp: sorted_payload_def state_ok_def marker_ok_def marker_value_def split: prod.splits)
  moreover have "sorted (map fst (sorted_payload env organization_id user_id expires_at st))"
    "distinct (map fst (sorted_payload env organization_id user_id expires_at st))"
    unfolding sorted_payload_keys by (rule payload_keys)+
  ultimately show ?thesis by simp
qed

end
