(* ===== verification/Delta_Cursor_Laws.thy ===== *)
theory Delta_Cursor_Laws
  imports Delta_Cursor
begin

text \<open>
  What a cursor guarantees: it is read back to the state it was made from, a text that was not
  signed with the session's key is refused, and so is one of another user or an old one.
\<close>

section \<open>Reading back\<close>

lemma payload_lookup:
  "map_of (sorted_payload env org user expires st) ''marker'' = Some (marker_value (ds_marker st))"
  "map_of (sorted_payload env org user expires st) ''v'' = Some (PInt CURSOR_VERSION)"
  "map_of (sorted_payload env org user expires st) ''bind'' = Some (PStr (cursor_binding env org user))"
  "map_of (sorted_payload env org user expires st) ''exp'' = Some (PInt expires)"
  "map_of (sorted_payload env org user expires st) ''after'' = Some (PInt (ds_after st))"
  "map_of (sorted_payload env org user expires st) ''through'' = Some (PInt (ds_through st))"
  "map_of (sorted_payload env org user expires st) ''visibility'' = Some (PStr (ds_visibility st))"
  by (simp_all add: sorted_payload_def)

lemma decode_payload_sorted:
  "decode_payload env org' user' now (PDict (sorted_payload env org user expires st)) =
     (if cursor_binding env org user \<noteq> cursor_binding env org' user' then Inl CURSOR_BINDING_INVALID
      else if expires < now then Inl CURSOR_EXPIRED else Inr st)"
  by (cases "ds_marker st")
    (simp add: decode_payload_def get_item_def dget_def dget_default_def payload_lookup marker_value_def list_items_def
      ensure_def)

lemma decode_signed:
  assumes "CHR ''.'' \<notin> set encoded"
  shows "decode_delta_cursor env key org user now (encoded @ CHR ''.'' # b64encode mac) =
     (if mac \<noteq> ce_hmac env key encoded then Inl CURSOR_TAMPERED
      else res_bind (some_or_invalid (b64decode encoded)) (\<lambda>bs.
        res_bind (some_or_invalid (json_loads_bytes (ce_float env) bs)) (decode_payload env org user now)))"
  using assms by (simp add: decode_delta_cursor_def split_once_append ensure_def)

lemma read_signed_payload:
  assumes "state_ok st" "utf8_ok (cursor_binding env org user)"
  shows "decode_delta_cursor env key org' user' now (cursor_body env org user expires st @ CHR ''.'' # b64encode mac) =
     (if mac \<noteq> ce_hmac env key (cursor_body env org user expires st) then Inl CURSOR_TAMPERED
      else if cursor_binding env org user \<noteq> cursor_binding env org' user' then Inl CURSOR_BINDING_INVALID
      else if expires < now then Inl CURSOR_EXPIRED else Inr st)"
proof -
  have "json_loads_bytes (ce_float env) (json_ascii (cursor_payload env org user expires st))
      = Some (PDict (sorted_payload env org user expires st))"
    unfolding json_ascii_payload using sorted_payload_ok[OF assms] by (rule json_loads_bytes_ascii)
  moreover have "CHR ''.'' \<notin> set (cursor_body env org user expires st)"
    unfolding cursor_body_def by (rule b64encode_no_dot)
  ultimately show ?thesis
    by (simp add: decode_signed decode_payload_sorted) (simp add: cursor_body_def decode_payload_sorted)
qed

lemma read_cursor:
  assumes "state_ok st" "utf8_ok (cursor_binding env org user)"
  shows "decode_delta_cursor env key' org' user' now (encode_delta_cursor env key org user expires st) =
     (if ce_hmac env key (cursor_body env org user expires st) \<noteq> ce_hmac env key' (cursor_body env org user expires st)
      then Inl CURSOR_TAMPERED
      else if cursor_binding env org user \<noteq> cursor_binding env org' user' then Inl CURSOR_BINDING_INVALID
      else if expires < now then Inl CURSOR_EXPIRED else Inr st)"
  unfolding encode_delta_cursor_def signed_text_def using assms by (rule read_signed_payload)

text \<open>
  C23: a cursor handed out with a page is read back to exactly the window, the position and the
  visibility fingerprint it was made from, until it expires; then it is refused as expired.
\<close>

theorem cursor_roundtrip:
  assumes "state_ok st" and "utf8_ok (cursor_binding env org user)"
  shows "decode_delta_cursor env key org user now (encode_delta_cursor env key org user expires st)
    = (if expires < now then Inl CURSOR_EXPIRED else Inr st)"
  using assms by (simp add: read_cursor)

section \<open>What is refused\<close>

lemma binding_injective:
  assumes "inj sha" "CHR 0x0A \<notin> set org" "CHR 0x0A \<notin> set org'"
    and "sha (org @ CHR 0x0A # user) = sha (org' @ CHR 0x0A # user')"
  shows "org = org' \<and> user = user'"
proof -
  have "org @ CHR 0x0A # user = org' @ CHR 0x0A # user'" using assms(1,4) by (simp add: inj_eq)
  then have "split_once (CHR 0x0A) (org @ CHR 0x0A # user) = split_once (CHR 0x0A) (org' @ CHR 0x0A # user')" by simp
  then show ?thesis using assms(2,3) by (simp add: split_once_append)
qed

text \<open>
  C24: with a collision-free hash and signature, a cursor cannot be altered or moved. Any other
  text under the same signature is refused as tampered before its content is read; the cursor of
  one session is refused in a session with another token whose signature of it differs; and the
  cursor of one user or organization is refused for any other, even under the same key.
\<close>

theorem cursor_cannot_be_moved:
  assumes "state_ok st" and "utf8_ok (cursor_binding env org user)"
    and "\<And>k. inj (ce_hmac env k)" and "inj (ce_sha256 env)"
    and "CHR 0x0A \<notin> set org" and "CHR 0x0A \<notin> set org'"
  shows "(CHR ''.'' \<notin> set forged \<and> forged \<noteq> cursor_body env org user expires st \<longrightarrow>
      decode_delta_cursor env key org user now
        (forged @ CHR ''.'' # b64encode (ce_hmac env key (cursor_body env org user expires st))) = Inl CURSOR_TAMPERED)
    \<and> (ce_hmac env key (cursor_body env org user expires st) \<noteq> ce_hmac env key' (cursor_body env org user expires st) \<longrightarrow>
      decode_delta_cursor env key' org user now (encode_delta_cursor env key org user expires st) = Inl CURSOR_TAMPERED)
    \<and> ((org', user') \<noteq> (org, user) \<longrightarrow>
      decode_delta_cursor env key org' user' now (encode_delta_cursor env key org user expires st)
        = Inl CURSOR_BINDING_INVALID)"
proof (intro conjI impI)
  assume "CHR ''.'' \<notin> set forged \<and> forged \<noteq> cursor_body env org user expires st"
  then show "decode_delta_cursor env key org user now
        (forged @ CHR ''.'' # b64encode (ce_hmac env key (cursor_body env org user expires st))) = Inl CURSOR_TAMPERED"
    using assms(3)[of key] by (auto simp: decode_signed inj_eq)
next
  assume "ce_hmac env key (cursor_body env org user expires st) \<noteq> ce_hmac env key' (cursor_body env org user expires st)"
  then show "decode_delta_cursor env key' org user now (encode_delta_cursor env key org user expires st) = Inl CURSOR_TAMPERED"
    using assms(1,2) by (simp add: read_cursor)
next
  assume "(org', user') \<noteq> (org, user)"
  then have "cursor_binding env org user \<noteq> cursor_binding env org' user'"
    using binding_injective[OF assms(4-6), of user user'] by (auto simp: cursor_binding_def)
  then show "decode_delta_cursor env key org' user' now (encode_delta_cursor env key org user expires st)
        = Inl CURSOR_BINDING_INVALID"
    using assms(1,2) by (simp add: read_cursor)
qed

text \<open>Nothing is accepted that the session's key has not signed.\<close>

lemma accepted_is_signed:
  assumes "decode_delta_cursor env key org user now cursor_text = Inr st"
  shows "\<exists>encoded sig. cursor_text = encoded @ CHR ''.'' # sig \<and> b64decode sig = Some (ce_hmac env key encoded)"
proof -
  obtain encoded sig where "split_once (CHR ''.'') cursor_text = Some (encoded, sig)"
      "b64decode sig = Some (ce_hmac env key encoded)"
    using assms by (auto simp: decode_delta_cursor_def res_simps split: prod.splits)
  then show ?thesis using split_once_Some(1) by blast
qed

end
