(* ===== verification/Access_Read.thy ===== *)
theory Access_Read
  imports Py_Objects
begin

text \<open>
  Who may read what: the principals and memberships of
  \<open>src/backend/shared/access_principals.py\<close>, the personal scopes of
  \<open>src/backend/shared/workspace_scope.py\<close>, the module registry, and the read side of
  \<open>src/backend/shared/access_policy.py\<close>, over the rows of the database.
\<close>

section \<open>Rows\<close>

text \<open>
  A row is the dictionary of its columns, a table a list of rows in the order a query without
  \<open>ORDER BY\<close> meets them; a missing column reads as \<open>NULL\<close>.
\<close>

type_synonym sql_row = pval
type_synonym sql_db = "(string \<times> sql_row list) list"

definition table_rows :: "sql_db \<Rightarrow> string \<Rightarrow> sql_row list" where
  "table_rows db t = (case map_of db t of None \<Rightarrow> [] | Some rows \<Rightarrow> rows)"

text \<open>\<open>a = b\<close> between columns (never true for \<open>NULL\<close>), \<open>COALESCE\<close>, \<open>lower(trim(x))\<close>.\<close>

definition sql_eq :: "pval \<Rightarrow> pval \<Rightarrow> bool" where
  "sql_eq a b \<longleftrightarrow> a \<noteq> PNone \<and> a = b"

definition sql_coalesce :: "pval \<Rightarrow> pval \<Rightarrow> pval" where
  "sql_coalesce a b = (if a = PNone then b else a)"

definition sql_lower_trim :: "pval \<Rightarrow> pval" where
  "sql_lower_trim v = (case v of
     PStr s \<Rightarrow> PStr (py_lower (rev (dropWhile (\<lambda>c. c = CHR '' '') (rev (dropWhile (\<lambda>c. c = CHR '' '') s)))))
   | _ \<Rightarrow> v)"

definition lower_strip :: "string \<Rightarrow> string" where
  "lower_strip s = py_lower (py_strip s)"

definition starts_with :: "string \<Rightarrow> string \<Rightarrow> bool" where
  "starts_with p s \<longleftrightarrow> take (length p) s = p"

section \<open>Personal scopes\<close>

definition PERSONAL_SCOPE_PREFIX :: string where
  "PERSONAL_SCOPE_PREFIX = ''personal:''"

definition personal_scope_owner_id :: "string \<Rightarrow> string option" where
  "personal_scope_owner_id scope_id =
     (let s = py_strip scope_id in
      if \<not> starts_with PERSONAL_SCOPE_PREFIX s then None
      else let owner = py_strip (drop (length PERSONAL_SCOPE_PREFIX) s) in if owner = [] then None else Some owner)"

definition is_personal_scope_for_user :: "string \<Rightarrow> ident \<Rightarrow> bool" where
  "is_personal_scope_for_user scope_id user_id \<longleftrightarrow> personal_scope_owner_id scope_id = Some (py_strip user_id)"

section \<open>Modules\<close>

definition CANONICAL_PERMISSION_MODULES :: "string list" where
  "CANONICAL_PERMISSION_MODULES = [''chudautu'', ''kehoach'', ''goithau'', ''chuyengia'', ''nhathau'', ''hopdong'']"

definition TABLE_TO_MODULE :: "(string \<times> string) list" where
  "TABLE_TO_MODULE =
     [(''chu_dau_tu'', ''chudautu''), (''ke_hoach_lcnt'', ''kehoach''), (''goi_thau'', ''goithau''),
      (''chuyen_gia'', ''chuyengia''), (''nha_thau'', ''nhathau''), (''hop_dong'', ''hopdong''),
      (''thong_tin_mo_thau'', ''goithau''), (''nha_thau_tham_du_mo_thau'', ''goithau''),
      (''goi_thau_hang_hoa'', ''goithau''), (''hang_hoa_du_thau_nha_thau'', ''goithau''),
      (''danh_muc_trang_thai_hop_dong'', ''hopdong'')]"

definition RESOURCE_TO_MODULE :: "(string \<times> string) list" where
  "RESOURCE_TO_MODULE =
     [(''chudautu'', ''chudautu''), (''kehoach'', ''kehoach''), (''goithau'', ''goithau''),
      (''chuyengia'', ''chuyengia''), (''nhathau'', ''nhathau''), (''hopdong'', ''hopdong''),
      (''thongtinmothau'', ''goithau''), (''goithauhanghoa'', ''goithau''),
      (''hanghoaduthaunhathau'', ''goithau'')] @ TABLE_TO_MODULE"

definition canonical_module :: "string option \<Rightarrow> string option" where
  "canonical_module v =
     (let key = lower_strip (case v of None \<Rightarrow> [] | Some s \<Rightarrow> s) in
      if key = [] then None else map_of RESOURCE_TO_MODULE key)"

section \<open>Principals\<close>

text \<open>\<open>SessionRole\<close>: the text of the role, and the persona chosen for the session.\<close>

record session_role =
  sr_text :: string
  sr_active :: "string option"

definition normalize_platform_role :: "string \<Rightarrow> string" where
  "normalize_platform_role v =
     (let role = lower_strip v in if role \<in> {''super_admin'', ''user''} then role else ''user'')"

definition ROLE_HIERARCHY :: "string \<Rightarrow> string list" where
  "ROLE_HIERARCHY role = (if role = ''super_admin'' then [''super_admin'', ''manager'', ''employee''] else [''user''])"

definition get_effective_roles :: "string \<Rightarrow> string list" where
  "get_effective_roles text = ROLE_HIERARCHY (normalize_platform_role text)"

definition is_manager_role :: "session_role \<Rightarrow> bool" where
  "is_manager_role role = (case sr_active role of
     Some a \<Rightarrow> a = ''super_admin''
   | None \<Rightarrow> ''super_admin'' \<in> set (get_effective_roles (sr_text role)))"

definition active_member :: "ident \<Rightarrow> ident \<Rightarrow> sql_row \<Rightarrow> bool" where
  "active_member user_id organization_id r \<longleftrightarrow>
     dget r ''user_id'' = PStr user_id \<and> dget r ''organization_id'' = PStr organization_id
     \<and> sql_coalesce (dget r ''trang_thai_thanh_vien'') (PStr ''active'') = PStr ''active''"

definition membership_text :: "sql_row \<Rightarrow> string" where
  "membership_text r = lower_strip (str_or_empty (sql_lower_trim (dget r ''vai_tro_trong_to_chuc'')))"

definition organization_membership_role :: "sql_db \<Rightarrow> ident \<Rightarrow> ident \<Rightarrow> string option" where
  "organization_membership_role db user_id organization_id =
     (if user_id = [] \<or> organization_id = [] then None
      else map_option membership_text
        (List.find (active_member user_id organization_id) (table_rows db ''thanh_vien_to_chuc'')))"

definition is_personal_workspace_owner :: "sql_db \<Rightarrow> ident \<Rightarrow> string \<Rightarrow> bool" where
  "is_personal_workspace_owner db user_id organization_id \<longleftrightarrow>
     is_personal_scope_for_user organization_id user_id
     \<and> list_ex (\<lambda>r. dget r ''id'' = PStr user_id
         \<and> dget r ''vai_tro'' \<noteq> PNone \<and> dget r ''vai_tro'' \<noteq> PStr ''super_admin''
         \<and> dget r ''trang_thai'' = PStr ''active'') (table_rows db ''tai_khoan'')"

definition is_organization_manager :: "sql_db \<Rightarrow> session_role \<Rightarrow> ident \<Rightarrow> ident \<Rightarrow> bool" where
  "is_organization_manager db role user_id organization_id \<longleftrightarrow>
     sr_active role \<noteq> Some ''employee''
     \<and> (is_manager_role role \<or> organization_membership_role db user_id organization_id = Some ''manager'')"

definition has_active_organization_membership :: "sql_db \<Rightarrow> session_role \<Rightarrow> ident \<Rightarrow> ident \<Rightarrow> bool" where
  "has_active_organization_membership db role user_id organization_id \<longleftrightarrow>
     is_manager_role role \<or> organization_membership_role db user_id organization_id \<noteq> None"

definition has_inherited_specialist_access :: "sql_db \<Rightarrow> session_role \<Rightarrow> ident \<Rightarrow> ident \<Rightarrow> bool" where
  "has_inherited_specialist_access db role user_id organization_id \<longleftrightarrow>
     sr_active role = Some ''employee''
     \<and> organization_membership_role db user_id organization_id = Some ''manager''"

definition permission_row :: "ident \<Rightarrow> ident \<Rightarrow> sql_row \<Rightarrow> bool" where
  "permission_row organization_id user_id r \<longleftrightarrow>
     dget r ''organization_id'' = PStr organization_id \<and> dget r ''emp_id'' = PStr user_id"

definition permission_for :: "sql_db \<Rightarrow> ident \<Rightarrow> ident \<Rightarrow> string \<Rightarrow> string" where
  "permission_for db organization_id user_id module_name =
     (case canonical_module (Some module_name) of
        None \<Rightarrow> []
      | Some m \<Rightarrow>
          if m \<notin> set CANONICAL_PERMISSION_MODULES then []
          else case List.find (permission_row organization_id user_id) (table_rows db ''ma_tran_phan_quyen'') of
            None \<Rightarrow> []
          | Some r \<Rightarrow> lower_strip (str_or_empty (dget r m)))"

definition has_module_permission ::
    "sql_db \<Rightarrow> session_role \<Rightarrow> ident \<Rightarrow> ident \<Rightarrow> string option \<Rightarrow> string \<Rightarrow> bool" where
  "has_module_permission db role user_id organization_id module_name action =
     (case canonical_module module_name of
        None \<Rightarrow> False
      | Some m \<Rightarrow>
          if is_organization_manager db role user_id organization_id then True
          else if is_personal_workspace_owner db user_id organization_id then True
          else if action \<noteq> ''edit'' \<and> has_inherited_specialist_access db role user_id organization_id then True
          else if \<not> has_active_organization_membership db role user_id organization_id then False
          else let permission = permission_for db organization_id user_id m in
            if action = ''edit'' then permission = ''edit'' else permission \<in> {''view'', ''edit''})"

section \<open>Reading records\<close>

definition WRITE_PROTECTED_KEYS :: "string list" where
  "WRITE_PROTECTED_KEYS =
     [''assignments'', ''customcontractstatuses'', ''permissionmatrix'', ''organizations'', ''employees'', ''systempackages'']"

definition ASSIGNED_TABLE_TYPES :: "(string \<times> string) list" where
  "ASSIGNED_TABLE_TYPES = [(''ke_hoach_lcnt'', ''kehoach''), (''goi_thau'', ''goithau''), (''hop_dong'', ''hopdong'')]"

definition PACKAGE_CHILDREN :: "string list" where
  "PACKAGE_CHILDREN = [''thong_tin_mo_thau'', ''goi_thau_hang_hoa'', ''hang_hoa_du_thau_nha_thau'']"

function chunked :: "nat \<Rightarrow> 'a list \<Rightarrow> 'a list list" where
  "chunked n xs = (if n = 0 \<or> xs = [] then [] else take n xs # chunked n (drop n xs))"
  by pat_completeness auto
termination
  by (relation "measure (\<lambda>(_, xs). length xs)") auto

declare chunked.simps [simp del]

definition QUERY_CHUNK_SIZE :: nat where
  "QUERY_CHUNK_SIZE = 500"

definition clean_id :: "pval \<Rightarrow> string option" where
  "clean_id v = (if v = PNone \<or> v = PStr [] then None else Some (py_strip (py_str v)))"

text \<open>\<open>x in (...)\<close> over bound texts.\<close>

definition sql_in :: "pval \<Rightarrow> string list \<Rightarrow> bool" where
  "sql_in v xs = (case v of PStr s \<Rightarrow> s \<in> set xs | _ \<Rightarrow> False)"

definition assignment_of :: "ident \<Rightarrow> ident \<Rightarrow> string \<Rightarrow> sql_row \<Rightarrow> bool" where
  "assignment_of organization_id user_id target_type pc \<longleftrightarrow>
     dget pc ''organization_id'' = PStr organization_id \<and> dget pc ''id_nhan_vien'' = PStr user_id
     \<and> dget pc ''loai_doi_tuong'' = PStr target_type"

definition effective_assignment_targets ::
    "sql_db \<Rightarrow> ident \<Rightarrow> ident \<Rightarrow> string \<Rightarrow> string list \<Rightarrow> (string \<times> string) list" where
  "effective_assignment_targets db organization_id user_id target_type record_ids =
     (let ids = (if target_type \<in> snd ` set ASSIGNED_TABLE_TYPES then sort (remdups (filter (\<lambda>i. i \<noteq> []) record_ids)) else []);
          pcs = table_rows db ''phan_cong_nhan_su'' in
      concat (map (\<lambda>chunk. map (\<lambda>pc. (target_type, py_str (dget pc ''id_muc_tieu'')))
          (filter (\<lambda>pc. assignment_of organization_id user_id target_type pc \<and> sql_in (dget pc ''id_muc_tieu'') chunk) pcs))
        (chunked QUERY_CHUNK_SIZE ids))
      @ concat (map (\<lambda>chunk. concat (map (\<lambda>package.
            map (\<lambda>pc. (''kehoach'', py_str (dget package ''ke_hoach_id'')))
              (filter (\<lambda>pc. assignment_of organization_id user_id ''goithau'' pc
                 \<and> sql_eq (dget pc ''id_muc_tieu'') (dget package ''id'')) pcs))
          (filter (\<lambda>package. dget package ''organization_id'' = PStr organization_id
             \<and> sql_in (dget package ''ke_hoach_id'') chunk) (table_rows db ''goi_thau''))))
        (chunked QUERY_CHUNK_SIZE (if target_type = ''kehoach'' then ids else []))))"

definition can_read_table ::
    "sql_db \<Rightarrow> session_role \<Rightarrow> ident \<Rightarrow> ident \<Rightarrow> string \<Rightarrow> string \<Rightarrow> bool" where
  "can_read_table db role user_id organization_id payload_key table_name =
     (if is_organization_manager db role user_id organization_id then True
      else if is_personal_workspace_owner db user_id organization_id then payload_key \<notin> set WRITE_PROTECTED_KEYS
      else if \<not> has_active_organization_membership db role user_id organization_id then False
      else if payload_key \<in> {''assignments'', ''permissionmatrix''} then True
      else has_module_permission db role user_id organization_id (map_of TABLE_TO_MODULE table_name) ''view'')"

text \<open>The identifiers of the children of a package that an assignment to the package opens.\<close>

definition assigned_child_ids :: "sql_db \<Rightarrow> ident \<Rightarrow> ident \<Rightarrow> string \<Rightarrow> string list \<Rightarrow> string option list" where
  "assigned_child_ids db organization_id user_id table_name record_ids =
     concat (map (\<lambda>chunk. map (\<lambda>child. clean_id (dget child ''id''))
         (filter (\<lambda>child. dget child ''organization_id'' = PStr organization_id \<and> sql_in (dget child ''id'') chunk
            \<and> list_ex (\<lambda>pc. assignment_of organization_id user_id ''goithau'' pc
                 \<and> sql_eq (dget pc ''id_muc_tieu'') (dget child ''goi_thau_id'')) (table_rows db ''phan_cong_nhan_su''))
            (table_rows db table_name)))
       (chunked QUERY_CHUNK_SIZE record_ids))"

definition filter_items_for_read ::
    "sql_db \<Rightarrow> session_role \<Rightarrow> ident \<Rightarrow> ident \<Rightarrow> string \<Rightarrow> string \<Rightarrow> pval list \<Rightarrow> pval list" where
  "filter_items_for_read db role user_id organization_id payload_key table_name items =
     (if is_organization_manager db role user_id organization_id then items
      else if is_personal_workspace_owner db user_id organization_id
      then (if payload_key \<notin> set WRITE_PROTECTED_KEYS then items else [])
      else if payload_key \<in> {''assignments'', ''permissionmatrix''}
      then filter (\<lambda>item. str_or_empty (dget item ''empId'') = user_id) items
      else if \<not> can_read_table db role user_id organization_id payload_key table_name then []
      else if table_name \<notin> fst ` set ASSIGNED_TABLE_TYPES \<and> table_name \<notin> set PACKAGE_CHILDREN then items
      else
        let record_ids = filter (\<lambda>i. i \<noteq> []) (List.map_filter (\<lambda>item. clean_id (dget item ''id'')) items) in
        if record_ids = [] then []
        else case map_of ASSIGNED_TABLE_TYPES table_name of
          Some target_type \<Rightarrow>
            let targets = effective_assignment_targets db organization_id user_id target_type record_ids in
            filter (\<lambda>item. \<exists>i \<in> set (map snd (filter (\<lambda>(t, _). t = target_type) targets)).
                clean_id (dget item ''id'') = Some i) items
        | None \<Rightarrow>
            let allowed = assigned_child_ids db organization_id user_id table_name record_ids in
            filter (\<lambda>item. clean_id (dget item ''id'') \<in> set allowed) items)"

end
