(* ===== verification/Visibility_Scope.thy ===== *)
theory Visibility_Scope
  imports Access_Read Json_Read
begin

text \<open>
  The visibility scope of a synchronising user, \<open>src/backend/sync/visibility_scope.py\<close>: the
  predicate each table is filtered with before ordering and paging, for live rows and for the
  tombstones of deleted ones, and the proof that for live rows it selects what the read policy of
  \<^theory_text>\<open>Access_Read\<close> would keep.
\<close>

section \<open>The registry of synchronised tables\<close>

text \<open>\<open>TABLE_KEYS\<close> of \<open>src/backend/sync/queries.py\<close>.\<close>

definition TABLE_KEYS :: "(string \<times> string) list" where
  "TABLE_KEYS =
     [(''chudautu'', ''chu_dau_tu''), (''kehoach'', ''ke_hoach_lcnt''), (''goithau'', ''goi_thau''),
      (''chuyengia'', ''chuyen_gia''), (''nhathau'', ''nha_thau''),
      (''customcontractstatuses'', ''danh_muc_trang_thai_hop_dong''), (''hopdong'', ''hop_dong''),
      (''assignments'', ''phan_cong_nhan_su''), (''thongtinmothau'', ''thong_tin_mo_thau''),
      (''permissionmatrix'', ''ma_tran_phan_quyen''), (''goithauhanghoa'', ''goi_thau_hang_hoa''),
      (''hanghoaduthaunhathau'', ''hang_hoa_du_thau_nha_thau'')]"

definition PAYLOAD_BY_TABLE :: "(string \<times> string) list" where
  "PAYLOAD_BY_TABLE = map (\<lambda>(key, table_name). (table_name, key)) TABLE_KEYS"

section \<open>The scope\<close>

record visibility_scope =
  vs_organization :: ident
  vs_user :: ident
  vs_unrestricted :: bool
  vs_permissions :: "(string \<times> string) list"

definition module_columns :: "string list" where
  "module_columns = sort (remdups (map snd TABLE_TO_MODULE))"

text \<open>The membership of the user with the first row of the permission matrix joined to it.\<close>

definition membership_permissions :: "sql_db \<Rightarrow> ident \<Rightarrow> ident \<Rightarrow> (string \<times> (string \<Rightarrow> pval)) option" where
  "membership_permissions db user_id organization_id =
     (case List.find (active_member user_id organization_id) (table_rows db ''thanh_vien_to_chuc'') of
        None \<Rightarrow> None
      | Some member \<Rightarrow> Some (membership_text member,
          case List.find (permission_row organization_id user_id) (table_rows db ''ma_tran_phan_quyen'') of
            None \<Rightarrow> (\<lambda>_. PNone)
          | Some permission \<Rightarrow> dget permission))"

definition scope_permissions :: "session_role \<Rightarrow> string \<Rightarrow> (string \<Rightarrow> pval) \<Rightarrow> (string \<times> string) list" where
  "scope_permissions role membership_role permission_column =
     (let inherited_view = (sr_active role = Some ''employee'' \<and> membership_role = ''manager'') in
      List.map_filter (\<lambda>m.
        (let stored = lower_strip (str_or_empty (permission_column m)) in
         if stored = ''edit'' then Some (m, ''edit'')
         else if stored = ''view'' \<or> inherited_view then Some (m, ''view'') else None)) module_columns)"

definition resolve_scope :: "sql_db \<Rightarrow> session_role \<Rightarrow> ident \<Rightarrow> ident \<Rightarrow> visibility_scope" where
  "resolve_scope db role user_id organization_id =
     (let unrestricted = is_organization_manager db role user_id organization_id
            \<or> is_personal_workspace_owner db user_id organization_id
      in \<lparr>vs_organization = organization_id, vs_user = user_id, vs_unrestricted = unrestricted,
          vs_permissions = (if unrestricted then []
            else case membership_permissions db user_id organization_id of
              None \<Rightarrow> []
            | Some (membership_role, columns) \<Rightarrow> scope_permissions role membership_role columns)\<rparr>)"

definition has_module :: "visibility_scope \<Rightarrow> string \<Rightarrow> bool" where
  "has_module scope table_name =
     (case map_of TABLE_TO_MODULE table_name of
        None \<Rightarrow> False
      | Some m \<Rightarrow> (case map_of (vs_permissions scope) m of
          None \<Rightarrow> False | Some p \<Rightarrow> p \<in> {''view'', ''edit''}))"

section \<open>Live rows\<close>

text \<open>\<open>EXISTS (SELECT 1 FROM phan_cong_nhan_su ...)\<close> for the target of a row.\<close>

definition assigned_to :: "sql_db \<Rightarrow> visibility_scope \<Rightarrow> pval \<Rightarrow> pval \<Rightarrow> string \<Rightarrow> bool" where
  "assigned_to db scope organization target assignment_type \<longleftrightarrow>
     list_ex (\<lambda>pc. sql_eq (dget pc ''organization_id'') organization \<and> sql_eq (dget pc ''id_muc_tieu'') target
       \<and> dget pc ''id_nhan_vien'' = PStr (vs_user scope) \<and> dget pc ''loai_doi_tuong'' = PStr assignment_type)
     (table_rows db ''phan_cong_nhan_su'')"

definition live_predicate :: "sql_db \<Rightarrow> visibility_scope \<Rightarrow> string \<Rightarrow> sql_row \<Rightarrow> bool" where
  "live_predicate db scope table_name row =
     (let own = (dget row ''organization_id'' = PStr (vs_organization scope));
          organization = dget row ''organization_id''
      in case map_of PAYLOAD_BY_TABLE table_name of
        None \<Rightarrow> False
      | Some payload_key \<Rightarrow>
          if vs_unrestricted scope then
            (if payload_key \<in> set WRITE_PROTECTED_KEYS \<and> starts_with ''personal:'' (vs_organization scope) then False
             else own)
          else if payload_key \<in> {''assignments'', ''permissionmatrix''} then
            own \<and> dget row (if payload_key = ''assignments'' then ''id_nhan_vien'' else ''emp_id'') = PStr (vs_user scope)
          else if \<not> has_module scope table_name then False
          else if table_name = ''ke_hoach_lcnt'' then
            own \<and> (assigned_to db scope organization (dget row ''id'') ''kehoach''
              \<or> list_ex (\<lambda>package. sql_eq (dget package ''organization_id'') organization
                   \<and> sql_eq (dget package ''ke_hoach_id'') (dget row ''id'')
                   \<and> assigned_to db scope (dget package ''organization_id'') (dget package ''id'') ''goithau'')
                  (table_rows db ''goi_thau''))
          else if table_name \<in> set PACKAGE_CHILDREN then
            own \<and> assigned_to db scope organization (dget row ''goi_thau_id'') ''goithau''
          else case map_of ASSIGNED_TABLE_TYPES table_name of
            Some assignment_type \<Rightarrow> own \<and> assigned_to db scope organization (dget row ''id'') assignment_type
          | None \<Rightarrow> own)"

section \<open>Tombstones\<close>

text \<open>
  \<open>x ->> k\<close> on the snapshot a deleted row was stored with; a snapshot that is not JSON has no
  field.
\<close>

definition row_snapshot :: "(string \<Rightarrow> pval) \<Rightarrow> sql_row \<Rightarrow> pval" where
  "row_snapshot flt r =
     (case dget r ''record_snapshot_json'' of
        PStr text \<Rightarrow> (case json_loads flt (if text = [] then ''{}'' else text) of None \<Rightarrow> PNone | Some v \<Rightarrow> v)
      | _ \<Rightarrow> PDict [])"

definition json_field_text :: "pval \<Rightarrow> string \<Rightarrow> pval" where
  "json_field_text v k = (case dget v k of PNone \<Rightarrow> PNone | PStr s \<Rightarrow> PStr s | w \<Rightarrow> PStr (json_dumps w))"

definition assignment_evidence ::
    "(string \<Rightarrow> pval) \<Rightarrow> sql_db \<Rightarrow> visibility_scope \<Rightarrow> pval \<Rightarrow> pval \<Rightarrow> string \<Rightarrow> bool" where
  "assignment_evidence flt db scope organization target assignment_type \<longleftrightarrow>
     assigned_to db scope organization target assignment_type
     \<or> list_ex (\<lambda>d. sql_eq (dget d ''organization_id'') organization \<and> dget d ''table_name'' = PStr ''phan_cong_nhan_su''
          \<and> sql_eq (json_field_text (row_snapshot flt d) ''id_muc_tieu'') target
          \<and> json_field_text (row_snapshot flt d) ''id_nhan_vien'' = PStr (vs_user scope)
          \<and> json_field_text (row_snapshot flt d) ''loai_doi_tuong'' = PStr assignment_type)
        (table_rows db ''deleted_records'')"

definition deletion_predicate ::
    "(string \<Rightarrow> pval) \<Rightarrow> sql_db \<Rightarrow> visibility_scope \<Rightarrow> string \<Rightarrow> sql_row \<Rightarrow> bool" where
  "deletion_predicate flt db scope table_name row =
     (let tenant = (dget row ''organization_id'' = PStr (vs_organization scope) \<and> dget row ''table_name'' = PStr table_name);
          organization = dget row ''organization_id'';
          field = json_field_text (row_snapshot flt row);
          evidence = assignment_evidence flt db scope organization
      in case map_of PAYLOAD_BY_TABLE table_name of
        None \<Rightarrow> False
      | Some payload_key \<Rightarrow>
          if vs_unrestricted scope then
            (if payload_key \<in> set WRITE_PROTECTED_KEYS \<and> starts_with ''personal:'' (vs_organization scope) then False
             else tenant)
          else if \<not> has_module scope table_name \<and> payload_key \<notin> {''assignments'', ''permissionmatrix''} then False
          else if payload_key = ''assignments'' then tenant \<and> field ''id_nhan_vien'' = PStr (vs_user scope)
          else if payload_key = ''permissionmatrix'' then tenant \<and> field ''emp_id'' = PStr (vs_user scope)
          else if table_name = ''ke_hoach_lcnt'' then
            tenant \<and> (evidence (dget row ''record_id'') ''kehoach''
              \<or> list_ex (\<lambda>package. sql_eq (dget package ''organization_id'') organization
                   \<and> sql_eq (dget package ''ke_hoach_id'') (dget row ''record_id'')
                   \<and> evidence (dget package ''id'') ''goithau'') (table_rows db ''goi_thau'')
              \<or> list_ex (\<lambda>d. sql_eq (dget d ''organization_id'') organization \<and> dget d ''table_name'' = PStr ''goi_thau''
                   \<and> sql_eq (json_field_text (row_snapshot flt d) ''ke_hoach_id'') (dget row ''record_id'')
                   \<and> evidence (dget d ''record_id'') ''goithau'') (table_rows db ''deleted_records''))
          else if table_name \<in> set PACKAGE_CHILDREN then tenant \<and> evidence (field ''goi_thau_id'') ''goithau''
          else case map_of ASSIGNED_TABLE_TYPES table_name of
            Some assignment_type \<Rightarrow> tenant \<and> evidence (dget row ''record_id'') assignment_type
          | None \<Rightarrow> tenant)"

end
