(* ===== verification/Visibility_Laws.thy ===== *)
theory Visibility_Laws
  imports Visibility_Scope
begin

text \<open>
  The batched read filter is a filter by a condition on each record, and the visibility scope
  that is pushed into the query selects exactly the live rows that condition keeps.
\<close>

section \<open>Chunks and clean identifiers\<close>

lemma concat_chunked: "n \<noteq> 0 \<Longrightarrow> concat (chunked n xs) = xs"
  by (induction n xs rule: chunked.induct) (subst chunked.simps, simp)

lemma chunked_members: "n \<noteq> 0 \<Longrightarrow> (\<exists>c \<in> set (chunked n xs). x \<in> set c) \<longleftrightarrow> x \<in> set xs"
  using concat_chunked[of n xs] by (metis set_concat UN_iff)

lemma strip_idem: "py_strip (py_strip s) = py_strip s"
proof -
  define t where "t = dropWhile py_space s"
  have head: "u = [] \<or> \<not> py_space (hd u)" if "u = rev (dropWhile py_space (rev t))" for u
  proof (cases "u = []")
    case False
    have "\<exists>v. t = u @ v" using that
      by (metis rev_append rev_rev_ident takeWhile_dropWhile_id)
    then obtain v where "t = u @ v" ..
    then have "hd t = hd u" "t \<noteq> []" using False by auto
    then show ?thesis using hd_dropWhile[of py_space s] unfolding t_def by auto
  qed simp
  have "dropWhile py_space u = u" if "u = [] \<or> \<not> py_space (hd u)" for u
    using that by (cases u) auto
  then have "dropWhile py_space (rev (dropWhile py_space (rev t))) = rev (dropWhile py_space (rev t))"
    using head by blast
  then show ?thesis by (simp add: py_strip_def dropWhile_idem flip: t_def)
qed

lemma clean_id_Some: "clean_id v = Some i \<Longrightarrow> py_strip i = i"
  by (auto simp: clean_id_def strip_idem split: if_splits)

lemma clean_id_text: "i \<noteq> [] \<Longrightarrow> py_strip i = i \<Longrightarrow> clean_id (PStr i) = Some i"
  by (simp add: clean_id_def)

lemma sql_in_iff: "sql_in v xs \<longleftrightarrow> (\<exists>s \<in> set xs. v = PStr s)"
  by (cases v) (auto simp: sql_in_def)

lemma sql_in_chunked:
  "(\<exists>c \<in> set (chunked QUERY_CHUNK_SIZE xs). sql_in v c) \<longleftrightarrow> (\<exists>s \<in> set xs. v = PStr s)"
proof -
  have "(\<exists>c \<in> set (chunked QUERY_CHUNK_SIZE xs). s \<in> set c) \<longleftrightarrow> s \<in> set xs" for s
    by (rule chunked_members) (simp add: QUERY_CHUNK_SIZE_def)
  then show ?thesis unfolding sql_in_iff by blast
qed

section \<open>The read filter, record by record\<close>

definition assigned_target :: "sql_db \<Rightarrow> ident \<Rightarrow> ident \<Rightarrow> string \<Rightarrow> string \<Rightarrow> bool" where
  "assigned_target db organization_id user_id target_type i \<longleftrightarrow>
     (\<exists>pc \<in> set (table_rows db ''phan_cong_nhan_su''). assignment_of organization_id user_id target_type pc
        \<and> dget pc ''id_muc_tieu'' = PStr i)
     \<or> target_type = ''kehoach'' \<and> (\<exists>package \<in> set (table_rows db ''goi_thau'').
        dget package ''organization_id'' = PStr organization_id \<and> dget package ''ke_hoach_id'' = PStr i
        \<and> (\<exists>pc \<in> set (table_rows db ''phan_cong_nhan_su''). assignment_of organization_id user_id ''goithau'' pc
             \<and> sql_eq (dget pc ''id_muc_tieu'') (dget package ''id'')))"

definition assigned_child :: "sql_db \<Rightarrow> ident \<Rightarrow> ident \<Rightarrow> string \<Rightarrow> string \<Rightarrow> bool" where
  "assigned_child db organization_id user_id table_name i \<longleftrightarrow>
     (\<exists>child \<in> set (table_rows db table_name).
        dget child ''organization_id'' = PStr organization_id \<and> dget child ''id'' = PStr i
        \<and> (\<exists>pc \<in> set (table_rows db ''phan_cong_nhan_su''). assignment_of organization_id user_id ''goithau'' pc
             \<and> sql_eq (dget pc ''id_muc_tieu'') (dget child ''goi_thau_id'')))"

definition readable ::
    "sql_db \<Rightarrow> session_role \<Rightarrow> ident \<Rightarrow> ident \<Rightarrow> string \<Rightarrow> string \<Rightarrow> pval \<Rightarrow> bool" where
  "readable db role user_id organization_id payload_key table_name item =
     (if is_organization_manager db role user_id organization_id then True
      else if is_personal_workspace_owner db user_id organization_id then payload_key \<notin> set WRITE_PROTECTED_KEYS
      else if payload_key \<in> {''assignments'', ''permissionmatrix''} then str_or_empty (dget item ''empId'') = user_id
      else if \<not> can_read_table db role user_id organization_id payload_key table_name then False
      else if table_name \<notin> fst ` set ASSIGNED_TABLE_TYPES \<and> table_name \<notin> set PACKAGE_CHILDREN then True
      else case clean_id (dget item ''id'') of
        None \<Rightarrow> False
      | Some i \<Rightarrow> i \<noteq> [] \<and> (case map_of ASSIGNED_TABLE_TYPES table_name of
          Some target_type \<Rightarrow> assigned_target db organization_id user_id target_type i
        | None \<Rightarrow> assigned_child db organization_id user_id table_name i))"

definition record_ids_of :: "pval list \<Rightarrow> string list" where
  "record_ids_of items = filter (\<lambda>i. i \<noteq> []) (List.map_filter (\<lambda>item. clean_id (dget item ''id'')) items)"

lemma record_ids_of_iff: "i \<in> set (record_ids_of items) \<longleftrightarrow> i \<noteq> [] \<and> (\<exists>item \<in> set items. clean_id (dget item ''id'') = Some i)"
  by (force simp: record_ids_of_def List.map_filter_def)

lemma assigned_types: "map_of ASSIGNED_TABLE_TYPES t = Some k \<Longrightarrow> k \<in> snd ` set ASSIGNED_TABLE_TYPES"
  by (force dest: map_of_SomeD)

lemma effective_targets_iff:
  assumes "target_type \<in> snd ` set ASSIGNED_TABLE_TYPES"
  shows "(target_type, i) \<in> set (effective_assignment_targets db organization_id user_id target_type ids)
    \<longleftrightarrow> i \<in> set ids \<and> i \<noteq> [] \<and> assigned_target db organization_id user_id target_type i"
proof -
  define clean where "clean = sort (remdups (filter (\<lambda>i. i \<noteq> []) ids))"
  have mem: "(\<exists>c \<in> set (chunked QUERY_CHUNK_SIZE clean). sql_in v c) \<longleftrightarrow> (\<exists>s \<in> set ids. s \<noteq> [] \<and> v = PStr s)" for v
    unfolding sql_in_chunked clean_def by auto
  let ?pcs = "set (table_rows db ''phan_cong_nhan_su'')"
  have "(target_type, i) \<in> set (effective_assignment_targets db organization_id user_id target_type ids) \<longleftrightarrow>
      (\<exists>pc \<in> ?pcs. assignment_of organization_id user_id target_type pc
         \<and> (\<exists>c \<in> set (chunked QUERY_CHUNK_SIZE clean). sql_in (dget pc ''id_muc_tieu'') c) \<and> i = py_str (dget pc ''id_muc_tieu''))
      \<or> target_type = ''kehoach'' \<and> (\<exists>package \<in> set (table_rows db ''goi_thau'').
          dget package ''organization_id'' = PStr organization_id
          \<and> (\<exists>c \<in> set (chunked QUERY_CHUNK_SIZE clean). sql_in (dget package ''ke_hoach_id'') c)
          \<and> i = py_str (dget package ''ke_hoach_id'')
          \<and> (\<exists>pc \<in> ?pcs. assignment_of organization_id user_id ''goithau'' pc
               \<and> sql_eq (dget pc ''id_muc_tieu'') (dget package ''id'')))"
    using assms unfolding effective_assignment_targets_def clean_def[symmetric] Let_def
    by (cases "target_type = ''kehoach''") (auto simp: chunked.simps[of _ "[]"] image_iff; blast)+
  also have "\<dots> \<longleftrightarrow> i \<in> set ids \<and> i \<noteq> [] \<and> assigned_target db organization_id user_id target_type i"
    unfolding mem assigned_target_def by auto
  finally show ?thesis .
qed

lemma assigned_child_ids_iff:
  assumes "\<And>s. s \<in> set ids \<Longrightarrow> s \<noteq> [] \<and> py_strip s = s"
  shows "Some i \<in> set (assigned_child_ids db organization_id user_id table_name ids)
    \<longleftrightarrow> i \<in> set ids \<and> assigned_child db organization_id user_id table_name i"
proof -
  have "Some i \<in> set (assigned_child_ids db organization_id user_id table_name ids) \<longleftrightarrow>
      (\<exists>child \<in> set (table_rows db table_name). dget child ''organization_id'' = PStr organization_id
        \<and> (\<exists>c \<in> set (chunked QUERY_CHUNK_SIZE ids). sql_in (dget child ''id'') c) \<and> clean_id (dget child ''id'') = Some i
        \<and> (\<exists>pc \<in> set (table_rows db ''phan_cong_nhan_su''). assignment_of organization_id user_id ''goithau'' pc
             \<and> sql_eq (dget pc ''id_muc_tieu'') (dget child ''goi_thau_id'')))"
    unfolding assigned_child_ids_def by (auto simp: list_ex_iff image_iff; force)
  also have "\<dots> \<longleftrightarrow> i \<in> set ids \<and> assigned_child db organization_id user_id table_name i"
    unfolding sql_in_chunked assigned_child_def using assms by (auto simp: clean_id_text)
  finally show ?thesis .
qed

lemma assigned_child_ids_Some:
  "(\<And>s. s \<in> set ids \<Longrightarrow> s \<noteq> []) \<Longrightarrow> v \<in> set (assigned_child_ids db organization_id user_id table_name ids) \<Longrightarrow> \<exists>i. v = Some i"
proof -
  assume ne: "\<And>s. s \<in> set ids \<Longrightarrow> s \<noteq> []" and v: "v \<in> set (assigned_child_ids db organization_id user_id table_name ids)"
  then obtain child where "v = clean_id (dget child ''id'')"
      "\<exists>c \<in> set (chunked QUERY_CHUNK_SIZE ids). sql_in (dget child ''id'') c"
    by (auto simp: assigned_child_ids_def)
  then show ?thesis unfolding sql_in_chunked by (auto simp: clean_id_def dest: ne)
qed

lemma assigned_child_ids_mem:
  assumes "\<And>s. s \<in> set ids \<Longrightarrow> s \<noteq> [] \<and> py_strip s = s"
  shows "c \<in> set (assigned_child_ids db organization_id user_id table_name ids)
    \<longleftrightarrow> (\<exists>i. c = Some i \<and> i \<in> set ids \<and> assigned_child db organization_id user_id table_name i)"
proof -
  have "s \<noteq> []" if "s \<in> set ids" for s using assms that by blast
  then have "\<exists>i. c = Some i" if "c \<in> set (assigned_child_ids db organization_id user_id table_name ids)"
    using that by (rule assigned_child_ids_Some)
  moreover have "Some i \<in> set (assigned_child_ids db organization_id user_id table_name ids)
      \<longleftrightarrow> i \<in> set ids \<and> assigned_child db organization_id user_id table_name i" for i
    using assms by (rule assigned_child_ids_iff)
  ultimately show ?thesis by auto
qed

lemma filter_items_pointwise:
  "filter_items_for_read db role user_id organization_id payload_key table_name items
     = filter (readable db role user_id organization_id payload_key table_name) items"
proof (cases "is_organization_manager db role user_id organization_id
    \<or> is_personal_workspace_owner db user_id organization_id \<or> payload_key \<in> {''assignments'', ''permissionmatrix''}
    \<or> \<not> can_read_table db role user_id organization_id payload_key table_name
    \<or> table_name \<notin> fst ` set ASSIGNED_TABLE_TYPES \<and> table_name \<notin> set PACKAGE_CHILDREN")
  case True
  then show ?thesis unfolding filter_items_for_read_def readable_def by (auto intro!: filter_True[symmetric] filter_False[symmetric])
next
  case False
  let ?ids = "record_ids_of items"
  let ?one = "readable db role user_id organization_id payload_key table_name"
  have clean: "s \<noteq> [] \<and> py_strip s = s" if "s \<in> set ?ids" for s
    using that clean_id_Some by (auto simp: record_ids_of_iff)
  have one: "?one item \<longleftrightarrow> (\<exists>i. clean_id (dget item ''id'') = Some i \<and> i \<noteq> [] \<and>
      (case map_of ASSIGNED_TABLE_TYPES table_name of
          Some target_type \<Rightarrow> assigned_target db organization_id user_id target_type i
        | None \<Rightarrow> assigned_child db organization_id user_id table_name i))" for item
    using False by (cases "clean_id (dget item ''id'')") (auto simp: readable_def)
  have known: "i \<in> set ?ids" if "item \<in> set items" "clean_id (dget item ''id'') = Some i" "i \<noteq> []" for item i
    using that by (auto simp: record_ids_of_iff)
  show ?thesis
  proof (cases "?ids = []")
    case True
    then have "\<not> ?one item" if "item \<in> set items" for item using that known one by fastforce
    then have "filter ?one items = []" by (simp add: filter_empty_conv)
    moreover have "filter_items_for_read db role user_id organization_id payload_key table_name items = []"
      using False True by (auto simp: filter_items_for_read_def record_ids_of_def[symmetric] Let_def)
    ultimately show ?thesis by simp
  next
    case some: False
    show ?thesis
    proof (cases "map_of ASSIGNED_TABLE_TYPES table_name")
      case None
      have "filter_items_for_read db role user_id organization_id payload_key table_name items
          = filter (\<lambda>item. clean_id (dget item ''id'') \<in> set (assigned_child_ids db organization_id user_id table_name ?ids)) items"
        using False None some by (auto simp: filter_items_for_read_def record_ids_of_def[symmetric] Let_def)
      also have "\<dots> = filter ?one items"
      proof (rule filter_cong)
        fix item assume item: "item \<in> set items"
        have "clean_id (dget item ''id'') \<in> set (assigned_child_ids db organization_id user_id table_name ?ids)
            \<longleftrightarrow> (\<exists>i. clean_id (dget item ''id'') = Some i \<and> i \<in> set ?ids \<and> assigned_child db organization_id user_id table_name i)"
          by (rule assigned_child_ids_mem) (rule clean)
        also have "\<dots> \<longleftrightarrow> ?one item"
          using None known[OF item] clean unfolding one by auto
        finally show "clean_id (dget item ''id'') \<in> set (assigned_child_ids db organization_id user_id table_name ?ids)
            \<longleftrightarrow> ?one item" .
      qed simp
      finally show ?thesis .
    next
      case (Some t)
      have "filter_items_for_read db role user_id organization_id payload_key table_name items
          = filter (\<lambda>item. \<exists>i. clean_id (dget item ''id'') = Some i
              \<and> (t, i) \<in> set (effective_assignment_targets db organization_id user_id t ?ids)) items"
        using False Some some
        by (auto simp: filter_items_for_read_def record_ids_of_def[symmetric] Let_def intro!: filter_cong)
      also have "\<dots> = filter ?one items"
        by (rule filter_cong) (use Some one known assigned_types[OF Some] in \<open>auto simp: effective_targets_iff\<close>)
      finally show ?thesis .
    qed
  qed
qed

section \<open>The scope in the query and the read policy\<close>

lemma map_of_map_filter:
  "x \<in> set xs \<Longrightarrow> distinct xs \<Longrightarrow> map_of (List.map_filter (\<lambda>m. map_option (Pair m) (f m)) xs) x = f x"
proof (induction xs)
  case (Cons y xs)
  have "map_of (List.map_filter (\<lambda>m. map_option (Pair m) (f m)) xs) y = None" if "y \<notin> set xs"
    using that by (auto simp: map_of_eq_None_iff List.map_filter_def)
  then show ?case using Cons by (cases "f y") (auto simp: List.map_filter_simps)
qed simp

definition granted :: "session_role \<Rightarrow> string \<Rightarrow> string \<Rightarrow> string option" where
  "granted role membership_role stored =
     (if stored = ''edit'' then Some ''edit''
      else if stored = ''view'' \<or> sr_active role = Some ''employee'' \<and> membership_role = ''manager'' then Some ''view''
      else None)"

lemma module_columns: "module_columns = [''chudautu'', ''chuyengia'', ''goithau'', ''hopdong'', ''kehoach'', ''nhathau'']"
  unfolding module_columns_def TABLE_TO_MODULE_def by code_simp

lemma scope_permission:
  assumes "m \<in> set module_columns"
  shows "map_of (scope_permissions role membership_role col) m
    = granted role membership_role (lower_strip (str_or_empty (col m)))"
proof -
  have "scope_permissions role membership_role col
      = List.map_filter (\<lambda>m. map_option (Pair m) (granted role membership_role (lower_strip (str_or_empty (col m))))) module_columns"
    unfolding scope_permissions_def granted_def Let_def by (intro arg_cong2[where f = List.map_filter] ext) auto
  moreover have "distinct module_columns" by (simp add: module_columns)
  ultimately show ?thesis using assms map_of_map_filter by metis
qed

lemma table_modules:
  "list_all (\<lambda>(t, m). m \<in> set module_columns \<and> m \<in> set CANONICAL_PERMISSION_MODULES \<and> canonical_module (Some m) = Some m)
     TABLE_TO_MODULE"
  unfolding module_columns by code_simp

lemma table_module:
  assumes "map_of TABLE_TO_MODULE t = Some m"
  shows "m \<in> set module_columns" "m \<in> set CANONICAL_PERMISSION_MODULES" "canonical_module (Some m) = Some m"
  using table_modules map_of_SomeD[OF assms] by (auto simp: list_all_iff)

lemma restricted_not_admin:
  "\<not> is_organization_manager db role user_id organization_id \<Longrightarrow> \<not> is_manager_role role"
  by (auto simp: is_organization_manager_def is_manager_role_def split: option.splits)

lemma restricted_module:
  assumes mgr: "\<not> is_organization_manager db role user_id organization_id"
    and o: "\<not> is_personal_workspace_owner db user_id organization_id"
    and ids: "user_id \<noteq> []" "organization_id \<noteq> []"
    and t: "map_of TABLE_TO_MODULE table_name = Some mo" and k: "payload_key \<notin> {''assignments'', ''permissionmatrix''}"
  shows "has_module (resolve_scope db role user_id organization_id) table_name
    \<longleftrightarrow> can_read_table db role user_id organization_id payload_key table_name"
proof -
  note facts = table_module[OF t]
  let ?member = "List.find (active_member user_id organization_id) (table_rows db ''thanh_vien_to_chuc'')"
  have role: "organization_membership_role db user_id organization_id = map_option membership_text ?member"
    using ids by (simp add: organization_membership_role_def)
  have active: "has_active_organization_membership db role user_id organization_id \<longleftrightarrow> ?member \<noteq> None"
    using restricted_not_admin[OF mgr] by (simp add: has_active_organization_membership_def role)
  show ?thesis
  proof (cases ?member)
    case None
    then show ?thesis using mgr o t k active
      by (simp add: has_module_def resolve_scope_def membership_permissions_def can_read_table_def)
  next
    case (Some r)
    define stored where "stored = permission_for db organization_id user_id mo"
    define col where "col = (case List.find (permission_row organization_id user_id) (table_rows db ''ma_tran_phan_quyen'') of
        None \<Rightarrow> (\<lambda>_. PNone) | Some p \<Rightarrow> dget p)"
    have stored: "lower_strip (str_or_empty (col mo)) = stored"
      using facts by (auto simp: stored_def col_def permission_for_def str_or_empty_def py_or_def lower_strip_def py_lower_def
          split: option.splits)
    have "vs_permissions (resolve_scope db role user_id organization_id) = scope_permissions role (membership_text r) col"
      using mgr o Some by (simp add: resolve_scope_def membership_permissions_def col_def)
    then have "has_module (resolve_scope db role user_id organization_id) table_name
        \<longleftrightarrow> granted role (membership_text r) stored \<noteq> None"
      using t facts(1) by (auto simp: has_module_def scope_permission stored granted_def)
    moreover have "can_read_table db role user_id organization_id payload_key table_name
        \<longleftrightarrow> granted role (membership_text r) stored \<noteq> None"
      using mgr o t k active facts(3) Some role
      by (auto simp: can_read_table_def has_module_permission_def has_inherited_specialist_access_def granted_def stored_def Let_def)
    ultimately show ?thesis by simp
  qed
qed

lemma sql_eq_PStr: "sql_eq a (PStr s) \<longleftrightarrow> a = PStr s"
  by (auto simp: sql_eq_def)

lemma assigned_to_iff:
  "assigned_to db scope (PStr (vs_organization scope)) target t \<longleftrightarrow>
     (\<exists>pc \<in> set (table_rows db ''phan_cong_nhan_su''). assignment_of (vs_organization scope) (vs_user scope) t pc
        \<and> sql_eq (dget pc ''id_muc_tieu'') target)"
  by (auto simp: assigned_to_def assignment_of_def list_ex_iff sql_eq_PStr)

lemma resolve_scope_simps [simp]:
  "vs_organization (resolve_scope db role user_id organization_id) = organization_id"
  "vs_user (resolve_scope db role user_id organization_id) = user_id"
  "vs_unrestricted (resolve_scope db role user_id organization_id) \<longleftrightarrow>
     is_organization_manager db role user_id organization_id \<or> is_personal_workspace_owner db user_id organization_id"
  by (simp_all add: resolve_scope_def Let_def)

text \<open>The item the mapper makes of a row keeps its identifier and the owner of an assignment.\<close>

definition owner_column :: "string \<Rightarrow> string" where
  "owner_column payload_key = (if payload_key = ''assignments'' then ''id_nhan_vien'' else ''emp_id'')"

definition mapped_item :: "string \<Rightarrow> sql_row \<Rightarrow> pval \<Rightarrow> bool" where
  "mapped_item payload_key row item \<longleftrightarrow> dget item ''id'' = dget row ''id''
     \<and> (payload_key \<in> {''assignments'', ''permissionmatrix''} \<longrightarrow>
          dget item ''empId'' = dget row (owner_column payload_key) \<and> is_str (dget row (owner_column payload_key)))"

definition clean_key :: "sql_row \<Rightarrow> bool" where
  "clean_key row \<longleftrightarrow> (\<exists>i. dget row ''id'' = PStr i \<and> i \<noteq> [] \<and> py_strip i = i)"

lemma table_keys_payload:
  "list_all (\<lambda>(k, t). map_of PAYLOAD_BY_TABLE t = Some k
     \<and> (k \<notin> {''assignments'', ''permissionmatrix''} \<longrightarrow> map_of TABLE_TO_MODULE t \<noteq> None)) TABLE_KEYS"
  by code_simp

lemma table_key:
  assumes "(payload_key, table_name) \<in> set TABLE_KEYS"
  shows "map_of PAYLOAD_BY_TABLE table_name = Some payload_key"
    "payload_key \<notin> {''assignments'', ''permissionmatrix''} \<Longrightarrow> \<exists>mo. map_of TABLE_TO_MODULE table_name = Some mo"
  using table_keys_payload assms by (auto simp: list_all_iff)

lemma owner_is_personal:
  "is_personal_workspace_owner db user_id organization_id \<Longrightarrow> py_strip organization_id = organization_id \<Longrightarrow>
     starts_with ''personal:'' organization_id"
  by (auto simp: is_personal_workspace_owner_def is_personal_scope_for_user_def personal_scope_owner_id_def
      PERSONAL_SCOPE_PREFIX_def Let_def split: if_splits)

lemma assigned_child_row:
  assumes "row \<in> set (table_rows db table_name)" "distinct (map (\<lambda>r. dget r ''id'') (table_rows db table_name))"
    and "dget row ''id'' = PStr i"
  shows "assigned_child db organization_id user_id table_name i \<longleftrightarrow> dget row ''organization_id'' = PStr organization_id
     \<and> (\<exists>pc \<in> set (table_rows db ''phan_cong_nhan_su''). assignment_of organization_id user_id ''goithau'' pc
          \<and> sql_eq (dget pc ''id_muc_tieu'') (dget row ''goi_thau_id''))"
proof -
  have "child = row" if "child \<in> set (table_rows db table_name)" "dget child ''id'' = PStr i" for child
    using assms that by (auto simp: distinct_map inj_on_def)
  then show ?thesis using assms(1,3) unfolding assigned_child_def by blast
qed

lemma scope_agrees:
  assumes key: "(payload_key, table_name) \<in> set TABLE_KEYS"
    and ids: "user_id \<noteq> []" "organization_id \<noteq> []" "py_strip organization_id = organization_id"
    and row: "row \<in> set (table_rows db table_name)" "distinct (map (\<lambda>r. dget r ''id'') (table_rows db table_name))"
    and item: "clean_key row" "mapped_item payload_key row item"
    and plain: "\<not> (is_organization_manager db role user_id organization_id
      \<and> payload_key \<in> set WRITE_PROTECTED_KEYS \<and> starts_with ''personal:'' organization_id)"
  shows "live_predicate db (resolve_scope db role user_id organization_id) table_name row \<longleftrightarrow>
    dget row ''organization_id'' = PStr organization_id
      \<and> readable db role user_id organization_id payload_key table_name item"
proof -
  let ?scope = "resolve_scope db role user_id organization_id"
  let ?own = "dget row ''organization_id'' = PStr organization_id"
  obtain i where i: "dget row ''id'' = PStr i" "i \<noteq> []" "py_strip i = i" using item(1) by (auto simp: clean_key_def)
  have item_id: "clean_id (dget item ''id'') = Some i" using item(2) i by (simp add: mapped_item_def clean_id_text)
  note payload = table_key(1)[OF key]
  consider (everything) "vs_unrestricted ?scope"
    | (owned) "\<not> vs_unrestricted ?scope" "payload_key \<in> {''assignments'', ''permissionmatrix''}"
    | (closed) "\<not> vs_unrestricted ?scope" "payload_key \<notin> {''assignments'', ''permissionmatrix''}" by blast
  then show ?thesis
  proof cases
    case everything
    then show ?thesis using plain payload owner_is_personal[of db user_id organization_id] ids(3)
      by (auto simp: live_predicate_def readable_def Let_def)
  next
    case owned
    obtain e where e: "dget row (owner_column payload_key) = PStr e" "dget item ''empId'' = PStr e"
      using item(2) owned(2) by (cases "dget row (owner_column payload_key)") (auto simp: mapped_item_def)
    have "live_predicate db ?scope table_name row \<longleftrightarrow> ?own \<and> dget row (owner_column payload_key) = PStr user_id"
      using owned payload by (auto simp: live_predicate_def owner_column_def Let_def)
    also have "\<dots> \<longleftrightarrow> ?own \<and> readable db role user_id organization_id payload_key table_name item"
      using owned e by (auto simp: readable_def)
    finally show ?thesis .
  next
    case closed
    obtain mo where mo: "map_of TABLE_TO_MODULE table_name = Some mo" using table_key(2)[OF key closed(2)] by blast
    have can: "has_module ?scope table_name \<longleftrightarrow> can_read_table db role user_id organization_id payload_key table_name"
      using closed(1) by (intro restricted_module[OF _ _ ids(1,2) mo closed(2)]) simp_all
    have to: "assigned_to db ?scope (PStr organization_id) target t \<longleftrightarrow>
        (\<exists>pc \<in> set (table_rows db ''phan_cong_nhan_su''). assignment_of organization_id user_id t pc
          \<and> sql_eq (dget pc ''id_muc_tieu'') target)" for target t
      using assigned_to_iff[of db ?scope target t] by simp
    have one: "readable db role user_id organization_id payload_key table_name item \<longleftrightarrow> has_module ?scope table_name
        \<and> (table_name \<in> fst ` set ASSIGNED_TABLE_TYPES \<or> table_name \<in> set PACKAGE_CHILDREN \<longrightarrow>
            (case map_of ASSIGNED_TABLE_TYPES table_name of
              Some t \<Rightarrow> assigned_target db organization_id user_id t i
            | None \<Rightarrow> assigned_child db organization_id user_id table_name i))"
      using closed can item_id i(2) by (auto simp: readable_def)
    consider (plan) "table_name = ''ke_hoach_lcnt''" | (child) "table_name \<in> set PACKAGE_CHILDREN"
      | (target) "table_name \<in> {''goi_thau'', ''hop_dong''}"
      | (free) "table_name \<notin> {''ke_hoach_lcnt'', ''goi_thau'', ''hop_dong''}" "table_name \<notin> set PACKAGE_CHILDREN" by blast
    then show ?thesis
    proof cases
      case plan
      have "live_predicate db ?scope table_name row \<longleftrightarrow> ?own \<and> has_module ?scope table_name
          \<and> assigned_target db organization_id user_id ''kehoach'' i"
        using closed payload i unfolding plan assigned_target_def
        by (auto simp: live_predicate_def Let_def to sql_eq_PStr list_ex_iff)
      then show ?thesis unfolding one using plan by (auto simp: ASSIGNED_TABLE_TYPES_def)
    next
      case child
      have "live_predicate db ?scope table_name row \<longleftrightarrow> ?own \<and> has_module ?scope table_name
          \<and> assigned_child db organization_id user_id table_name i"
        using closed payload child unfolding assigned_child_row[OF row i(1)]
        by (auto simp: live_predicate_def Let_def to PACKAGE_CHILDREN_def)
      then show ?thesis unfolding one using child by (auto simp: ASSIGNED_TABLE_TYPES_def PACKAGE_CHILDREN_def)
    next
      case target
      have "live_predicate db ?scope table_name row \<longleftrightarrow> ?own \<and> has_module ?scope table_name
          \<and> assigned_target db organization_id user_id (the (map_of ASSIGNED_TABLE_TYPES table_name)) i"
        using closed payload target i unfolding assigned_target_def
        by (auto simp: live_predicate_def Let_def to PACKAGE_CHILDREN_def ASSIGNED_TABLE_TYPES_def sql_eq_PStr)
      then show ?thesis unfolding one using target by (auto simp: ASSIGNED_TABLE_TYPES_def)
    next
      case free
      then show ?thesis unfolding one using closed payload
        by (auto simp: live_predicate_def Let_def ASSIGNED_TABLE_TYPES_def)
    qed
  qed
qed

text \<open>
  C22: the scope in the query and the read policy agree. The predicate that is pushed into the
  query, built once from the roles and permissions of the user, selects a live row exactly when the
  row belongs to the organization and the batched read filter, which asks the database about
  assignments in chunks, keeps its item; whatever else is in the batch. The one exception is an
  administrator in a personal scope, for whom the protected tables have no rows.
\<close>

theorem scope_selects_what_is_readable:
  assumes "(payload_key, table_name) \<in> set TABLE_KEYS"
    and "user_id \<noteq> []" "organization_id \<noteq> []" "py_strip organization_id = organization_id"
    and "row \<in> set (table_rows db table_name)" "distinct (map (\<lambda>r. dget r ''id'') (table_rows db table_name))"
    and "clean_key row" "mapped_item payload_key row item" "item \<in> set items"
    and "\<not> (is_organization_manager db role user_id organization_id
      \<and> payload_key \<in> set WRITE_PROTECTED_KEYS \<and> starts_with ''personal:'' organization_id)"
  shows "live_predicate db (resolve_scope db role user_id organization_id) table_name row \<longleftrightarrow>
    dget row ''organization_id'' = PStr organization_id
      \<and> item \<in> set (filter_items_for_read db role user_id organization_id payload_key table_name items)"
  using scope_agrees[OF assms(1-8,10)] assms(9) by (simp add: filter_items_pointwise)

end
