(* ===== verification/Delete_Ownership.thy ===== *)
theory Delete_Ownership
  imports Visibility_Laws
begin

text \<open>
  \<open>src/backend/shared/record_delete_access.py\<close>: who is offered to delete a record, read from the
  creation audit of its lineage, and the hint that is attached to the records a user reads.
\<close>

section \<open>Creation evidence\<close>

definition CREATOR_DELETE_TABLES :: "string list" where
  "CREATOR_DELETE_TABLES =
     [''chu_dau_tu'', ''nha_thau'', ''chuyen_gia'', ''ke_hoach_lcnt'', ''goi_thau'', ''hop_dong'', ''thong_tin_mo_thau'']"

definition creation_root :: "pval \<Rightarrow> string" where
  "creation_root r =
     py_strip (str_or_empty (py_or (dget r ''id_goc'') (py_or (dget r ''rootId'') (dget r ''id''))))"

definition record_text_id :: "pval \<Rightarrow> string" where
  "record_text_id r = str_or_empty (dget r ''id'')"

definition audit_order :: "sql_row \<Rightarrow> int" where
  "audit_order r = (case dget r ''id'' of PInt i \<Rightarrow> i | _ \<Rightarrow> 0)"

definition creation_audit :: "ident \<Rightarrow> string \<Rightarrow> sql_row \<Rightarrow> bool" where
  "creation_audit organization_id table_name r \<longleftrightarrow>
     dget r ''organization_id'' = PStr organization_id \<and> dget r ''target_type'' = PStr table_name
     \<and> dget r ''action'' = PStr ''sync.record_created''"

definition audit_metadata :: "(string \<Rightarrow> pval) \<Rightarrow> pval \<Rightarrow> pval" where
  "audit_metadata flt v = (case py_or v (PStr ''{}'') of
     PStr text \<Rightarrow> (case json_loads flt text of Some m \<Rightarrow> m | None \<Rightarrow> PDict [])
   | _ \<Rightarrow> PDict [])"

text \<open>What a creation row says of its record: the actor, and the lineage it was created in.\<close>

definition creation_evidence :: "(string \<Rightarrow> pval) \<Rightarrow> sql_row \<Rightarrow> string \<times> string \<times> string" where
  "creation_evidence flt r =
     (let record_id = py_str (dget r ''target_id''); metadata = audit_metadata flt (dget r ''metadata_json'')
      in (record_id, str_or_empty (dget r ''actor_user_id''),
          if is_dict metadata then py_str (py_or (dget metadata ''rootAggregateId'') (PStr record_id)) else record_id))"

definition lineage_ids :: "pval list \<Rightarrow> string list" where
  "lineage_ids records =
     sort (remdups (filter (\<lambda>i. i \<noteq> []) (map creation_root records @ map record_text_id records)))"

text \<open>
  The first row of an identifier is kept: \<^const>\<open>map_of\<close> of the list reads the dictionary.
\<close>

definition creator_evidence ::
    "(string \<Rightarrow> pval) \<Rightarrow> sql_db \<Rightarrow> ident \<Rightarrow> string \<Rightarrow> string list \<Rightarrow> (string \<times> string \<times> string) list" where
  "creator_evidence flt db organization_id table_name ids =
     concat (map (\<lambda>chunk. map (creation_evidence flt) (sort_key audit_order
         (filter (\<lambda>r. creation_audit organization_id table_name r \<and> sql_in (dget r ''target_id'') chunk)
            (table_rows db ''audit_log''))))
       (chunked QUERY_CHUNK_SIZE ids))"

definition load_creator_delete_ids ::
    "(string \<Rightarrow> pval) \<Rightarrow> sql_db \<Rightarrow> ident \<Rightarrow> ident \<Rightarrow> string \<Rightarrow> pval list \<Rightarrow> string list" where
  "load_creator_delete_ids flt db organization_id user_id table_name records =
     (if table_name \<notin> set CREATOR_DELETE_TABLES \<or> user_id = [] then []
      else
        let evidence = map_of (creator_evidence flt db organization_id table_name (lineage_ids records)) in
        List.map_filter (\<lambda>r.
          let record_id = record_text_id r; root = creation_root r in
          if (case evidence record_id of None \<Rightarrow> False | Some (_, original) \<Rightarrow> original = root)
             \<and> evidence root = Some (user_id, root)
          then Some record_id else None) records)"

definition attach_delete_ownership ::
    "(string \<Rightarrow> pval) \<Rightarrow> sql_db \<Rightarrow> ident \<Rightarrow> ident \<Rightarrow> string \<Rightarrow> pval list \<Rightarrow> pval list" where
  "attach_delete_ownership flt db organization_id user_id table_name items =
     (if table_name \<notin> set CREATOR_DELETE_TABLES \<or> items = [] then items
      else
        let personal = is_personal_scope_for_user organization_id user_id;
            owned = (if personal then [] else load_creator_delete_ids flt db organization_id user_id table_name items)
        in map (\<lambda>item. set_item ''deleteOwnerUserId''
             (if personal \<or> record_text_id item \<in> set owned then PStr user_id else PNone) item) items)"

section \<open>The first creation decides\<close>

text \<open>The first creation audit of an identifier.\<close>

definition first_creation ::
    "(string \<Rightarrow> pval) \<Rightarrow> sql_db \<Rightarrow> ident \<Rightarrow> string \<Rightarrow> string \<Rightarrow> (string \<times> string) option" where
  "first_creation flt db organization_id table_name i =
     map_option (\<lambda>r. snd (creation_evidence flt r))
       (List.find (\<lambda>r. creation_audit organization_id table_name r \<and> dget r ''target_id'' = PStr i)
         (sort_key audit_order (table_rows db ''audit_log'')))"

lemma evidence_key: "dget r ''target_id'' = PStr i \<Longrightarrow> fst (creation_evidence flt r) = i"
  by (simp add: creation_evidence_def Let_def)

lemma map_of_map_find:
  assumes "\<And>r. r \<in> set rs \<Longrightarrow> fst (f r) = k r"
  shows "map_of (map f rs) i = map_option (\<lambda>r. snd (f r)) (List.find (\<lambda>r. k r = i) rs)"
  using assms by (induction rs) (auto simp: split_beta intro!: prod_eqI)

lemma find_filter: "List.find p (filter q xs) = List.find (\<lambda>x. q x \<and> p x) xs"
  by (induction xs) auto

lemma map_of_concat_map:
  "map_of (concat (map f cs)) i = (case List.find (\<lambda>c. map_of (f c) i \<noteq> None) cs of None \<Rightarrow> None | Some c \<Rightarrow> map_of (f c) i)"
  by (induction cs) (auto simp: map_add_def split: option.splits)

lemma creator_evidence_first:
  assumes "i \<in> set ids"
  shows "map_of (creator_evidence flt db organization_id table_name ids) i
    = first_creation flt db organization_id table_name i"
proof -
  let ?log = "table_rows db ''audit_log''"
  let ?rows = "\<lambda>chunk. sort_key audit_order
         (filter (\<lambda>r. creation_audit organization_id table_name r \<and> sql_in (dget r ''target_id'') chunk) ?log)"
  let ?part = "\<lambda>chunk. map (creation_evidence flt) (?rows chunk)"
  let ?cs = "chunked QUERY_CHUNK_SIZE ids"
  have part: "map_of (?part chunk) i = (if i \<in> set chunk then first_creation flt db organization_id table_name i else None)" for chunk
  proof -
    have "map_of (?part chunk) i = map_option (\<lambda>r. snd (creation_evidence flt r))
        (List.find (\<lambda>r. py_str (dget r ''target_id'') = i) (?rows chunk))"
      by (rule map_of_map_find) (simp add: creation_evidence_def Let_def)
    also have "List.find (\<lambda>r. py_str (dget r ''target_id'') = i) (?rows chunk)
        = List.find (\<lambda>r. creation_audit organization_id table_name r \<and> i \<in> set chunk \<and> dget r ''target_id'' = PStr i)
            (sort_key audit_order ?log)"
      unfolding filter_sort[symmetric] find_filter by (rule find_cong) (auto simp: sql_in_iff)
    finally show ?thesis by (cases "i \<in> set chunk") (auto simp: first_creation_def find_None_iff)
  qed
  have chunks: "(\<exists>c \<in> set ?cs. i \<in> set c) \<longleftrightarrow> i \<in> set ids"
    by (rule chunked_members) (simp add: QUERY_CHUNK_SIZE_def)
  show ?thesis
  proof (cases "first_creation flt db organization_id table_name i")
    case None
    then show ?thesis unfolding creator_evidence_def map_of_concat_map part
      by (auto split: option.splits)
  next
    case (Some e)
    then obtain c where "List.find (\<lambda>c. map_of (?part c) i \<noteq> None) ?cs = Some c" "i \<in> set c"
      using chunks assms find_exists[of _ ?cs "\<lambda>c. map_of (?part c) i \<noteq> None"] unfolding part
      by (metis (no_types, lifting) find_Some_iff_mem option.distinct(1))
    then show ?thesis unfolding creator_evidence_def map_of_concat_map by (simp add: part)
  qed
qed

lemma str_or_empty_ne: "v \<noteq> [] \<Longrightarrow> v = record_text_id r \<Longrightarrow> r \<in> set rs \<Longrightarrow> v \<in> set (lineage_ids rs)"
  by (auto simp: lineage_ids_def)

lemma owned_iff:
  "i \<in> set (load_creator_delete_ids flt db organization_id user_id table_name records) \<longleftrightarrow>
     table_name \<in> set CREATOR_DELETE_TABLES \<and> user_id \<noteq> [] \<and>
     (\<exists>r \<in> set records. i = record_text_id r \<and> i \<noteq> [] \<and> creation_root r \<noteq> [] \<and>
        (\<exists>actor. first_creation flt db organization_id table_name i = Some (actor, creation_root r)) \<and>
        first_creation flt db organization_id table_name (creation_root r) = Some (user_id, creation_root r))"
    (is "?owned \<longleftrightarrow> ?known \<and> ?user \<and> ?lineage")
proof -
  let ?ids = "lineage_ids records"
  let ?ev = "map_of (creator_evidence flt db organization_id table_name ?ids)"
  have first: "?ev j = first_creation flt db organization_id table_name j" if "j \<in> set ?ids" for j
    using that by (rule creator_evidence_first)
  have "fst e \<in> set ?ids" if e: "e \<in> set (creator_evidence flt db organization_id table_name ?ids)" for e
  proof -
    obtain c r where "c \<in> set (chunked QUERY_CHUNK_SIZE ?ids)" "sql_in (dget r ''target_id'') c" "e = creation_evidence flt r"
      using e by (auto simp: creator_evidence_def)
    then show ?thesis using sql_in_chunked[of ?ids "dget r ''target_id''"] evidence_key by fastforce
  qed
  then have dom: "j \<in> set ?ids" if "?ev j = Some e" for j e using map_of_SomeD[OF that] by fastforce
  have ev: "?ev j = Some e \<longleftrightarrow> j \<in> set ?ids \<and> first_creation flt db organization_id table_name j = Some e" for j e
    using first dom by metis
  have ids: "record_text_id r \<in> set ?ids \<longleftrightarrow> record_text_id r \<noteq> []" "creation_root r \<in> set ?ids \<longleftrightarrow> creation_root r \<noteq> []"
    if "r \<in> set records" for r
    using that by (auto simp: lineage_ids_def)
  have "?owned \<longleftrightarrow> ?known \<and> ?user \<and> (\<exists>r \<in> set records. i = record_text_id r
      \<and> (\<exists>actor. ?ev i = Some (actor, creation_root r)) \<and> ?ev (creation_root r) = Some (user_id, creation_root r))"
    by (auto simp: load_creator_delete_ids_def Let_def List.map_filter_def split: option.splits)
  also have "\<dots> \<longleftrightarrow> ?known \<and> ?user \<and> ?lineage"
    unfolding ev by (auto simp: ids)
  finally show ?thesis .
qed

section \<open>Ownership is never transferred\<close>

text \<open>The log grows by rows with later identifiers.\<close>

definition audit_extended :: "sql_db \<Rightarrow> sql_db \<Rightarrow> bool" where
  "audit_extended db db' \<longleftrightarrow> (\<exists>more. table_rows db' ''audit_log'' = table_rows db ''audit_log'' @ more
     \<and> (\<forall>r \<in> set (table_rows db ''audit_log''). \<forall>m \<in> set more. audit_order r \<le> audit_order m))"

lemma sort_key_append_later:
  fixes k :: "'a \<Rightarrow> 'b::linorder"
  assumes "\<And>x y. x \<in> set xs \<Longrightarrow> y \<in> set ys \<Longrightarrow> k x \<le> k y"
  shows "sort_key k (xs @ ys) = sort_key k xs @ sort_key k ys"
proof (rule properties_for_sort_key)
  show "sorted (map k (sort_key k xs @ sort_key k ys))"
    using assms by (auto simp: sorted_append)
  show "filter (\<lambda>x. k a = k x) (sort_key k xs @ sort_key k ys) = filter (\<lambda>x. k a = k x) (xs @ ys)" for a
    using sort_key_stable[of k "k a"] by (simp add: eq_commute[of "k a"])
qed simp

lemma first_creation_final:
  assumes "audit_extended db db'" and "first_creation flt db organization_id table_name i = Some e"
  shows "first_creation flt db' organization_id table_name i = Some e"
proof -
  obtain more where more: "table_rows db' ''audit_log'' = table_rows db ''audit_log'' @ more"
      "\<And>r m. r \<in> set (table_rows db ''audit_log'') \<Longrightarrow> m \<in> set more \<Longrightarrow> audit_order r \<le> audit_order m"
    using assms(1) by (auto simp: audit_extended_def)
  have "sort_key audit_order (table_rows db' ''audit_log'')
      = sort_key audit_order (table_rows db ''audit_log'') @ sort_key audit_order more"
    unfolding more(1) by (rule sort_key_append_later) (rule more(2))
  then show ?thesis using assms(2) by (auto simp: first_creation_def find_append)
qed

text \<open>
  C26: the right to delete a record stays with its first creator. Once a user is offered to delete
  a record, nobody else ever is: not after the record is changed (whatever its identifiers of
  lineage say then) and not after any later rows of the audit log, among them further creation rows
  of the same identifiers.
\<close>

theorem deletion_never_transferred:
  assumes "i \<in> set (load_creator_delete_ids flt db organization_id creator table_name records)"
    and "audit_extended db db'" and "other \<noteq> creator"
  shows "i \<notin> set (load_creator_delete_ids flt db' organization_id other table_name records')"
proof
  assume "i \<in> set (load_creator_delete_ids flt db' organization_id other table_name records')"
  then obtain root' actor' where other: "first_creation flt db' organization_id table_name i = Some (actor', root')"
      "first_creation flt db' organization_id table_name root' = Some (other, root')"
    unfolding owned_iff by blast
  obtain root actor where "first_creation flt db organization_id table_name i = Some (actor, root)"
      "first_creation flt db organization_id table_name root = Some (creator, root)"
    using assms(1) unfolding owned_iff by blast
  then have "first_creation flt db' organization_id table_name i = Some (actor, root)"
      "first_creation flt db' organization_id table_name root = Some (creator, root)"
    using first_creation_final[OF assms(2)] by blast+
  then show False using other assms(3) by simp
qed

end
