(* ===== verification/Delta_Paging.thy ===== *)
theory Delta_Paging
  imports Delta_Cursor_Laws Delete_Ownership
begin

text \<open>
  The bounded pages of the delta synchronisation, \<open>src/backend/sync/delta_paging.py\<close>: the
  candidate rows after a position in a fixed window of versions, their projection for the reading
  user, and the request handler that fills a page and hands out the cursor of the next one.

  The schema-driven mapper, the children it attaches, the public image paths and the tables of
  Unicode are parameters.
\<close>

section \<open>Candidate rows\<close>

record delta_row =
  dr_version :: int
  dr_kind :: string
  dr_table_key :: string
  dr_record_id :: string
  dr_record :: pval
  dr_snapshot :: pval

record delta_env =
  de_cursor :: cursor_env
  de_collate :: "string \<Rightarrow> string"
  de_map :: "string \<Rightarrow> pval \<Rightarrow> pval"
  de_children :: "sql_db \<Rightarrow> ident \<Rightarrow> string \<Rightarrow> pval list \<Rightarrow> pval list"
  de_image :: "pval \<Rightarrow> string \<Rightarrow> ident \<Rightarrow> pval"
  de_lower :: "string \<Rightarrow> string"
  de_alnum :: "nat \<Rightarrow> bool"

definition row_marker :: "delta_row \<Rightarrow> marker" where
  "row_marker r = (dr_version r, dr_kind r, dr_table_key r, dr_record_id r)"

text \<open>Texts are ordered by the collation of the database.\<close>

definition marker_key :: "delta_env \<Rightarrow> marker \<Rightarrow> int \<times> string \<times> string \<times> string" where
  "marker_key env mk = (case mk of (version, kind, table_key, record_id) \<Rightarrow>
     (version, de_collate env kind, de_collate env table_key, de_collate env record_id))"

definition in_window :: "int \<Rightarrow> int \<Rightarrow> pval \<Rightarrow> bool" where
  "in_window after through v = (case v of PInt n \<Rightarrow> after < n \<and> n \<le> through | _ \<Rightarrow> False)"

definition int_column :: "pval \<Rightarrow> int" where
  "int_column v = (case v of PInt n \<Rightarrow> n | _ \<Rightarrow> 0)"

definition live_branch ::
    "sql_db \<Rightarrow> visibility_scope \<Rightarrow> int \<Rightarrow> int \<Rightarrow> string \<times> string \<Rightarrow> delta_row list" where
  "live_branch db scope after through branch = (case branch of (payload_key, table_name) \<Rightarrow>
     map (\<lambda>r. \<lparr>dr_version = int_column (dget r ''sync_version''), dr_kind = ''upsert'', dr_table_key = payload_key,
               dr_record_id = py_str (dget r ''id''), dr_record = r, dr_snapshot = PNone\<rparr>)
       (filter (\<lambda>r. live_predicate db scope table_name r \<and> in_window after through (dget r ''sync_version''))
         (table_rows db table_name)))"

definition deletion_branch ::
    "(string \<Rightarrow> pval) \<Rightarrow> sql_db \<Rightarrow> visibility_scope \<Rightarrow> int \<Rightarrow> int \<Rightarrow> string \<times> string \<Rightarrow> delta_row list" where
  "deletion_branch flt db scope after through branch = (case branch of (payload_key, table_name) \<Rightarrow>
     map (\<lambda>r. \<lparr>dr_version = int_column (dget r ''delete_version''), dr_kind = ''delete'', dr_table_key = payload_key,
               dr_record_id = py_str (dget r ''record_id''), dr_record = PNone,
               dr_snapshot = dget r ''record_snapshot_json''\<rparr>)
       (filter (\<lambda>r. deletion_predicate flt db scope table_name r \<and> in_window after through (dget r ''delete_version''))
         (table_rows db ''deleted_records'')))"

definition delta_union :: "delta_env \<Rightarrow> sql_db \<Rightarrow> visibility_scope \<Rightarrow> int \<Rightarrow> int \<Rightarrow> delta_row list" where
  "delta_union env db scope after through =
     concat (map (live_branch db scope after through) TABLE_KEYS)
     @ concat (map (deletion_branch (ce_float (de_cursor env)) db scope after through) TABLE_KEYS)"

definition load_candidates ::
    "delta_env \<Rightarrow> sql_db \<Rightarrow> visibility_scope \<Rightarrow> int \<Rightarrow> int \<Rightarrow> marker \<Rightarrow> nat \<Rightarrow> delta_row list" where
  "load_candidates env db scope after through marker limit =
     take limit (sort_key (\<lambda>r. marker_key env (row_marker r))
       (filter (\<lambda>r. marker_key env marker < marker_key env (row_marker r)) (delta_union env db scope after through)))"

section \<open>Preparing the records\<close>

definition json_object :: "(string \<Rightarrow> pval) \<Rightarrow> pval \<Rightarrow> pval" where
  "json_object flt v =
     (if is_dict v then v
      else case py_or v (PStr ''{}'') of
        PStr text \<Rightarrow> (case json_loads flt text of Some (PDict d) \<Rightarrow> PDict d | _ \<Rightarrow> PDict [])
      | _ \<Rightarrow> PDict [])"

definition table_of_key :: "string \<Rightarrow> string" where
  "table_of_key k = (case map_of TABLE_KEYS k of Some t \<Rightarrow> t | None \<Rightarrow> k)"

definition key_of_table :: "string \<Rightarrow> string \<Rightarrow> string" where
  "key_of_table t raw = (case map_of PAYLOAD_BY_TABLE t of Some k \<Rightarrow> k | None \<Rightarrow> raw)"

definition CHILD_BEARING_TABLES :: "string list" where
  "CHILD_BEARING_TABLES = [''ke_hoach_lcnt'', ''goi_thau'', ''nha_thau'', ''thong_tin_mo_thau'']"

definition expert_entry :: "sql_row \<Rightarrow> pval" where
  "expert_entry r = PDict
     [(''chuyenGiaId'', dget r ''chuyen_gia_id''), (''id'', dget r ''chuyen_gia_id''),
      (''chucVu'', py_or (dget r ''chuc_vu'')
         (PStr [CHR ''T'', CHR 0xE1, CHR 0xBB, CHR 0x95, CHR '' '', CHR ''v'', CHR ''i'', CHR 0xC3, CHR 0xAA, CHR ''n''])),
      (''congViec'', py_or (dget r ''cong_viec'') (PStr []))]"

text \<open>The rows of the expert relation for the packages asked for.\<close>

definition expert_rows :: "sql_db \<Rightarrow> ident \<Rightarrow> string list \<Rightarrow> sql_row list" where
  "expert_rows db organization_id package_ids =
     (if package_ids = [] then []
      else filter (\<lambda>r. sql_in (dget r ''goi_thau_id'') package_ids \<and> dget r ''organization_id'' = PStr organization_id)
        (table_rows db ''goi_thau_chuyen_gia''))"

definition with_experts :: "sql_row list \<Rightarrow> pval \<Rightarrow> pval" where
  "with_experts own item =
     (let experts = filter (\<lambda>r. dget r ''loai'' = PStr ''chuyen_gia'') own;
          reviewers = filter (\<lambda>r. dget r ''loai'' \<noteq> PStr ''chuyen_gia'') own
      in set_item ''chuyenGiaIds'' (PList (map (\<lambda>r. dget r ''chuyen_gia_id'') experts))
           (set_item ''toThamDinh'' (PList (map expert_entry reviewers))
             (set_item ''toChuyenGia'' (PList (map expert_entry experts)) item)))"

definition attach_package_expert_relations :: "sql_db \<Rightarrow> ident \<Rightarrow> pval list \<Rightarrow> pval list" where
  "attach_package_expert_relations db organization_id items =
     (let package_ids = map (\<lambda>i. py_str (dget i ''id'')) (filter (\<lambda>i. truthy (dget i ''id'')) items);
          rows = expert_rows db organization_id package_ids
      in map (\<lambda>item. with_experts (filter (\<lambda>r. dget r ''goi_thau_id'' = dget item ''id'') rows) item) items)"

definition attach_children :: "delta_env \<Rightarrow> sql_db \<Rightarrow> ident \<Rightarrow> string \<Rightarrow> pval list \<Rightarrow> pval list" where
  "attach_children env db organization_id table_name items =
     (let with_children = (if table_name \<in> set CHILD_BEARING_TABLES
            then de_children env db organization_id table_name items else items)
      in if table_name = ''goi_thau'' then attach_package_expert_relations db organization_id with_children
         else with_children)"

type_synonym prepared = "((string \<times> string) \<times> pval) list"

text \<open>An operation on the items of one group changes them where they are.\<close>

fun put_back :: "('e \<times> 'b \<Rightarrow> bool) \<Rightarrow> 'b list \<Rightarrow> ('e \<times> 'b) list \<Rightarrow> ('e \<times> 'b) list" where
  "put_back p new [] = []"
| "put_back p new (e # es) =
     (if p e then (case new of [] \<Rightarrow> e # put_back p [] es | v # vs \<Rightarrow> (fst e, v) # put_back p vs es)
      else e # put_back p new es)"

definition change_group :: "('e \<times> 'b \<Rightarrow> bool) \<Rightarrow> ('b list \<Rightarrow> 'b list) \<Rightarrow> ('e \<times> 'b) list \<Rightarrow> ('e \<times> 'b) list" where
  "change_group p f xs = put_back p (f (map snd (filter p xs))) xs"

definition upsert_item :: "delta_env \<Rightarrow> delta_row \<Rightarrow> ((string \<times> string) \<times> pval) option" where
  "upsert_item env r =
     (let table_name = table_of_key (dr_table_key r);
          raw = json_object (ce_float (de_cursor env)) (dr_record r)
      in if dr_kind r \<noteq> ''upsert'' \<or> table_name \<notin> snd ` set TABLE_KEYS \<or> \<not> truthy raw then None
         else Some ((table_name, dr_record_id r), de_map env table_name raw))"

definition prepare_upsert_items :: "delta_env \<Rightarrow> sql_db \<Rightarrow> ident \<Rightarrow> delta_row list \<Rightarrow> prepared" where
  "prepare_upsert_items env db organization_id rows =
     fold (\<lambda>t. change_group (\<lambda>e. fst (fst e) = t) (attach_children env db organization_id t))
       (remdups (map snd TABLE_KEYS)) (List.map_filter (upsert_item env) rows)"

definition prepared_item :: "prepared \<Rightarrow> string \<Rightarrow> string \<Rightarrow> pval option" where
  "prepared_item prepared table_name record_id = map_of (rev prepared) (table_name, record_id)"

definition raw_record :: "delta_env \<Rightarrow> delta_row \<Rightarrow> pval" where
  "raw_record env r = json_object (ce_float (de_cursor env)) (if dr_kind r = ''upsert'' then dr_record r else dr_snapshot r)"

definition bare_item :: "delta_env \<Rightarrow> string \<Rightarrow> delta_row \<Rightarrow> pval" where
  "bare_item env table_name r =
     (let raw = raw_record env r in
      if truthy raw then de_map env table_name raw else PDict [(''id'', PStr (dr_record_id r))])"

section \<open>Authorization of a page\<close>

definition authorization_item :: "delta_env \<Rightarrow> prepared \<Rightarrow> string \<Rightarrow> delta_row \<Rightarrow> pval" where
  "authorization_item env prepared table_name r =
     (case prepared_item prepared table_name (dr_record_id r) of Some item \<Rightarrow> item | None \<Rightarrow> bare_item env table_name r)"

text \<open>\<open>_DeltaReadAuthorization\<close>: the identifiers the read policy keeps of a page, by table.\<close>

definition allowed_ids ::
    "delta_env \<Rightarrow> sql_db \<Rightarrow> session_role \<Rightarrow> ident \<Rightarrow> ident \<Rightarrow> delta_row list \<Rightarrow> prepared \<Rightarrow>
     string \<Rightarrow> string \<Rightarrow> string list" where
  "allowed_ids env db role user_id organization_id candidates prepared table_name payload_key =
     (let rows = filter (\<lambda>r. let t = table_of_key (dr_table_key r) in
            t = table_name \<and> key_of_table t (dr_table_key r) = payload_key) candidates;
          items = (if payload_key \<in> fst ` set TABLE_KEYS then map (authorization_item env prepared table_name) rows else [])
      in map (\<lambda>item. py_str (dget item ''id''))
           (filter (\<lambda>item. is_dict item \<and> dget item ''id'' \<noteq> PNone)
             (filter_items_for_read db role user_id organization_id payload_key table_name items)))"

type_synonym read_authorization = "string \<Rightarrow> string \<Rightarrow> string list"

definition allows :: "read_authorization \<Rightarrow> string \<Rightarrow> string \<Rightarrow> pval \<Rightarrow> bool" where
  "allows authorization table_name payload_key item \<longleftrightarrow>
     py_str (dget item ''id'') \<in> set (authorization table_name payload_key)"

definition attach_upsert_delete_ownership ::
    "delta_env \<Rightarrow> sql_db \<Rightarrow> ident \<Rightarrow> ident \<Rightarrow> read_authorization \<Rightarrow> prepared \<Rightarrow> prepared" where
  "attach_upsert_delete_ownership env db organization_id user_id authorization prepared =
     fold (\<lambda>t. change_group
         (\<lambda>e. fst (fst e) = t \<and> allows authorization t (key_of_table t t) (snd e))
         (attach_delete_ownership (ce_float (de_cursor env)) db organization_id user_id t))
       (remdups (map (\<lambda>e. fst (fst e)) prepared)) prepared"

section \<open>What the client sees of a record\<close>

definition BLOCKED_KEYS :: "string list" where
  "BLOCKED_KEYS = [''accesstoken'', ''internalsecret'', ''matkhau'', ''password'', ''passwordhash'', ''privatekey'',
     ''refreshtoken'', ''requesthash'', ''secret'', ''sessiontoken'', ''token'', ''tokenhash'']"

function keep_alnum :: "(nat \<Rightarrow> bool) \<Rightarrow> string \<Rightarrow> string" where
  "keep_alnum alnum [] = []"
| "keep_alnum alnum (c # cs) = (let (n, r) = next_point c cs in (if alnum n then utf8 n else []) @ keep_alnum alnum r)"
  by pat_completeness auto
termination
  by (relation "measure (\<lambda>(_, s). length s)") (auto intro: next_point_shorter[OF sym] simp: less_Suc_eq_le)

definition normalized_key :: "delta_env \<Rightarrow> string \<Rightarrow> string" where
  "normalized_key env k = keep_alnum (de_alnum env) (de_lower env k)"

definition shown_key :: "delta_env \<Rightarrow> string \<Rightarrow> bool" where
  "shown_key env k \<longleftrightarrow> \<not> starts_with ''_'' k \<and> normalized_key env k \<notin> set BLOCKED_KEYS"

function project_value :: "delta_env \<Rightarrow> pval \<Rightarrow> pval" where
  "project_value env (PDict d) = PDict (map (\<lambda>e. (fst e, project_value env (snd e))) (filter (\<lambda>e. shown_key env (fst e)) d))"
| "project_value env (PList xs) = PList (map (project_value env) xs)"
| "project_value env PNone = PNone" | "project_value env (PBool b) = PBool b" | "project_value env (PInt i) = PInt i"
| "project_value env (PFloat f t) = PFloat f t" | "project_value env (PStr s) = PStr s"
  by pat_completeness auto
termination
  by (relation "measure (\<lambda>(_, v). size v)") (auto dest: size_pval_members)

definition project_conflict_record :: "delta_env \<Rightarrow> pval \<Rightarrow> pval" where
  "project_conflict_record env item = project_value env (PDict (entries (or_empty item)))"

datatype delta_entry =
  DeleteEntry string string int
| UpsertEntry string pval int

definition entry_value :: "delta_entry \<Rightarrow> pval" where
  "entry_value e = (case e of
     DeleteEntry t i v \<Rightarrow> PDict [(''kind'', PStr ''delete''), (''table'', PStr t), (''id'', PStr i), (''version'', PInt v)]
   | UpsertEntry t item v \<Rightarrow>
       PDict [(''kind'', PStr ''upsert''), (''table'', PStr t), (''record'', item), (''version'', PInt v)])"

definition image_fields :: "delta_env \<Rightarrow> string \<Rightarrow> ident \<Rightarrow> string \<Rightarrow> pval \<Rightarrow> pval \<Rightarrow> pval" where
  "image_fields env token organization_id table_name raw item =
     (if table_name = ''chuyen_gia'' then
        set_item ''anhChuKy'' (de_image env (dget raw ''anh_chu_ky'') token organization_id)
          (set_item ''anhChungChi'' (de_image env (dget raw ''anh_chung_chi'') token organization_id) item)
      else if table_name = ''nha_thau'' then
        set_item ''anhDau'' (de_image env (dget raw ''anh_dau'') token organization_id) item
      else item)"

text \<open>\<open>serialize_sensitive_read_item\<close> copies the record.\<close>

definition serialize_sensitive_read_item :: "pval \<Rightarrow> pval" where
  "serialize_sensitive_read_item item = PDict (entries (or_empty item))"

definition project_candidate ::
    "delta_env \<Rightarrow> sql_db \<Rightarrow> ident \<Rightarrow> string \<Rightarrow> prepared \<Rightarrow> read_authorization \<Rightarrow> delta_row \<Rightarrow> delta_entry option" where
  "project_candidate env db organization_id token prepared authorization r =
     (let table_name = table_of_key (dr_table_key r); payload_key = key_of_table table_name (dr_table_key r) in
      if payload_key \<notin> fst ` set TABLE_KEYS then None
      else
        let item = (case prepared_item prepared table_name (dr_record_id r) of
              Some item \<Rightarrow> item
            | None \<Rightarrow> let bare = bare_item env table_name r in
                if dr_kind r = ''upsert''
                then (case attach_children env db organization_id table_name [bare] of [] \<Rightarrow> bare | x # _ \<Rightarrow> x) else bare)
        in if \<not> allows authorization table_name payload_key item then None
           else if dr_kind r = ''delete'' then Some (DeleteEntry payload_key (dr_record_id r) (dr_version r))
           else Some (UpsertEntry payload_key
             (project_conflict_record env (serialize_sensitive_read_item
               (image_fields env token organization_id table_name (raw_record env r) item))) (dr_version r)))"

section \<open>Filling a page\<close>

definition entry_size :: "delta_entry \<Rightarrow> int" where
  "entry_size e = int (length (json_plain (entry_value e)))"

datatype delta_failure =
  AUTH_REQUIRED
| CURSOR_REFUSED cursor_error
| SYNC_VERSION_INVALID
| SYNC_VISIBILITY_RESET_REQUIRED
| FULL_SYNC_REQUIRED
| DELTA_RECORD_TOO_LARGE
| RAISED py_exn

text \<open>The entries of the page, the position reached, and whether the page was full before the end.\<close>

fun fill_page ::
    "int \<Rightarrow> int \<Rightarrow> (delta_row \<Rightarrow> delta_entry option) \<Rightarrow> delta_row list \<Rightarrow> marker \<Rightarrow> delta_entry list \<Rightarrow> int
     \<Rightarrow> delta_failure + (delta_entry list \<times> marker \<times> bool)" where
  "fill_page record_limit byte_limit project [] mk es used = Inr (es, mk, False)"
| "fill_page record_limit byte_limit project (r # rs) mk es used =
     (case project r of
        None \<Rightarrow> fill_page record_limit byte_limit project rs (row_marker r) es used
      | Some e \<Rightarrow>
          if record_limit \<le> int (length es) \<or> byte_limit < used + entry_size e
          then (if es = [] then Inl DELTA_RECORD_TOO_LARGE else Inr (es, mk, True))
          else fill_page record_limit byte_limit project rs (row_marker r) (es @ [e]) (used + entry_size e))"

definition bounded_int :: "string option \<Rightarrow> int \<Rightarrow> int \<Rightarrow> int \<Rightarrow> int" where
  "bounded_int setting default_value minimum maximum =
     min maximum (max minimum
       (case setting of None \<Rightarrow> default_value | Some s \<Rightarrow> (case parse_int s of None \<Rightarrow> default_value | Some n \<Rightarrow> n)))"

record delta_settings =
  st_page_items :: "string option"
  st_page_bytes :: "string option"
  st_cursor_ttl :: "string option"

definition record_limit :: "delta_settings \<Rightarrow> int" where
  "record_limit st = bounded_int (st_page_items st) 250 10 1000"

definition byte_limit :: "delta_settings \<Rightarrow> int" where
  "byte_limit st = bounded_int (st_page_bytes st) 524288 16384 4194304"

definition cursor_ttl :: "delta_settings \<Rightarrow> int" where
  "cursor_ttl st = bounded_int (st_cursor_ttl st) 900 60 3600"

definition candidate_limit :: "delta_settings \<Rightarrow> nat" where
  "candidate_limit st = nat (record_limit st * 4 + 1)"

section \<open>The request\<close>

text \<open>
  A request of an authenticated user: the role, the user, the active organization, the session
  token, the query parameters and the time; \<open>rq_visibility\<close> is the fingerprint computed for the
  user (\<open>build_visibility_token\<close>).
\<close>

record delta_request =
  rq_role :: "session_role option"
  rq_user :: ident
  rq_organization :: ident
  rq_session_token :: string
  rq_cursor :: "string option"
  rq_after_version :: "string option"
  rq_visibility_token :: "string option"
  rq_visibility :: string
  rq_now :: int

record delta_page =
  pg_entries :: "delta_entry list"
  pg_deletions :: "(string \<times> string) list"
  pg_records :: "(string \<times> pval list) list"
  pg_partial :: bool
  pg_through :: int
  pg_next_cursor :: "string option"
  pg_visibility :: string
  pg_sync_version :: "int option"

definition metadata_int :: "sql_db \<Rightarrow> ident \<Rightarrow> string \<Rightarrow> int" where
  "metadata_int db organization_id column =
     (case List.find (\<lambda>r. dget r ''organization_id'' = PStr organization_id) (table_rows db ''sync_metadata'') of
        None \<Rightarrow> 0 | Some r \<Rightarrow> int_column (dget r column))"

definition lift_raise :: "py_exn + 'a \<Rightarrow> delta_failure + 'a" where
  "lift_raise m = (case m of Inl e \<Rightarrow> Inl (RAISED e) | Inr x \<Rightarrow> Inr x)"

text \<open>The window, the position in it and the fingerprint the client read it under.\<close>

definition page_position :: "delta_env \<Rightarrow> sql_db \<Rightarrow> delta_request \<Rightarrow> delta_failure + delta_state" where
  "page_position env db rq =
     (let raw_cursor = py_strip (case rq_cursor rq of None \<Rightarrow> [] | Some c \<Rightarrow> c) in
      if raw_cursor \<noteq> [] then
        (case decode_delta_cursor (de_cursor env) (rq_session_token rq) (rq_organization rq) (rq_user rq) (rq_now rq) raw_cursor of
           Inl e \<Rightarrow> Inl (CURSOR_REFUSED e) | Inr st \<Rightarrow> Inr st)
      else
        (case (case rq_after_version rq of None \<Rightarrow> Some 0 | Some text \<Rightarrow> parse_int text) of
           None \<Rightarrow> Inl SYNC_VERSION_INVALID
         | Some n \<Rightarrow> Inr \<lparr>ds_after = max 0 n, ds_through = metadata_int db (rq_organization rq) ''current_version'',
             ds_marker = (max 0 n, [], [], []),
             ds_visibility = (case rq_visibility_token rq of None \<Rightarrow> [] | Some v \<Rightarrow> v)\<rparr>))"

definition same_visibility :: "delta_request \<Rightarrow> delta_state \<Rightarrow> delta_failure + bool" where
  "same_visibility rq st =
     (if ds_visibility st = [] then Inr (\<not> 0 < ds_after st)
      else lift_raise (compare_digest (ds_visibility st) (rq_visibility rq)))"

definition group_record :: "string \<times> pval \<Rightarrow> (string \<times> pval list) list \<Rightarrow> (string \<times> pval list) list" where
  "group_record tr acc = (case tr of (t, item) \<Rightarrow>
     AList.update t ((case map_of acc t of None \<Rightarrow> [] | Some xs \<Rightarrow> xs) @ [item]) acc)"

definition page_payload :: "delta_state \<Rightarrow> delta_entry list \<Rightarrow> string option \<Rightarrow> string \<Rightarrow> delta_page" where
  "page_payload st es next_cursor visibility =
     \<lparr>pg_entries = es,
      pg_deletions = List.map_filter (\<lambda>e. case e of DeleteEntry t i _ \<Rightarrow> Some (t, i) | _ \<Rightarrow> None) es,
      pg_records = fold group_record (List.map_filter (\<lambda>e. case e of UpsertEntry t item _ \<Rightarrow> Some (t, item) | _ \<Rightarrow> None) es) [],
      pg_partial = (next_cursor \<noteq> None), pg_through = ds_through st, pg_next_cursor = next_cursor,
      pg_visibility = visibility,
      pg_sync_version = (if next_cursor = None then Some (ds_through st) else None)\<rparr>"

definition page_projection ::
    "delta_env \<Rightarrow> sql_db \<Rightarrow> session_role \<Rightarrow> delta_request \<Rightarrow> delta_row list \<Rightarrow> delta_row \<Rightarrow> delta_entry option" where
  "page_projection env db role rq candidates =
     (let user_id = rq_user rq; organization_id = rq_organization rq;
          prepared = prepare_upsert_items env db organization_id candidates;
          authorization = allowed_ids env db role user_id organization_id candidates prepared;
          owned = attach_upsert_delete_ownership env db organization_id user_id authorization prepared
      in project_candidate env db organization_id (rq_session_token rq) owned authorization)"

text \<open>The page at a position: what the handler does once the request is accepted.\<close>

definition delta_page_at ::
    "delta_env \<Rightarrow> delta_settings \<Rightarrow> sql_db \<Rightarrow> session_role \<Rightarrow> delta_request \<Rightarrow> delta_state \<Rightarrow> delta_failure + delta_page" where
  "delta_page_at env settings db role rq st =
     (let scope = resolve_scope db role (rq_user rq) (rq_organization rq);
          candidates = load_candidates env db scope (ds_after st) (ds_through st) (ds_marker st) (candidate_limit settings);
          project = page_projection env db role rq candidates
      in res_bind (fill_page (record_limit settings) (byte_limit settings) project candidates (ds_marker st) [] 256)
        (\<lambda>(es, processed, stopped_early).
          let has_more = stopped_early \<or> candidate_limit settings \<le> length candidates;
              next_state = \<lparr>ds_after = ds_after st, ds_through = ds_through st, ds_marker = processed,
                ds_visibility = rq_visibility rq\<rparr>;
              next_cursor = (if has_more then Some (encode_delta_cursor (de_cursor env) (rq_session_token rq)
                  (rq_organization rq) (rq_user rq) (rq_now rq + cursor_ttl settings) next_state) else None)
          in Inr (page_payload st es next_cursor (rq_visibility rq))))"

definition read_delta_page ::
    "delta_env \<Rightarrow> delta_settings \<Rightarrow> sql_db \<Rightarrow> delta_request \<Rightarrow> delta_failure + delta_page" where
  "read_delta_page env settings db rq =
     (case rq_role rq of
        None \<Rightarrow> Inl AUTH_REQUIRED
      | Some role \<Rightarrow>
          res_bind (ensure (rq_session_token rq \<noteq> []) AUTH_REQUIRED) (\<lambda>_.
          res_bind (page_position env db rq) (\<lambda>st.
          res_bind (same_visibility rq st) (\<lambda>same.
          res_bind (ensure same SYNC_VISIBILITY_RESET_REQUIRED) (\<lambda>_.
          res_bind (ensure (\<not> ds_after st < metadata_int db (rq_organization rq) ''min_available_version'') FULL_SYNC_REQUIRED) (\<lambda>_.
            delta_page_at env settings db role rq st))))))"

end
