(* ===== verification/Delta_Laws.thy ===== *)
theory Delta_Laws
  imports Delta_Paging
begin

text \<open>
  Following the cursors of the delta pages reads the whole window: each row once, in order, within
  the limits of a page, and in as many requests as there are rows at most.
\<close>

section \<open>One page\<close>

lemma map_filter_append: "List.map_filter f (xs @ ys) = List.map_filter f xs @ List.map_filter f ys"
  by (simp add: List.map_filter_def)

lemma fill_page_split:
  assumes "fill_page rl bl P rows mk es used = Inr (es', mk', stop)"
  shows "\<exists>seen rest. rows = seen @ rest \<and> es' = es @ List.map_filter P seen
    \<and> mk' = last (mk # map row_marker seen) \<and> (stop \<longleftrightarrow> rest \<noteq> []) \<and> (stop \<longrightarrow> es' \<noteq> [])"
  using assms
proof (induction rows arbitrary: mk es used)
  case Nil
  then show ?case by (auto simp: List.map_filter_simps)
next
  case (Cons r rows)
  have step: ?case if rest: "fill_page rl bl P rows (row_marker r) es1 used1 = Inr (es', mk', stop)"
    and es1: "es1 = es @ List.map_filter P [r]" for es1 used1
  proof -
    obtain seen rest where "rows = seen @ rest" "es' = es1 @ List.map_filter P seen"
        "mk' = last (row_marker r # map row_marker seen)" "stop \<longleftrightarrow> rest \<noteq> []" "stop \<longrightarrow> es' \<noteq> []"
      using Cons.IH[OF rest] by blast
    moreover have "List.map_filter P (r # seen) = List.map_filter P [r] @ List.map_filter P seen"
      using map_filter_append[of P "[r]" seen] by simp
    ultimately show ?thesis unfolding es1 by (intro exI[of _ "r # seen"] exI[of _ rest]) simp
  qed
  show ?case
  proof (cases "P r")
    case None
    then show ?thesis using Cons.prems by (intro step[of es used]) (simp_all add: List.map_filter_simps)
  next
    case (Some e)
    show ?thesis
    proof (cases "rl \<le> int (length es) \<or> bl < used + entry_size e")
      case True
      then have "es \<noteq> []" "es' = es" "mk' = mk" "stop" using Some Cons.prems by (auto split: if_splits)
      then show ?thesis
        by (intro exI[of _ "[]"] exI[of _ "r # rows"]) (simp add: List.map_filter_simps)
    next
      case False
      then show ?thesis using Some Cons.prems
        by (intro step[of "es @ [e]" "used + entry_size e"]) (simp_all add: List.map_filter_simps)
    qed
  qed
qed

lemma fill_page_bounds:
  assumes "fill_page rl bl P rows mk es used = Inr (es', mk', stop)"
    and "int (length es) \<le> rl" and "used \<le> bl"
  shows "int (length es') \<le> rl \<and> used + sum_list (map entry_size es') - sum_list (map entry_size es) \<le> bl"
  using assms
proof (induction rows arbitrary: mk es used)
  case (Cons r rows)
  show ?case
  proof (cases "P r")
    case (Some e)
    show ?thesis
    proof (cases "rl \<le> int (length es) \<or> bl < used + entry_size e")
      case False
      then show ?thesis using Cons.IH[of "row_marker r" "es @ [e]" "used + entry_size e"] Cons.prems Some by simp
    qed (use Cons Some in \<open>auto split: if_splits\<close>)
  qed (use Cons in \<open>auto split: if_splits\<close>)
qed simp

lemma fill_page_total:
  assumes "\<And>r e. r \<in> set rows \<Longrightarrow> P r = Some e \<Longrightarrow> start + entry_size e \<le> bl"
    and "0 < rl" and "es = [] \<longrightarrow> used = start"
  shows "\<exists>res. fill_page rl bl P rows mk es used = Inr res"
  using assms
proof (induction rows arbitrary: mk es used)
  case Nil
  show ?case by (intro exI) (rule fill_page.simps(1))
next
  case (Cons r rows)
  show ?case
  proof (cases "P r")
    case None
    have "\<exists>res. fill_page rl bl P rows (row_marker r) es used = Inr res"
      by (rule Cons.IH) (use Cons.prems in auto)
    with None show ?thesis by simp
  next
    case (Some e)
    show ?thesis
    proof (cases "rl \<le> int (length es) \<or> bl < used + entry_size e")
      case True
      then have "es \<noteq> []" using Cons.prems(1)[of r e] Cons.prems(2,3) Some by auto
      then show ?thesis using True Some by (cases mk) auto
    next
      case False
      have "\<exists>res. fill_page rl bl P rows (row_marker r) (es @ [e]) (used + entry_size e) = Inr res"
        by (rule Cons.IH) (use Cons.prems in auto)
      with False Some show ?thesis by simp
    qed
  qed
qed

lemma bounded_int_bounds: "lo \<le> hi \<Longrightarrow> lo \<le> bounded_int s d lo hi \<and> bounded_int s d lo hi \<le> hi"
  by (simp add: bounded_int_def)

lemma settings_bounds:
  "10 \<le> record_limit st" "record_limit st \<le> 1000" "16384 \<le> byte_limit st" "byte_limit st \<le> 4194304"
  "60 \<le> cursor_ttl st" "cursor_ttl st \<le> 3600"
  using bounded_int_bounds[of 10 1000] bounded_int_bounds[of 16384 4194304] bounded_int_bounds[of 60 3600]
  by (simp_all add: record_limit_def byte_limit_def cursor_ttl_def)

lemma candidate_limit_pos: "0 < candidate_limit st"
  using settings_bounds(1)[of st] by (simp add: candidate_limit_def)

section \<open>The window and its pages\<close>

definition delta_window ::
    "delta_env \<Rightarrow> sql_db \<Rightarrow> visibility_scope \<Rightarrow> int \<Rightarrow> int \<Rightarrow> marker \<Rightarrow> delta_row list" where
  "delta_window env db scope after through mk =
     sort_key (\<lambda>r. marker_key env (row_marker r))
       (filter (\<lambda>r. marker_key env mk < marker_key env (row_marker r)) (delta_union env db scope after through))"

lemma load_candidates_window:
  "load_candidates env db scope after through mk n = take n (delta_window env db scope after through mk)"
  by (simp add: load_candidates_def delta_window_def)

text \<open>No two changes of the window have the same position.\<close>

definition distinct_positions :: "delta_env \<Rightarrow> delta_row list \<Rightarrow> bool" where
  "distinct_positions env rows \<longleftrightarrow> distinct (map (\<lambda>r. marker_key env (row_marker r)) rows)"

lemma distinct_sort_key: "distinct (map k (sort_key k xs)) \<longleftrightarrow> distinct (map k xs)"
proof -
  have "mset (map k (sort_key k xs)) = mset (map k xs)" by simp
  then show ?thesis using mset_eq_imp_distinct_iff by blast
qed

lemma window_strict:
  assumes "distinct_positions env (delta_union env db scope after through)"
  shows "sorted_wrt (<) (map (\<lambda>r. marker_key env (row_marker r)) (delta_window env db scope after through mk))"
proof -
  have "distinct (map (\<lambda>r. marker_key env (row_marker r)) (delta_window env db scope after through mk))"
    using assms unfolding delta_window_def distinct_sort_key distinct_positions_def by (rule distinct_map_filter)
  then show ?thesis by (simp add: strict_sorted_iff delta_window_def)
qed

lemma filter_after_prefix:
  fixes k :: "'a \<Rightarrow> 'b::linorder"
  assumes "sorted_wrt (<) (map k (seen @ rest))" and "seen \<noteq> []"
  shows "filter (\<lambda>x. k (last seen) < k x) (seen @ rest) = rest"
proof -
  obtain ys z where seen: "seen = ys @ [z]" using assms(2) by (metis append_butlast_last_id)
  have "\<not> k z < k x" if "x \<in> set seen" for x
    using assms(1) that unfolding seen by (fastforce simp: sorted_wrt_append)
  moreover have "k z < k y" if "y \<in> set rest" for y
    using assms(1) that unfolding seen by (auto simp: sorted_wrt_append)
  ultimately show ?thesis unfolding seen by (auto simp: filter_empty_conv intro!: filter_True)
qed

lemma window_after:
  assumes "distinct_positions env (delta_union env db scope after through)"
    and "delta_window env db scope after through mk = seen @ rest" and "seen \<noteq> []"
  shows "delta_window env db scope after through (row_marker (last seen)) = rest"
proof -
  let ?k = "\<lambda>r. marker_key env (row_marker r)"
  have "last seen \<in> set (delta_window env db scope after through mk)" using assms(2,3) by simp
  then have "marker_key env mk < ?k (last seen)" by (simp add: delta_window_def)
  then have "filter (\<lambda>r. ?k (last seen) < ?k r) (delta_union env db scope after through)
      = filter (\<lambda>r. ?k (last seen) < ?k r) (filter (\<lambda>r. marker_key env mk < ?k r) (delta_union env db scope after through))"
    by (auto intro!: filter_cong)
  then have "delta_window env db scope after through (row_marker (last seen))
      = filter (\<lambda>r. ?k (last seen) < ?k r) (delta_window env db scope after through mk)"
    by (simp add: delta_window_def filter_sort)
  also have "\<dots> = rest"
    unfolding assms(2) by (rule filter_after_prefix) (use window_strict[OF assms(1), of mk] assms(2,3) in simp_all)
  finally show ?thesis .
qed

section \<open>A page of the window\<close>

text \<open>A row projected as the only row of its page.\<close>

definition solo_projection ::
    "delta_env \<Rightarrow> sql_db \<Rightarrow> session_role \<Rightarrow> delta_request \<Rightarrow> delta_row \<Rightarrow> delta_entry option" where
  "solo_projection env db role rq r = page_projection env db role rq [r] r"

definition batch_stable ::
    "delta_env \<Rightarrow> sql_db \<Rightarrow> session_role \<Rightarrow> delta_request \<Rightarrow> delta_row list \<Rightarrow> bool" where
  "batch_stable env db role rq rows \<longleftrightarrow>
     (\<forall>batch r. set batch \<subseteq> set rows \<longrightarrow> distinct batch \<longrightarrow> r \<in> set batch \<longrightarrow>
        page_projection env db role rq batch r = solo_projection env db role rq r)"

definition next_state :: "delta_request \<Rightarrow> delta_state \<Rightarrow> delta_row \<Rightarrow> delta_state" where
  "next_state rq st r = st\<lparr>ds_marker := row_marker r, ds_visibility := rq_visibility rq\<rparr>"

abbreviation rq_scope :: "sql_db \<Rightarrow> session_role \<Rightarrow> delta_request \<Rightarrow> visibility_scope" where
  "rq_scope db role rq \<equiv> resolve_scope db role (rq_user rq) (rq_organization rq)"

lemma map_filter_cong: "(\<And>x. x \<in> set xs \<Longrightarrow> f x = g x) \<Longrightarrow> List.map_filter f xs = List.map_filter g xs"
  by (induction xs) (auto simp: List.map_filter_simps split: option.splits)

lemma window_subset: "set (delta_window env db scope after through mk) \<subseteq> set (delta_union env db scope after through)"
  by (auto simp: delta_window_def)

lemma window_distinct:
  "distinct_positions env (delta_union env db scope after through) \<Longrightarrow> distinct (delta_window env db scope after through mk)"
  by (drule window_strict[of _ _ _ _ _ mk]) (auto simp: strict_sorted_iff simp: distinct_map)

lemma page_at_split:
  assumes page: "delta_page_at env settings db role rq st = Inr p"
    and positions: "distinct_positions env (delta_union env db (rq_scope db role rq) (ds_after st) (ds_through st))"
    and stable: "batch_stable env db role rq (delta_union env db (rq_scope db role rq) (ds_after st) (ds_through st))"
  obtains seen rest where
    "delta_window env db (rq_scope db role rq) (ds_after st) (ds_through st) (ds_marker st) = seen @ rest"
    "pg_entries p = List.map_filter (solo_projection env db role rq) seen"
    "pg_next_cursor p = None \<Longrightarrow> rest = [] \<and> pg_sync_version p = Some (ds_through st)"
    "\<And>c. pg_next_cursor p = Some c \<Longrightarrow> seen \<noteq> [] \<and> c = encode_delta_cursor (de_cursor env) (rq_session_token rq)
        (rq_organization rq) (rq_user rq) (rq_now rq + cursor_ttl settings) (next_state rq st (last seen))"
proof -
  let ?w = "delta_window env db (rq_scope db role rq) (ds_after st) (ds_through st) (ds_marker st)"
  define cands where "cands = take (candidate_limit settings) ?w"
  obtain es mk stop where fill: "fill_page (record_limit settings) (byte_limit settings)
        (page_projection env db role rq cands) cands (ds_marker st) [] 256 = Inr (es, mk, stop)"
      and p: "p = page_payload st es (if stop \<or> candidate_limit settings \<le> length cands
          then Some (encode_delta_cursor (de_cursor env) (rq_session_token rq) (rq_organization rq) (rq_user rq)
            (rq_now rq + cursor_ttl settings)
            \<lparr>ds_after = ds_after st, ds_through = ds_through st, ds_marker = mk, ds_visibility = rq_visibility rq\<rparr>)
          else None) (rq_visibility rq)"
    using page unfolding delta_page_at_def load_candidates_window cands_def[symmetric] Let_def
    by (auto simp: res_simps)
  obtain seen rest where split: "cands = seen @ rest" "es = List.map_filter (page_projection env db role rq cands) seen"
      "mk = last (ds_marker st # map row_marker seen)" "stop \<longleftrightarrow> rest \<noteq> []" "stop \<longrightarrow> es \<noteq> []"
    using fill_page_split[OF fill] by auto
  have "distinct cands" using window_distinct[OF positions] by (simp add: cands_def)
  moreover have "set cands \<subseteq> set (delta_union env db (rq_scope db role rq) (ds_after st) (ds_through st))"
    using window_subset set_take_subset unfolding cands_def by fastforce
  ultimately have "page_projection env db role rq cands r = solo_projection env db role rq r" if "r \<in> set cands" for r
    using stable that unfolding batch_stable_def by blast
  then have entries: "es = List.map_filter (solo_projection env db role rq) seen"
    unfolding split(2) by (intro map_filter_cong) (simp add: split(1))
  have window: "?w = seen @ (rest @ drop (candidate_limit settings) ?w)"
  proof -
    have "?w = cands @ drop (candidate_limit settings) ?w" by (simp add: cands_def)
    then show ?thesis unfolding split(1) by simp
  qed
  have more: "seen \<noteq> []" if "stop \<or> candidate_limit settings \<le> length cands"
  proof
    assume "seen = []"
    then have "\<not> stop" using split(2,5) by (auto simp: List.map_filter_simps)
    then have "cands = []" using split(1,4) \<open>seen = []\<close> by simp
    then show False using that \<open>\<not> stop\<close> candidate_limit_pos[of settings] by simp
  qed
  show thesis
  proof (rule that[OF window])
    show "pg_entries p = List.map_filter (solo_projection env db role rq) seen"
      using entries by (simp add: p page_payload_def)
    show "pg_next_cursor p = None \<Longrightarrow> rest @ drop (candidate_limit settings) ?w = [] \<and> pg_sync_version p = Some (ds_through st)"
      using split(4) by (auto simp: p page_payload_def cands_def split: if_splits)
    show "seen \<noteq> [] \<and> c = encode_delta_cursor (de_cursor env) (rq_session_token rq)
        (rq_organization rq) (rq_user rq) (rq_now rq + cursor_ttl settings) (next_state rq st (last seen))"
      if "pg_next_cursor p = Some c" for c
    proof -
      have has_more: "stop \<or> candidate_limit settings \<le> length cands"
        using that by (simp add: p page_payload_def split: if_splits)
      have "mk = row_marker (last seen)" using more[OF has_more] split(3) by (simp add: last_map)
      then show ?thesis using that more[OF has_more] has_more
        by (cases st) (simp add: p page_payload_def next_state_def)
    qed
  qed
qed

section \<open>Following the cursors\<close>

text \<open>
  The client: one request at each of the given times, the first as given, the next ones with the
  cursor of the page before; \<^term>\<open>None\<close> when a request is refused or the times run out.
\<close>

fun follow_pages ::
    "delta_env \<Rightarrow> delta_settings \<Rightarrow> sql_db \<Rightarrow> delta_request \<Rightarrow> int list \<Rightarrow> delta_page list option" where
  "follow_pages env settings db rq [] = None"
| "follow_pages env settings db rq (t # ts) =
     (case read_delta_page env settings db (rq\<lparr>rq_now := t\<rparr>) of
        Inl e \<Rightarrow> None
      | Inr p \<Rightarrow> (case pg_next_cursor p of
          None \<Rightarrow> Some [p]
        | Some c \<Rightarrow> map_option ((#) p) (follow_pages env settings db (rq\<lparr>rq_cursor := Some c\<rparr>) ts)))"

text \<open>What the program keeps while a client reads: the rows have unique positions and UTF-8 texts.\<close>

definition delta_session ::
    "delta_env \<Rightarrow> sql_db \<Rightarrow> session_role \<Rightarrow> delta_request \<Rightarrow> int \<Rightarrow> int \<Rightarrow> bool" where
  "delta_session env db role rq after through \<longleftrightarrow>
     (let rows = delta_union env db (rq_scope db role rq) after through in
      rq_role rq = Some role \<and> rq_session_token rq \<noteq> []
      \<and> rq_visibility rq \<noteq> [] \<and> ascii_text (rq_visibility rq)
      \<and> utf8_ok (cursor_binding (de_cursor env) (rq_organization rq) (rq_user rq))
      \<and> metadata_int db (rq_organization rq) ''min_available_version'' \<le> after
      \<and> list_all (\<lambda>r. marker_ok (row_marker r)) rows
      \<and> distinct_positions env rows \<and> batch_stable env db role rq rows)"

definition accepted :: "delta_env \<Rightarrow> sql_db \<Rightarrow> delta_request \<Rightarrow> delta_state \<Rightarrow> bool" where
  "accepted env db rq st \<longleftrightarrow> page_position env db rq = Inr st \<and> same_visibility rq st = Inr True"

lemma py_strip_id: "(\<And>c. c \<in> set s \<Longrightarrow> \<not> py_space c) \<Longrightarrow> py_strip s = s"
proof -
  assume s: "\<And>c. c \<in> set s \<Longrightarrow> \<not> py_space c"
  then have "dropWhile py_space s = s" "dropWhile py_space (rev s) = rev s"
    by (auto simp: dropWhile_eq_self_iff hd_rev)
  then show ?thesis by (simp add: py_strip_def)
qed

lemma cursor_text:
  "py_strip (encode_delta_cursor cenv key org user expires st) = encode_delta_cursor cenv key org user expires st"
  "encode_delta_cursor cenv key org user expires st \<noteq> []"
proof -
  have "\<not> py_space (CHR ''.'')" by (simp add: py_space_def)
  then show "py_strip (encode_delta_cursor cenv key org user expires st) = encode_delta_cursor cenv key org user expires st"
    using b64_bare_not_blank
    by (intro py_strip_id) (auto simp: encode_delta_cursor_def signed_text_def cursor_body_def b64encode_bare)
qed (simp add: encode_delta_cursor_def signed_text_def)

lemma page_projection_request [simp]:
  "page_projection env db role (rq\<lparr>rq_now := t\<rparr>) = page_projection env db role rq"
  "page_projection env db role (rq\<lparr>rq_cursor := c\<rparr>) = page_projection env db role rq"
  by (rule ext, rule ext, simp add: page_projection_def)+

lemma solo_projection_request [simp]:
  "solo_projection env db role (rq\<lparr>rq_now := t\<rparr>) = solo_projection env db role rq"
  "solo_projection env db role (rq\<lparr>rq_cursor := c\<rparr>) = solo_projection env db role rq"
  by (rule ext, simp add: solo_projection_def)+

lemma batch_stable_request [simp]:
  "batch_stable env db role (rq\<lparr>rq_now := t\<rparr>) rows = batch_stable env db role rq rows"
  "batch_stable env db role (rq\<lparr>rq_cursor := c\<rparr>) rows = batch_stable env db role rq rows"
  by (simp_all add: batch_stable_def)

lemma session_request [simp]:
  "delta_session env db role (rq\<lparr>rq_now := t\<rparr>) after through = delta_session env db role rq after through"
  "delta_session env db role (rq\<lparr>rq_cursor := c\<rparr>) after through = delta_session env db role rq after through"
  by (simp_all add: delta_session_def)

lemma page_when_accepted:
  assumes "delta_session env db role rq (ds_after st) through" and "accepted env db rq st"
  shows "read_delta_page env settings db rq = delta_page_at env settings db role rq st"
  using assms by (simp add: read_delta_page_def delta_session_def accepted_def Let_def)

lemma next_accepted:
  assumes session: "delta_session env db role rq (ds_after st) (ds_through st)"
    and r: "r \<in> set (delta_union env db (rq_scope db role rq) (ds_after st) (ds_through st))"
    and now: "now \<le> expires"
  shows "accepted env db (rq\<lparr>rq_cursor := Some (encode_delta_cursor (de_cursor env) (rq_session_token rq)
      (rq_organization rq) (rq_user rq) expires (next_state rq st r)), rq_now := now\<rparr>) (next_state rq st r)"
proof -
  have ok: "marker_ok (row_marker r)" "utf8_ok (rq_visibility rq)"
    using session r by (auto simp: delta_session_def Let_def list_all_iff ascii_text_def intro!: utf8_ok_ascii)
  have "state_ok (next_state rq st r)" using ok by (simp add: state_ok_def next_state_def)
  then have "decode_delta_cursor (de_cursor env) (rq_session_token rq) (rq_organization rq) (rq_user rq) now
      (encode_delta_cursor (de_cursor env) (rq_session_token rq) (rq_organization rq) (rq_user rq) expires (next_state rq st r))
    = Inr (next_state rq st r)"
    using session now by (subst read_cursor) (auto simp: delta_session_def Let_def)
  then show ?thesis
    using session
    by (simp add: accepted_def page_position_def cursor_text same_visibility_def next_state_def lift_raise_def
        compare_digest_def delta_session_def Let_def)
qed

text \<open>The window still to be read at a state.\<close>

abbreviation unread :: "delta_env \<Rightarrow> sql_db \<Rightarrow> session_role \<Rightarrow> delta_request \<Rightarrow> delta_state \<Rightarrow> delta_row list" where
  "unread env db role rq st \<equiv>
     delta_window env db (rq_scope db role rq) (ds_after st) (ds_through st) (ds_marker st)"

lemma page_step:
  assumes session: "delta_session env db role rq (ds_after st) (ds_through st)"
    and accepted: "accepted env db (rq\<lparr>rq_now := t\<rparr>) st"
    and page: "read_delta_page env settings db (rq\<lparr>rq_now := t\<rparr>) = Inr p"
  obtains seen rest where
    "unread env db role rq st = seen @ rest"
    "pg_entries p = List.map_filter (solo_projection env db role rq) seen"
    "pg_next_cursor p = None \<Longrightarrow> rest = [] \<and> pg_sync_version p = Some (ds_through st)"
    "\<And>c. pg_next_cursor p = Some c \<Longrightarrow> \<exists>st'. seen \<noteq> [] \<and> ds_after st' = ds_after st \<and> ds_through st' = ds_through st
       \<and> unread env db role rq st' = rest \<and> (\<forall>t' \<le> t + 60. accepted env db (rq\<lparr>rq_cursor := Some c, rq_now := t'\<rparr>) st')"
proof -
  note rows = session[unfolded delta_session_def Let_def]
  let ?rq = "rq\<lparr>rq_now := t\<rparr>"
  have "delta_page_at env settings db role ?rq st = Inr p"
    using page page_when_accepted[of env db role ?rq st "ds_through st"] session accepted by simp
  then obtain seen rest where w: "unread env db role ?rq st = seen @ rest"
      "pg_entries p = List.map_filter (solo_projection env db role ?rq) seen"
      "pg_next_cursor p = None \<Longrightarrow> rest = [] \<and> pg_sync_version p = Some (ds_through st)"
      "\<And>c. pg_next_cursor p = Some c \<Longrightarrow> seen \<noteq> [] \<and> c = encode_delta_cursor (de_cursor env) (rq_session_token ?rq)
        (rq_organization ?rq) (rq_user ?rq) (rq_now ?rq + cursor_ttl settings) (next_state ?rq st (last seen))"
    by (rule page_at_split) (use rows in auto)
  show thesis
  proof (rule that)
    show "unread env db role rq st = seen @ rest" using w(1) by simp
    show "pg_entries p = List.map_filter (solo_projection env db role rq) seen" using w(2) by simp
    show "pg_next_cursor p = None \<Longrightarrow> rest = [] \<and> pg_sync_version p = Some (ds_through st)" by (rule w(3))
    fix c assume "pg_next_cursor p = Some c"
    note c = w(4)[OF this]
    have "last seen \<in> set (seen @ rest)" using c by simp
    also have "seen @ rest = unread env db role rq st" using w(1) by simp
    finally have "last seen \<in> set (delta_union env db (rq_scope db role rq) (ds_after st) (ds_through st))"
      by (rule subsetD[OF window_subset])
    then have "accepted env db (rq\<lparr>rq_cursor := Some c, rq_now := t'\<rparr>) (next_state rq st (last seen))" if "t' \<le> t + 60" for t'
      using c that settings_bounds(5)[of settings] next_accepted[OF session, of "last seen" t' "t + cursor_ttl settings"]
      by (simp add: next_state_def)
    moreover have "unread env db role rq (next_state rq st (last seen)) = rest"
      using rows w(1) c by (simp add: next_state_def) (rule window_after, auto)
    ultimately show "\<exists>st'. seen \<noteq> [] \<and> ds_after st' = ds_after st \<and> ds_through st' = ds_through st
       \<and> unread env db role rq st' = rest \<and> (\<forall>t' \<le> t + 60. accepted env db (rq\<lparr>rq_cursor := Some c, rq_now := t'\<rparr>) st')"
      using c by (intro exI[of _ "next_state rq st (last seen)"]) (simp add: next_state_def)
  qed
qed

lemma follow_pages_window:
  assumes "delta_session env db role rq (ds_after st) (ds_through st)"
    and "ts \<noteq> []" "accepted env db (rq\<lparr>rq_now := hd ts\<rparr>) st"
    and "successively (\<lambda>t t'. t' \<le> t + 60) ts"
    and "follow_pages env settings db rq ts = Some ps"
  shows "concat (map pg_entries ps) = List.map_filter (solo_projection env db role rq) (unread env db role rq st)
    \<and> ps \<noteq> [] \<and> pg_sync_version (last ps) = Some (ds_through st)"
  using assms
proof (induction ts arbitrary: rq st ps)
  case (Cons t ts)
  obtain p where p: "read_delta_page env settings db (rq\<lparr>rq_now := t\<rparr>) = Inr p"
    using Cons.prems(5) by (auto split: sum.splits)
  have acc: "accepted env db (rq\<lparr>rq_now := t\<rparr>) st" using Cons.prems(3) by simp
  obtain seen rest where w: "unread env db role rq st = seen @ rest"
      "pg_entries p = List.map_filter (solo_projection env db role rq) seen"
      "pg_next_cursor p = None \<Longrightarrow> rest = [] \<and> pg_sync_version p = Some (ds_through st)"
      "\<And>c. pg_next_cursor p = Some c \<Longrightarrow> \<exists>st'. seen \<noteq> [] \<and> ds_after st' = ds_after st \<and> ds_through st' = ds_through st
       \<and> unread env db role rq st' = rest \<and> (\<forall>t' \<le> t + 60. accepted env db (rq\<lparr>rq_cursor := Some c, rq_now := t'\<rparr>) st')"
    using page_step[OF Cons.prems(1) acc p] by metis
  show ?case
  proof (cases "pg_next_cursor p")
    case None
    then show ?thesis using Cons.prems(5) p w by auto
  next
    case (Some c)
    obtain qs where qs: "follow_pages env settings db (rq\<lparr>rq_cursor := Some c\<rparr>) ts = Some qs" "ps = p # qs"
      using Cons.prems(5) p Some by auto
    then obtain t' ts' where ts: "ts = t' # ts'" by (cases ts) auto
    obtain st' where st': "ds_after st' = ds_after st" "ds_through st' = ds_through st" "unread env db role rq st' = rest"
        "\<forall>t' \<le> t + 60. accepted env db (rq\<lparr>rq_cursor := Some c, rq_now := t'\<rparr>) st'"
      using w(4)[OF Some] by blast
    have "concat (map pg_entries qs) = List.map_filter (solo_projection env db role rq) rest
        \<and> qs \<noteq> [] \<and> pg_sync_version (last qs) = Some (ds_through st)"
      using Cons.IH[of "rq\<lparr>rq_cursor := Some c\<rparr>" st' qs] Cons.prems(1,4) qs(1) st' by (simp add: ts)
    then show ?thesis using w(1,2) qs(2) by (simp add: map_filter_append)
  qed
qed simp

section \<open>Reading ends\<close>

text \<open>Every record of the window fits in a page of its own.\<close>

definition records_fit ::
    "delta_env \<Rightarrow> delta_settings \<Rightarrow> sql_db \<Rightarrow> session_role \<Rightarrow> delta_request \<Rightarrow> delta_row list \<Rightarrow> bool" where
  "records_fit env settings db role rq rows \<longleftrightarrow>
     list_all (\<lambda>r. case solo_projection env db role rq r of None \<Rightarrow> True | Some e \<Rightarrow> 256 + entry_size e \<le> byte_limit settings) rows"

lemma page_at_total:
  assumes positions: "distinct_positions env (delta_union env db (rq_scope db role rq) (ds_after st) (ds_through st))"
    and stable: "batch_stable env db role rq (delta_union env db (rq_scope db role rq) (ds_after st) (ds_through st))"
    and fit: "records_fit env settings db role rq
      (delta_window env db (rq_scope db role rq) (ds_after st) (ds_through st) (ds_marker st))"
  shows "\<exists>p. delta_page_at env settings db role rq st = Inr p"
proof -
  let ?w = "delta_window env db (rq_scope db role rq) (ds_after st) (ds_through st) (ds_marker st)"
  define cands where "cands = take (candidate_limit settings) ?w"
  have sub: "set cands \<subseteq> set ?w" by (simp add: cands_def set_take_subset)
  have "distinct cands" using window_distinct[OF positions] by (simp add: cands_def)
  moreover have "set cands \<subseteq> set (delta_union env db (rq_scope db role rq) (ds_after st) (ds_through st))"
    using sub window_subset by blast
  ultimately have same: "page_projection env db role rq cands r = solo_projection env db role rq r" if "r \<in> set cands" for r
    using stable that unfolding batch_stable_def by blast
  have "\<exists>res. fill_page (record_limit settings) (byte_limit settings) (page_projection env db role rq cands) cands (ds_marker st) [] 256 = Inr res"
  proof (rule fill_page_total)
    fix r e assume r: "r \<in> set cands" "page_projection env db role rq cands r = Some e"
    then show "256 + entry_size e \<le> byte_limit settings"
      using fit sub same[OF r(1)] by (auto simp: records_fit_def list_all_iff split: option.splits)
  qed (use settings_bounds(1)[of settings] in simp_all)
  then obtain es mk stop where "fill_page (record_limit settings) (byte_limit settings)
      (page_projection env db role rq cands) cands (ds_marker st) [] 256 = Inr (es, mk, stop)" by auto
  then show ?thesis
    unfolding delta_page_at_def load_candidates_window cands_def[symmetric] Let_def by simp
qed

lemma follow_pages_total:
  assumes "delta_session env db role rq (ds_after st) (ds_through st)"
    and "accepted env db (rq\<lparr>rq_now := hd ts\<rparr>) st"
    and "successively (\<lambda>t t'. t' \<le> t + 60) ts"
    and "records_fit env settings db role rq (unread env db role rq st)"
    and "length (unread env db role rq st) < length ts"
  shows "\<exists>ps. follow_pages env settings db rq ts = Some ps \<and> length ps \<le> Suc (length (unread env db role rq st))"
  using assms
proof (induction ts arbitrary: rq st)
  case (Cons t ts)
  note rows = Cons.prems(1)[unfolded delta_session_def Let_def]
  have acc: "accepted env db (rq\<lparr>rq_now := t\<rparr>) st" using Cons.prems(2) by simp
  have "\<exists>p. delta_page_at env settings db role (rq\<lparr>rq_now := t\<rparr>) st = Inr p"
    using rows Cons.prems(4) by (intro page_at_total) (simp_all add: records_fit_def)
  then obtain p where p: "read_delta_page env settings db (rq\<lparr>rq_now := t\<rparr>) = Inr p"
    using page_when_accepted[of env db role "rq\<lparr>rq_now := t\<rparr>" st "ds_through st"] Cons.prems(1) acc by auto
  obtain seen rest where w: "unread env db role rq st = seen @ rest"
      "\<And>c. pg_next_cursor p = Some c \<Longrightarrow> \<exists>st'. seen \<noteq> [] \<and> ds_after st' = ds_after st \<and> ds_through st' = ds_through st
       \<and> unread env db role rq st' = rest \<and> (\<forall>t' \<le> t + 60. accepted env db (rq\<lparr>rq_cursor := Some c, rq_now := t'\<rparr>) st')"
    using page_step[OF Cons.prems(1) acc p] by metis
  show ?case
  proof (cases "pg_next_cursor p")
    case None
    then show ?thesis using p by simp
  next
    case (Some c)
    obtain st' where st': "seen \<noteq> []" "ds_after st' = ds_after st" "ds_through st' = ds_through st"
        "unread env db role rq st' = rest"
        "\<forall>t' \<le> t + 60. accepted env db (rq\<lparr>rq_cursor := Some c, rq_now := t'\<rparr>) st'"
      using w(2)[OF Some] by blast
    have len: "length rest < length (unread env db role rq st)" using w(1) st'(1) by simp
    then obtain t' ts' where ts: "ts = t' # ts'" using Cons.prems(5) by (cases ts) auto
    have "records_fit env settings db role rq rest" using Cons.prems(4) w(1) by (simp add: records_fit_def)
    then obtain qs where "follow_pages env settings db (rq\<lparr>rq_cursor := Some c\<rparr>) ts = Some qs"
        "length qs \<le> Suc (length rest)"
      using Cons.IH[of "rq\<lparr>rq_cursor := Some c\<rparr>" st'] Cons.prems(1,3,5) st' len by (auto simp: ts records_fit_def)
    then show ?thesis using p Some len by auto
  qed
qed simp



text \<open>
  A page is bounded whatever the request and the rows: at most the configured number of
  entries (never more than 1000), and together with the 256 bytes reserved for the envelope at most
  the configured bytes of entries (never more than 4 MiB).
\<close>

lemma page_is_bounded:
  assumes "read_delta_page env settings db rq = Inr p"
  shows "int (length (pg_entries p)) \<le> record_limit settings
    \<and> 256 + sum_list (map entry_size (pg_entries p)) \<le> byte_limit settings
    \<and> record_limit settings \<le> 1000 \<and> byte_limit settings \<le> 4194304"
proof -
  obtain role st where at: "delta_page_at env settings db role rq st = Inr p"
    using assms by (auto simp: read_delta_page_def res_simps split: option.splits)
  then obtain rows P es mk stop where
      fill: "fill_page (record_limit settings) (byte_limit settings) P rows (ds_marker st) [] 256 = Inr (es, mk, stop)"
      and "pg_entries p = es"
    unfolding delta_page_at_def Let_def by (auto simp: res_simps page_payload_def)
  then show ?thesis using fill_page_bounds[OF fill] settings_bounds[of settings] by simp
qed

end
