(* ===== verification/Delta_Batch.thy ===== *)
theory Delta_Batch
  imports Delta_Laws
begin

text \<open>
  A page is projected in batches: the children, the read policy and the deletion hints are
  computed for all its rows at once.  Where every record has one change in the window, the batch
  gives each row what it would get alone, so where the pages are cut does not matter.
\<close>

section \<open>Operations on groups\<close>

lemma put_back_map:
  "put_back p (map g (map snd (filter p xs))) xs = map (\<lambda>e. if p e then (fst e, g (snd e)) else e) xs"
  by (induction xs) auto

lemma change_group_map:
  assumes "f (map snd (filter p xs)) = map g (map snd (filter p xs))"
  shows "change_group p f xs = map (\<lambda>e. if p e then (fst e, g (snd e)) else e) xs"
  using put_back_map[of p g xs] by (simp add: change_group_def assms)

lemma fold_change_groups:
  assumes "distinct ts"
    and own: "\<And>t e. p t e \<Longrightarrow> key (fst e) = t"
    and "\<And>t. t \<in> set ts \<Longrightarrow> f t (map snd (filter (p t) xs)) = map (g t) (map snd (filter (p t) xs))"
  shows "fold (\<lambda>t. change_group (p t) (f t)) ts xs
    = map (\<lambda>e. if key (fst e) \<in> set ts \<and> p (key (fst e)) e then (fst e, g (key (fst e)) (snd e)) else e) xs"
  using assms(1,3)
proof (induction ts arbitrary: xs)
  case Nil
  then show ?case by simp
next
  case (Cons t ts)
  let ?one = "\<lambda>e. if p t e then (fst e, g t (snd e)) else e"
  have first: "change_group (p t) (f t) xs = map ?one xs" using Cons.prems(2) by (intro change_group_map) simp
  have same: "map snd (filter (p t') (map ?one xs)) = map snd (filter (p t') xs)" if "t' \<in> set ts" for t'
  proof -
    have ne: "t' \<noteq> t" using that Cons.prems(1) by auto
    have "p t' (?one e) \<longleftrightarrow> p t' e" "p t' e \<Longrightarrow> ?one e = e" for e
      using ne own[of t e] own[of t' e] own[of t' "(fst e, g t (snd e))"] by auto
    then show ?thesis by (induction xs) auto
  qed
  have "fold (\<lambda>t. change_group (p t) (f t)) ts (map ?one xs)
      = map (\<lambda>e. if key (fst e) \<in> set ts \<and> p (key (fst e)) e then (fst e, g (key (fst e)) (snd e)) else e) (map ?one xs)"
    using Cons.prems by (intro Cons.IH) (auto simp: same)
  also have "\<dots> = map (\<lambda>e. if key (fst e) \<in> set (t # ts) \<and> p (key (fst e)) e then (fst e, g (key (fst e)) (snd e)) else e) xs"
    using Cons.prems(1) own by (auto dest: own)
  finally show ?case by (simp add: first)
qed

lemma map_of_map_values:
  "map_of (map (\<lambda>e. (fst e, h (fst e) (snd e))) xs) k = map_option (h k) (map_of xs k)"
  by (induction xs) auto

section \<open>Each operation, item by item\<close>

definition text_id :: "pval \<Rightarrow> bool" where
  "text_id x \<longleftrightarrow> (\<exists>s. dget x ''id'' = PStr s \<and> s \<noteq> [])"

lemma expert_rows_own:
  assumes "s \<in> set ids"
  shows "filter (\<lambda>r. dget r ''goi_thau_id'' = PStr s) (expert_rows db organization_id ids)
      = filter (\<lambda>r. dget r ''goi_thau_id'' = PStr s) (expert_rows db organization_id [s])"
  using assms by (auto simp: expert_rows_def sql_in_def intro!: filter_cong)

lemma attach_experts_map:
  assumes "list_all text_id items"
  shows "attach_package_expert_relations db organization_id items
    = map (\<lambda>x. with_experts (filter (\<lambda>r. dget r ''goi_thau_id'' = dget x ''id'')
        (expert_rows db organization_id [py_str (dget x ''id'')])) x) items"
  unfolding attach_package_expert_relations_def Let_def
proof (rule map_cong[OF refl])
  fix x assume x: "x \<in> set items"
  with assms obtain s where s: "dget x ''id'' = PStr s" "s \<noteq> []" by (auto simp: list_all_iff text_id_def)
  then have "s \<in> set (map (\<lambda>i. py_str (dget i ''id'')) (filter (\<lambda>i. truthy (dget i ''id'')) items))"
    using x by force
  from expert_rows_own[OF this] show "with_experts (filter (\<lambda>r. dget r ''goi_thau_id'' = dget x ''id'')
      (expert_rows db organization_id (map (\<lambda>i. py_str (dget i ''id'')) (filter (\<lambda>i. truthy (dget i ''id'')) items)))) x
    = with_experts (filter (\<lambda>r. dget r ''goi_thau_id'' = dget x ''id'')
        (expert_rows db organization_id [py_str (dget x ''id'')])) x"
    unfolding s(1) by simp
qed

lemma with_experts_id [simp]: "dget (with_experts own x) ''id'' = dget x ''id''" "is_dict (with_experts own x)"
  by (simp_all add: with_experts_def Let_def)

text \<open>
  What is relied on of the mapper: an item keeps the identifier of its row, and the children of an
  item do not depend on the other items they are read with.
\<close>

definition mapper_ok :: "delta_env \<Rightarrow> bool" where
  "mapper_ok env \<longleftrightarrow>
     (\<forall>t raw. dget (de_map env t raw) ''id'' = dget raw ''id'')
     \<and> (\<exists>child. (\<forall>db org t items. de_children env db org t items = map (child db org t) items)
          \<and> (\<forall>db org t x. dget (child db org t x) ''id'' = dget x ''id''))"

definition attach1 :: "delta_env \<Rightarrow> sql_db \<Rightarrow> ident \<Rightarrow> string \<Rightarrow> pval \<Rightarrow> pval" where
  "attach1 env db org t x = hd (attach_children env db org t [x])"

lemma attach_children_map:
  assumes "mapper_ok env" and "list_all text_id items"
  shows "attach_children env db org t items = map (attach1 env db org t) items"
    and "x \<in> set items \<Longrightarrow> dget (attach1 env db org t x) ''id'' = dget x ''id''"
proof -
  obtain child where child: "\<And>db org t items. de_children env db org t items = map (child db org t) items"
      "\<And>db org t x. dget (child db org t x) ''id'' = dget x ''id''"
    using assms(1) by (auto simp: mapper_ok_def)
  define c where "c = (if t \<in> set CHILD_BEARING_TABLES then child db org t else (\<lambda>x. x))"
  define g where "g x = (if t = ''goi_thau'' then with_experts (filter (\<lambda>r. dget r ''goi_thau_id'' = dget (c x) ''id'')
        (expert_rows db org [py_str (dget (c x) ''id'')])) (c x) else c x)" for x
  have cid: "dget (c x) ''id'' = dget x ''id''" for x by (simp add: c_def child)
  have c: "(if t \<in> set CHILD_BEARING_TABLES then de_children env db org t xs else xs) = map c xs" for xs
    by (simp add: c_def child)
  have texts: "list_all text_id (map c xs)" if "list_all text_id xs" for xs
    using that by (simp add: list_all_iff text_id_def cid)
  have all: "attach_children env db org t xs = map g xs" if "list_all text_id xs" for xs
    using attach_experts_map[OF texts[OF that]] by (simp add: attach_children_def Let_def c g_def)
  have one: "attach1 env db org t x = g x" if "x \<in> set items" for x
    using all[of "[x]"] that assms(2) by (simp add: attach1_def list_all_iff)
  show "attach_children env db org t items = map (attach1 env db org t) items"
    using all[OF assms(2)] one by simp
  show "x \<in> set items \<Longrightarrow> dget (attach1 env db org t x) ''id'' = dget x ''id''"
    using one by (simp add: g_def cid)
qed

lemma ownership_map:
  assumes "list_all text_id items" and "distinct (map record_text_id items)"
  shows "attach_delete_ownership flt db org user t items
    = map (\<lambda>x. hd (attach_delete_ownership flt db org user t [x])) items"
proof (cases "t \<in> set CREATOR_DELETE_TABLES \<and> items \<noteq> []")
  case True
  have "record_text_id x \<in> set (load_creator_delete_ids flt db org user t items)
      \<longleftrightarrow> record_text_id x \<in> set (load_creator_delete_ids flt db org user t [x])" if "x \<in> set items" for x
  proof -
    have "r = x" if "r \<in> set items" "record_text_id x = record_text_id r" for r
      using assms(2) that \<open>x \<in> set items\<close> by (auto simp: distinct_map inj_on_def)
    then show ?thesis unfolding owned_iff using \<open>x \<in> set items\<close> by auto
  qed
  then show ?thesis using True by (auto simp: attach_delete_ownership_def Let_def)
qed (auto simp: attach_delete_ownership_def)

lemma ownership_id [simp]: "dget (hd (attach_delete_ownership flt db org user t [x])) ''id'' = dget x ''id''"
  by (simp add: attach_delete_ownership_def Let_def)

section \<open>The prepared items\<close>

definition row_record :: "delta_row \<Rightarrow> string \<times> string" where
  "row_record r = (table_of_key (dr_table_key r), dr_record_id r)"

text \<open>Rows of synchronised tables, one change for each record, whose item has the identifier of the row.\<close>

definition one_change_each :: "delta_env \<Rightarrow> delta_row list \<Rightarrow> bool" where
  "one_change_each env rows \<longleftrightarrow> distinct (map row_record rows)
     \<and> list_all (\<lambda>r. dr_table_key r \<in> fst ` set TABLE_KEYS \<and> dr_record_id r \<noteq> []
          \<and> dget (bare_item env (table_of_key (dr_table_key r)) r) ''id'' = PStr (dr_record_id r)) rows"

lemma upsert_item_bare:
  "upsert_item env r = Some e \<Longrightarrow> e = (row_record r, bare_item env (table_of_key (dr_table_key r)) r)"
  by (auto simp: upsert_item_def row_record_def bare_item_def raw_record_def Let_def split: if_splits)

lemma map_of_map_filter_key:
  assumes "distinct (map k xs)" and "\<And>x e. x \<in> set xs \<Longrightarrow> f x = Some e \<Longrightarrow> fst e = k x" and "x \<in> set xs"
  shows "map_of (rev (List.map_filter f xs)) (k x) = map_option snd (f x)"
proof -
  have dist: "distinct (map fst (List.map_filter f xs))"
    using assms(1,2)
  proof (induction xs)
    case (Cons y ys)
    then have "k y \<notin> fst ` set (List.map_filter f ys)"
      by (fastforce simp: List.map_filter_def)
    with Cons show ?case by (cases "f y") (auto simp: List.map_filter_simps, force)
  qed (simp add: List.map_filter_simps)
  show ?thesis
  proof (cases "f x")
    case (Some e)
    then have "e \<in> set (List.map_filter f xs)" "fst e = k x" using assms(2)[OF assms(3) Some] assms(3) Some by (force simp: List.map_filter_def)+
    then have "(k x, snd e) \<in> set (rev (List.map_filter f xs))" by (metis prod.collapse set_rev)
    then have "map_of (rev (List.map_filter f xs)) (k x) = Some (snd e)"
      using dist by (intro map_of_is_SomeI) (simp_all flip: rev_map)
    with Some show ?thesis by simp
  next
    case None
    have "k x \<notin> fst ` set (List.map_filter f xs)"
    proof
      assume "k x \<in> fst ` set (List.map_filter f xs)"
      then obtain y e where "y \<in> set xs" "f y = Some e" "k x = k y" using assms(2) by (force simp: List.map_filter_def)
      then show False using assms(1,3) None by (auto simp: distinct_map inj_on_def)
    qed
    with None show ?thesis by (simp add: map_of_eq_None_iff)
  qed
qed

lemma upsert_items:
  assumes "one_change_each env rows"
  shows "list_all (\<lambda>e. snd (fst e) \<noteq> [] \<and> dget (snd e) ''id'' = PStr (snd (fst e)) \<and> fst (fst e) \<in> snd ` set TABLE_KEYS)
      (List.map_filter (upsert_item env) rows)"
  using assms
  by (auto simp: one_change_each_def list_all_iff List.map_filter_def row_record_def upsert_item_def
      bare_item_def raw_record_def Let_def split: if_splits)

lemma prepare_upsert_items_map:
  assumes "mapper_ok env" and "one_change_each env rows"
  shows "prepare_upsert_items env db org rows
    = map (\<lambda>e. (fst e, attach1 env db org (fst (fst e)) (snd e))) (List.map_filter (upsert_item env) rows)"
proof -
  let ?u = "List.map_filter (upsert_item env) rows"
  note items = upsert_items[OF assms(2)]
  have "prepare_upsert_items env db org rows
      = map (\<lambda>e. if fst (fst e) \<in> set (remdups (map snd TABLE_KEYS)) \<and> fst (fst e) = fst (fst e)
          then (fst e, attach1 env db org (fst (fst e)) (snd e)) else e) ?u"
    unfolding prepare_upsert_items_def
  proof (rule fold_change_groups)
    fix t
    have "list_all text_id (map snd (filter (\<lambda>e. fst (fst e) = t) ?u))"
      using items by (auto simp: list_all_iff text_id_def)
    then show "attach_children env db org t (map snd (filter (\<lambda>e. fst (fst e) = t) ?u))
        = map (attach1 env db org t) (map snd (filter (\<lambda>e. fst (fst e) = t) ?u))"
      by (rule attach_children_map(1)[OF assms(1)])
  qed simp_all
  also have "\<dots> = map (\<lambda>e. (fst e, attach1 env db org (fst (fst e)) (snd e))) ?u"
    using items by (auto simp: list_all_iff)
  finally show ?thesis .
qed

lemma attach1_id: "mapper_ok env \<Longrightarrow> dget x ''id'' = PStr i \<Longrightarrow> i \<noteq> [] \<Longrightarrow> dget (attach1 env db org t x) ''id'' = PStr i"
  using attach_children_map(2)[of env "[x]" x] by (simp add: text_id_def)

lemma prepared_items:
  assumes "mapper_ok env" and "one_change_each env rows"
  shows "list_all (\<lambda>e. snd (fst e) \<noteq> [] \<and> dget (snd e) ''id'' = PStr (snd (fst e))) (prepare_upsert_items env db org rows)"
    and "distinct (map fst (prepare_upsert_items env db org rows))"
proof -
  show "list_all (\<lambda>e. snd (fst e) \<noteq> [] \<and> dget (snd e) ''id'' = PStr (snd (fst e))) (prepare_upsert_items env db org rows)"
    unfolding prepare_upsert_items_map[OF assms] using upsert_items[OF assms(2)] attach1_id[OF assms(1)]
    by (simp add: list_all_iff)
  have "map fst (List.map_filter (upsert_item env) rows) = map row_record (filter (\<lambda>r. upsert_item env r \<noteq> None) rows)"
    by (induction rows) (auto simp: List.map_filter_simps dest: upsert_item_bare split: option.splits)
  then show "distinct (map fst (prepare_upsert_items env db org rows))"
    using assms(2) unfolding prepare_upsert_items_map[OF assms]
    by (simp add: o_def one_change_each_def distinct_map_filter)
qed

lemma prepared_item_row:
  assumes "mapper_ok env" and "one_change_each env rows" and "r \<in> set rows"
  shows "prepared_item (prepare_upsert_items env db org rows) (table_of_key (dr_table_key r)) (dr_record_id r)
    = map_option (\<lambda>e. attach1 env db org (table_of_key (dr_table_key r)) (snd e)) (upsert_item env r)"
proof -
  have "map_of (rev (List.map_filter (upsert_item env) rows)) (row_record r) = map_option snd (upsert_item env r)"
    using assms(2,3) by (intro map_of_map_filter_key) (auto simp: one_change_each_def dest: upsert_item_bare)
  then show ?thesis
    unfolding prepared_item_def prepare_upsert_items_map[OF assms(1,2)] rev_map
    using map_of_map_values[of "\<lambda>k v. attach1 env db org (fst k) v" "rev (List.map_filter (upsert_item env) rows)" "row_record r"]
    by (simp add: row_record_def option.map_comp o_def)
qed

section \<open>The batch is the row\<close>

lemma record_of_row:
  assumes "one_change_each env rows" "r \<in> set rows" "r' \<in> set rows"
    and "table_of_key (dr_table_key r') = table_of_key (dr_table_key r)" "dr_record_id r' = dr_record_id r"
  shows "r' = r"
  using assms by (auto simp: one_change_each_def distinct_map inj_on_def row_record_def)

lemma authorization_item_id:
  assumes "mapper_ok env" "one_change_each env rows" "r \<in> set rows"
  shows "dget (authorization_item env (prepare_upsert_items env db org rows) (table_of_key (dr_table_key r)) r) ''id''
    = PStr (dr_record_id r)"
proof (cases "upsert_item env r")
  case None
  then show ?thesis using prepared_item_row[OF assms] assms(2,3)
    by (simp add: authorization_item_def one_change_each_def list_all_iff)
next
  case (Some e)
  have "dget (bare_item env (table_of_key (dr_table_key r)) r) ''id'' = PStr (dr_record_id r)" "dr_record_id r \<noteq> []"
    using assms(2,3) by (auto simp: one_change_each_def list_all_iff)
  then show ?thesis using prepared_item_row[OF assms] Some upsert_item_bare[OF Some] attach1_id[OF assms(1)]
    by (simp add: authorization_item_def)
qed

lemma allowed_row:
  fixes db :: sql_db and org :: ident
  assumes "mapper_ok env" "one_change_each env rows" "r \<in> set rows"
  defines "t \<equiv> table_of_key (dr_table_key r)"
  defines "k \<equiv> key_of_table t (dr_table_key r)"
  defines "prepared \<equiv> prepare_upsert_items env db org rows"
  defines "x \<equiv> authorization_item env prepared t r"
  shows "dr_record_id r \<in> set (allowed_ids env db role user org rows prepared t k)
    \<longleftrightarrow> k \<in> fst ` set TABLE_KEYS \<and> is_dict x \<and> readable db role user org k t x"
proof -
  have ident: "dget (authorization_item env prepared (table_of_key (dr_table_key r')) r') ''id'' = PStr (dr_record_id r')"
    if "r' \<in> set rows" for r'
    unfolding prepared_def using that by (rule authorization_item_id[OF assms(1,2)])
  have "dr_record_id r \<in> set (allowed_ids env db role user org rows prepared t k) \<longleftrightarrow>
      k \<in> fst ` set TABLE_KEYS \<and> (\<exists>r' \<in> set rows. table_of_key (dr_table_key r') = t \<and> key_of_table t (dr_table_key r') = k
        \<and> is_dict (authorization_item env prepared t r') \<and> readable db role user org k t (authorization_item env prepared t r')
        \<and> dr_record_id r' = dr_record_id r)"
    using ident unfolding allowed_ids_def filter_items_pointwise Let_def by (force simp: image_iff)
  also have "\<dots> \<longleftrightarrow> k \<in> fst ` set TABLE_KEYS \<and> is_dict x \<and> readable db role user org k t x"
    using record_of_row[OF assms(2,3)] assms(3) unfolding x_def t_def k_def by blast
  finally show ?thesis .
qed

lemma distinct_second:
  assumes "distinct (map fst xs)" and "\<And>e. e \<in> set xs \<Longrightarrow> fst (fst e) = t"
  shows "distinct (map (\<lambda>e. snd (fst e)) xs)"
proof -
  have "distinct (map snd (map fst xs))"
    using assms unfolding distinct_map[of snd] by (auto intro!: inj_onI prod_eqI, blast)
  then show ?thesis by (simp add: o_def)
qed

lemma owned_item_row:
  assumes "mapper_ok env" "one_change_each env rows" "r \<in> set rows"
  defines "t \<equiv> table_of_key (dr_table_key r)"
  shows "prepared_item (attach_upsert_delete_ownership env db org user auth (prepare_upsert_items env db org rows)) t (dr_record_id r)
    = map_option (\<lambda>x. if allows auth t (key_of_table t t) x
        then hd (attach_delete_ownership (ce_float (de_cursor env)) db org user t [x]) else x)
      (prepared_item (prepare_upsert_items env db org rows) t (dr_record_id r))"
proof -
  let ?p = "prepare_upsert_items env db org rows"
  let ?own = "\<lambda>t x. hd (attach_delete_ownership (ce_float (de_cursor env)) db org user t [x])"
  let ?ok = "\<lambda>t e. fst (fst e) = t \<and> allows auth t (key_of_table t t) (snd e)"
  note items = prepared_items[OF assms(1,2), of db org]
  have "attach_upsert_delete_ownership env db org user auth ?p
      = map (\<lambda>e. if fst (fst e) \<in> set (remdups (map (\<lambda>e. fst (fst e)) ?p)) \<and> ?ok (fst (fst e)) e
          then (fst e, ?own (fst (fst e)) (snd e)) else e) ?p"
    unfolding attach_upsert_delete_ownership_def
  proof (rule fold_change_groups)
    fix t
    let ?g = "filter (?ok t) ?p"
    have "list_all text_id (map snd ?g)" using items(1) by (auto simp: list_all_iff text_id_def)
    moreover have "map record_text_id (map snd ?g) = map (\<lambda>e. snd (fst e)) ?g"
      using items(1) by (auto simp: list_all_iff record_text_id_def)
    moreover have "distinct (map (\<lambda>e. snd (fst e)) ?g)"
      by (rule distinct_second[of _ t]) (use items(2) in \<open>simp_all add: distinct_map_filter\<close>)
    ultimately show "attach_delete_ownership (ce_float (de_cursor env)) db org user t (map snd ?g) = map (?own t) (map snd ?g)"
      by (intro ownership_map) (simp_all only:)
  qed auto
  also have "\<dots> = map (\<lambda>e. (fst e, if allows auth (fst (fst e)) (key_of_table (fst (fst e)) (fst (fst e))) (snd e)
      then ?own (fst (fst e)) (snd e) else snd e)) ?p"
    by (intro map_cong refl) auto
  finally have "attach_upsert_delete_ownership env db org user auth ?p
      = map (\<lambda>e. (fst e, (\<lambda>k v. if allows auth (fst k) (key_of_table (fst k) (fst k)) v then ?own (fst k) v else v) (fst e) (snd e))) ?p"
    by simp
  then show ?thesis
    unfolding prepared_item_def
    using map_of_map_values[of "\<lambda>k v. if allows auth (fst k) (key_of_table (fst k) (fst k)) v then ?own (fst k) v else v"
        "rev ?p" "(t, dr_record_id r)"]
    by (simp add: rev_map cong: if_cong)
qed

lemma one_change_subset:
  "one_change_each env rows \<Longrightarrow> set batch \<subseteq> set rows \<Longrightarrow> distinct batch \<Longrightarrow> one_change_each env batch"
  by (auto simp: one_change_each_def list_all_iff distinct_map intro: inj_on_subset)

lemma key_of_payload:
  "dr_table_key r \<in> fst ` set TABLE_KEYS \<Longrightarrow>
     key_of_table (table_of_key (dr_table_key r)) (dr_table_key r) = dr_table_key r
     \<and> key_of_table (table_of_key (dr_table_key r)) (table_of_key (dr_table_key r)) = dr_table_key r"
proof -
  have "list_all (\<lambda>(k, _). key_of_table (table_of_key k) k = k \<and> key_of_table (table_of_key k) (table_of_key k) = k) TABLE_KEYS"
    by code_simp
  then show "dr_table_key r \<in> fst ` set TABLE_KEYS \<Longrightarrow> ?thesis" by (auto simp: list_all_iff)
qed

lemma batch_projection:
  assumes "mapper_ok env" "one_change_each env rows" "r \<in> set rows"
  shows "page_projection env db role rq rows r = solo_projection env db role rq r"
proof -
  let ?t = "table_of_key (dr_table_key r)" and ?k = "dr_table_key r"
  let ?p = "\<lambda>batch. prepare_upsert_items env db (rq_organization rq) batch"
  let ?auth = "\<lambda>batch. allowed_ids env db role (rq_user rq) (rq_organization rq) batch (?p batch)"
  let ?owned = "\<lambda>batch. attach_upsert_delete_ownership env db (rq_organization rq) (rq_user rq) (?auth batch) (?p batch)"
  have solo: "one_change_each env [r]" "r \<in> set [r]" using assms(2,3) by (auto intro: one_change_subset)
  have k: "key_of_table ?t ?k = ?k" "key_of_table ?t ?t = ?k" "?k \<in> fst ` set TABLE_KEYS"
    using key_of_payload[of r] assms(2,3) by (auto simp: one_change_each_def list_all_iff)
  have same: "prepared_item (?p rows) ?t (dr_record_id r) = prepared_item (?p [r]) ?t (dr_record_id r)"
    using prepared_item_row[OF assms] prepared_item_row[OF assms(1) solo] by simp
  then have "authorization_item env (?p rows) ?t r = authorization_item env (?p [r]) ?t r"
    by (simp add: authorization_item_def)
  then have auth: "dr_record_id r \<in> set (?auth rows ?t ?k) \<longleftrightarrow> dr_record_id r \<in> set (?auth [r] ?t ?k)"
    using allowed_row[OF assms, where db = db and org = "rq_organization rq" and role = role and user = "rq_user rq"]
      allowed_row[OF assms(1) solo, where db = db and org = "rq_organization rq" and role = role and user = "rq_user rq"] by (simp add: k)
  have ident: "dget x ''id'' = PStr (dr_record_id r)" if "prepared_item (?p [r]) ?t (dr_record_id r) = Some x" for x
    using authorization_item_id[OF assms(1) solo, of db "rq_organization rq"] that by (simp add: authorization_item_def)
  have allows: "allows (?auth rows) ?t ?k x \<longleftrightarrow> allows (?auth [r]) ?t ?k x" if "dget x ''id'' = PStr (dr_record_id r)" for x
    using that auth by (simp add: allows_def)
  have owned: "prepared_item (?owned rows) ?t (dr_record_id r) = prepared_item (?owned [r]) ?t (dr_record_id r)"
    unfolding owned_item_row[OF assms] owned_item_row[OF assms(1) solo] same
    using ident allows by (cases "prepared_item (?p [r]) ?t (dr_record_id r)") (simp_all add: k)
  have bare: "dget (bare_item env ?t r) ''id'' = PStr (dr_record_id r)" "dr_record_id r \<noteq> []"
    using assms(2,3) by (auto simp: one_change_each_def list_all_iff)
  have final: "dget x ''id'' = PStr (dr_record_id r)" if "prepared_item (?owned [r]) ?t (dr_record_id r) = Some x" for x
    using that ident unfolding owned_item_row[OF assms(1) solo] by (auto split: if_splits)
  have alone: "dget (case attach_children env db (rq_organization rq) ?t [bare_item env ?t r] of
      [] \<Rightarrow> bare_item env ?t r | x # _ \<Rightarrow> x) ''id'' = PStr (dr_record_id r)"
    using attach1_id[OF assms(1) bare] attach_children_map(1)[OF assms(1), of "[bare_item env ?t r]"] bare
    by (simp add: text_id_def)
  show ?thesis
    unfolding page_projection_def solo_projection_def project_candidate_def Let_def owned k(1)
    using allows final alone bare(1) by (cases "prepared_item (?owned [r]) ?t (dr_record_id r)") simp_all
qed

theorem batch_stable_rows:
  "mapper_ok env \<Longrightarrow> one_change_each env rows \<Longrightarrow> batch_stable env db role rq rows"
  using batch_projection one_change_subset unfolding batch_stable_def by blast

end
