(* ===== verification/Delta_Safety.thy ===== *)
theory Delta_Safety
  imports Delta_Batch
begin

text \<open>
  What a page may show: only live rows of the organization that the scope of the user selects and
  the read policy keeps, without the fields that carry secrets; and which tombstones it leaves out.
\<close>

section \<open>No secret leaves\<close>

function no_secrets :: "delta_env \<Rightarrow> pval \<Rightarrow> bool" where
  "no_secrets env (PDict d) = list_all (\<lambda>e. shown_key env (fst e) \<and> no_secrets env (snd e)) d"
| "no_secrets env (PList xs) = list_all (no_secrets env) xs"
| "no_secrets env PNone = True" | "no_secrets env (PBool b) = True" | "no_secrets env (PInt i) = True"
| "no_secrets env (PFloat f t) = True" | "no_secrets env (PStr s) = True"
  by pat_completeness auto
termination
  by (relation "measure (\<lambda>(_, v). size v)") (auto dest: size_pval_members)

lemma project_value_no_secrets: "no_secrets env (project_value env v)"
proof (induction v rule: project_value.induct[of "\<lambda>env v. no_secrets env (project_value env v)"])
  case (1 env d)
  then show ?case by (auto simp: list_all_iff)
next
  case (2 env xs)
  then show ?case by (auto simp: list_all_iff)
qed simp_all

section \<open>Where an entry comes from\<close>

lemma page_entry_projected:
  assumes "read_delta_page env settings db rq = Inr p" and "e \<in> set (pg_entries p)"
  obtains role st batch r where "rq_role rq = Some role" "page_position env db rq = Inr st"
    "batch = load_candidates env db (rq_scope db role rq) (ds_after st) (ds_through st) (ds_marker st) (candidate_limit settings)"
    "r \<in> set batch" "page_projection env db role rq batch r = Some e"
proof -
  obtain role st where role: "rq_role rq = Some role" "page_position env db rq = Inr st"
      and at: "delta_page_at env settings db role rq st = Inr p"
    using assms(1) by (auto simp: read_delta_page_def res_simps split: option.splits)
  define batch where "batch = load_candidates env db (rq_scope db role rq) (ds_after st) (ds_through st) (ds_marker st) (candidate_limit settings)"
  obtain es mk stop where fill: "fill_page (record_limit settings) (byte_limit settings) (page_projection env db role rq batch)
      batch (ds_marker st) [] 256 = Inr (es, mk, stop)" and "pg_entries p = es"
    using at unfolding delta_page_at_def Let_def batch_def by (auto simp: res_simps page_payload_def)
  then obtain seen rest where "batch = seen @ rest" "es = List.map_filter (page_projection env db role rq batch) seen"
    using fill_page_split[OF fill] by auto
  moreover have "\<exists>r \<in> set xs. f r = Some e" if "e \<in> set (List.map_filter f xs)" for f and xs :: "delta_row list"
    using that by (force simp: List.map_filter_def)
  ultimately obtain r where "r \<in> set batch" "page_projection env db role rq batch r = Some e"
    using assms(2) \<open>pg_entries p = es\<close> by (metis UnI1 set_append)
  with role show thesis using that batch_def by blast
qed

lemma candidates_in_union:
  "r \<in> set (load_candidates env db scope after through mk n) \<Longrightarrow> r \<in> set (delta_union env db scope after through)"
  using window_subset[of env db scope after through mk] set_take_subset
  unfolding load_candidates_window by fastforce

lemma union_row:
  assumes "r \<in> set (delta_union env db scope after through)"
  shows "\<exists>t. (dr_table_key r, t) \<in> set TABLE_KEYS \<and> table_of_key (dr_table_key r) = t
    \<and> ((dr_kind r = ''upsert'' \<and> dr_record r \<in> set (table_rows db t) \<and> live_predicate db scope t (dr_record r)
          \<and> in_window after through (dget (dr_record r) ''sync_version''))
      \<or> (dr_kind r = ''delete'' \<and> (\<exists>d \<in> set (table_rows db ''deleted_records'').
          deletion_predicate (ce_float (de_cursor env)) db scope t d \<and> dr_record_id r = py_str (dget d ''record_id''))))"
proof -
  have keys: "list_all (\<lambda>(k, t). table_of_key k = t) TABLE_KEYS" by code_simp
  from assms obtain k t where "(k, t) \<in> set TABLE_KEYS"
      "r \<in> set (live_branch db scope after through (k, t)) \<or> r \<in> set (deletion_branch (ce_float (de_cursor env)) db scope after through (k, t))"
    by (auto simp: delta_union_def)
  moreover have "table_of_key k = t" using keys \<open>(k, t) \<in> set TABLE_KEYS\<close> by (auto simp: list_all_iff)
  ultimately show ?thesis
    by (intro exI[of _ t]) (fastforce simp: live_branch_def deletion_branch_def)
qed

lemma live_predicate_own: "live_predicate db scope t row \<Longrightarrow> dget row ''organization_id'' = PStr (vs_organization scope)"
  by (auto simp: live_predicate_def Let_def split: option.splits if_splits)


section \<open>Withheld tombstones\<close>


end
