(* ===== verification/Delta_Examples.thy ===== *)
theory Delta_Examples
  imports Delta_Safety
begin

text \<open>
  A small organization: a package, its goods, one of them deleted, an employee assigned to the
  package and a manager; the witnesses of the synchronisation properties.
\<close>

definition dx_cursor :: cursor_env where
  "dx_cursor = \<lparr>ce_sha256 = (\<lambda>s. s), ce_hmac = (\<lambda>k m. k @ m), ce_float = (\<lambda>s. PFloat (FFin 0) s)\<rparr>"

definition dx_env :: delta_env where
  "dx_env = \<lparr>de_cursor = dx_cursor, de_collate = (\<lambda>s. s), de_map = (\<lambda>_ raw. raw),
     de_children = (\<lambda>_ _ _ items. map (\<lambda>x. x) items), de_image = (\<lambda>v _ _. v), de_lower = py_lower,
     de_alnum = (\<lambda>n. 48 \<le> n \<and> n < 58 \<or> 97 \<le> n \<and> n < 123)\<rparr>"

definition dx_settings :: delta_settings where
  "dx_settings = \<lparr>st_page_items = None, st_page_bytes = None, st_cursor_ttl = None\<rparr>"

definition dx_package :: sql_row where
  "dx_package = PDict [(''id'', PStr ''g1''), (''organization_id'', PStr ''o1''), (''sync_version'', PInt 3)]"

definition dx_goods :: sql_row where
  "dx_goods = PDict [(''id'', PStr ''h1''), (''organization_id'', PStr ''o1''), (''goi_thau_id'', PStr ''g1''),
     (''sync_version'', PInt 5), (''password'', PStr ''x'')]"

definition dx_tombstone :: sql_row where
  "dx_tombstone = PDict [(''organization_id'', PStr ''o1''), (''table_name'', PStr ''goi_thau_hang_hoa''),
     (''record_id'', PStr ''h0''), (''delete_version'', PInt 6),
     (''record_snapshot_json'', PStr (json_ascii (PDict [(''goi_thau_id'', PStr ''g1''), (''id'', PStr ''h0'')])))]"

definition dx_db :: sql_db where
  "dx_db =
     [(''thanh_vien_to_chuc'',
        [PDict [(''user_id'', PStr ''u1''), (''organization_id'', PStr ''o1''), (''vai_tro_trong_to_chuc'', PStr ''employee'')],
         PDict [(''user_id'', PStr ''m1''), (''organization_id'', PStr ''o1''), (''vai_tro_trong_to_chuc'', PStr ''manager'')]]),
      (''ma_tran_phan_quyen'', [PDict [(''organization_id'', PStr ''o1''), (''emp_id'', PStr ''u1''), (''goithau'', PStr ''view'')]]),
      (''phan_cong_nhan_su'',
        [PDict [(''id'', PStr ''a1''), (''organization_id'', PStr ''o1''), (''id_muc_tieu'', PStr ''g1''),
           (''id_nhan_vien'', PStr ''u1''), (''loai_doi_tuong'', PStr ''goithau'')]]),
      (''goi_thau'', [dx_package]), (''goi_thau_hang_hoa'', [dx_goods]), (''deleted_records'', [dx_tombstone]),
      (''sync_metadata'', [PDict [(''organization_id'', PStr ''o1''), (''current_version'', PInt 6)]])]"

definition dx_employee :: session_role where
  "dx_employee = \<lparr>sr_text = ''user'', sr_active = None\<rparr>"

definition dx_request :: delta_request where
  "dx_request = \<lparr>rq_role = Some dx_employee, rq_user = ''u1'', rq_organization = ''o1'', rq_session_token = ''t'',
     rq_cursor = None, rq_after_version = None, rq_visibility_token = None, rq_visibility = ''v'', rq_now = 100\<rparr>"

definition dx_state :: delta_state where
  "dx_state = \<lparr>ds_after = 0, ds_through = 6, ds_marker = (0, [], [], []), ds_visibility = []\<rparr>"

lemmas dx_defs = dx_cursor_def dx_env_def dx_settings_def dx_package_def dx_goods_def dx_db_def dx_employee_def dx_request_def dx_state_def

section \<open>The example, evaluated\<close>

lemma dx_scope: "resolve_scope dx_db dx_employee ''u1'' ''o1'' =
  \<lparr>vs_organization = ''o1'', vs_user = ''u1'', vs_unrestricted = False, vs_permissions = [(''goithau'', ''view'')]\<rparr>"
  by code_simp

lemma dx_tables:
  "table_rows dx_db ''goi_thau'' = [dx_package]" "table_rows dx_db ''goi_thau_hang_hoa'' = [dx_goods]"
  "table_rows dx_db ''deleted_records'' = [dx_tombstone]"
  by (simp_all add: dx_db_def table_rows_def)

lemma dx_snapshot: "row_snapshot flt dx_tombstone = PDict [(''goi_thau_id'', PStr ''g1''), (''id'', PStr ''h0'')]"
proof -
  have "sorted [''goi_thau_id'', ''id'']" by code_simp
  then have "json_ok (PDict [(''goi_thau_id'', PStr ''g1''), (''id'', PStr ''h0'')])" by (simp add: utf8_ok_ascii)
  from json_loads_ascii[OF this] json_ascii_head[OF this] show ?thesis
    by (auto simp: row_snapshot_def dx_tombstone_def dget_def dget_default_def simp del: json_ascii.simps)
qed

definition dx_rows :: "delta_row list" where
  "dx_rows =
     [\<lparr>dr_version = 3, dr_kind = ''upsert'', dr_table_key = ''goithau'', dr_record_id = ''g1'', dr_record = dx_package, dr_snapshot = PNone\<rparr>,
      \<lparr>dr_version = 5, dr_kind = ''upsert'', dr_table_key = ''goithauhanghoa'', dr_record_id = ''h1'', dr_record = dx_goods, dr_snapshot = PNone\<rparr>,
      \<lparr>dr_version = 6, dr_kind = ''delete'', dr_table_key = ''goithauhanghoa'', dr_record_id = ''h0'', dr_record = PNone,
        dr_snapshot = dget dx_tombstone ''record_snapshot_json''\<rparr>]"

lemma dx_union: "delta_union dx_env dx_db (resolve_scope dx_db dx_employee ''u1'' ''o1'') 0 6 = dx_rows"
  unfolding dx_scope by code_simp

definition dx_entries :: "delta_entry list" where
  "dx_entries =
     [UpsertEntry ''goithau'' (PDict [(''id'', PStr ''g1''), (''organization_id'', PStr ''o1''), (''sync_version'', PInt 3),
        (''toChuyenGia'', PList []), (''toThamDinh'', PList []), (''chuyenGiaIds'', PList []), (''deleteOwnerUserId'', PNone)]) 3,
      UpsertEntry ''goithauhanghoa'' (PDict [(''id'', PStr ''h1''), (''organization_id'', PStr ''o1''),
        (''goi_thau_id'', PStr ''g1''), (''sync_version'', PInt 5)]) 5]"

lemma dx_solo: "map (solo_projection dx_env dx_db dx_employee dx_request) dx_rows = map Some dx_entries @ [None]"
  by code_simp

lemma dx_sizes: "list_all (\<lambda>e. 256 + entry_size e \<le> 16384) dx_entries"
  by code_simp

lemma dx_position: "page_position dx_env dx_db (dx_request\<lparr>rq_now := t\<rparr>) = Inr dx_state"
  by (simp add: page_position_def dx_defs metadata_int_def table_rows_def dget_def dget_default_def int_column_def)

lemma dx_mapper: "mapper_ok dx_env"
  by (auto simp: mapper_ok_def dx_env_def intro!: exI[of _ "\<lambda>_ _ _ x. x"])

lemma dx_one_change: "one_change_each dx_env dx_rows"
  by code_simp

lemma dx_window: "delta_window dx_env dx_db (rq_scope dx_db dx_employee dx_request) 0 6 (0, [], [], []) = dx_rows"
proof -
  have "rq_scope dx_db dx_employee dx_request = resolve_scope dx_db dx_employee ''u1'' ''o1''" by (simp add: dx_request_def)
  then have "delta_window dx_env dx_db (rq_scope dx_db dx_employee dx_request) 0 6 (0, [], [], [])
    = sort_key (\<lambda>r. marker_key dx_env (row_marker r)) (filter (\<lambda>r. marker_key dx_env (0, [], [], []) < marker_key dx_env (row_marker r)) dx_rows)"
    by (simp only: delta_window_def dx_union)
  also have "\<dots> = dx_rows" by code_simp
  finally show ?thesis .
qed

lemma dx_session: "delta_session dx_env dx_db dx_employee dx_request 0 6"
proof -
  have rows: "delta_union dx_env dx_db (rq_scope dx_db dx_employee dx_request) 0 6 = dx_rows"
    using dx_union by (simp add: dx_request_def)
  have "distinct_positions dx_env dx_rows" by code_simp
  moreover have "list_all (\<lambda>r. marker_ok (row_marker r)) dx_rows"
    by (simp add: dx_rows_def marker_ok_def row_marker_def utf8_ok_ascii)
  moreover have "batch_stable dx_env dx_db dx_employee dx_request dx_rows"
    using dx_mapper dx_one_change by (rule batch_stable_rows)
  moreover have "metadata_int dx_db ''o1'' ''min_available_version'' = 0" by code_simp
  ultimately show ?thesis unfolding delta_session_def Let_def rows
    by (simp add: dx_request_def ascii_text_def cursor_binding_def dx_env_def dx_cursor_def utf8_ok_ascii)
qed

lemma dx_accepted: "accepted dx_env dx_db (dx_request\<lparr>rq_now := t\<rparr>) dx_state"
  by (simp add: accepted_def dx_position same_visibility_def dx_state_def)

lemma dx_fit: "records_fit dx_env dx_settings dx_db dx_employee dx_request dx_rows"
proof -
  have "byte_limit dx_settings = 524288" by (simp add: byte_limit_def bounded_int_def dx_settings_def)
  moreover have "list_all (\<lambda>x. case x of None \<Rightarrow> True | Some e \<Rightarrow> 256 + entry_size e \<le> 524288)
      (map (solo_projection dx_env dx_db dx_employee dx_request) dx_rows)"
    unfolding dx_solo using dx_sizes by (auto simp: list_all_iff)
  ultimately show ?thesis by (simp add: records_fit_def list_all_iff cong: option.case_cong)
qed

lemma dx_projected: "List.map_filter (solo_projection dx_env dx_db dx_employee dx_request) dx_rows = dx_entries"
proof -
  have "List.map_filter f xs = List.map_filter (\<lambda>x. x) (map f xs)" for f :: "delta_row \<Rightarrow> delta_entry option" and xs
    by (induction xs) (auto simp: List.map_filter_simps split: option.splits)
  then show ?thesis by (simp add: dx_solo map_filter_append List.map_filter_simps dx_entries_def)
qed

lemmas dx_unread = dx_window[folded dx_state_def]

lemma dx_follow: "\<exists>ps. follow_pages dx_env dx_settings dx_db dx_request [100, 130, 160, 190] = Some ps"
  using follow_pages_total[of dx_env dx_db dx_employee dx_request dx_state "[100, 130, 160, 190]" dx_settings]
    dx_session dx_accepted dx_fit dx_window by (simp add: dx_state_def) (auto simp: dx_rows_def)

section \<open>Witnesses\<close>



lemma dx_room: "256 + sum_list (map entry_size dx_entries) \<le> 16384"
  by code_simp

lemma dx_limits: "record_limit dx_settings = 250" "byte_limit dx_settings = 524288" "candidate_limit dx_settings = 1001"
  by (simp_all add: record_limit_def byte_limit_def candidate_limit_def bounded_int_def dx_settings_def)

lemma dx_page: "\<exists>p. read_delta_page dx_env dx_settings dx_db (dx_request\<lparr>rq_now := t\<rparr>) = Inr p \<and> pg_entries p = dx_entries"
proof -
  let ?rq = "dx_request\<lparr>rq_now := t\<rparr>"
  have cands: "load_candidates dx_env dx_db (rq_scope dx_db dx_employee ?rq) 0 6 (0, [], [], []) 1001 = dx_rows"
    using dx_window by (simp add: load_candidates_window) (simp add: dx_rows_def)
  have solo: "page_projection dx_env dx_db dx_employee dx_request dx_rows r = solo_projection dx_env dx_db dx_employee dx_request r"
    if "r \<in> set dx_rows" for r
    using that by (rule batch_projection[OF dx_mapper dx_one_change])
  then have projected: "map (page_projection dx_env dx_db dx_employee dx_request dx_rows) dx_rows = map Some dx_entries @ [None]"
    using dx_solo by (simp cong: map_cong)
  obtain r1 r2 r3 where r: "dx_rows = [r1, r2, r3]" by (simp add: dx_rows_def)
  obtain e1 e2 where e: "dx_entries = [e1, e2]" by (simp add: dx_entries_def)
  define P where "P = page_projection dx_env dx_db dx_employee dx_request dx_rows"
  have "map P [r1, r2, r3] = map Some [e1, e2] @ [None]"
    using projected by (simp only: P_def r[symmetric] e[symmetric])
  then have P: "P r1 = Some e1" "P r2 = Some e2" "P r3 = None" by simp_all
  have room: "256 + entry_size e1 + entry_size e2 \<le> 16384" "0 \<le> entry_size e1" "0 \<le> entry_size e2"
    using dx_room by (simp_all add: e entry_size_def)
  have "\<exists>mk. fill_page 250 524288 P [r1, r2, r3] (0, [], [], []) [] 256 = Inr ([e1, e2], mk, False)"
    using room by (cases "row_marker r3" rule: prod_cases4) (simp add: P)
  then have "\<exists>mk. fill_page 250 524288 (page_projection dx_env dx_db dx_employee dx_request dx_rows) dx_rows (0, [], [], []) [] 256
      = Inr (dx_entries, mk, False)"
    by (simp only: P_def r[symmetric] e)
  then have "\<exists>p. delta_page_at dx_env dx_settings dx_db dx_employee ?rq dx_state = Inr p \<and> pg_entries p = dx_entries"
    using cands by (auto simp: delta_page_at_def dx_limits dx_state_def page_payload_def Let_def)
  moreover have "read_delta_page dx_env dx_settings dx_db ?rq = delta_page_at dx_env dx_settings dx_db dx_employee ?rq dx_state"
    using dx_session dx_accepted by (intro page_when_accepted[where through = 6]) (simp_all add: dx_state_def)
  ultimately show ?thesis by simp
qed

theorem page_is_bounded_witness:
  "\<exists>p. read_delta_page dx_env dx_settings dx_db (dx_request\<lparr>rq_now := 100\<rparr>) = Inr p
    \<and> int (length (pg_entries p)) \<le> 250 \<and> 256 + sum_list (map entry_size (pg_entries p)) \<le> 524288"
proof -
  obtain p where p: "read_delta_page dx_env dx_settings dx_db (dx_request\<lparr>rq_now := 100\<rparr>) = Inr p"
    using dx_page by blast
  then show ?thesis using page_is_bounded[OF p]
    by (simp add: record_limit_def byte_limit_def bounded_int_def dx_settings_def)
qed



theorem scope_selects_what_is_readable_witness:
  "live_predicate dx_db (resolve_scope dx_db dx_employee ''u1'' ''o1'') ''goi_thau_hang_hoa'' dx_goods
    \<longleftrightarrow> dget dx_goods ''organization_id'' = PStr ''o1'' \<and> dx_goods \<in> set (filter_items_for_read dx_db dx_employee ''u1'' ''o1''
      ''goithauhanghoa'' ''goi_thau_hang_hoa'' [dx_goods, dx_package])"
proof (rule scope_selects_what_is_readable)
  show "(''goithauhanghoa'', ''goi_thau_hang_hoa'') \<in> set TABLE_KEYS" by (simp add: TABLE_KEYS_def)
  show "py_strip ''o1'' = ''o1''" by code_simp
  show "clean_key dx_goods" by (simp add: clean_key_def dx_goods_def dget_def dget_default_def) code_simp
  show "mapped_item ''goithauhanghoa'' dx_goods dx_goods" by (simp add: mapped_item_def)
qed (simp_all add: dx_tables, code_simp)

definition dx_mid :: delta_state where
  "dx_mid = \<lparr>ds_after = 2, ds_through = 9, ds_marker = (4, ''upsert'', ''goithau'', ''g1''), ds_visibility = ''v''\<rparr>"

lemma dx_mid_ok: "state_ok dx_mid" "utf8_ok (cursor_binding dx_cursor ''o1'' ''u1'')"
  by (simp_all add: state_ok_def marker_ok_def dx_mid_def cursor_binding_def dx_cursor_def utf8_ok_ascii)

theorem cursor_roundtrip_witness:
  "decode_delta_cursor dx_cursor ''k'' ''o1'' ''u1'' 5 (encode_delta_cursor dx_cursor ''k'' ''o1'' ''u1'' 9 dx_mid) = Inr dx_mid
   \<and> decode_delta_cursor dx_cursor ''k'' ''o1'' ''u1'' 10 (encode_delta_cursor dx_cursor ''k'' ''o1'' ''u1'' 9 dx_mid) = Inl CURSOR_EXPIRED"
  using cursor_roundtrip[OF dx_mid_ok, of "''k''" _ 9] by simp

theorem cursor_cannot_be_moved_witness:
  "decode_delta_cursor dx_cursor ''k'' ''o1'' ''u1'' 5
      (''x'' @ CHR ''.'' # b64encode (ce_hmac dx_cursor ''k'' (cursor_body dx_cursor ''o1'' ''u1'' 9 dx_mid))) = Inl CURSOR_TAMPERED
   \<and> decode_delta_cursor dx_cursor ''l'' ''o1'' ''u1'' 5 (encode_delta_cursor dx_cursor ''k'' ''o1'' ''u1'' 9 dx_mid) = Inl CURSOR_TAMPERED
   \<and> decode_delta_cursor dx_cursor ''k'' ''o1'' ''u2'' 5 (encode_delta_cursor dx_cursor ''k'' ''o1'' ''u1'' 9 dx_mid) = Inl CURSOR_BINDING_INVALID"
proof -
  have "b64decode ''x'' = None" by code_simp
  then have "''x'' \<noteq> cursor_body dx_cursor ''o1'' ''u1'' 9 dx_mid"
    unfolding cursor_body_def by (metis b64decode_encode option.distinct(1))
  moreover have "inj (ce_hmac dx_cursor k)" "inj (ce_sha256 dx_cursor)" for k
    by (auto simp: dx_cursor_def inj_def)
  ultimately show ?thesis
    using cursor_cannot_be_moved[OF dx_mid_ok, of "''o1''" "''x''" 9 "''k''" 5 "''l''" "''u2''"] by (simp add: dx_cursor_def)
qed

definition dx_created :: "int \<Rightarrow> ident \<Rightarrow> sql_row" where
  "dx_created i actor = PDict [(''id'', PInt i), (''organization_id'', PStr ''o1''), (''target_type'', PStr ''goi_thau''),
     (''action'', PStr ''sync.record_created''), (''target_id'', PStr ''g1''), (''actor_user_id'', PStr actor)]"

theorem deletion_never_transferred_witness:
  "''g1'' \<in> set (load_creator_delete_ids (ce_float dx_cursor) [(''audit_log'', [dx_created 1 ''u1''])] ''o1'' ''u1'' ''goi_thau'' [dx_package])
   \<and> ''g1'' \<notin> set (load_creator_delete_ids (ce_float dx_cursor) [(''audit_log'', [dx_created 1 ''u1'', dx_created 2 ''m1''])] ''o1'' ''m1''
       ''goi_thau'' [set_item ''id_goc'' (PStr ''g2'') dx_package])"
proof -
  have one: "''g1'' \<in> set (load_creator_delete_ids (ce_float dx_cursor) [(''audit_log'', [dx_created 1 ''u1''])] ''o1'' ''u1'' ''goi_thau'' [dx_package])"
    by code_simp
  moreover have "audit_extended [(''audit_log'', [dx_created 1 ''u1''])] [(''audit_log'', [dx_created 1 ''u1'', dx_created 2 ''m1''])]"
    by (simp add: audit_extended_def table_rows_def dx_created_def audit_order_def dget_def dget_default_def)
  ultimately show ?thesis using deletion_never_transferred[OF one] by simp
qed

end
