(* ===== verification/Spec2Isabelle.thy ===== *)
theory Spec2Isabelle
  imports Lot_Examples Usage_Examples Audit_Examples Commercial_Examples Billing_Examples Billing_Worker_Examples Billing_Desk_Examples Payos_Examples Billing_Protocol
    Delta_Examples
begin

text \<open>
  A verification library of the Python backend under \<open>src/backend\<close>: a bidding system in which
  organizations keep procurement plans, packages and their lots, buy plans and credits, and
  synchronise their records with browsers.

  \<^bold>\<open>Shared vocabulary.\<close> \<open>Prelude\<close> holds computations that may raise (\<open>res_bind\<close>, a sum with the
  error on the left), tables as lists of rows, ordered dictionaries as association lists and the
  string operations the code uses; texts are lists of bytes, the UTF-8 of the Python text.
  \<open>Py_Values\<close> and \<open>Py_Objects\<close> are the dynamic values of \<open>json.loads\<close> with truthiness, conversions,
  equality and the exceptions of attribute and key access; integers are unbounded as in Python.
  \<open>Json_Text\<close>, \<open>Json_Read\<close> and \<open>Base64_Text\<close> are the text formats (\<open>json.dumps\<close>, \<open>json.loads\<close>,
  \<open>base64\<close>). \<open>Transactions\<close> states the contract of a service once: the locales \<open>stepping\<close>,
  \<open>transactional\<close> and \<open>growing\<close> say that what every committed operation keeps, or only moves up,
  every history keeps; an exception is the rollback of its transaction.

  \<^bold>\<open>Lots.\<close> \<open>Lot_Policy\<close> is \<open>lot_selection_lifecycle.py\<close>, the pure rules that decide which lots may
  start together; its locale \<open>scope_policy\<close> is interpreted on the code's rule as \<open>selection\<close>.
  \<open>Lot_Service\<close> and \<open>Lot_Award\<close> are \<open>lot_lifecycle_service.py\<close>: creating, finalizing and awarding
  batches over a record of the tables. \<open>Lot_Invariants\<close> proves that every command keeps
  \<open>lots_ok\<close> (interpretation \<open>lot_commands\<close>) and that official results are final; \<open>Award_Effect\<close> says
  what an award writes.

  \<^bold>\<open>Usage credits.\<close> \<open>Usage_Credits\<close> is \<open>usage_credits/\<close>: grants, reservations and the ledger.
  \<open>Usage_Laws\<close> proves that the three stay balanced (interpretation \<open>usage_service\<close>), that credits
  are taken first-expired-first-out and that a reservation is consumed once.

  \<^bold>\<open>Audit chain.\<close> \<open>Audit_Chain\<close> is \<open>shared/audit_chain.py\<close> and the decision of
  \<open>shared/audit_monitor.py\<close>: appending, the full, the incremental and the checkpoint verification.
  \<open>Audit_Laws\<close> and \<open>Audit_Incremental\<close> prove that appended logs verify, that a verified chain is
  determined by its head and that checkpoints pin history.

  \<^bold>\<open>Commercial policy.\<close> \<open>Commercial_Rules\<close> has the arithmetic and transition rules of
  \<open>commercial_policy/\<close>, \<open>Commercial_Document\<close> the validator of a release. Their laws: the tax is
  exact, the dynamic programme over credit packs finds the cheapest purchase, and a document
  without findings has what the code that sells from it relies on.

  \<^bold>\<open>Billing.\<close> \<open>Billing_Activation\<close> and \<open>Billing_Apply\<close> are \<open>billing/activation.py\<close> with the payment
  facts, provider times and checkout progress beside it; they call the usage credits, the audit
  log and the renewal rules. \<open>Billing_Laws\<close> decomposes every entry point into writes of one kind
  each; \<open>Billing_Safety\<close> proves the invariants for the writes (interpretations \<open>billing_tables\<close>,
  \<open>billing_paid\<close>, \<open>billing_orders\<close>), \<open>Billing_Once\<close> that entitlements change only for a full payment
  and not twice, \<open>Billing_Protocol\<close> that histories refine an abstract protocol, and
  \<open>Billing_Terms\<close> when renewals start. \<open>Billing_Queue\<close> is the command executor of
  \<open>billing/service.py\<close>, \<open>Billing_Worker\<close> one poll of \<open>billing/worker.py\<close>; a claim, the answer of the
  provider and the settling are steps of their own. \<open>Billing_Worker_Laws\<close> turns a poll into writes,
  of which the billing calls are one kind, and proves that the worker keeps the books and that a
  checkout only closes (interpretation \<open>worker_tables\<close>); \<open>Billing_Queue_Laws\<close> that late answers are
  fenced off and commands end, \<open>Billing_Retry_Laws\<close> when the retry of paid orders makes progress and
  when it is stuck. \<open>Billing_Desk\<close> is what a buyer or an administrator asks of a placed order, its
  cancellation and its refunds; \<open>Billing_Desk_Laws\<close> proves, over requests and polls in any order, that
  refunds stay within what was paid and that a repeated request is recorded once.

  \<^bold>\<open>Payment provider.\<close> \<open>Payos\<close> is the adapter \<open>billing/providers/payos.py\<close> over \<open>Url_Text\<close>, the
  \<open>urlsplit\<close> of the standard library; \<open>Webhook_Inbox\<close> is \<open>billing/webhook.py\<close>. \<open>Payos_Laws\<close> proves that
  what the adapter answers was signed, \<open>Payos_Checkout\<close>, through queue and worker, that a buyer is sent
  to a page of payOS, and \<open>Webhook_Laws\<close>, over arrivals and polls in any order, that only signed
  messages are stored and that a message which comes again changes nothing.

  \<^bold>\<open>Synchronisation.\<close> \<open>Access_Read\<close> is the read side of the access rules (\<open>shared/access_policy.py\<close>,
  \<open>access_principals.py\<close>, \<open>workspace_scope.py\<close>, \<open>module_registry.py\<close>, \<open>auth/roles.py\<close>),
  \<open>Visibility_Scope\<close> is \<open>sync/visibility_scope.py\<close>, \<open>Delete_Ownership\<close> is
  \<open>shared/record_delete_access.py\<close>, \<open>Delta_Cursor\<close> and \<open>Delta_Paging\<close> are \<open>sync/delta_paging.py\<close> with
  \<open>sync/conflict_projection.py\<close>. An SQL table is a list of rows and a query the list functions it
  stands for; a request sees one snapshot, as its transaction does. \<open>Visibility_Laws\<close> proves that the
  scope in the query and the read policy agree, \<open>Delta_Cursor_Laws\<close> that cursors are read back and
  cannot be forged or moved, \<open>Delta_Laws\<close> that following the cursors reads the whole window and ends,
  \<open>Delta_Batch\<close> that where a page is cut does not matter, \<open>Delta_Safety\<close> what a page may show.
\<close>

text \<open>
  \<^bold>\<open>Witnesses.\<close> The theories named \<open>_Examples\<close> apply the theorems to concrete packages, grants,
  logs, documents, orders and organizations, evaluated by the kernel.

  \<^bold>\<open>Parameters.\<close> SHA-256 and HMAC (functions on bytes; where a theorem needs that they do not
  collide it says so), the clock, the serial numbers of the database, rounding of a decimal text to a
  double, the collation of the database, the Unicode tables for lower case and letters outside
  ASCII, the transport to the payment provider, the NFKC tables and the parsing of IPv6 addresses, and of the synchronisation the generated record
  mapper, the loading of child rows and the paths of images. What a theorem assumes of one is a
  named hypothesis of it.

  \<^bold>\<open>Bounds and fuel.\<close> All definitions are total. \<open>json_loads\<close> reads with the fuel
  \<open>2 * length\<close> of the text, which every value nested in the text needs less of
  (\<open>json_loads_ascii\<close> proves that what is printed is read back). Loops over chunks and text end by
  measures on lengths, the dynamic programme over credit packs is a fold over the quotas, and a
  history of the worker is a list of polls. The locks of the database are not modelled: one
  operation is one atomic step, and histories interleave whole operations.

  \<^bold>\<open>Not modelled.\<close> Handlers that assemble SQL or HTTP responses, scrapers, document rendering, the
  assistant, analytics, metrics, notifications, authentication, the schema and its upgrades, the
  ASGI application, scripts and the JavaScript client: input and output around third-party
  libraries, with no state machine of their own that the kernel could check. Of the
  billing service placing an order, of the commercial policy drafting and
  publication, of the synchronisation the record writer and the mapper generated from the schema,
  of the access policy the write side, and of the audit monitor its loop and its files.
\<close>

end
